(* ===== verification/Prelude.thy ===== *)
theory Prelude
  imports Main "HOL-Library.AList" "HOL-Library.List_Lexorder" "HOL-Library.Char_ord"
begin

text \<open>
  Shared vocabulary of the development: the types that stand for Go's
  \<open>string\<close>, \<open>map[string]string\<close>, \<open>time.Time\<close> and \<open>time.Duration\<close>, the
  string functions of Go's standard library that the sources call, the
  outcome of a call to the Kubernetes API, the sequencing of such calls, and
  generic lemmas on lists, association lists and maps.
\<close>

section \<open>Collections of rewrite rules\<close>

named_theorems model_simps \<open>definitions of small helper operations, unfolded by the component proofs\<close>
named_theorems phase_simps \<open>facts about the phase machines\<close>

section \<open>Names for the model's types\<close>

text \<open>Instants and durations are counted in nanoseconds, as Go does.\<close>

type_synonym time = int
type_synonym duration = int
type_synonym quantity = int

text \<open>A Go map is an association list; reading a missing key of a
  \<open>map[string]string\<close> gives the empty string.\<close>

type_synonym ('k, 'v) gomap = "('k \<times> 'v) list"
type_synonym smap = "(string, string) gomap"

definition mget :: "smap \<Rightarrow> string \<Rightarrow> string" where
  "mget m k = (case map_of m k of None \<Rightarrow> '''' | Some v \<Rightarrow> v)"

definition mhas :: "('k, 'v) gomap \<Rightarrow> 'k \<Rightarrow> bool" where
  "mhas m k = (map_of m k \<noteq> None)"

abbreviation wf_map :: "('k, 'v) gomap \<Rightarrow> bool" where
  "wf_map m \<equiv> distinct (map fst m)"

definition second :: duration where "second = 1000000000"
definition minute :: duration where "minute = 60 * second"
definition hour :: duration where "hour = 60 * minute"

text \<open>The zero \<open>time.Time\<close>, 1 January of the year 1.\<close>

definition zeroTime :: time where "zeroTime = - 62135596800 * second"

lemmas duration_defs = second_def minute_def hour_def

text \<open>Conversion to \<open>int32\<close>, with Go's wrap-around.\<close>

definition int32 :: "int \<Rightarrow> int" where
  "int32 x = (x + 2147483648) mod 4294967296 - 2147483648"

section \<open>Strings\<close>

definition hasPrefix :: "string \<Rightarrow> string \<Rightarrow> bool" where
  "hasPrefix s p = (take (length p) s = p)"

definition hasSuffix :: "string \<Rightarrow> string \<Rightarrow> bool" where
  "hasSuffix s p = hasPrefix (rev s) (rev p)"

fun containsSub :: "string \<Rightarrow> string \<Rightarrow> bool" where
  "containsSub [] p = (p = [])"
| "containsSub (c # s) p = (hasPrefix (c # s) p \<or> containsSub s p)"

definition containsAny :: "string \<Rightarrow> char list \<Rightarrow> bool" where
  "containsAny s cs = (\<exists>c \<in> set s. c \<in> set cs)"

definition trimChar :: "char \<Rightarrow> string \<Rightarrow> string" where
  "trimChar c s = rev (dropWhile (\<lambda>x. x = c) (rev (dropWhile (\<lambda>x. x = c) s)))"

fun splitChar :: "char \<Rightarrow> string \<Rightarrow> string list" where
  "splitChar c [] = [[]]"
| "splitChar c (x # xs) =
     (if x = c then [] # splitChar c xs
      else (case splitChar c xs of [] \<Rightarrow> [[x]] | y # ys \<Rightarrow> (x # y) # ys))"

fun joinStr :: "string \<Rightarrow> string list \<Rightarrow> string" where
  "joinStr sep [] = []"
| "joinStr sep [x] = x"
| "joinStr sep (x # y # ys) = x @ sep @ joinStr sep (y # ys)"

text \<open>Lower case, in ASCII.\<close>

definition toLower :: "char \<Rightarrow> char" where
  "toLower c = (let n = of_char c :: nat in if 65 \<le> n \<and> n \<le> 90 then char_of (n + 32) else c)"

text \<open>Decimal digits of an integer, the verb \<open>%d\<close> of \<open>fmt\<close>.\<close>

fun nat_digits :: "nat \<Rightarrow> string" where
  "nat_digits n =
     (if n < 10 then [char_of (48 + n)]
      else nat_digits (n div 10) @ [char_of (48 + n mod 10)])"

declare nat_digits.simps [simp del]

definition fmt_d :: "int \<Rightarrow> string" where
  "fmt_d i = (if i < 0 then CHR ''-'' # nat_digits (nat (- i)) else nat_digits (nat i))"

text \<open>The verb \<open>%q\<close>, for strings without characters that it escapes.\<close>

definition fmt_q :: "string \<Rightarrow> string" where
  "fmt_q s = CHR 0x22 # s @ [CHR 0x22]"

definition fmt_t :: "bool \<Rightarrow> string" where
  "fmt_t b = (if b then ''true'' else ''false'')"

section \<open>Kubernetes API calls\<close>

text \<open>What a \<open>Get\<close> returns.\<close>

datatype 'a read = Found 'a | NotFound | ReadError string

text \<open>A handler makes a sequence of writing calls and ends with an error or a
  result. The API server is a parameter: \<open>api c\<close> is the error it answers to
  call \<open>c\<close>, if any. The trace lists the calls that succeeded, in order.\<close>

type_synonym ('c, 'r) outcome = "'c list \<times> (string + 'r)"

definition finish :: "'r \<Rightarrow> ('c, 'r) outcome" where
  "finish r = ([], Inr r)"

definition failWith :: "string \<Rightarrow> ('c, 'r) outcome" where
  "failWith e = ([], Inl e)"

definition call :: "('c \<Rightarrow> string option) \<Rightarrow> 'c \<Rightarrow> ('c, 'r) outcome \<Rightarrow> ('c, 'r) outcome" where
  "call api c k = (case api c of Some e \<Rightarrow> ([], Inl e) | None \<Rightarrow> (c # fst k, snd k))"

text \<open>Two handlers in sequence: an error of the first ends both.\<close>

definition andThen :: "('c, 'a) outcome \<Rightarrow> ('a \<Rightarrow> ('c, 'r) outcome) \<Rightarrow> ('c, 'r) outcome" where
  "andThen m k = (case snd m of Inl e \<Rightarrow> (fst m, Inl e)
                  | Inr a \<Rightarrow> (fst m @ fst (k a), snd (k a)))"

abbreviation trace :: "('c, 'r) outcome \<Rightarrow> 'c list" where
  "trace \<equiv> fst"

text \<open>A controller's result: when to look at the object again, if ever.\<close>

record Result =
  RequeueAfter :: duration

definition emptyResult :: Result where
  "emptyResult = \<lparr>RequeueAfter = 0\<rparr>"

section \<open>Lemmas on strings\<close>

lemma hasPrefix_append [simp]: "hasPrefix (p @ s) p"
  by (simp add: hasPrefix_def)

lemma hasPrefix_iff: "hasPrefix s p \<longleftrightarrow> (\<exists>r. s = p @ r)"
  by (metis append_take_drop_id hasPrefix_append hasPrefix_def)

lemma containsSub_iff: "containsSub s p \<longleftrightarrow> (\<exists>a b. s = a @ p @ b)"
proof (induction s)
  case Nil
  then show ?case by auto
next
  case (Cons c s)
  show ?case
  proof
    assume "containsSub (c # s) p"
    then consider "hasPrefix (c # s) p" | "containsSub s p" by auto
    then show "\<exists>a b. c # s = a @ p @ b"
      by cases (metis append_Nil hasPrefix_iff, metis Cons.IH append_Cons)
  next
    assume "\<exists>a b. c # s = a @ p @ b"
    then obtain a b where ab: "c # s = a @ p @ b" by blast
    show "containsSub (c # s) p"
    proof (cases a)
      case Nil
      with ab have "hasPrefix (c # s) p" by (simp add: hasPrefix_iff)
      then show ?thesis by simp
    next
      case (Cons x xs)
      with ab Cons.IH show ?thesis by auto
    qed
  qed
qed

lemma splitChar_nonempty [simp]: "splitChar c s \<noteq> []"
  by (induction s) (auto split: list.splits)

lemma splitChar_sep: "splitChar c (a @ c # b) = splitChar c a @ splitChar c b"
  by (induction a) (auto split: list.splits)

lemma joinStr_Cons: "ys \<noteq> [] \<Longrightarrow> joinStr sep (x # ys) = x @ sep @ joinStr sep ys"
  by (cases ys) auto

lemma joinStr_head_Cons: "joinStr sep ((x # y) # ys) = x # joinStr sep (y # ys)"
  by (cases ys) auto

lemma splitChar_plain: "c \<notin> set x \<Longrightarrow> splitChar c x = [x]"
  by (induction x) auto

lemma splitChar_first: "c \<notin> set x \<Longrightarrow> splitChar c (x @ c # y) = x # splitChar c y"
  by (simp add: splitChar_sep splitChar_plain)

lemma splitChar_joinStr:
  "xs \<noteq> [] \<Longrightarrow> (\<And>x. x \<in> set xs \<Longrightarrow> c \<notin> set x) \<Longrightarrow> splitChar c (joinStr [c] xs) = xs"
proof (induction xs)
  case (Cons x xs)
  then show ?case
    by (cases xs) (auto simp: splitChar_plain splitChar_first)
qed simp

lemma joinStr_splitChar [simp]: "joinStr [c] (splitChar c s) = s"
proof (induction s)
  case (Cons x s)
  then show ?case
    by (cases "splitChar c s") (auto simp: joinStr_Cons joinStr_head_Cons)
qed simp

lemma nat_digits_digit: "c \<in> set (nat_digits n) \<Longrightarrow> \<exists>d :: nat. d < 10 \<and> c = char_of (48 + d)"
proof (induction n rule: nat_digits.induct)
  case (1 n)
  show ?case
  proof (cases "n < 10")
    case True
    with 1 show ?thesis by (auto simp: nat_digits.simps [of n])
  next
    case False
    then consider "c \<in> set (nat_digits (n div 10))" | "c = char_of (48 + n mod 10)"
      using 1(2) by (auto simp: nat_digits.simps [of n])
    then show ?thesis
      by cases (use 1(1) False in blast, rule exI [of _ "n mod 10"], simp)
  qed
qed

lemma nat_digits_nonempty [simp]: "nat_digits n \<noteq> []"
  by (subst nat_digits.simps) auto

lemma digit_char_inj:
  assumes "char_of (48 + d) = (char_of (48 + e) :: char)" "d < 10" "e < (10 :: nat)"
  shows "d = e"
proof -
  have "of_char (char_of (48 + d) :: char) = (of_char (char_of (48 + e) :: char) :: nat)"
    by (simp only: assms(1))
  with assms(2,3) show ?thesis by simp
qed

lemma nat_digits_inj: "nat_digits m = nat_digits n \<Longrightarrow> m = n"
proof (induction m arbitrary: n rule: nat_digits.induct)
  case (1 m)
  have m: "nat_digits m = (if m < 10 then [char_of (48 + m)]
      else nat_digits (m div 10) @ [char_of (48 + m mod 10)])"
    by (rule nat_digits.simps)
  have n: "nat_digits n = (if n < 10 then [char_of (48 + n)]
      else nat_digits (n div 10) @ [char_of (48 + n mod 10)])"
    by (rule nat_digits.simps)
  show ?case
  proof (cases "m < 10")
    case True
    with 1(2) m n have "n < 10" by (auto split: if_splits dest: sym [of "[]"])
    with True 1(2) m n show ?thesis by (auto dest: digit_char_inj)
  next
    case False
    with 1(2) m n have n10: "\<not> n < 10" by (auto split: if_splits)
    with False 1(2) m n have "nat_digits (m div 10) = nat_digits (n div 10)"
      "char_of (48 + m mod 10) = (char_of (48 + n mod 10) :: char)" by simp_all
    with 1(1) [OF False] have "m div 10 = n div 10" "m mod 10 = n mod 10"
      by (auto dest: digit_char_inj)
    then show ?thesis by (metis div_mult_mod_eq)
  qed
qed

lemma nat_digits_no_minus: "CHR ''-'' \<notin> set (nat_digits n)"
proof
  assume "CHR ''-'' \<in> set (nat_digits n)"
  then obtain d :: nat where d: "d < 10" "CHR ''-'' = char_of (48 + d)"
    using nat_digits_digit by blast
  then have "of_char (CHR ''-'') = (of_char (char_of (48 + d) :: char) :: nat)" by metis
  with d(1) show False by simp
qed

lemma fmt_d_inj: "fmt_d i = fmt_d j \<Longrightarrow> i = j"
proof -
  assume eq: "fmt_d i = fmt_d j"
  have hd: "\<And>n rest. nat_digits n \<noteq> CHR ''-'' # rest"
    using nat_digits_no_minus by (metis list.set_intros(1))
  show "i = j"
  proof (cases "i < 0"; cases "j < 0")
    assume "i < 0" "j < 0"
    with eq have "nat (- i) = nat (- j)" by (simp add: fmt_d_def nat_digits_inj)
    with \<open>i < 0\<close> \<open>j < 0\<close> show ?thesis by simp
  next
    assume "\<not> i < 0" "\<not> j < 0"
    with eq have "nat i = nat j" by (simp add: fmt_d_def nat_digits_inj)
    with \<open>\<not> i < 0\<close> \<open>\<not> j < 0\<close> show ?thesis by simp
  next
    assume "i < 0" "\<not> j < 0"
    with eq hd show ?thesis by (metis fmt_d_def)
  next
    assume "\<not> i < 0" "j < 0"
    with eq hd show ?thesis by (metis fmt_d_def)
  qed
qed

section \<open>Systems whose view only grows\<close>

text \<open>Several components promise that what they show never goes back: the
  plan cache its revision, the directive store its verdicts, the registration
  its cluster. The interface states the promise for one step under an
  invariant; its lemma extends it to every reachable state.\<close>

locale monotone_system =
  fixes step :: "'s \<Rightarrow> 's \<Rightarrow> bool"
    and inv :: "'s \<Rightarrow> bool"
    and view :: "'s \<Rightarrow> 'v option"
    and le :: "'v \<Rightarrow> 'v \<Rightarrow> bool"
  assumes le_refl: "le v v"
    and le_trans: "le u v \<Longrightarrow> le v w \<Longrightarrow> le u w"
    and step_inv: "inv s \<Longrightarrow> step s s' \<Longrightarrow> inv s'"
    and step_le: "inv s \<Longrightarrow> step s s' \<Longrightarrow> view s = Some v \<Longrightarrow> \<exists>w. view s' = Some w \<and> le v w"
begin

lemma reach_inv: "step\<^sup>*\<^sup>* s s' \<Longrightarrow> inv s \<Longrightarrow> inv s'"
  by (induction rule: rtranclp_induct) (auto intro: step_inv)

lemma reach_le:
  assumes "step\<^sup>*\<^sup>* s s'" "inv s" "view s = Some v"
  shows "\<exists>w. view s' = Some w \<and> le v w"
  using assms
proof (induction rule: rtranclp_induct)
  case base
  then show ?case using le_refl by blast
next
  case (step y z)
  then obtain w where "view y = Some w" "le v w" by blast
  moreover have "inv y" using step.hyps(1) step.prems(1) by (rule reach_inv)
  ultimately show ?case using step_le [OF _ step.hyps(2)] le_trans by blast
qed

end

section \<open>Lemmas on API outcomes\<close>

lemma trace_finish [simp]: "trace (finish r) = []"
  by (simp add: finish_def)

lemma snd_finish [simp]: "snd (finish r) = Inr r"
  by (simp add: finish_def)

lemma trace_failWith [simp]: "trace (failWith e) = []"
  by (simp add: failWith_def)

lemma snd_failWith [simp]: "snd (failWith e) = Inl e"
  by (simp add: failWith_def)

lemma in_trace_call: "x \<in> set (trace (call api c k)) \<Longrightarrow> x = c \<or> x \<in> set (trace k)"
  by (auto simp: call_def split: option.splits)

lemma trace_call_ok: "api c = None \<Longrightarrow> trace (call api c k) = c # trace k"
  by (simp add: call_def)

lemma snd_call_ok: "api c = None \<Longrightarrow> snd (call api c k) = snd k"
  by (simp add: call_def)

lemma snd_call_Inr: "snd (call api c k) = Inr r \<longleftrightarrow> api c = None \<and> snd k = Inr r"
  by (auto simp: call_def split: option.splits)

lemma in_trace_andThen:
  "x \<in> set (trace (andThen m k)) \<longleftrightarrow>
     x \<in> set (trace m) \<or> (\<exists>a. snd m = Inr a \<and> x \<in> set (trace (k a)))"
  by (auto simp: andThen_def split: sum.splits)

lemma snd_andThen_Inr:
  "snd (andThen m k) = Inr r \<longleftrightarrow> (\<exists>a. snd m = Inr a \<and> snd (k a) = Inr r)"
  by (auto simp: andThen_def split: sum.splits)

section \<open>Lemmas on maps\<close>

lemma mget_update [simp]: "mget (AList.update k v m) k' = (if k' = k then v else mget m k')"
  by (simp add: mget_def update_conv')

lemma mget_delete [simp]: "mget (AList.delete k m) k' = (if k' = k then '''' else mget m k')"
  by (simp add: mget_def delete_conv')

lemma mget_Nil [simp]: "mget [] k = ''''"
  by (simp add: mget_def)

lemma mget_Cons [simp]: "mget ((k, v) # m) k' = (if k' = k then v else mget m k')"
  by (simp add: mget_def)

lemma mhas_update [simp]: "mhas (AList.update k v m) k' \<longleftrightarrow> k' = k \<or> mhas m k'"
  by (simp add: mhas_def update_conv')

lemma mhas_iff: "mhas m k \<longleftrightarrow> k \<in> fst ` set m"
  by (auto simp: mhas_def map_of_eq_None_iff)

section \<open>Lemmas on 32-bit integers\<close>

lemma int32_bounds: "- 2147483648 \<le> int32 x" "int32 x \<le> 2147483647"
  by (simp_all add: int32_def)

lemma int32_id: "- 2147483648 \<le> x \<Longrightarrow> x \<le> 2147483647 \<Longrightarrow> int32 x = x"
  by (simp add: int32_def)

lemma int32_parity: "even (int32 x) \<longleftrightarrow> even x"
proof -
  have "even ((x + 2147483648) mod 4294967296) \<longleftrightarrow> even (x + 2147483648)"
    by (rule dvd_mod_iff) simp
  then show ?thesis by (simp add: int32_def)
qed

lemma int32_add: "int32 (int32 x + y) = int32 (x + y)"
proof -
  have "int32 x + y + 2147483648 = (x + 2147483648) mod 4294967296 + y"
    by (simp add: int32_def)
  then have "(int32 x + y + 2147483648) mod 4294967296 = (x + y + 2147483648) mod 4294967296"
    by (simp only: mod_add_left_eq) (simp only: ac_simps)
  then show ?thesis by (simp add: int32_def [of "int32 x + y"] int32_def [of "x + y"])
qed

end
