(* ===== verification/Conditions.thy ===== *)
theory Conditions
  imports Prelude
begin

text \<open>
  Status conditions. \<open>metav1.Condition\<close> is the record \<open>condition\<close> (its
  \<open>LastTransitionTime\<close> is never read by the program and is left out). The
  two functions of \<open>k8s.io/apimachinery/pkg/api/meta\<close> that the program calls
  on lists of conditions are third-party code: they are the two fields of a
  parameter \<open>K\<close> of every operation that reads or writes conditions, and the
  locale \<open>status_conditions\<close> states their documented behaviour. The
  wrappers of \<open>internal/controller/status.go\<close> and
  \<open>internal/control/server.go\<close> are defined over that parameter.
\<close>

section \<open>The data\<close>

text \<open>The status of a condition is a string type with three constants.\<close>

datatype ConditionStatus = ConditionTrue | ConditionFalse | ConditionUnknown | ConditionOther string

record condition =
  c_Type :: string
  c_Status :: ConditionStatus
  c_ObservedGeneration :: int
  c_Reason :: string
  c_Message :: string

text \<open>The third-party functions \<open>meta.SetStatusCondition\<close> and
  \<open>meta.FindStatusCondition\<close>.\<close>

record condition_api =
  SetStatusCondition :: "condition list \<Rightarrow> condition \<Rightarrow> condition list"
  FindStatusCondition :: "condition list \<Rightarrow> string \<Rightarrow> condition option"

text \<open>The fixed English sentence that a condition carries as its message.
  No code reads these sentences; a message that some code reads back (an error,
  a fingerprint, a version, a list of members) is written out in the operations.\<close>

definition fixedText :: string where
  "fixedText = []"

section \<open>The wrappers\<close>

definition setCondition ::
  "condition_api \<Rightarrow> condition list \<Rightarrow> int \<Rightarrow> string \<Rightarrow> ConditionStatus \<Rightarrow> string \<Rightarrow> string
     \<Rightarrow> condition list" where
  "setCondition K conditions generation conditionType status reason message =
     SetStatusCondition K conditions
       \<lparr>c_Type = conditionType, c_Status = status, c_ObservedGeneration = generation,
        c_Reason = reason, c_Message = message\<rparr>"

definition conditionTrue :: "condition_api \<Rightarrow> condition list \<Rightarrow> string \<Rightarrow> bool" where
  "conditionTrue K conditions conditionType =
     (case FindStatusCondition K conditions conditionType of
        None \<Rightarrow> False
      | Some c \<Rightarrow> c_Status c = ConditionTrue)"

section \<open>A list implementation with the documented behaviour\<close>

text \<open>Used to evaluate the operations on concrete inputs: a condition of an
  existing type is replaced in place, another one is appended.\<close>

fun setListCondition :: "condition list \<Rightarrow> condition \<Rightarrow> condition list" where
  "setListCondition [] c = [c]"
| "setListCondition (d # ds) c =
     (if c_Type d = c_Type c then c # ds else d # setListCondition ds c)"

fun findListCondition :: "condition list \<Rightarrow> string \<Rightarrow> condition option" where
  "findListCondition [] t = None"
| "findListCondition (d # ds) t = (if c_Type d = t then Some d else findListCondition ds t)"

definition listConditions :: condition_api where
  "listConditions = \<lparr>SetStatusCondition = setListCondition,
                     FindStatusCondition = findListCondition\<rparr>"

section \<open>The documented behaviour, as an interface\<close>

locale status_conditions =
  fixes K :: condition_api
  assumes find_nil: "FindStatusCondition K [] t = None"
    and find_set: "FindStatusCondition K (SetStatusCondition K cs c) t =
                     (if t = c_Type c then Some c else FindStatusCondition K cs t)"
    and find_type: "FindStatusCondition K cs t = Some c \<Longrightarrow> c \<in> set cs \<and> c_Type c = t"
    and find_present: "c \<in> set cs \<Longrightarrow> FindStatusCondition K cs (c_Type c) \<noteq> None"
begin

lemma conditionTrue_nil [simp]: "\<not> conditionTrue K [] t"
  by (simp add: conditionTrue_def find_nil)

lemma conditionTrue_set:
  "conditionTrue K (setCondition K cs g t s r m) t' =
     (if t' = t then s = ConditionTrue else conditionTrue K cs t')"
  by (simp add: conditionTrue_def setCondition_def find_set)

lemma find_setCondition:
  "FindStatusCondition K (setCondition K cs g t s r m) t' =
     (if t' = t then Some \<lparr>c_Type = t, c_Status = s, c_ObservedGeneration = g,
                           c_Reason = r, c_Message = m\<rparr>
      else FindStatusCondition K cs t')"
  by (simp add: setCondition_def find_set)

lemma conditionTrue_member:
  "conditionTrue K cs t \<Longrightarrow> \<exists>c \<in> set cs. c_Type c = t \<and> c_Status c = ConditionTrue"
  using find_type by (auto simp: conditionTrue_def split: option.splits)

lemma find_None_iff: "FindStatusCondition K cs t = None \<longleftrightarrow> (\<forall>c \<in> set cs. c_Type c \<noteq> t)"
proof
  assume "FindStatusCondition K cs t = None"
  then show "\<forall>c \<in> set cs. c_Type c \<noteq> t" using find_present by blast
next
  assume "\<forall>c \<in> set cs. c_Type c \<noteq> t"
  then show "FindStatusCondition K cs t = None"
    using find_type by (cases "FindStatusCondition K cs t") blast+
qed

text \<open>On a list with one condition per type, the lookup is determined.\<close>

lemma find_unique:
  assumes "distinct (map c_Type cs)" "c \<in> set cs"
  shows "FindStatusCondition K cs (c_Type c) = Some c"
proof -
  obtain d where d: "FindStatusCondition K cs (c_Type c) = Some d"
    using find_present assms(2) by blast
  then have "d \<in> set cs" "c_Type d = c_Type c" using find_type by blast+
  with assms have "d = c" by (metis distinct_map inj_on_def)
  with d show ?thesis by simp
qed

lemmas cond_simps = conditionTrue_set find_setCondition

end

lemma findList_set:
  "findListCondition (setListCondition cs c) t =
     (if t = c_Type c then Some c else findListCondition cs t)"
  by (induction cs) auto

lemma findList_type: "findListCondition cs t = Some c \<Longrightarrow> c \<in> set cs \<and> c_Type c = t"
  by (induction cs) (auto split: if_splits)

lemma findList_present: "c \<in> set cs \<Longrightarrow> findListCondition cs (c_Type c) \<noteq> None"
  by (induction cs) auto

interpretation lc: status_conditions listConditions
  by unfold_locales
    (auto simp: listConditions_def findList_set dest: findList_type findList_present)

lemmas listConditions_simps = listConditions_def setCondition_def conditionTrue_def

end
