(* ===== verification/Api_Types.thy ===== *)
theory Api_Types
  imports Conditions
begin

text \<open>
  The custom resources of \<open>api/v1alpha1\<close>: one record per Go struct, with a
  prefix per record so that the fields of different structs stay apart. A
  pointer field is an option, an \<open>int32\<close> or \<open>int64\<close> field an integer, a
  \<open>resource.Quantity\<close> its value. An enumerated string type keeps its Go
  constants as constructors where the admission schema restricts it to them,
  and has a further constructor for the empty string that Go's zero value
  denotes before defaulting.
\<close>

section \<open>Object metadata\<close>

record ObjectMeta =
  om_Namespace :: string
  om_Name :: string
  om_UID :: string
  om_Generation :: int
  om_DeletionTimestamp :: "time option"
  om_Annotations :: smap
  om_Labels :: smap
  om_Finalizers :: "string list"

record OwnerReference =
  or_APIVersion :: string
  or_Kind :: string
  or_Name :: string
  or_UID :: string
  or_Controller :: bool

definition containsFinalizer :: "ObjectMeta \<Rightarrow> string \<Rightarrow> bool" where
  "containsFinalizer m f = (f \<in> set (om_Finalizers m))"

definition addFinalizer :: "string \<Rightarrow> ObjectMeta \<Rightarrow> ObjectMeta" where
  "addFinalizer f m =
     (if containsFinalizer m f then m else m\<lparr>om_Finalizers := om_Finalizers m @ [f]\<rparr>)"

definition removeFinalizer :: "string \<Rightarrow> ObjectMeta \<Rightarrow> ObjectMeta" where
  "removeFinalizer f m = m\<lparr>om_Finalizers := filter (\<lambda>g. g \<noteq> f) (om_Finalizers m)\<rparr>"

section \<open>Common types\<close>

datatype DeletionPolicy = DeletionPolicyUnset | DeletionPolicyRetain | DeletionPolicyDelete

datatype SiteRole = SiteRoleData | SiteRoleWitness

record IssuerReference =
  ir_Name :: string
  ir_Kind :: string
  ir_Group :: string

record StorageClassPolicy =
  scp_Etcd :: "string list"
  scp_Postgres :: "string list"
  scp_RestoreWorkspace :: "string list"

record IssuerPolicy =
  ip_Etcd :: "IssuerReference list"
  ip_Postgres :: "IssuerReference list"
  ip_Pgpool :: "IssuerReference list"
  ip_Backup :: "IssuerReference list"

record StorageClassInventory =
  sci_Name :: string
  sci_Provisioner :: string
  sci_ReclaimPolicy :: string
  sci_VolumeBindingMode :: string
  sci_AllowVolumeExpansion :: bool
  sci_AllowedTopologies :: "string list"
  sci_AccessModes :: "string list"

record VolumeSnapshotClassInventory =
  vsc_Name :: string
  vsc_Driver :: string
  vsc_DeletionPolicy :: string

record StorageRollbackPolicy =
  srp_StorageClassName :: string
  srp_Strategy :: string
  srp_VolumeSnapshotClassName :: string

record SiteComponents =
  EtcdReplicas :: int
  PostgresReplicas :: int
  PgpoolReplicas :: int

record StorageRequest =
  sr_StorageClassName :: string
  sr_Size :: quantity

record SiteStorage =
  ss_Etcd :: "StorageRequest option"
  ss_Postgres :: "StorageRequest option"
  ss_RestoreWorkspace :: "StorageRequest option"

record LoadBalancerSpec =
  lb_AddressPool :: string
  lb_PeerSourceAddresses :: "string list"

record SecretKeyReference =
  skr_Name :: string
  skr_Key :: string

record VaultAuthSpec =
  va_Address :: string
  va_AuthMount :: string
  va_AuthRole :: string
  va_CABundleSecretRef :: "SecretKeyReference option"

record SiteCertificateSpec =
  EtcdIssuerRef :: IssuerReference
  EtcdPeerIssuerRef :: IssuerReference
  EtcdClientIssuerRef :: IssuerReference
  PostgresIssuerRef :: IssuerReference
  PgpoolIssuerRef :: IssuerReference
  BackupIssuerRef :: IssuerReference

record PostgresSiteSpec =
  ps_Name :: string
  ps_SiteRegistrationRef :: string
  ps_Namespace :: string
  ps_Role :: SiteRole
  ps_PrimaryPreference :: int
  ps_Components :: SiteComponents
  ps_Storage :: SiteStorage
  ps_LoadBalancer :: "LoadBalancerSpec option"
  ps_VaultAuth :: "VaultAuthSpec option"
  ps_Certificates :: SiteCertificateSpec

record TDEVaultSpec =
  tv_KVMount :: string
  tv_KeyPath :: string
  tv_ProviderName :: string
  tv_PrincipalKeyName :: string

record TDESpec =
  tde_Enabled :: bool
  tde_Vault :: "TDEVaultSpec option"

record VaultSecretReference =
  vsr_Mount :: string
  vsr_Path :: string
  vsr_Key :: string

record InstanceCredentialsSpec =
  PostgresVaultRef :: VaultSecretReference
  PgpoolVaultRef :: VaultSecretReference

record BackupRepositorySpec =
  br_Type :: string
  br_Bucket :: string
  br_Prefix :: string
  br_Endpoint :: string
  br_Region :: string
  br_URIStyle :: string
  br_CABundleSecretRef :: "SecretKeyReference option"
  br_CredentialVaultRef :: VaultSecretReference

record BackupSchedules =
  bs_Full :: string
  bs_Differential :: string
  bs_Incremental :: string
  bs_Timezone :: string

record BackupRetention =
  rt_Duration :: duration
  rt_WALDuration :: duration

record BackupSpec =
  bk_Repository :: BackupRepositorySpec
  bk_Schedules :: BackupSchedules
  bk_Retention :: BackupRetention

record OperationProgressStatus =
  op_OperationUID :: string
  op_Phase :: string
  op_Attempt :: int
  op_Worker :: string
  op_Site :: string
  op_NextRetryAt :: "time option"
  op_DeadlineAt :: "time option"
  op_LastErrorReason :: string
  op_LastErrorMessage :: string
  op_Terminal :: bool
  op_ManualInterventionRequired :: bool

text \<open>The struct with every field at its zero value, which a composite literal
  starts from.\<close>

definition newOperation :: OperationProgressStatus where
  "newOperation = \<lparr>op_OperationUID = '''', op_Phase = '''', op_Attempt = 0, op_Worker = '''',
     op_Site = '''', op_NextRetryAt = None, op_DeadlineAt = None, op_LastErrorReason = '''',
     op_LastErrorMessage = '''', op_Terminal = False, op_ManualInterventionRequired = False\<rparr>"

record SiteRevisionStatus =
  st_Name :: string
  st_SiteRegistrationRef :: string
  st_DesiredRevision :: int
  st_AcknowledgedRevision :: int
  st_AppliedRevision :: int
  st_Phase :: string
  st_Addresses :: smap
  st_Primary :: string
  st_SynchronousStandbys :: "string list"
  st_TopologyObservedAt :: "time option"
  st_LastHeartbeatTime :: "time option"
  st_Conditions :: "condition list"

record RoleQuotas =
  ConnectionLimit :: "int option"
  StatementTimeout :: "duration option"
  LockTimeout :: "duration option"
  IdleInTransactionSessionTimeout :: "duration option"
  TempFileLimit :: "quantity option"

record DatabaseQuotas =
  dq_RoleQuotas :: RoleQuotas
  dq_StorageAlertThreshold :: "quantity option"

section \<open>MultiSitePostgres\<close>

record PostgresSpec =
  pg_MajorVersion :: int
  pg_Image :: string
  pg_SynchronousStandbyCount :: int
  pg_Parameters :: smap

record MultiSitePostgresSpec =
  is_DeletionPolicy :: DeletionPolicy
  is_Postgres :: PostgresSpec
  is_Sites :: "PostgresSiteSpec list"
  is_TDE :: TDESpec
  is_Backup :: "BackupSpec option"
  is_Credentials :: InstanceCredentialsSpec

record BackupScheduleStatus =
  bss_Type :: string
  bss_LastScheduledAt :: "time option"
  bss_NextScheduledAt :: "time option"
  bss_Operation :: "OperationProgressStatus option"

record MultiSitePostgresStatus =
  it_ObservedGeneration :: int
  it_ActiveRevision :: int
  it_PlanFingerprint :: string
  it_Phase :: string
  it_Primary :: string
  it_SynchronousStandbys :: "string list"
  it_Sites :: "SiteRevisionStatus list"
  it_LastBackupTime :: "time option"
  it_RecoveryWindowStart :: "time option"
  it_RestoreDrillLastVerifiedAt :: "time option"
  it_RestoreDrillBackupSet :: string
  it_Operation :: "OperationProgressStatus option"
  it_BackupSchedules :: "BackupScheduleStatus list"
  it_Conditions :: "condition list"

record MultiSitePostgres =
  i_Meta :: ObjectMeta
  i_Spec :: MultiSitePostgresSpec
  i_Status :: MultiSitePostgresStatus

section \<open>SiteRegistration\<close>

record SiteRegistrationSpec =
  rs_DisplayName :: string
  rs_Revoked :: bool
  rs_PermittedStorageClasses :: StorageClassPolicy
  rs_StorageRollbackPolicies :: "StorageRollbackPolicy list"
  rs_PermittedIssuers :: IssuerPolicy
  rs_MetallbAddressPools :: "string list"

record SiteRegistrationStatus =
  rg_ObservedGeneration :: int
  rg_ClusterUID :: string
  rg_Phase :: string
  rg_RegistrationURL :: string
  rg_RegistrationExpiresAt :: "time option"
  rg_LastHeartbeatTime :: "time option"
  rg_AgentCertificateExpiresAt :: "time option"
  rg_AgentVersion :: string
  rg_DiscoveredStorageClasses :: "StorageClassInventory list"
  rg_DiscoveredVolumeSnapshotClasses :: "VolumeSnapshotClassInventory list"
  rg_DiscoveredIssuers :: "IssuerReference list"
  rg_Capabilities :: "string list"
  rg_Conditions :: "condition list"

record SiteRegistration =
  r_Meta :: ObjectMeta
  r_Spec :: SiteRegistrationSpec
  r_Status :: SiteRegistrationStatus

section \<open>PostgresDatabase and PostgresUser\<close>

record DatabaseRole =
  dr_Name :: string
  dr_Profile :: string

record PostgresDatabaseSpec =
  ds_InstanceRef :: string
  ds_DatabaseName :: string
  ds_DeletionPolicy :: DeletionPolicy
  ds_Schemas :: "string list"
  ds_Roles :: "DatabaseRole list"
  ds_Quotas :: DatabaseQuotas

record PostgresDatabaseStatus =
  dt_ObservedGeneration :: int
  dt_Phase :: string
  dt_TDEVerified :: bool
  dt_ObservedSize :: quantity
  dt_OrphanedDeclarations :: "string list"
  dt_Operation :: "OperationProgressStatus option"
  dt_Conditions :: "condition list"

record PostgresDatabase =
  d_Meta :: ObjectMeta
  d_Spec :: PostgresDatabaseSpec
  d_Status :: PostgresDatabaseStatus

record RoleMembership =
  rm_DatabaseRef :: string
  rm_Role :: string

record PostgresUserSpec =
  us_InstanceRef :: string
  us_RoleName :: string
  us_DeletionPolicy :: DeletionPolicy
  us_MemberOf :: "RoleMembership list"
  us_PasswordVaultRef :: VaultSecretReference
  us_Quotas :: RoleQuotas

record PostgresUserStatus =
  ut_ObservedGeneration :: int
  ut_Phase :: string
  ut_CredentialVersion :: int
  ut_Operation :: "OperationProgressStatus option"
  ut_Conditions :: "condition list"

record PostgresUser =
  u_Meta :: ObjectMeta
  u_Spec :: PostgresUserSpec
  u_Status :: PostgresUserStatus

section \<open>PostgresRestore\<close>

record PostgresRestoreSpec =
  es_SourceInstanceRef :: string
  es_TargetInstanceRef :: string
  es_TargetTime :: time
  es_BackupSet :: string
  es_RestoreTopologySites :: "PostgresSiteSpec list"
  es_TargetBackup :: "BackupSpec option"

record PostgresRestoreStatus =
  et_ObservedGeneration :: int
  et_Phase :: string
  et_SelectedBackupSet :: string
  et_RecoveredTo :: "time option"
  et_Operation :: "OperationProgressStatus option"
  et_Conditions :: "condition list"

record PostgresRestore =
  e_Meta :: ObjectMeta
  e_Spec :: PostgresRestoreSpec
  e_Status :: PostgresRestoreStatus

section \<open>PostgresUpgrade\<close>

record MajorUpgradeBenchmark =
  mb_TestedAt :: time
  mb_EstimatedWriteOutage :: duration
  mb_UpgradeImage :: string
  mb_SourceMajorVersion :: int
  mb_TargetMajorVersion :: int
  mb_TDEEnabled :: bool
  mb_PostgresStorageClasses :: "string list"
  mb_Evidence :: string

record PostgresUpgradeSpec =
  gs_InstanceRef :: string
  gs_TargetImage :: string
  gs_TargetMajorVersion :: int
  gs_UpgradeImage :: string
  gs_ServiceRestorationTarget :: duration
  gs_RollbackRetention :: duration
  gs_Benchmark :: "MajorUpgradeBenchmark option"

record PostgresUpgradeStatus =
  gt_ObservedGeneration :: int
  gt_Phase :: string
  gt_StartedAt :: "time option"
  gt_PreflightBackupRequestedAt :: "time option"
  gt_PostUpgradeBackupRequestedAt :: "time option"
  gt_PostUpgradeBackupAttempt :: int
  gt_WriteOutageStartedAt :: "time option"
  gt_WriteServiceRestoredAt :: "time option"
  gt_UpgradedMembers :: "string list"
  gt_Operation :: "OperationProgressStatus option"
  gt_Conditions :: "condition list"

record PostgresUpgrade =
  g_Meta :: ObjectMeta
  g_Spec :: PostgresUpgradeSpec
  g_Status :: PostgresUpgradeStatus

section \<open>Sample values\<close>

text \<open>Concrete objects on which the operations are evaluated.\<close>

definition sampleMeta :: "string \<Rightarrow> ObjectMeta" where
  "sampleMeta name = \<lparr>om_Namespace = ''ns'', om_Name = name, om_UID = ''uid'', om_Generation = 1,
     om_DeletionTimestamp = None, om_Annotations = [], om_Labels = [], om_Finalizers = []\<rparr>"

definition sampleIssuer :: IssuerReference where
  "sampleIssuer = \<lparr>ir_Name = ''ca'', ir_Kind = ''ClusterIssuer'', ir_Group = ''cert-manager.io''\<rparr>"

definition sampleStorage :: SiteStorage where
  "sampleStorage = \<lparr>ss_Etcd = Some \<lparr>sr_StorageClassName = ''fast'', sr_Size = 1\<rparr>,
     ss_Postgres = Some \<lparr>sr_StorageClassName = ''fast'', sr_Size = 10\<rparr>, ss_RestoreWorkspace = None\<rparr>"

definition sampleVaultAuth :: VaultAuthSpec where
  "sampleVaultAuth = \<lparr>va_Address = ''https://vault'', va_AuthMount = ''k8s'', va_AuthRole = ''pg'',
     va_CABundleSecretRef = None\<rparr>"

definition sampleCertificates :: SiteCertificateSpec where
  "sampleCertificates = \<lparr>EtcdIssuerRef = sampleIssuer, EtcdPeerIssuerRef = sampleIssuer,
     EtcdClientIssuerRef = sampleIssuer, PostgresIssuerRef = sampleIssuer,
     PgpoolIssuerRef = sampleIssuer, BackupIssuerRef = sampleIssuer\<rparr>"

definition sampleSite :: "string \<Rightarrow> int \<Rightarrow> int \<Rightarrow> int \<Rightarrow> PostgresSiteSpec" where
  "sampleSite name etcd postgres pgpool = \<lparr>ps_Name = name, ps_SiteRegistrationRef = name,
     ps_Namespace = name, ps_Role = SiteRoleData, ps_PrimaryPreference = 0,
     ps_Components = \<lparr>EtcdReplicas = etcd, PostgresReplicas = postgres, PgpoolReplicas = pgpool\<rparr>,
     ps_Storage = sampleStorage, ps_LoadBalancer = None, ps_VaultAuth = Some sampleVaultAuth,
     ps_Certificates = sampleCertificates\<rparr>"

definition samplePostgres :: PostgresSpec where
  "samplePostgres = \<lparr>pg_MajorVersion = 16, pg_Image = ''pg@sha256:a'',
     pg_SynchronousStandbyCount = 1, pg_Parameters = []\<rparr>"

definition sampleTDE :: TDESpec where
  "sampleTDE = \<lparr>tde_Enabled = False, tde_Vault = None\<rparr>"

definition sampleVaultRef :: VaultSecretReference where
  "sampleVaultRef = \<lparr>vsr_Mount = ''kv'', vsr_Path = ''pg'', vsr_Key = ''''\<rparr>"

definition sampleCredentials :: InstanceCredentialsSpec where
  "sampleCredentials = \<lparr>PostgresVaultRef = sampleVaultRef, PgpoolVaultRef = sampleVaultRef\<rparr>"

definition sampleBackup :: BackupSpec where
  "sampleBackup = \<lparr>bk_Repository = \<lparr>br_Type = ''S3'', br_Bucket = ''b'', br_Prefix = ''p'',
       br_Endpoint = '''', br_Region = '''', br_URIStyle = ''host'', br_CABundleSecretRef = None,
       br_CredentialVaultRef = sampleVaultRef\<rparr>,
     bk_Schedules = \<lparr>bs_Full = '''', bs_Differential = '''', bs_Incremental = '''', bs_Timezone = ''''\<rparr>,
     bk_Retention = \<lparr>rt_Duration = 0, rt_WALDuration = 0\<rparr>\<rparr>"

definition sampleSpec :: "PostgresSiteSpec list \<Rightarrow> MultiSitePostgresSpec" where
  "sampleSpec sites = \<lparr>is_DeletionPolicy = DeletionPolicyRetain, is_Postgres = samplePostgres,
     is_Sites = sites, is_TDE = sampleTDE, is_Backup = None, is_Credentials = sampleCredentials\<rparr>"

definition sampleStatus :: MultiSitePostgresStatus where
  "sampleStatus = \<lparr>it_ObservedGeneration = 1, it_ActiveRevision = 0, it_PlanFingerprint = '''',
     it_Phase = '''', it_Primary = '''', it_SynchronousStandbys = [], it_Sites = [],
     it_LastBackupTime = None, it_RecoveryWindowStart = None, it_RestoreDrillLastVerifiedAt = None,
     it_RestoreDrillBackupSet = '''', it_Operation = None, it_BackupSchedules = [], it_Conditions = []\<rparr>"

definition sampleInstance :: "PostgresSiteSpec list \<Rightarrow> MultiSitePostgres" where
  "sampleInstance sites = \<lparr>i_Meta = sampleMeta ''db'', i_Spec = sampleSpec sites, i_Status = sampleStatus\<rparr>"

definition sampleSiteStatus :: "string \<Rightarrow> SiteRevisionStatus" where
  "sampleSiteStatus name = \<lparr>st_Name = name, st_SiteRegistrationRef = name, st_DesiredRevision = 0,
     st_AcknowledgedRevision = 0, st_AppliedRevision = 0, st_Phase = '''', st_Addresses = [],
     st_Primary = '''', st_SynchronousStandbys = [], st_TopologyObservedAt = None,
     st_LastHeartbeatTime = None, st_Conditions = []\<rparr>"

lemmas sample_defs = sampleMeta_def sampleIssuer_def sampleStorage_def sampleVaultAuth_def
  sampleCertificates_def sampleSite_def samplePostgres_def sampleTDE_def sampleVaultRef_def
  sampleCredentials_def sampleBackup_def sampleSpec_def sampleStatus_def sampleInstance_def
  sampleSiteStatus_def

section \<open>Lemmas on finalizers\<close>

lemma containsFinalizer_add [simp]:
  "containsFinalizer (addFinalizer f m) g \<longleftrightarrow> g = f \<or> containsFinalizer m g"
  by (auto simp: addFinalizer_def containsFinalizer_def)

lemma containsFinalizer_remove [simp]:
  "containsFinalizer (removeFinalizer f m) g \<longleftrightarrow> g \<noteq> f \<and> containsFinalizer m g"
  by (auto simp: removeFinalizer_def containsFinalizer_def)

lemma finalizer_meta_simps [simp]:
  "om_Name (addFinalizer f m) = om_Name m" "om_Name (removeFinalizer f m) = om_Name m"
  "om_Namespace (addFinalizer f m) = om_Namespace m"
  "om_Namespace (removeFinalizer f m) = om_Namespace m"
  "om_UID (addFinalizer f m) = om_UID m" "om_UID (removeFinalizer f m) = om_UID m"
  "om_DeletionTimestamp (removeFinalizer f m) = om_DeletionTimestamp m"
  by (simp_all add: addFinalizer_def removeFinalizer_def)

end
