(* ===== verification/Plan.thy ===== *)
theory Plan
  imports Api_Types
begin

text \<open>
  The signed documents the hub sends to the sites: \<open>internal/plan/plan.go\<close>
  (site plans, their signature, and the classification of a change between
  two plans) and \<open>internal/directive/directive.go\<close> (directives).

  JSON, base64 and Ed25519 are not part of the program. They are the fields
  of the parameters \<open>J\<close> and \<open>C\<close>; the locale \<open>signing\<close> and the predicates
  \<open>plan_roundtrips\<close>, \<open>payload_roundtrips\<close> and \<open>canonical_injective\<close> name
  what the code relies on.
\<close>

section \<open>Plans\<close>

type_synonym bytes = string

definition ProtocolVersion :: string where
  "ProtocolVersion = ''v1alpha1''"

datatype CredentialRotationPhase =
    CredentialRotationPhaseCatalog | CredentialRotationPhaseMember
  | CredentialRotationPhaseRevoke | CredentialRotationPhaseFinalize

record CredentialRotationPlan =
  cr_Version :: int
  cr_PreviousVersion :: int
  cr_Phase :: CredentialRotationPhase
  cr_TargetMember :: string
  cr_UpdatedMembers :: "string list"

record AddressMigrationPlan =
  am_OperationUID :: string
  am_Member :: string
  am_OldAddress :: string
  am_NewAddress :: string

datatype RestorePhase = RestorePhaseSeed | RestorePhaseReplicas | RestorePhaseVerify

record RestorePlan =
  rp_OperationUID :: string
  rp_SourceInstanceUID :: string
  rp_SourceBackup :: BackupSpec
  rp_TargetTime :: time
  rp_BackupSet :: string
  rp_SeedSite :: string
  rp_SeedMember :: string
  rp_Phase :: RestorePhase

datatype UpgradePhase = UpgradePhaseMember | UpgradePhaseSwitchover | UpgradePhaseFinalize

record UpgradePlan =
  up_OperationUID :: string
  up_TargetImage :: string
  up_TargetMember :: string
  up_UpgradedMembers :: "string list"
  up_FromPrimary :: string
  up_Candidate :: string
  up_Phase :: UpgradePhase

datatype MajorUpgradePhase =
    MajorUpgradePhasePreflight | MajorUpgradePhaseDrain | MajorUpgradePhaseStop
  | MajorUpgradePhaseSnapshot | MajorUpgradePhaseUpgradePrimary
  | MajorUpgradePhaseStanzaUpgrade | MajorUpgradePhaseStartPrimary
  | MajorUpgradePhaseRestoreWrites | MajorUpgradePhaseReplicas | MajorUpgradePhaseFinalize
  | MajorUpgradePhaseRollback | MajorUpgradePhaseRollbackStart
  | MajorUpgradePhaseRollbackRestoreWrites

record MajorUpgradePlan =
  mu_OperationUID :: string
  mu_Phase :: MajorUpgradePhase
  mu_Primary :: string
  mu_SourceMajor :: int
  mu_TargetMajor :: int
  mu_TargetImage :: string
  mu_UpgradeImage :: string
  mu_RollbackRetention :: duration
  mu_RollbackPolicies :: "(string, StorageRollbackPolicy) gomap"

record DeletionPlan =
  del_Policy :: DeletionPolicy

record SitePlan =
  p_ProtocolVersion :: string
  p_SiteUID :: string
  p_InstanceUID :: string
  p_HubNamespace :: string
  p_HubName :: string
  p_Revision :: int
  p_GeneratedAt :: time
  p_Site :: PostgresSiteSpec
  p_Postgres :: PostgresSpec
  p_TDE :: TDESpec
  p_TDEKeyCreator :: bool
  p_Backup :: "BackupSpec option"
  p_Credentials :: InstanceCredentialsSpec
  p_MemberAddresses :: smap
  p_AddressCandidates :: smap
  p_AddressMigration :: "AddressMigrationPlan option"
  p_CredentialRotation :: "CredentialRotationPlan option"
  p_RequiredCapabilities :: "string list"
  p_RuntimeCredentialVersion :: int
  p_RuntimeCertificateHashes :: smap
  p_Restore :: "RestorePlan option"
  p_Upgrade :: "UpgradePlan option"
  p_MajorUpgrade :: "MajorUpgradePlan option"
  p_Deletion :: "DeletionPlan option"

record Envelope =
  env_Plan :: bytes
  env_Signature :: string

text \<open>The constants of the phase types, as they are written in annotations.\<close>

fun restorePhaseName :: "RestorePhase \<Rightarrow> string" where
  "restorePhaseName RestorePhaseSeed = ''Seed''"
| "restorePhaseName RestorePhaseReplicas = ''Replicas''"
| "restorePhaseName RestorePhaseVerify = ''Verify''"

fun upgradePhaseName :: "UpgradePhase \<Rightarrow> string" where
  "upgradePhaseName UpgradePhaseMember = ''Member''"
| "upgradePhaseName UpgradePhaseSwitchover = ''Switchover''"
| "upgradePhaseName UpgradePhaseFinalize = ''Finalize''"

fun majorPhaseName :: "MajorUpgradePhase \<Rightarrow> string" where
  "majorPhaseName MajorUpgradePhasePreflight = ''MajorPreflight''"
| "majorPhaseName MajorUpgradePhaseDrain = ''MajorDrain''"
| "majorPhaseName MajorUpgradePhaseStop = ''MajorStop''"
| "majorPhaseName MajorUpgradePhaseSnapshot = ''MajorSnapshot''"
| "majorPhaseName MajorUpgradePhaseUpgradePrimary = ''MajorUpgradePrimary''"
| "majorPhaseName MajorUpgradePhaseStanzaUpgrade = ''MajorStanzaUpgrade''"
| "majorPhaseName MajorUpgradePhaseStartPrimary = ''MajorStartPrimary''"
| "majorPhaseName MajorUpgradePhaseRestoreWrites = ''MajorRestoreWrites''"
| "majorPhaseName MajorUpgradePhaseReplicas = ''MajorReplicas''"
| "majorPhaseName MajorUpgradePhaseFinalize = ''MajorFinalize''"
| "majorPhaseName MajorUpgradePhaseRollback = ''MajorRollback''"
| "majorPhaseName MajorUpgradePhaseRollbackStart = ''MajorRollbackStart''"
| "majorPhaseName MajorUpgradePhaseRollbackRestoreWrites = ''MajorRollbackRestoreWrites''"

section \<open>Directives\<close>

record Payload =
  y_ProtocolVersion :: string
  y_SiteUID :: string
  y_InstanceUID :: string
  y_ObjectUID :: string
  y_OperationUID :: string
  y_Type :: string
  y_Primary :: string
  y_BackupSource :: string
  y_BackupType :: string
  y_Deleting :: bool
  y_GeneratedAt :: time
  y_Spec :: bytes

section \<open>Serialisation and signatures, as parameters\<close>

text \<open>The values the program passes to \<open>Canonical\<close>, whose argument has Go's
  type \<open>any\<close>.\<close>

datatype jvalue =
    JPlan SitePlan
  | JPayload Payload
  | JStorage SiteStorage
  | JBackup "BackupSpec option"
  | JTDE TDESpec
  | JCredentials InstanceCredentialsSpec
  | JAddresses smap
  | JAddressMigration "AddressMigrationPlan option"
  | JCredentialRotation "CredentialRotationPlan option"
  | JRestore "RestorePlan option"
  | JUpgrade "UpgradePlan option"
  | JMajorUpgrade "MajorUpgradePlan option"
  | JDeletion "DeletionPlan option"

record json_api =
  Marshal :: "jvalue \<Rightarrow> string + bytes"
  Compact :: "bytes \<Rightarrow> string + bytes"
  UnmarshalPlan :: "bytes \<Rightarrow> string + SitePlan"
  UnmarshalPayload :: "bytes \<Rightarrow> string + Payload"

record crypto_api =
  edSign :: "bytes \<Rightarrow> bytes \<Rightarrow> bytes"
  edVerify :: "bytes \<Rightarrow> bytes \<Rightarrow> bytes \<Rightarrow> bool"
  edPublic :: "bytes \<Rightarrow> bytes"
  b64Encode :: "bytes \<Rightarrow> string"
  b64Decode :: "string \<Rightarrow> string + bytes"

definition PrivateKeySize :: nat where "PrivateKeySize = 64"
definition PublicKeySize :: nat where "PublicKeySize = 32"

section \<open>Signing and verifying\<close>

definition Canonical :: "json_api \<Rightarrow> jvalue \<Rightarrow> string + bytes" where
  "Canonical J value =
     (case Marshal J value of
        Inl e \<Rightarrow> Inl (''marshal canonical JSON: '' @ e)
      | Inr data \<Rightarrow>
          (case Compact J data of
             Inl e \<Rightarrow> Inl (''compact canonical JSON: '' @ e)
           | Inr compact \<Rightarrow> Inr compact))"

definition Sign :: "crypto_api \<Rightarrow> json_api \<Rightarrow> bytes \<Rightarrow> SitePlan \<Rightarrow> string + Envelope" where
  "Sign C J privateKey desired =
     (if length privateKey \<noteq> PrivateKeySize then Inl ''invalid Ed25519 private key''
      else if p_Revision desired < 1 \<or> p_SiteUID desired = '''' \<or> p_InstanceUID desired = ''''
      then Inl ''plan identity and positive revision are required''
      else
        (case Canonical J (JPlan (desired\<lparr>p_ProtocolVersion := ProtocolVersion\<rparr>)) of
           Inl e \<Rightarrow> Inl e
         | Inr payload \<Rightarrow>
             Inr \<lparr>env_Plan = payload,
                  env_Signature = b64Encode C (edSign C privateKey payload)\<rparr>))"

definition Verify ::
  "crypto_api \<Rightarrow> json_api \<Rightarrow> bytes \<Rightarrow> Envelope \<Rightarrow> string \<Rightarrow> string \<Rightarrow> int \<Rightarrow> string + SitePlan" where
  "Verify C J publicKey envelope expectedSiteUID expectedInstanceUID minimumRevision =
     (if length publicKey \<noteq> PublicKeySize then Inl ''invalid Ed25519 public key''
      else
        (case b64Decode C (env_Signature envelope) of
           Inl e \<Rightarrow> Inl (''decode signature: '' @ e)
         | Inr signature \<Rightarrow>
             if \<not> edVerify C publicKey (env_Plan envelope) signature
             then Inl ''plan signature is invalid''
             else
               (case UnmarshalPlan J (env_Plan envelope) of
                  Inl e \<Rightarrow> Inl (''decode plan: '' @ e)
                | Inr desired \<Rightarrow>
                    if p_ProtocolVersion desired \<noteq> ProtocolVersion
                    then Inl (''unsupported protocol version '' @ fmt_q (p_ProtocolVersion desired))
                    else if p_SiteUID desired \<noteq> expectedSiteUID \<or>
                            p_InstanceUID desired \<noteq> expectedInstanceUID
                    then Inl ''plan identity does not match this site and instance''
                    else if p_Revision desired < minimumRevision
                    then Inl (''plan revision '' @ fmt_d (p_Revision desired) @
                              '' is older than '' @ fmt_d minimumRevision)
                    else Inr desired)))"

definition SignDirective :: "crypto_api \<Rightarrow> json_api \<Rightarrow> bytes \<Rightarrow> Payload \<Rightarrow> string + Envelope" where
  "SignDirective C J privateKey payload =
     (if length privateKey \<noteq> PrivateKeySize then Inl ''invalid Ed25519 private key''
      else if y_SiteUID payload = '''' \<or> y_InstanceUID payload = '''' \<or> y_ObjectUID payload = '''' \<or>
              y_OperationUID payload = '''' \<or> y_Type payload = ''''
      then Inl ''directive identity is incomplete''
      else
        (case Canonical J (JPayload (payload\<lparr>y_ProtocolVersion := ProtocolVersion\<rparr>)) of
           Inl e \<Rightarrow> Inl e
         | Inr encoded \<Rightarrow>
             Inr \<lparr>env_Plan = encoded,
                  env_Signature = b64Encode C (edSign C privateKey encoded)\<rparr>))"

definition VerifyDirective ::
  "crypto_api \<Rightarrow> json_api \<Rightarrow> bytes \<Rightarrow> Envelope \<Rightarrow> string \<Rightarrow> string \<Rightarrow> string \<Rightarrow> string + Payload" where
  "VerifyDirective C J publicKey envelope siteUID instanceUID operationUID =
     (if length publicKey \<noteq> PublicKeySize then Inl ''invalid Ed25519 public key''
      else
        (case b64Decode C (env_Signature envelope) of
           Inl e \<Rightarrow> Inl (''decode signature: '' @ e)
         | Inr signature \<Rightarrow>
             if \<not> edVerify C publicKey (env_Plan envelope) signature
             then Inl ''directive signature is invalid''
             else
               (case UnmarshalPayload J (env_Plan envelope) of
                  Inl e \<Rightarrow> Inl (''decode directive: '' @ e)
                | Inr payload \<Rightarrow>
                    if y_ProtocolVersion payload \<noteq> ProtocolVersion
                    then Inl (''unsupported protocol version '' @ fmt_q (y_ProtocolVersion payload))
                    else if y_SiteUID payload \<noteq> siteUID \<or> y_InstanceUID payload \<noteq> instanceUID \<or>
                            y_OperationUID payload \<noteq> operationUID
                    then Inl ''directive identity does not match this site and operation''
                    else Inr payload)))"

section \<open>Classification of a change\<close>

datatype MutationClass = MutationSafe | MutationCoordinated

text \<open>\<open>mustCanonical\<close> panics on an error: the panic is \<open>None\<close>.\<close>

definition mustCanonical :: "json_api \<Rightarrow> jvalue \<Rightarrow> bytes option" where
  "mustCanonical J value = (case Canonical J value of Inl e \<Rightarrow> None | Inr data \<Rightarrow> Some data)"

text \<open>Whether two values have the same canonical bytes.\<close>

definition canonicalEqual :: "json_api \<Rightarrow> jvalue \<Rightarrow> jvalue \<Rightarrow> bool option" where
  "canonicalEqual J a b =
     (case mustCanonical J a of
        None \<Rightarrow> None
      | Some x \<Rightarrow> (case mustCanonical J b of None \<Rightarrow> None | Some y \<Rightarrow> Some (x = y)))"

text \<open>The short-circuit disjunction of the comparisons: the first difference
  decides, and later values are not serialised.\<close>

fun anyDiffers :: "json_api \<Rightarrow> (jvalue \<times> jvalue) list \<Rightarrow> bool option" where
  "anyDiffers J [] = Some False"
| "anyDiffers J ((a, b) # rest) =
     (case canonicalEqual J a b of
        None \<Rightarrow> None
      | Some False \<Rightarrow> Some True
      | Some True \<Rightarrow> anyDiffers J rest)"

definition Classify :: "json_api \<Rightarrow> SitePlan \<Rightarrow> SitePlan \<Rightarrow> MutationClass option" where
  "Classify J previous next =
     (let ps = p_Site previous; ns = p_Site next in
      if p_Revision previous = 0 then Some MutationCoordinated
      else if pg_Image (p_Postgres previous) \<noteq> pg_Image (p_Postgres next) \<or>
         pg_MajorVersion (p_Postgres previous) \<noteq> pg_MajorVersion (p_Postgres next) \<or>
         ps_Components ps \<noteq> ps_Components ns \<or>
         ps_Certificates ps \<noteq> ps_Certificates ns \<or>
         (ps_LoadBalancer ps = None) \<noteq> (ps_LoadBalancer ns = None)
      then Some MutationCoordinated
      else
        (case canonicalEqual J (JStorage (ps_Storage ps)) (JStorage (ps_Storage ns)) of
           None \<Rightarrow> None
         | Some False \<Rightarrow> Some MutationCoordinated
         | Some True \<Rightarrow>
             if (case (ps_LoadBalancer ps, ps_LoadBalancer ns) of
                   (Some a, Some b) \<Rightarrow> lb_AddressPool a \<noteq> lb_AddressPool b
                 | _ \<Rightarrow> False)
             then Some MutationCoordinated
             else
               (case anyDiffers J
                  [(JBackup (p_Backup previous), JBackup (p_Backup next)),
                   (JTDE (p_TDE previous), JTDE (p_TDE next)),
                   (JCredentials (p_Credentials previous), JCredentials (p_Credentials next)),
                   (JAddresses (p_AddressCandidates previous),
                    JAddresses (p_AddressCandidates next)),
                   (JAddressMigration (p_AddressMigration previous),
                    JAddressMigration (p_AddressMigration next)),
                   (JCredentialRotation (p_CredentialRotation previous),
                    JCredentialRotation (p_CredentialRotation next)),
                   (JRestore (p_Restore previous), JRestore (p_Restore next)),
                   (JUpgrade (p_Upgrade previous), JUpgrade (p_Upgrade next)),
                   (JMajorUpgrade (p_MajorUpgrade previous), JMajorUpgrade (p_MajorUpgrade next)),
                   (JDeletion (p_Deletion previous), JDeletion (p_Deletion next))] of
                  None \<Rightarrow> None
                | Some True \<Rightarrow> Some MutationCoordinated
                | Some False \<Rightarrow> Some MutationSafe)))"

section \<open>What the code relies on\<close>

locale signing =
  fixes C :: crypto_api
  assumes verify_sign:
      "length sk = PrivateKeySize \<Longrightarrow> edVerify C (edPublic C sk) m (edSign C sk m)"
    and public_size: "length sk = PrivateKeySize \<Longrightarrow> length (edPublic C sk) = PublicKeySize"
    and decode_encode: "b64Decode C (b64Encode C b) = Inr b"

text \<open>Decoding the canonical bytes of a plan gives the plan back, without the
  two fields tagged \<open>json:"-"\<close>.\<close>

definition wirePlan :: "SitePlan \<Rightarrow> SitePlan" where
  "wirePlan p = p\<lparr>p_ProtocolVersion := ProtocolVersion, p_RuntimeCredentialVersion := 0,
                 p_RuntimeCertificateHashes := []\<rparr>"

definition plan_roundtrips :: "json_api \<Rightarrow> SitePlan \<Rightarrow> bool" where
  "plan_roundtrips J p =
     (\<exists>b. Canonical J (JPlan (p\<lparr>p_ProtocolVersion := ProtocolVersion\<rparr>)) = Inr b \<and>
          UnmarshalPlan J b = Inr (wirePlan p))"

definition payload_roundtrips :: "json_api \<Rightarrow> Payload \<Rightarrow> bool" where
  "payload_roundtrips J y =
     (\<exists>b. Canonical J (JPayload (y\<lparr>y_ProtocolVersion := ProtocolVersion\<rparr>)) = Inr b \<and>
          UnmarshalPayload J b = Inr (y\<lparr>y_ProtocolVersion := ProtocolVersion\<rparr>))"

text \<open>Two values have the same JSON document. Maps are written with sorted
  keys, so their order does not count.\<close>

fun sameJson :: "jvalue \<Rightarrow> jvalue \<Rightarrow> bool" where
  "sameJson (JAddresses a) (JAddresses b) = (map_of a = map_of b)"
| "sameJson (JMajorUpgrade (Some a)) (JMajorUpgrade (Some b)) =
     (map_of (mu_RollbackPolicies a) = map_of (mu_RollbackPolicies b) \<and>
      a\<lparr>mu_RollbackPolicies := []\<rparr> = b\<lparr>mu_RollbackPolicies := []\<rparr>)"
| "sameJson a b = (a = b)"

definition canonical_faithful :: "json_api \<Rightarrow> jvalue \<Rightarrow> jvalue \<Rightarrow> bool" where
  "canonical_faithful J a b = (canonicalEqual J a b = Some (sameJson a b))"

text \<open>The parts of two plans that \<open>Classify\<close> compares by their bytes.\<close>

definition comparedParts :: "SitePlan \<Rightarrow> jvalue list" where
  "comparedParts p =
     [JStorage (ps_Storage (p_Site p)), JBackup (p_Backup p), JTDE (p_TDE p),
      JCredentials (p_Credentials p), JAddresses (p_AddressCandidates p),
      JAddressMigration (p_AddressMigration p), JCredentialRotation (p_CredentialRotation p),
      JRestore (p_Restore p), JUpgrade (p_Upgrade p), JMajorUpgrade (p_MajorUpgrade p),
      JDeletion (p_Deletion p)]"

text \<open>An envelope carries a signature of its bytes under the public key.\<close>

definition authentic :: "crypto_api \<Rightarrow> bytes \<Rightarrow> Envelope \<Rightarrow> bool" where
  "authentic C publicKey env =
     (length publicKey = PublicKeySize \<and>
      (case b64Decode C (env_Signature env) of
         Inl e \<Rightarrow> False
       | Inr s \<Rightarrow> edVerify C publicKey (env_Plan env) s))"

text \<open>The interface the plan cache relies on: a verifier that yields one plan
  per envelope, addressed to the expected site and instance, and accepts it
  exactly for the minimum revisions up to the plan's own.\<close>

locale plan_verifier =
  fixes verify :: "Envelope \<Rightarrow> string \<Rightarrow> string \<Rightarrow> int \<Rightarrow> string + SitePlan"
  assumes verify_identity:
      "verify e s i m = Inr p \<Longrightarrow> p_SiteUID p = s \<and> p_InstanceUID p = i \<and> m \<le> p_Revision p"
    and verify_minimum:
      "verify e s i m = Inr p \<Longrightarrow> m' \<le> p_Revision p \<Longrightarrow> verify e s i m' = Inr p"
begin

lemma verify_unique:
  assumes "verify e s i m = Inr p" "verify e s i m' = Inr q"
  shows "p = q"
proof (cases "m \<le> m'")
  case True
  have "m \<le> p_Revision q" using True verify_identity [OF assms(2)] by simp
  then have "verify e s i m = Inr q" by (rule verify_minimum [OF assms(2)])
  with assms(1) show ?thesis by simp
next
  case False
  then have "m' \<le> p_Revision p" using verify_identity [OF assms(1)] by simp
  then have "verify e s i m' = Inr p" by (rule verify_minimum [OF assms(1)])
  with assms(2) show ?thesis by simp
qed

lemma verify_addressee:
  assumes "verify e s i m = Inr p" "verify e s' i' m' = Inr p"
  shows "s = s' \<and> i = i'"
  using verify_identity [OF assms(1)] verify_identity [OF assms(2)] by simp

end

section \<open>Lemmas\<close>

lemma Verify_iff_valid:
  "Verify C J pk env site inst m = Inr p \<longleftrightarrow>
     authentic C pk env \<and> UnmarshalPlan J (env_Plan env) = Inr p \<and>
     p_ProtocolVersion p = ProtocolVersion \<and> p_SiteUID p = site \<and> p_InstanceUID p = inst \<and>
     m \<le> p_Revision p"
  by (auto simp: Verify_def authentic_def split: sum.splits if_splits)

lemma VerifyDirective_iff_valid:
  "VerifyDirective C J pk env site inst operation = Inr y \<longleftrightarrow>
     authentic C pk env \<and> UnmarshalPayload J (env_Plan env) = Inr y \<and>
     y_ProtocolVersion y = ProtocolVersion \<and> y_SiteUID y = site \<and> y_InstanceUID y = inst \<and>
     y_OperationUID y = operation"
  by (auto simp: VerifyDirective_def authentic_def split: sum.splits if_splits)

interpretation pv: plan_verifier "Verify C J pk" for C J pk
  by unfold_locales (auto simp: Verify_iff_valid)

context signing
begin

lemma signed_authentic:
  assumes "length sk = PrivateKeySize"
  shows "authentic C (edPublic C sk)
           \<lparr>env_Plan = b, env_Signature = b64Encode C (edSign C sk b)\<rparr>"
  by (simp add: authentic_def decode_encode verify_sign public_size assms)

lemma Sign_produces:
  assumes "length sk = PrivateKeySize" "1 \<le> p_Revision p" "p_SiteUID p \<noteq> ''''" "p_InstanceUID p \<noteq> ''''"
    and "plan_roundtrips J p"
  shows "\<exists>env. Sign C J sk p = Inr env \<and> authentic C (edPublic C sk) env \<and>
           UnmarshalPlan J (env_Plan env) = Inr (wirePlan p)"
  using assms by (auto simp: Sign_def plan_roundtrips_def signed_authentic)

lemma SignDirective_produces:
  assumes "length sk = PrivateKeySize" "y_SiteUID y \<noteq> ''''" "y_InstanceUID y \<noteq> ''''"
    "y_ObjectUID y \<noteq> ''''" "y_OperationUID y \<noteq> ''''" "y_Type y \<noteq> ''''"
    and "payload_roundtrips J y"
  shows "\<exists>env. SignDirective C J sk y = Inr env \<and> authentic C (edPublic C sk) env \<and>
           UnmarshalPayload J (env_Plan env) = Inr (y\<lparr>y_ProtocolVersion := ProtocolVersion\<rparr>)"
  using assms by (auto simp: SignDirective_def payload_roundtrips_def signed_authentic)

end

lemma anyDiffers_faithful:
  assumes "\<forall>(a, b) \<in> set xs. canonical_faithful J a b"
  shows "anyDiffers J xs = Some (\<not> (\<forall>(a, b) \<in> set xs. sameJson a b))"
  using assms
proof (induction xs)
  case (Cons ab xs)
  obtain a b where ab: "ab = (a, b)" by (cases ab)
  with Cons.prems have "canonicalEqual J a b = Some (sameJson a b)"
    by (simp add: canonical_faithful_def)
  with Cons ab show ?case by (cases "sameJson a b") auto
qed simp

lemma wirePlan_simps [simp]:
  "p_SiteUID (wirePlan p) = p_SiteUID p" "p_InstanceUID (wirePlan p) = p_InstanceUID p"
  "p_Revision (wirePlan p) = p_Revision p" "p_ProtocolVersion (wirePlan p) = ProtocolVersion"
  by (simp_all add: wirePlan_def)

section \<open>Sample values\<close>

text \<open>A signature scheme that satisfies the laws: the signature is the public
  half of the key followed by the message.\<close>

definition plainCrypto :: crypto_api where
  "plainCrypto = \<lparr>edSign = (\<lambda>sk m. drop 32 sk @ m), edVerify = (\<lambda>pk m s. s = pk @ m),
     edPublic = drop 32, b64Encode = id, b64Decode = Inr\<rparr>"

definition samplePlan :: SitePlan where
  "samplePlan = \<lparr>p_ProtocolVersion = '''', p_SiteUID = ''site'', p_InstanceUID = ''inst'',
     p_HubNamespace = ''ns'', p_HubName = ''db'', p_Revision = 3, p_GeneratedAt = 0,
     p_Site = sampleSite ''a'' 1 1 1, p_Postgres = samplePostgres, p_TDE = sampleTDE,
     p_TDEKeyCreator = False, p_Backup = None, p_Credentials = sampleCredentials,
     p_MemberAddresses = [], p_AddressCandidates = [], p_AddressMigration = None,
     p_CredentialRotation = None, p_RequiredCapabilities = [], p_RuntimeCredentialVersion = 0,
     p_RuntimeCertificateHashes = [], p_Restore = None, p_Upgrade = None, p_MajorUpgrade = None,
     p_Deletion = None\<rparr>"

definition samplePayload :: Payload where
  "samplePayload = \<lparr>y_ProtocolVersion = '''', y_SiteUID = ''site'', y_InstanceUID = ''inst'',
     y_ObjectUID = ''obj'', y_OperationUID = ''op'', y_Type = ''Database'', y_Primary = '''',
     y_BackupSource = '''', y_BackupType = '''', y_Deleting = False, y_GeneratedAt = 0, y_Spec = ''''\<rparr>"

text \<open>A codec for the sample documents: the kind of value is its document, and
  a backup section is written apart from its absence.\<close>

fun sampleMarshal :: "jvalue \<Rightarrow> string + bytes" where
  "sampleMarshal (JPlan p) = Inr ''plan''"
| "sampleMarshal (JPayload p) = Inr ''payload''"
| "sampleMarshal (JBackup None) = Inr ''null''"
| "sampleMarshal (JBackup (Some b)) = Inr ''backup''"
| "sampleMarshal v = Inr ''{}''"

definition sampleJson :: json_api where
  "sampleJson = \<lparr>Marshal = sampleMarshal, Compact = Inr,
     UnmarshalPlan = (\<lambda>b. if b = ''plan'' then Inr (wirePlan samplePlan) else Inl ''bad''),
     UnmarshalPayload = (\<lambda>b. if b = ''payload''
        then Inr (samplePayload\<lparr>y_ProtocolVersion := ProtocolVersion\<rparr>) else Inl ''bad'')\<rparr>"

definition sampleKey :: bytes where
  "sampleKey = replicate 64 (CHR ''k'')"

lemma sample_roundtrips:
  "plan_roundtrips sampleJson samplePlan" "payload_roundtrips sampleJson samplePayload"
  by (auto simp: plan_roundtrips_def payload_roundtrips_def Canonical_def sampleJson_def)

interpretation plain: signing plainCrypto
  by unfold_locales (auto simp: plainCrypto_def PrivateKeySize_def PublicKeySize_def)

section \<open>Properties\<close>

text \<open>C1: A plan the hub signs is accepted by exactly the addressed site and
  instance, for exactly the minimum revisions up to its own, and decodes to
  the plan that was signed, with the protocol version set and the two
  run-time fields cleared. Any other site, instance or higher minimum
  revision rejects the same envelope.\<close>

theorem plan_sign_verify:
  assumes "signing C" "length sk = PrivateKeySize" "1 \<le> p_Revision p"
    and "p_SiteUID p \<noteq> ''''" "p_InstanceUID p \<noteq> ''''" "plan_roundtrips J p"
  shows "\<exists>env. Sign C J sk p = Inr env \<and>
           (\<forall>site inst m q. Verify C J (edPublic C sk) env site inst m = Inr q \<longleftrightarrow>
              q = wirePlan p \<and> site = p_SiteUID p \<and> inst = p_InstanceUID p \<and> m \<le> p_Revision p)"
proof -
  from signing.Sign_produces [OF assms] obtain env where
    "Sign C J sk p = Inr env" "authentic C (edPublic C sk) env"
    "UnmarshalPlan J (env_Plan env) = Inr (wirePlan p)" by blast
  then show ?thesis by (intro exI [of _ env]) (auto simp: Verify_iff_valid)
qed

theorem plan_sign_verify_witness:
  "\<exists>env. Sign plainCrypto sampleJson sampleKey samplePlan = Inr env \<and>
     (\<forall>site inst m q. Verify plainCrypto sampleJson (edPublic plainCrypto sampleKey) env site inst m
          = Inr q \<longleftrightarrow>
        q = wirePlan samplePlan \<and> site = p_SiteUID samplePlan \<and>
        inst = p_InstanceUID samplePlan \<and> m \<le> p_Revision samplePlan)"
  by (rule plan_sign_verify [OF plain.signing_axioms])
    (simp_all add: sampleKey_def PrivateKeySize_def samplePlan_def
      sample_roundtrips [unfolded samplePlan_def])

text \<open>C19: A directive the hub signs is accepted by exactly the addressed site,
  instance and operation, and decodes to the payload that was signed.\<close>

theorem directive_sign_verify:
  assumes "signing C" "length sk = PrivateKeySize" "y_SiteUID y \<noteq> ''''" "y_InstanceUID y \<noteq> ''''"
    and "y_ObjectUID y \<noteq> ''''" "y_OperationUID y \<noteq> ''''" "y_Type y \<noteq> ''''"
    and "payload_roundtrips J y"
  shows "\<exists>env. SignDirective C J sk y = Inr env \<and>
           (\<forall>site inst op z. VerifyDirective C J (edPublic C sk) env site inst op = Inr z \<longleftrightarrow>
              z = y\<lparr>y_ProtocolVersion := ProtocolVersion\<rparr> \<and> site = y_SiteUID y \<and>
              inst = y_InstanceUID y \<and> op = y_OperationUID y)"
proof -
  from signing.SignDirective_produces [OF assms] obtain env where
    "SignDirective C J sk y = Inr env" "authentic C (edPublic C sk) env"
    "UnmarshalPayload J (env_Plan env) = Inr (y\<lparr>y_ProtocolVersion := ProtocolVersion\<rparr>)" by blast
  then show ?thesis by (intro exI [of _ env]) (auto simp: VerifyDirective_iff_valid)
qed

theorem directive_sign_verify_witness:
  "\<exists>env. SignDirective plainCrypto sampleJson sampleKey samplePayload = Inr env \<and>
     (\<forall>site inst op z. VerifyDirective plainCrypto sampleJson (edPublic plainCrypto sampleKey) env
          site inst op = Inr z \<longleftrightarrow>
        z = samplePayload\<lparr>y_ProtocolVersion := ProtocolVersion\<rparr> \<and> site = y_SiteUID samplePayload \<and>
        inst = y_InstanceUID samplePayload \<and> op = y_OperationUID samplePayload)"
  by (rule directive_sign_verify [OF plain.signing_axioms])
    (simp_all add: sampleKey_def PrivateKeySize_def samplePayload_def
      sample_roundtrips [unfolded samplePayload_def])

text \<open>When the canonical bytes of the compared parts tell their documents
  apart, \<open>Classify\<close> does not panic, and a change from a plan that was applied
  is safe exactly when it leaves the image, the major version, the components,
  the certificates, the load balancer and its pool, and every compared part
  (storage, backup, encryption, credentials, address candidates, and every
  operation section) as they were.\<close>

theorem Classify_safe_iff:
  assumes "p_Revision p \<noteq> 0"
    and "\<forall>(a, b) \<in> set (zip (comparedParts p) (comparedParts q)). canonical_faithful J a b"
  shows "Classify J p q \<noteq> None \<and>
    (Classify J p q = Some MutationSafe \<longleftrightarrow>
       pg_Image (p_Postgres p) = pg_Image (p_Postgres q) \<and>
       pg_MajorVersion (p_Postgres p) = pg_MajorVersion (p_Postgres q) \<and>
       ps_Components (p_Site p) = ps_Components (p_Site q) \<and>
       ps_Certificates (p_Site p) = ps_Certificates (p_Site q) \<and>
       map_option lb_AddressPool (ps_LoadBalancer (p_Site p)) =
         map_option lb_AddressPool (ps_LoadBalancer (p_Site q)) \<and>
       (\<forall>(a, b) \<in> set (zip (comparedParts p) (comparedParts q)). sameJson a b))"
proof -
  let ?rest = "zip (tl (comparedParts p)) (tl (comparedParts q))"
  have storage: "canonicalEqual J (JStorage (ps_Storage (p_Site p))) (JStorage (ps_Storage (p_Site q)))
      = Some (ps_Storage (p_Site p) = ps_Storage (p_Site q))"
    using assms(2) by (simp add: comparedParts_def canonical_faithful_def)
  have "\<forall>(a, b) \<in> set ?rest. canonical_faithful J a b"
    using assms(2) by (simp add: comparedParts_def)
  from anyDiffers_faithful [OF this] obtain same where
    same: "same = (\<forall>(a, b) \<in> set ?rest. sameJson a b)" and rest: "anyDiffers J ?rest = Some (\<not> same)"
    by simp
  have split: "(\<forall>(a, b) \<in> set (zip (comparedParts p) (comparedParts q)). sameJson a b) \<longleftrightarrow>
      ps_Storage (p_Site p) = ps_Storage (p_Site q) \<and> same"
    unfolding same by (simp add: comparedParts_def)
  show ?thesis
    unfolding split Classify_def Let_def
    using assms(1) rest [unfolded comparedParts_def]
    by (auto simp: storage simp del: anyDiffers.simps split: option.splits bool.splits)
qed

theorem Classify_safe_iff_witness:
  "Classify sampleJson samplePlan (samplePlan\<lparr>p_Backup := Some sampleBackup\<rparr>) \<noteq> None \<and>
   Classify sampleJson samplePlan (samplePlan\<lparr>p_Backup := Some sampleBackup\<rparr>) \<noteq> Some MutationSafe \<and>
   Classify sampleJson samplePlan (samplePlan\<lparr>p_Revision := 4\<rparr>) = Some MutationSafe"
  using Classify_safe_iff [of samplePlan "samplePlan\<lparr>p_Backup := Some sampleBackup\<rparr>" sampleJson]
    Classify_safe_iff [of samplePlan "samplePlan\<lparr>p_Revision := 4\<rparr>" sampleJson]
  by (simp add: comparedParts_def canonical_faithful_def canonicalEqual_def mustCanonical_def
      Canonical_def sampleJson_def samplePlan_def)

end
