(* ===== verification/Config_Maps.thy ===== *)
theory Config_Maps
  imports Prelude
begin

text \<open>
  The ConfigMaps of one namespace, in which the site agent keeps its state
  (plans and directive verdicts). The API server is the store together with a
  parameter \<open>api\<close> that answers an error to any call it does not serve.
\<close>

record ConfigMap =
  cm_Labels :: smap
  cm_Data :: smap

type_synonym cmstore = "string \<Rightarrow> ConfigMap option"

datatype cmcall = GetCM string | CreateCM string ConfigMap | UpdateCM string ConfigMap | ListCM

type_synonym cmapi = "cmcall \<Rightarrow> string option"

definition getCM :: "cmapi \<Rightarrow> cmstore \<Rightarrow> string \<Rightarrow> ConfigMap read" where
  "getCM api s name =
     (case api (GetCM name) of
        Some e \<Rightarrow> ReadError e
      | None \<Rightarrow> (case s name of None \<Rightarrow> NotFound | Some cm \<Rightarrow> Found cm))"

text \<open>Create and Update, each answering the new store or an error.\<close>

definition createCM :: "cmapi \<Rightarrow> cmstore \<Rightarrow> string \<Rightarrow> ConfigMap \<Rightarrow> string + cmstore" where
  "createCM api s name cm =
     (case api (CreateCM name cm) of
        Some e \<Rightarrow> Inl e
      | None \<Rightarrow> if s name = None then Inr (s(name \<mapsto> cm)) else Inl ''AlreadyExists'')"

definition updateCM :: "cmapi \<Rightarrow> cmstore \<Rightarrow> string \<Rightarrow> ConfigMap \<Rightarrow> string + cmstore" where
  "updateCM api s name cm =
     (case api (UpdateCM name cm) of
        Some e \<Rightarrow> Inl e
      | None \<Rightarrow> if s name = None then Inl ''NotFound'' else Inr (s(name \<mapsto> cm)))"

lemma getCM_Found: "getCM api s name = Found cm \<longleftrightarrow> api (GetCM name) = None \<and> s name = Some cm"
  by (auto simp: getCM_def split: option.splits)

lemma getCM_NotFound: "getCM api s name = NotFound \<longleftrightarrow> api (GetCM name) = None \<and> s name = None"
  by (auto simp: getCM_def split: option.splits)

lemma createCM_Inr:
  "createCM api s name cm = Inr s' \<longleftrightarrow>
     api (CreateCM name cm) = None \<and> s name = None \<and> s' = s(name \<mapsto> cm)"
  by (auto simp: createCM_def split: option.splits)

lemma updateCM_Inr:
  "updateCM api s name cm = Inr s' \<longleftrightarrow>
     api (UpdateCM name cm) = None \<and> s name \<noteq> None \<and> s' = s(name \<mapsto> cm)"
  by (auto simp: updateCM_def split: option.splits)

lemmas cm_calls = getCM_Found getCM_NotFound createCM_Inr updateCM_Inr

end
