(* ===== verification/Plan_Cache.thy ===== *)
theory Plan_Cache
  imports Plan Config_Maps
begin

text \<open>
  The agent's cache of signed plans (\<open>internal/agent/cache.go\<close>), one ConfigMap
  per instance. The JSON encoding of a raw message and the textual form of a
  time stamp are parameters.
\<close>

section \<open>State and parameters\<close>

record raw_api =
  MarshalRaw :: "bytes \<Rightarrow> string + string"
  UnmarshalRaw :: "string \<Rightarrow> string + bytes"
  FormatTime :: "time \<Rightarrow> string"
  ParseTime :: "string \<Rightarrow> string + time"

record Cache =
  c_Crypto :: crypto_api
  c_Json :: json_api
  c_Raw :: raw_api
  c_Api :: cmapi
  c_PublicKey :: bytes
  c_SiteUID :: string

datatype cache_error = CacheNotFound | CacheError string

section \<open>Operations\<close>

definition cacheName :: "string \<Rightarrow> string" where
  "cacheName instanceUID =
     (let normalized = map toLower instanceUID;
          normalized = map (\<lambda>c. if c = CHR ''_'' then CHR ''-'' else c) normalized;
          normalized = (if length normalized > 40 then take 40 normalized else normalized)
      in ''multisite-postgres-plan-'' @ normalized)"

definition Load :: "Cache \<Rightarrow> cmstore \<Rightarrow> string \<Rightarrow> cache_error + SitePlan" where
  "Load c s instanceUID =
     (case getCM (c_Api c) s (cacheName instanceUID) of
        NotFound \<Rightarrow> Inl CacheNotFound
      | ReadError e \<Rightarrow> Inl (CacheError e)
      | Found configMap \<Rightarrow>
          (case UnmarshalRaw (c_Raw c) (mget (cm_Data configMap) ''site-plan.json'') of
             Inl e \<Rightarrow> Inl (CacheError (''decode cached plan: '' @ e))
           | Inr raw \<Rightarrow>
               (case Verify (c_Crypto c) (c_Json c) (c_PublicKey c)
                       \<lparr>env_Plan = raw, env_Signature = mget (cm_Data configMap) ''signature''\<rparr>
                       (c_SiteUID c) instanceUID 1 of
                  Inl e \<Rightarrow> Inl (CacheError e)
                | Inr p \<Rightarrow> Inr p)))"

definition cacheData :: "Cache \<Rightarrow> time \<Rightarrow> SitePlan \<Rightarrow> string \<Rightarrow> string \<Rightarrow> smap" where
  "cacheData c now desired planJSON signature =
     [(''revision'', fmt_d (p_Revision desired)), (''site-plan.json'', planJSON),
      (''signature'', signature), (''received-at'', FormatTime (c_Raw c) now)]"

definition Store ::
  "Cache \<Rightarrow> cmstore \<Rightarrow> time \<Rightarrow> Envelope \<Rightarrow> string \<Rightarrow> cmstore \<times> (cache_error + SitePlan)" where
  "Store c s now envelope instanceUID =
     (case (case Load c s instanceUID of
              Inr current \<Rightarrow> Inr (p_Revision current)
            | Inl CacheNotFound \<Rightarrow> Inr 1
            | Inl (CacheError e) \<Rightarrow> Inl e) of
        Inl e \<Rightarrow> (s, Inl (CacheError e))
      | Inr minimumRevision \<Rightarrow>
     (case Verify (c_Crypto c) (c_Json c) (c_PublicKey c) envelope (c_SiteUID c) instanceUID
             minimumRevision of
        Inl e \<Rightarrow> (s, Inl (CacheError e))
      | Inr desired \<Rightarrow>
     (case MarshalRaw (c_Raw c) (env_Plan envelope) of
        Inl e \<Rightarrow> (s, Inl (CacheError e))
      | Inr planJSON \<Rightarrow>
     (let name = cacheName instanceUID;
          data = cacheData c now desired planJSON (env_Signature envelope) in
      case getCM (c_Api c) s name of
        ReadError e \<Rightarrow> (s, Inl (CacheError e))
      | NotFound \<Rightarrow>
          (case createCM (c_Api c) s name
                  \<lparr>cm_Labels = [(''app.kubernetes.io/managed-by'', ''mspsql-agent''),
                                (''multisite-postgres.dev/instance-uid'', instanceUID)],
                   cm_Data = data\<rparr> of
             Inl e \<Rightarrow> (s, Inl (CacheError e))
           | Inr s' \<Rightarrow> (s', Inr desired))
      | Found configMap \<Rightarrow>
          if mget (cm_Data configMap) ''revision'' = mget data ''revision'' \<and>
             mget (cm_Data configMap) ''site-plan.json'' = mget data ''site-plan.json'' \<and>
             mget (cm_Data configMap) ''signature'' = mget data ''signature''
          then (s, Inr desired)
          else if mget (cm_Data configMap) ''revision'' = mget data ''revision''
          then (s, Inl (CacheError (''cached plan revision '' @ fmt_d (p_Revision desired) @
                                    '' changed contents or signature'')))
          else
            (case updateCM (c_Api c) s name (configMap\<lparr>cm_Data := data\<rparr>) of
               Inl e \<Rightarrow> (s, Inl (CacheError e))
             | Inr s' \<Rightarrow> (s', Inr desired))))))"

definition Age :: "Cache \<Rightarrow> cmstore \<Rightarrow> time \<Rightarrow> string \<Rightarrow> cache_error + duration" where
  "Age c s now instanceUID =
     (case getCM (c_Api c) s (cacheName instanceUID) of
        NotFound \<Rightarrow> Inl CacheNotFound
      | ReadError e \<Rightarrow> Inl (CacheError e)
      | Found configMap \<Rightarrow>
          (case ParseTime (c_Raw c) (mget (cm_Data configMap) ''received-at'') of
             Inl e \<Rightarrow> Inl (CacheError e)
           | Inr receivedAt \<Rightarrow> Inr (now - receivedAt)))"

fun loadAll :: "Cache \<Rightarrow> cmstore \<Rightarrow> string list \<Rightarrow> cache_error + SitePlan list" where
  "loadAll c s [] = Inr []"
| "loadAll c s (instanceUID # rest) =
     (case Load c s instanceUID of
        Inl e \<Rightarrow> Inl e
      | Inr desired \<Rightarrow>
          (case loadAll c s rest of Inl e \<Rightarrow> Inl e | Inr plans \<Rightarrow> Inr (desired # plans)))"

text \<open>\<open>List\<close> reads the ConfigMaps the API server lists. The order is the
  server's: it is the argument \<open>names\<close>.\<close>

definition listedInstances :: "cmstore \<Rightarrow> string list \<Rightarrow> string list" where
  "listedInstances s names =
     [mget (cm_Labels cm) ''multisite-postgres.dev/instance-uid''.
        name \<leftarrow> names, cm \<leftarrow> (case s name of None \<Rightarrow> [] | Some cm \<Rightarrow> [cm]),
        mget (cm_Labels cm) ''app.kubernetes.io/managed-by'' = ''mspsql-agent'']"

definition List :: "Cache \<Rightarrow> cmstore \<Rightarrow> string list \<Rightarrow> cache_error + SitePlan list" where
  "List c s names =
     (case c_Api c ListCM of
        Some e \<Rightarrow> Inl (CacheError e)
      | None \<Rightarrow> loadAll c s (listedInstances s names))"

section \<open>What the code relies on\<close>

text \<open>A raw message that was written is read back unchanged.\<close>

definition raw_roundtrips :: "raw_api \<Rightarrow> bytes \<Rightarrow> bool" where
  "raw_roundtrips R b = (\<exists>s. MarshalRaw R b = Inr s \<and> UnmarshalRaw R s = Inr b)"

section \<open>Invariant\<close>

text \<open>The entry of an instance holds a verified plan, and its revision field is
  the plan's revision.\<close>

definition entryPlan :: "Cache \<Rightarrow> ConfigMap \<Rightarrow> string \<Rightarrow> SitePlan option" where
  "entryPlan c cm instanceUID =
     (case UnmarshalRaw (c_Raw c) (mget (cm_Data cm) ''site-plan.json'') of
        Inl e \<Rightarrow> None
      | Inr raw \<Rightarrow>
          (case Verify (c_Crypto c) (c_Json c) (c_PublicKey c)
                  \<lparr>env_Plan = raw, env_Signature = mget (cm_Data cm) ''signature''\<rparr>
                  (c_SiteUID c) instanceUID 1 of
             Inl e \<Rightarrow> None
           | Inr p \<Rightarrow> Some p))"

definition cachedPlan :: "Cache \<Rightarrow> string \<Rightarrow> cmstore \<Rightarrow> SitePlan option" where
  "cachedPlan c instanceUID s = Option.bind (s (cacheName instanceUID)) (\<lambda>cm. entryPlan c cm instanceUID)"

definition cacheInv :: "Cache \<Rightarrow> string \<Rightarrow> cmstore \<Rightarrow> bool" where
  "cacheInv c instanceUID s =
     (case s (cacheName instanceUID) of
        None \<Rightarrow> True
      | Some cm \<Rightarrow>
          (case entryPlan c cm instanceUID of
             None \<Rightarrow> False
           | Some p \<Rightarrow> mget (cm_Data cm) ''revision'' = fmt_d (p_Revision p)))"


text \<open>A newer plan, or the same one.\<close>

definition newerPlan :: "SitePlan \<Rightarrow> SitePlan \<Rightarrow> bool" where
  "newerPlan p q = (p_Revision p < p_Revision q \<or> p = q)"

section \<open>Lemmas\<close>

lemma Load_Inr_iff:
  "Load c s i = Inr p \<longleftrightarrow> c_Api c (GetCM (cacheName i)) = None \<and> cachedPlan c i s = Some p"
  by (auto simp: Load_def cachedPlan_def entryPlan_def getCM_def
      split: read.splits sum.splits option.splits)

lemma Load_NotFound_iff:
  "Load c s i = Inl CacheNotFound \<longleftrightarrow> c_Api c (GetCM (cacheName i)) = None \<and> s (cacheName i) = None"
  by (auto simp: Load_def getCM_def split: read.splits sum.splits option.splits)

lemma entryPlan_facts:
  assumes "entryPlan c cm i = Some p"
  shows "p_SiteUID p = c_SiteUID c" "p_InstanceUID p = i" "1 \<le> p_Revision p"
  using assms pv.verify_identity by (auto simp: entryPlan_def split: sum.splits)

lemma mget_cacheData [simp]:
  "mget (cacheData c now p j sig) ''revision'' = fmt_d (p_Revision p)"
  "mget (cacheData c now p j sig) ''site-plan.json'' = j"
  "mget (cacheData c now p j sig) ''signature'' = sig"
  "mget (cacheData c now p j sig) ''received-at'' = FormatTime (c_Raw c) now"
  by (simp_all add: cacheData_def)

lemma entryPlan_stored:
  assumes "raw_roundtrips (c_Raw c) (env_Plan e)" "MarshalRaw (c_Raw c) (env_Plan e) = Inr j"
    and "Verify (c_Crypto c) (c_Json c) (c_PublicKey c) e (c_SiteUID c) i m = Inr p" "1 \<le> m"
    and "mget (cm_Data cm) ''site-plan.json'' = j" "mget (cm_Data cm) ''signature'' = env_Signature e"
  shows "entryPlan c cm i = Some p"
proof -
  have raw: "UnmarshalRaw (c_Raw c) j = Inr (env_Plan e)"
    using assms(1,2) by (auto simp: raw_roundtrips_def)
  have "1 \<le> p_Revision p" using pv.verify_identity [OF assms(3)] assms(4) by simp
  then have "Verify (c_Crypto c) (c_Json c) (c_PublicKey c) e (c_SiteUID c) i 1 = Inr p"
    by (rule pv.verify_minimum [OF assms(3)])
  with raw show ?thesis by (cases e) (simp add: entryPlan_def assms(5,6))
qed

text \<open>The three ways a store can end: nothing written, a first entry, a newer
  entry.\<close>

lemma Store_cases:
  assumes "Store c s now e i = (s', r)" "raw_roundtrips (c_Raw c) (env_Plan e)" "cacheInv c i s"
  obtains (unchanged) "s' = s" "\<And>p. r = Inr p \<Longrightarrow> Load c s i = Inr p"
  | (written) p cm where "r = Inr p" "s' = s(cacheName i \<mapsto> cm)" "entryPlan c cm i = Some p"
      "mget (cm_Data cm) ''revision'' = fmt_d (p_Revision p)"
      "\<And>q. cachedPlan c i s = Some q \<Longrightarrow> p_Revision q < p_Revision p"
      "s (cacheName i) = None \<or> (\<exists>q. cachedPlan c i s = Some q)"
      "c_Api c (GetCM (cacheName i)) = None"
proof (cases "Load c s i")
  case (Inl x)
  show ?thesis
  proof (cases x)
    case CacheNotFound
    then have none: "c_Api c (GetCM (cacheName i)) = None" "s (cacheName i) = None"
      using Inl Load_NotFound_iff by auto
    then have cached: "cachedPlan c i s = None" by (simp add: cachedPlan_def)
    show ?thesis
      using assms(1) Inl CacheNotFound none cached entryPlan_stored [OF assms(2)]
      by (auto simp: Store_def Let_def getCM_def createCM_def
          split: sum.splits option.splits if_splits intro: unchanged written)
  next
    case (CacheError m)
    with assms(1) Inl show ?thesis by (auto simp: Store_def intro: unchanged)
  qed
next
  case (Inr q)
  then have api: "c_Api c (GetCM (cacheName i)) = None" and q: "cachedPlan c i s = Some q"
    by (simp_all add: Load_Inr_iff)
  then obtain cm where cm: "s (cacheName i) = Some cm" "entryPlan c cm i = Some q"
    by (auto simp: cachedPlan_def bind_eq_Some_conv)
  then have rev: "mget (cm_Data cm) ''revision'' = fmt_d (p_Revision q)" "1 \<le> p_Revision q"
    using assms(3) entryPlan_facts by (auto simp: cacheInv_def)
  show ?thesis
  proof (cases "Verify (c_Crypto c) (c_Json c) (c_PublicKey c) e (c_SiteUID c) i (p_Revision q)")
    case (Inl x)
    with assms(1) Inr show ?thesis by (auto simp: Store_def intro: unchanged)
  next
    case (Inr p)
    then have le: "p_Revision q \<le> p_Revision p" using pv.verify_identity by blast
    show ?thesis
    proof (cases "MarshalRaw (c_Raw c) (env_Plan e)")
      case (Inl x)
      with assms(1) Inr \<open>Load c s i = Inr q\<close> show ?thesis
        by (auto simp: Store_def intro: unchanged)
    next
      case j: (Inr j)
      note st = entryPlan_stored [OF assms(2) j Inr rev(2)]
      show ?thesis
      proof (cases "p_Revision q = p_Revision p")
        case True
        have same: "mget (cm_Data cm) ''site-plan.json'' = j \<Longrightarrow>
            mget (cm_Data cm) ''signature'' = env_Signature e \<Longrightarrow> q = p"
          using cm(2) st [of cm] by simp
        from True assms(1) Inr \<open>Load c s i = Inr q\<close> j api cm rev(1) same show ?thesis
          by (auto simp: Store_def Let_def getCM_def split: if_splits intro: unchanged)
      next
        case False
        then have "fmt_d (p_Revision q) \<noteq> fmt_d (p_Revision p)" using fmt_d_inj by blast
        with False le assms(1) Inr \<open>Load c s i = Inr q\<close> j api cm rev(1) st q show ?thesis
          by (auto simp: Store_def Let_def getCM_def updateCM_def
              split: option.splits if_splits intro: unchanged written)
      qed
    qed
  qed
qed

lemma cachedPlan_other:
  "cacheName j \<noteq> cacheName i \<Longrightarrow> cachedPlan c i (s(cacheName j \<mapsto> cm)) = cachedPlan c i s"
  by (simp add: cachedPlan_def)




lemma loadAll_error:
  assumes "i \<in> set is" "Load c s i = Inl e"
  shows "\<exists>e'. loadAll c s is = Inl e'"
  using assms(1)
proof (induction "is")
  case (Cons j js)
  with assms(2) show ?case
    by (cases "Load c s j"; cases "loadAll c s js") auto
qed simp

lemma loadAll_ok: "(\<And>i. i \<in> set is \<Longrightarrow> Load c s i = Inr (f i)) \<Longrightarrow> loadAll c s is = Inr (map f is)"
  by (induction "is") auto

lemma listedInstances_member:
  assumes "name \<in> set names" "s name = Some cm"
    and "mget (cm_Labels cm) ''app.kubernetes.io/managed-by'' = ''mspsql-agent''"
  shows "mget (cm_Labels cm) ''multisite-postgres.dev/instance-uid'' \<in> set (listedInstances s names)"
  using assms by (force simp: listedInstances_def)

section \<open>Sample values\<close>

definition plainRaw :: raw_api where
  "plainRaw = \<lparr>MarshalRaw = Inr, UnmarshalRaw = Inr, FormatTime = fmt_d, ParseTime = (\<lambda>s. Inl s)\<rparr>"

definition sampleCache :: Cache where
  "sampleCache = \<lparr>c_Crypto = plainCrypto, c_Json = sampleJson, c_Raw = plainRaw, c_Api = (\<lambda>c. None),
     c_PublicKey = edPublic plainCrypto sampleKey, c_SiteUID = ''site''\<rparr>"

definition sampleEnvelope :: Envelope where
  "sampleEnvelope = \<lparr>env_Plan = ''plan'', env_Signature = drop 32 sampleKey @ ''plan''\<rparr>"

lemma sampleKey_unfold: "drop 32 sampleKey = replicate 32 (CHR ''k'')"
  by (simp add: sampleKey_def)

lemma sample_Verify:
  "Verify plainCrypto sampleJson (edPublic plainCrypto sampleKey) sampleEnvelope ''site'' ''inst'' m =
     Inr p \<longleftrightarrow> p = wirePlan samplePlan \<and> m \<le> 3"
  by (auto simp: Verify_iff_valid authentic_def plainCrypto_def sampleJson_def sampleEnvelope_def
      sampleKey_def PublicKeySize_def samplePlan_def wirePlan_def)

definition sampleEntry :: ConfigMap where
  "sampleEntry = \<lparr>cm_Labels = [(''app.kubernetes.io/managed-by'', ''mspsql-agent''),
                               (''multisite-postgres.dev/instance-uid'', ''inst'')],
     cm_Data = cacheData sampleCache 7 (wirePlan samplePlan) ''plan'' (env_Signature sampleEnvelope)\<rparr>"

lemma sample_Store:
  "Store sampleCache Map.empty 7 sampleEnvelope ''inst'' =
     ([cacheName ''inst'' \<mapsto> sampleEntry], Inr (wirePlan samplePlan))"
proof -
  have V: "Verify plainCrypto sampleJson (edPublic plainCrypto sampleKey) sampleEnvelope ''site'' ''inst'' 1
      = Inr (wirePlan samplePlan)" by (simp add: sample_Verify)
  have L: "Load sampleCache Map.empty ''inst'' = Inl CacheNotFound"
    by (simp add: Load_NotFound_iff sampleCache_def)
  show ?thesis
    unfolding Store_def L
    by (simp add: V sampleCache_def plainRaw_def getCM_def createCM_def sampleEntry_def Let_def
        sampleEnvelope_def [THEN arg_cong [of _ _ env_Plan]])
qed

lemma sample_cacheInv: "cacheInv sampleCache ''inst'' Map.empty"
  by (simp add: cacheInv_def)

lemma sample_raw: "raw_roundtrips (c_Raw sampleCache) b"
  by (simp add: raw_roundtrips_def sampleCache_def plainRaw_def)

section \<open>Properties\<close>

text \<open>A plan that \<open>Store\<close> accepts is the one \<open>Load\<close> returns afterwards, is
  at least as new as the one cached before, replaces a cached plan of the same
  revision only by itself, keeps the cache well formed, and leaves every other
  ConfigMap alone. When \<open>Store\<close> fails, the cache is unchanged.\<close>

theorem Store_Load:
  assumes "cacheInv c i s" "raw_roundtrips (c_Raw c) (env_Plan e)" "Store c s now e i = (s', r)"
  shows "(\<forall>p. r = Inr p \<longrightarrow> Load c s' i = Inr p \<and>
            (\<forall>q. Load c s i = Inr q \<longrightarrow> newerPlan q p)) \<and>
         (\<forall>x. r = Inl x \<longrightarrow> s' = s) \<and> cacheInv c i s' \<and>
         (\<forall>name. name \<noteq> cacheName i \<longrightarrow> s' name = s name)"
  using assms(3,2,1)
proof (cases rule: Store_cases)
  case unchanged
  then show ?thesis using assms(1) by (auto simp: newerPlan_def)
next
  case (written p cm)
  then show ?thesis
    by (auto simp: Load_Inr_iff cacheInv_def newerPlan_def cachedPlan_def)
qed

theorem Store_Load_witness:
  "Load sampleCache [cacheName ''inst'' \<mapsto> sampleEntry] ''inst'' = Inr (wirePlan samplePlan)"
  using Store_Load [OF sample_cacheInv sample_raw sample_Store] by simp



end
