(* ===== verification/Directive_State.thy ===== *)
theory Directive_State
  imports Conditions Config_Maps
begin

text \<open>
  The agent's record of the directives it executes
  (\<open>internal/control/directive_state.go\<close>): one ConfigMap per operation, in the
  namespace of the plan cache. A retry after a write conflict runs the same
  attempt again, so \<open>upsert\<close> is one attempt and a retry another step. The hash,
  the JSON form of conditions and the textual form of times are parameters.
\<close>

section \<open>State and parameters\<close>

record state_api =
  hexSha256 :: "string \<Rightarrow> string"
  MarshalConditions :: "condition list \<Rightarrow> string + string"
  UnmarshalConditions :: "string \<Rightarrow> string + condition list"
  StampTime :: "time \<Rightarrow> string"

record DirectiveState =
  s_OperationUID :: string
  s_InstanceUID :: string
  s_Phase :: string
  s_Conditions :: "condition list"

definition directiveStateRunning :: string where "directiveStateRunning = ''Running''"
definition directiveStateSucceeded :: string where "directiveStateSucceeded = ''Succeeded''"
definition directiveStateFailed :: string where "directiveStateFailed = ''Failed''"

lemmas directiveState_defs =
  directiveStateRunning_def directiveStateSucceeded_def directiveStateFailed_def

section \<open>Operations\<close>

definition directiveStateName :: "state_api \<Rightarrow> string \<Rightarrow> string" where
  "directiveStateName A operationUID = ''mspsql-directive-'' @ take 24 (hexSha256 A operationUID)"

definition encodeDirectiveState :: "state_api \<Rightarrow> DirectiveState \<Rightarrow> time \<Rightarrow> string + smap" where
  "encodeDirectiveState A state now =
     (case MarshalConditions A (s_Conditions state) of
        Inl e \<Rightarrow> Inl (''encode directive conditions: '' @ e)
      | Inr conditions \<Rightarrow>
          Inr [(''operationUID'', s_OperationUID state), (''instanceUID'', s_InstanceUID state),
               (''phase'', s_Phase state), (''conditions.json'', conditions),
               (''updated-at'', StampTime A now)])"

definition decodeDirectiveState :: "state_api \<Rightarrow> smap \<Rightarrow> string + DirectiveState" where
  "decodeDirectiveState A data =
     (let state = \<lparr>s_OperationUID = mget data ''operationUID'',
                   s_InstanceUID = mget data ''instanceUID'',
                   s_Phase = mget data ''phase'', s_Conditions = []\<rparr> in
      if mget data ''conditions.json'' \<noteq> ''''
      then (case UnmarshalConditions A (mget data ''conditions.json'') of
              Inl e \<Rightarrow> Inl (''decode directive conditions: '' @ e)
            | Inr cs \<Rightarrow> Inr (state\<lparr>s_Conditions := cs\<rparr>))
      else Inr state)"

text \<open>\<open>Load\<close>: nothing recorded, or the recorded state.\<close>

definition LoadState ::
  "state_api \<Rightarrow> cmapi \<Rightarrow> cmstore \<Rightarrow> string \<Rightarrow> string + DirectiveState option" where
  "LoadState A api s operationUID =
     (case getCM api s (directiveStateName A operationUID) of
        NotFound \<Rightarrow> Inr None
      | ReadError e \<Rightarrow> Inl e
      | Found configMap \<Rightarrow>
          (case decodeDirectiveState A (cm_Data configMap) of
             Inl e \<Rightarrow> Inl e
           | Inr state \<Rightarrow> Inr (Some state)))"

definition upsert ::
  "state_api \<Rightarrow> cmapi \<Rightarrow> cmstore \<Rightarrow> time \<Rightarrow> DirectiveState \<Rightarrow> cmstore \<times> string option" where
  "upsert A api s now state =
     (case encodeDirectiveState A state now of
        Inl e \<Rightarrow> (s, Some e)
      | Inr data \<Rightarrow>
     (let name = directiveStateName A (s_OperationUID state) in
      case getCM api s name of
        ReadError e \<Rightarrow> (s, Some e)
      | NotFound \<Rightarrow>
          (case createCM api s name
                  \<lparr>cm_Labels = [(''app.kubernetes.io/managed-by'', ''mspsql-agent''),
                                (''multisite-postgres.dev/directive-state'', ''true''),
                                (''multisite-postgres.dev/instance-uid'', s_InstanceUID state)],
                   cm_Data = data\<rparr> of
             Inl e \<Rightarrow> (s, Some e)
           | Inr s' \<Rightarrow> (s', None))
      | Found configMap \<Rightarrow>
          if mget (cm_Data configMap) ''phase'' = directiveStateSucceeded \<or>
             mget (cm_Data configMap) ''phase'' = directiveStateFailed
          then (s, None)
          else
            (let labels =
               AList.update ''multisite-postgres.dev/instance-uid'' (s_InstanceUID state)
                 (AList.update ''multisite-postgres.dev/directive-state'' ''true''
                    (AList.update ''app.kubernetes.io/managed-by'' ''mspsql-agent''
                       (cm_Labels configMap))) in
             case updateCM api s name \<lparr>cm_Labels = labels, cm_Data = data\<rparr> of
               Inl e \<Rightarrow> (s, Some e)
             | Inr s' \<Rightarrow> (s', None))))"

definition MarkRunning ::
  "state_api \<Rightarrow> cmapi \<Rightarrow> cmstore \<Rightarrow> time \<Rightarrow> string \<Rightarrow> string \<Rightarrow> cmstore \<times> string option" where
  "MarkRunning A api s now operationUID instanceUID =
     upsert A api s now \<lparr>s_OperationUID = operationUID, s_InstanceUID = instanceUID,
                         s_Phase = directiveStateRunning, s_Conditions = []\<rparr>"

definition terminalPhase :: "condition list \<Rightarrow> string" where
  "terminalPhase conditions =
     (if \<exists>c \<in> set conditions. c_Type c = ''Succeeded'' \<and> c_Status c = ConditionFalse
      then directiveStateFailed else directiveStateSucceeded)"

definition MarkTerminal ::
  "state_api \<Rightarrow> cmapi \<Rightarrow> cmstore \<Rightarrow> time \<Rightarrow> string \<Rightarrow> string \<Rightarrow> condition list
     \<Rightarrow> cmstore \<times> string option" where
  "MarkTerminal A api s now operationUID instanceUID conditions =
     upsert A api s now \<lparr>s_OperationUID = operationUID, s_InstanceUID = instanceUID,
                         s_Phase = terminalPhase conditions, s_Conditions = conditions\<rparr>"

section \<open>Steps of the store\<close>

text \<open>Any attempt of either operation, for any operation identifier, served by
  any behaviour of the API server.\<close>

inductive stateStep :: "state_api \<Rightarrow> cmstore \<Rightarrow> cmstore \<Rightarrow> bool" for A where
  running: "MarkRunning A api s now operation inst = (s', r) \<Longrightarrow> stateStep A s s'"
| terminal: "MarkTerminal A api s now operation inst cs = (s', r) \<Longrightarrow> stateStep A s s'"

inductive_cases stateStepE: "stateStep A s s'"

text \<open>A recorded verdict.\<close>

definition isVerdict :: "ConfigMap \<Rightarrow> bool" where
  "isVerdict cm = (mget (cm_Data cm) ''phase'' \<in> {directiveStateSucceeded, directiveStateFailed})"

definition verdictKept :: "ConfigMap \<Rightarrow> ConfigMap \<Rightarrow> bool" where
  "verdictKept cm cm' = (isVerdict cm \<longrightarrow> cm' = cm)"

section \<open>Lemmas\<close>

lemma upsert_effect:
  assumes "upsert A api s now state = (s', r)"
  shows "s' = s \<or> (\<exists>cm. s' = s(directiveStateName A (s_OperationUID state) \<mapsto> cm) \<and>
            (\<forall>old. s (directiveStateName A (s_OperationUID state)) = Some old \<longrightarrow> \<not> isVerdict old))"
  using assms
  by (auto simp: upsert_def Let_def cm_calls isVerdict_def
      split: sum.splits read.splits if_splits)

lemma stateStep_effect:
  assumes "stateStep A s s'"
  shows "s' = s \<or> (\<exists>name cm. s' = s(name \<mapsto> cm) \<and> (\<forall>old. s name = Some old \<longrightarrow> \<not> isVerdict old))"
  using assms
  by (elim stateStepE) (auto simp: MarkRunning_def MarkTerminal_def dest!: upsert_effect)

interpretation vs: monotone_system "stateStep A" "\<lambda>s. True" "\<lambda>s. s name" verdictKept for A name
proof (unfold_locales, goal_cases)
  case (4 s s' v)
  from stateStep_effect [OF 4(2)] 4(3) show ?case
    by (auto simp: verdictKept_def split: if_splits)
qed (auto simp: verdictKept_def)

lemma upsert_decode:
  assumes "upsert A api s now state = (s', None)"
    and "\<And>cm. s (directiveStateName A (s_OperationUID state)) = Some cm \<Longrightarrow> \<not> isVerdict cm"
  obtains j cm where "MarshalConditions A (s_Conditions state) = Inr j"
    and "s' (directiveStateName A (s_OperationUID state)) = Some cm"
    and "cm_Data cm = [(''operationUID'', s_OperationUID state), (''instanceUID'', s_InstanceUID state),
               (''phase'', s_Phase state), (''conditions.json'', j), (''updated-at'', StampTime A now)]"
    and "api (GetCM (directiveStateName A (s_OperationUID state))) = None"
    and "mget (cm_Labels cm) ''app.kubernetes.io/managed-by'' = ''mspsql-agent''"
    and "mget (cm_Labels cm) ''multisite-postgres.dev/instance-uid'' = s_InstanceUID state"
  using assms
  by (auto simp: upsert_def encodeDirectiveState_def Let_def cm_calls isVerdict_def
      split: sum.splits read.splits if_splits)

section \<open>Sample values\<close>

definition sampleState :: state_api where
  "sampleState = \<lparr>hexSha256 = id, MarshalConditions = (\<lambda>cs. Inr (if cs = [] then ''null'' else ''cs'')),
     UnmarshalConditions = (\<lambda>j. Inr []), StampTime = fmt_d\<rparr>"

definition sampleFailed :: "condition list" where
  "sampleFailed = [\<lparr>c_Type = ''Succeeded'', c_Status = ConditionFalse, c_ObservedGeneration = 0,
                   c_Reason = ''ExecutionFailed'', c_Message = ''''\<rparr>]"

definition sampleVerdict :: "string \<Rightarrow> ConfigMap" where
  "sampleVerdict phase = \<lparr>cm_Labels = [], cm_Data = [(''phase'', phase)]\<rparr>"

section \<open>Properties\<close>

text \<open>C5: Once a directive has a recorded verdict, no sequence of attempts to
  mark it or any other directive running or finished changes that record,
  whatever the API server answers. A duplicate delivery of the directive can
  neither restart it nor turn its verdict around.\<close>

theorem verdict_is_final:
  assumes "(stateStep A)\<^sup>*\<^sup>* s s'" "s name = Some cm" "isVerdict cm"
  shows "s' name = Some cm"
  using vs.reach_le [OF assms(1) _ assms(2)] assms(3) by (auto simp: verdictKept_def)

theorem verdict_is_final_witness:
  "fst (MarkRunning sampleState (\<lambda>c. None)
          [directiveStateName sampleState ''op'' \<mapsto> sampleVerdict ''Failed''] 5 ''op'' ''inst'')
      (directiveStateName sampleState ''op'') = Some (sampleVerdict ''Failed'')"
proof -
  let ?s = "[directiveStateName sampleState ''op'' \<mapsto> sampleVerdict ''Failed'']"
  let ?n = "fst (MarkRunning sampleState (\<lambda>c. None) ?s 5 ''op'' ''inst'')"
  have "stateStep sampleState ?s ?n" by (rule running) (rule prod.collapse [symmetric])
  then have "(stateStep sampleState)\<^sup>*\<^sup>* ?s ?n" by blast
  then show ?thesis
    by (rule verdict_is_final) (simp_all add: isVerdict_def sampleVerdict_def directiveState_defs)
qed

text \<open>Marking a directive finished, when no verdict is recorded yet,
  records a verdict that reads back with the operation, the instance and the
  conditions given; it is \<open>Failed\<close> exactly when one of them is a \<open>Succeeded\<close>
  condition with status false.\<close>

theorem MarkTerminal_records:
  assumes "MarkTerminal A api s now operation inst cs = (s', None)"
    and "\<And>cm. s (directiveStateName A operation) = Some cm \<Longrightarrow> \<not> isVerdict cm"
    and "\<And>j. MarshalConditions A cs = Inr j \<Longrightarrow> j \<noteq> '''' \<and> UnmarshalConditions A j = Inr cs"
  shows "LoadState A api s' operation =
           Inr (Some \<lparr>s_OperationUID = operation, s_InstanceUID = inst,
              s_Phase = (if \<exists>c \<in> set cs. c_Type c = ''Succeeded'' \<and> c_Status c = ConditionFalse
                         then ''Failed'' else ''Succeeded''), s_Conditions = cs\<rparr>)"
proof -
  let ?st = "\<lparr>s_OperationUID = operation, s_InstanceUID = inst, s_Phase = terminalPhase cs, s_Conditions = cs\<rparr>"
  have up: "upsert A api s now ?st = (s', None)" using assms(1) by (simp add: MarkTerminal_def)
  obtain j cm where j: "MarshalConditions A cs = Inr j"
    and cm: "s' (directiveStateName A operation) = Some cm"
      "cm_Data cm = [(''operationUID'', operation), (''instanceUID'', inst),
               (''phase'', terminalPhase cs), (''conditions.json'', j), (''updated-at'', StampTime A now)]"
      "api (GetCM (directiveStateName A operation)) = None"
    by (rule upsert_decode [OF up]) (use assms(2) in \<open>auto intro: that\<close>)
  have "j \<noteq> '''' \<and> UnmarshalConditions A j = Inr cs" using assms(3) [OF j] .
  with cm show ?thesis
    by (simp add: LoadState_def getCM_def decodeDirectiveState_def Let_def terminalPhase_def
        directiveState_defs)
qed

theorem MarkTerminal_records_witness:
  "\<exists>s'. MarkTerminal sampleState (\<lambda>c. None) Map.empty 5 ''op'' ''inst'' [] = (s', None) \<and>
        LoadState sampleState (\<lambda>c. None) s' ''op'' =
          Inr (Some \<lparr>s_OperationUID = ''op'', s_InstanceUID = ''inst'', s_Phase = ''Succeeded'', s_Conditions = []\<rparr>)"
proof -
  obtain s' where s': "MarkTerminal sampleState (\<lambda>c. None) Map.empty 5 ''op'' ''inst'' [] = (s', None)"
    by (simp add: MarkTerminal_def upsert_def encodeDirectiveState_def sampleState_def getCM_def createCM_def)
  from MarkTerminal_records [OF s'] have
    "LoadState sampleState (\<lambda>c. None) s' ''op'' =
       Inr (Some \<lparr>s_OperationUID = ''op'', s_InstanceUID = ''inst'', s_Phase = ''Succeeded'', s_Conditions = []\<rparr>)"
    by (simp add: sampleState_def)
  with s' show ?thesis by blast
qed

end
