(* ===== verification/Members.thy ===== *)
theory Members
  imports Plan
begin

text \<open>
  Helpers that several controllers of the hub share: the annotations through
  which the upgrade and restore controllers steer an instance, the names of an
  instance's members, member lists as they are written in annotations, decimal
  numbers, and lookups in the status of an instance.
\<close>

section \<open>Annotations\<close>

definition upgradeUIDAnnotation :: string where
  "upgradeUIDAnnotation = ''multisite-postgres.dev/upgrade-uid''"
definition upgradeNameAnnotation :: string where
  "upgradeNameAnnotation = ''multisite-postgres.dev/upgrade-name''"
definition upgradePhaseAnnotation :: string where
  "upgradePhaseAnnotation = ''multisite-postgres.dev/upgrade-phase''"
definition upgradeMemberAnnotation :: string where
  "upgradeMemberAnnotation = ''multisite-postgres.dev/upgrade-member''"
definition upgradeMembersAnnotation :: string where
  "upgradeMembersAnnotation = ''multisite-postgres.dev/upgraded-members''"
definition upgradeFromAnnotation :: string where
  "upgradeFromAnnotation = ''multisite-postgres.dev/upgrade-from-primary''"
definition upgradeCandidateAnnotation :: string where
  "upgradeCandidateAnnotation = ''multisite-postgres.dev/upgrade-candidate''"
definition upgradeSwitchedAnnotation :: string where
  "upgradeSwitchedAnnotation = ''multisite-postgres.dev/upgrade-switched''"
definition upgradeRevisionAnnotation :: string where
  "upgradeRevisionAnnotation = ''multisite-postgres.dev/upgrade-expected-revision''"
definition upgradeSourceMajorAnnotation :: string where
  "upgradeSourceMajorAnnotation = ''multisite-postgres.dev/upgrade-source-major''"
definition restoreUIDAnnotation :: string where
  "restoreUIDAnnotation = ''multisite-postgres.dev/restore-uid''"
definition restoreNameAnnotation :: string where
  "restoreNameAnnotation = ''multisite-postgres.dev/restore-name''"
definition restoreSourceUIDAnnotation :: string where
  "restoreSourceUIDAnnotation = ''multisite-postgres.dev/restore-source-uid''"
definition restorePhaseAnnotation :: string where
  "restorePhaseAnnotation = ''multisite-postgres.dev/restore-phase''"
definition restoreDrillAnnotation :: string where
  "restoreDrillAnnotation = ''multisite-postgres.dev/restore-drill''"
definition forceAbandonAnnotation :: string where
  "forceAbandonAnnotation = ''multisite-postgres.dev/force-abandon''"
definition forceOrphanAnnotation :: string where
  "forceOrphanAnnotation = ''multisite-postgres.dev/force-orphan''"

lemmas annotation_defs = upgradeUIDAnnotation_def upgradeNameAnnotation_def
  upgradePhaseAnnotation_def upgradeMemberAnnotation_def upgradeMembersAnnotation_def
  upgradeFromAnnotation_def upgradeCandidateAnnotation_def upgradeSwitchedAnnotation_def
  upgradeRevisionAnnotation_def upgradeSourceMajorAnnotation_def restoreUIDAnnotation_def
  restoreNameAnnotation_def restoreSourceUIDAnnotation_def restorePhaseAnnotation_def
  restoreDrillAnnotation_def forceAbandonAnnotation_def forceOrphanAnnotation_def

definition instanceFinalizer :: string where
  "instanceFinalizer = ''multisite-postgres.dev/instance-protection''"
definition childFinalizer :: string where
  "childFinalizer = ''multisite-postgres.dev/declaration-protection''"
definition operationFinalizer :: string where
  "operationFinalizer = ''multisite-postgres.dev/operation-protection''"
definition siteFinalizer :: string where
  "siteFinalizer = ''multisite-postgres.dev/site-protection''"

abbreviation annotation :: "MultiSitePostgres \<Rightarrow> string \<Rightarrow> string" where
  "annotation inst key \<equiv> mget (om_Annotations (i_Meta inst)) key"

section \<open>Decimal numbers\<close>

text \<open>\<open>strconv.ParseInt(s, 10, bits)\<close>: an optional sign and decimal digits, in
  the range of the width.\<close>

fun parseDigits :: "nat \<Rightarrow> string \<Rightarrow> nat option" where
  "parseDigits acc [] = Some acc"
| "parseDigits acc (c # cs) =
     (let n = of_char c :: nat in
      if 48 \<le> n \<and> n \<le> 57 then parseDigits (10 * acc + (n - 48)) cs else None)"

definition parseInt :: "nat \<Rightarrow> string \<Rightarrow> int option" where
  "parseInt bits s =
     (let (neg, digits) = (case s of
            c # cs \<Rightarrow> if c = CHR ''-'' then (True, cs) else if c = CHR ''+'' then (False, cs) else (False, s)
          | [] \<Rightarrow> (False, [])) in
      if digits = [] then None
      else (case parseDigits 0 digits of
              None \<Rightarrow> None
            | Some n \<Rightarrow>
                (let v = (if neg then - int n else int n) in
                 if - (2 ^ (bits - 1)) \<le> v \<and> v < 2 ^ (bits - 1) then Some v else None)))"

section \<open>Member names\<close>

definition postgresMember :: "string \<Rightarrow> int \<Rightarrow> string" where
  "postgresMember site ordinal = ''postgres-'' @ site @ ''-'' @ fmt_d ordinal"

definition etcdMember :: "string \<Rightarrow> int \<Rightarrow> string" where
  "etcdMember site ordinal = ''etcd-'' @ site @ ''-'' @ fmt_d ordinal"

definition postgresMembers :: "PostgresSiteSpec list \<Rightarrow> string list" where
  "postgresMembers sites =
     sort (concat (map (\<lambda>site.
       map (postgresMember (ps_Name site)) [0 .. PostgresReplicas (ps_Components site) - 1]) sites))"

definition expectedAddressMembers :: "PostgresSiteSpec list \<Rightarrow> string list" where
  "expectedAddressMembers sites =
     sort (concat (map (\<lambda>site.
       map (etcdMember (ps_Name site)) [0 .. EtcdReplicas (ps_Components site) - 1] @
       map (postgresMember (ps_Name site)) [0 .. PostgresReplicas (ps_Components site) - 1] @
       (if PgpoolReplicas (ps_Components site) > 0 then [''pgpool-'' @ ps_Name site] else [])) sites))"

definition splitMembers :: "string \<Rightarrow> string list" where
  "splitMembers value =
     (if value = '''' then [] else remdups_adj (sort (splitChar (CHR '','') value)))"

definition appendUnique :: "string list \<Rightarrow> string \<Rightarrow> string list" where
  "appendUnique members member =
     sort (if member \<in> set members then members else members @ [member])"

definition memberOfSite :: "string \<Rightarrow> string \<Rightarrow> bool" where
  "memberOfSite member site = hasPrefix member (''postgres-'' @ site @ ''-'')"

section \<open>Lookups\<close>

fun statusCondition :: "condition list \<Rightarrow> string \<Rightarrow> condition option" where
  "statusCondition [] conditionType = None"
| "statusCondition (c # cs) conditionType =
     (if c_Type c = conditionType then Some c else statusCondition cs conditionType)"

fun roleIn :: "PostgresSiteSpec list \<Rightarrow> string \<Rightarrow> SiteRole option" where
  "roleIn [] name = None"
| "roleIn (site # sites) name = (if ps_Name site = name then Some (ps_Role site) else roleIn sites name)"

definition siteRoleForName :: "MultiSitePostgres \<Rightarrow> string \<Rightarrow> SiteRole option" where
  "siteRoleForName inst name = roleIn (is_Sites (i_Spec inst)) name"

definition zeroSiteStatus :: SiteRevisionStatus where
  "zeroSiteStatus = \<lparr>st_Name = '''', st_SiteRegistrationRef = '''', st_DesiredRevision = 0,
     st_AcknowledgedRevision = 0, st_AppliedRevision = 0, st_Phase = '''', st_Addresses = [],
     st_Primary = '''', st_SynchronousStandbys = [], st_TopologyObservedAt = None,
     st_LastHeartbeatTime = None, st_Conditions = []\<rparr>"

fun previousSiteStatus :: "SiteRevisionStatus list \<Rightarrow> string \<Rightarrow> SiteRevisionStatus" where
  "previousSiteStatus [] name = zeroSiteStatus"
| "previousSiteStatus (s # ss) name = (if st_Name s = name then s else previousSiteStatus ss name)"

definition allSitesApplied :: "SiteRevisionStatus list \<Rightarrow> int \<Rightarrow> bool" where
  "allSitesApplied statuses revision =
     (statuses \<noteq> [] \<and> (\<forall>s \<in> set statuses. st_AppliedRevision s = revision))"

definition addressesComplete :: "smap \<Rightarrow> string list \<Rightarrow> bool" where
  "addressesComplete addresses expected =
     (expected \<noteq> [] \<and> (\<forall>member \<in> set expected. mget addresses member \<noteq> ''''))"

text \<open>Whether an operation has ended.\<close>

definition upgradeTerminal :: "PostgresUpgrade \<Rightarrow> bool" where
  "upgradeTerminal up = (gt_Phase (g_Status up) = ''Completed'' \<or> gt_Phase (g_Status up) = ''Failed'')"

definition restoreTerminal :: "PostgresRestore \<Rightarrow> bool" where
  "restoreTerminal restore = (et_Phase (e_Status restore) = ''Completed'' \<or> et_Phase (e_Status restore) = ''Failed'')"

text \<open>\<open>maps.Copy(dst, src)\<close>.\<close>

definition mapsCopy :: "smap \<Rightarrow> smap \<Rightarrow> smap" where
  "mapsCopy dst src = fold (\<lambda>(k, v) m. AList.update k v m) src dst"

section \<open>Lemmas\<close>

lemma annotations_distinct:
  "distinct [upgradeUIDAnnotation, upgradeNameAnnotation, upgradePhaseAnnotation,
     upgradeMemberAnnotation, upgradeMembersAnnotation, upgradeFromAnnotation,
     upgradeCandidateAnnotation, upgradeSwitchedAnnotation, upgradeRevisionAnnotation,
     upgradeSourceMajorAnnotation, restoreUIDAnnotation, restoreNameAnnotation,
     restoreSourceUIDAnnotation, restorePhaseAnnotation, restoreDrillAnnotation,
     forceAbandonAnnotation, forceOrphanAnnotation]"
  by (simp add: annotation_defs)

lemmas annotation_neq =
  annotations_distinct [unfolded distinct.simps list.set insert_iff empty_iff de_Morgan_disj simp_thms]

lemma annotations_distinct_rev:
  "distinct [forceOrphanAnnotation, forceAbandonAnnotation, restoreDrillAnnotation,
     restorePhaseAnnotation, restoreSourceUIDAnnotation, restoreNameAnnotation, restoreUIDAnnotation,
     upgradeSourceMajorAnnotation, upgradeRevisionAnnotation, upgradeSwitchedAnnotation,
     upgradeCandidateAnnotation, upgradeFromAnnotation, upgradeMembersAnnotation,
     upgradeMemberAnnotation, upgradePhaseAnnotation, upgradeNameAnnotation, upgradeUIDAnnotation]"
  by (simp add: annotation_defs)

lemmas annotation_neqs = annotation_neq
  annotations_distinct_rev [unfolded distinct.simps list.set insert_iff empty_iff de_Morgan_disj simp_thms]

lemma finalizers_distinct [simp]:
  "instanceFinalizer \<noteq> childFinalizer" "instanceFinalizer \<noteq> operationFinalizer"
  "instanceFinalizer \<noteq> siteFinalizer" "childFinalizer \<noteq> operationFinalizer"
  "childFinalizer \<noteq> siteFinalizer" "operationFinalizer \<noteq> siteFinalizer"
  by (simp_all add: instanceFinalizer_def childFinalizer_def operationFinalizer_def siteFinalizer_def)

lemma parseDigits_append:
  "parseDigits acc (xs @ ys) = Option.bind (parseDigits acc xs) (\<lambda>a. parseDigits a ys)"
  by (induction xs arbitrary: acc) (auto simp: Let_def)

lemma parseDigits_digit: "d < 10 \<Longrightarrow> parseDigits acc [char_of (48 + d)] = Some (10 * acc + d)"
  by (simp add: Let_def)

lemma parseDigits_nat_digits: "parseDigits 0 (nat_digits n) = Some n"
proof (induction n rule: nat_digits.induct)
  case (1 n)
  show ?case
  proof (cases "n < 10")
    case True
    then show ?thesis
      using parseDigits_digit [of n 0] by (simp add: nat_digits.simps [of n])
  next
    case False
    with 1 parseDigits_digit [of "n mod 10" "n div 10"] show ?thesis
      by (simp add: nat_digits.simps [of n] parseDigits_append)
  qed
qed

lemma hd_nat_digits: "nat_digits n = c # cs \<Longrightarrow> c \<noteq> CHR ''-'' \<and> c \<noteq> CHR ''+''"
proof -
  assume eq: "nat_digits n = c # cs"
  then obtain d :: nat where d: "d < 10" "c = char_of (48 + d)"
    using nat_digits_digit [of c n] by auto
  then have "of_char c = 48 + d" by simp
  with d(1) show ?thesis by (auto simp del: of_char_of)
qed

text \<open>A number the hub writes is read back.\<close>

lemma parseInt_fmt_d:
  assumes "- (2 ^ (bits - 1)) \<le> i" "i < 2 ^ (bits - 1)"
  shows "parseInt bits (fmt_d i) = Some i"
proof (cases "i < 0")
  case True
  then show ?thesis
    using assms by (simp add: parseInt_def fmt_d_def parseDigits_nat_digits)
next
  case False
  obtain c cs where c: "nat_digits (nat i) = c # cs" by (metis nat_digits_nonempty neq_Nil_conv)
  with hd_nat_digits have "c \<noteq> CHR ''-''" "c \<noteq> CHR ''+''" by blast+
  with False c assms parseDigits_nat_digits [of "nat i"] show ?thesis
    by (simp add: parseInt_def fmt_d_def)
qed

lemma set_expected_mono: "set (postgresMembers sites) \<subseteq> set (expectedAddressMembers sites)"
  by (auto simp: postgresMembers_def expectedAddressMembers_def)

lemma sorted_appendUnique: "sorted (appendUnique ms m)"
  by (simp add: appendUnique_def)

lemma set_appendUnique [simp]: "set (appendUnique ms m) = insert m (set ms)"
  by (auto simp: appendUnique_def)

lemma distinct_appendUnique: "distinct ms \<Longrightarrow> distinct (appendUnique ms m)"
  by (simp add: appendUnique_def)

lemma statusCondition_member:
  "statusCondition cs t = Some c \<Longrightarrow> c \<in> set cs \<and> c_Type c = t"
  by (induction cs) (auto split: if_splits)

lemma previousSiteStatus_cases:
  "(previousSiteStatus ss name \<in> set ss \<and> st_Name (previousSiteStatus ss name) = name) \<or>
   (previousSiteStatus ss name = zeroSiteStatus \<and> name \<notin> st_Name ` set ss)"
  by (induction ss) auto

lemma allSitesApplied_unique:
  "allSitesApplied ss r \<Longrightarrow> allSitesApplied ss r' \<Longrightarrow> r = r'"
  by (cases ss) (auto simp: allSitesApplied_def)

lemma mapsCopy_Nil [simp]: "mapsCopy dst [] = dst"
  by (simp add: mapsCopy_def)

lemma mapsCopy_Cons [simp]: "mapsCopy dst ((k, v) # src) = mapsCopy (AList.update k v dst) src"
  by (simp add: mapsCopy_def)

lemma mget_mapsCopy_other: "k \<notin> fst ` set src \<Longrightarrow> mget (mapsCopy dst src) k = mget dst k"
  by (induction src arbitrary: dst) auto

lemma memberOfSite_postgresMember: "memberOfSite (postgresMember site n) site"
  using hasPrefix_append [of "''postgres-'' @ site @ ''-''" "fmt_d n"]
  by (simp add: memberOfSite_def postgresMember_def)

end
