(* ===== verification/Hub_Api.thy ===== *)
theory Hub_Api
  imports Members Config_Maps
begin

text \<open>
  How the hub's controllers see the Kubernetes API. A reconciliation is a
  function of what it reads (\<open>hub_reads\<close>, the objects of one namespace by name,
  and lists of them) that makes a sequence of writing calls (\<open>hub_call\<close>) until
  one fails. The API server, the clock, the condition library and the text
  encodings are the fields of the parameter \<open>hub_env\<close>.
\<close>

section \<open>Calls and reads\<close>

text \<open>The controller reference a created object carries. A ConfigMap may also be created
  without one (\<open>CreateOrphanConfigMap\<close>) or lose it on an update (\<open>OrphanConfigMap\<close>).\<close>

record owner_ref =
  ow_Kind :: string
  ow_Name :: string
  ow_UID :: string

datatype hub_call =
    UpdateInstance MultiSitePostgres
  | PatchInstance MultiSitePostgres
  | StatusInstance MultiSitePostgres
  | CreateInstance MultiSitePostgres
  | DeleteInstance MultiSitePostgres
  | PublishEvent condition
  | UpdateDatabase PostgresDatabase
  | StatusDatabase PostgresDatabase
  | UpdateUser PostgresUser
  | StatusUser PostgresUser
  | UpdateRestore PostgresRestore
  | StatusRestore PostgresRestore
  | UpdateUpgrade PostgresUpgrade
  | StatusUpgrade PostgresUpgrade
  | UpdateSite SiteRegistration
  | StatusSite SiteRegistration
  | CreateConfigMap string ConfigMap owner_ref
  | CreateOrphanConfigMap string ConfigMap
  | UpdateConfigMap string ConfigMap
  | OrphanConfigMap string ConfigMap
  | DeleteConfigMap string
  | CreateSecret string smap
  | DeleteSecret string
  | RevokePeer string
  | EnsureHubIdentity
  | RenderPeers
  | EnsureSigningKey

record hub_reads =
  rd_instance :: "string \<Rightarrow> MultiSitePostgres read"
  rd_database :: "string \<Rightarrow> PostgresDatabase read"
  rd_user :: "string \<Rightarrow> PostgresUser read"
  rd_upgrade :: "string \<Rightarrow> PostgresUpgrade read"
  rd_restore :: "string \<Rightarrow> PostgresRestore read"
  rd_registration :: "string \<Rightarrow> SiteRegistration read"
  rd_configMap :: "string \<Rightarrow> ConfigMap read"
  rd_instances :: "string + MultiSitePostgres list"
  rd_databases :: "string + PostgresDatabase list"
  rd_users :: "string + PostgresUser list"
  rd_upgrades :: "string + PostgresUpgrade list"
  rd_restores :: "string + PostgresRestore list"

record hub_env =
  he_K :: condition_api
  he_Api :: "hub_call \<Rightarrow> string option"
  he_Reads :: hub_reads
  he_Now :: time
  he_BackupSpec :: "string \<Rightarrow> time \<Rightarrow> string + string"
  he_DatabaseSpec :: "PostgresDatabaseSpec \<Rightarrow> string + string"
  he_UserSpec :: "PostgresUserSpec \<Rightarrow> string + string"
  he_FormatDuration :: "duration \<Rightarrow> string"

type_synonym 'r reconciliation = "(hub_call, 'r) outcome"

text \<open>Make a call and go on, or stop with its error.\<close>

abbreviation perform :: "hub_env \<Rightarrow> hub_call \<Rightarrow> 'r reconciliation \<Rightarrow> 'r reconciliation" where
  "perform E c k \<equiv> call (he_Api E) c k"

text \<open>Make a call whose error is ignored.\<close>

definition performIgnore :: "hub_env \<Rightarrow> hub_call \<Rightarrow> 'r reconciliation \<Rightarrow> 'r reconciliation" where
  "performIgnore E c k = (case he_Api E c of Some e \<Rightarrow> k | None \<Rightarrow> (c # fst k, snd k))"

section \<open>Lemmas\<close>

lemma in_trace_performIgnore: "x \<in> set (trace (performIgnore E c k)) \<Longrightarrow> x = c \<or> x \<in> set (trace k)"
  by (auto simp: performIgnore_def split: option.splits)

lemma in_trace_ite: "x \<in> set (trace (if b then p else q)) \<longleftrightarrow> (if b then x \<in> set (trace p) else x \<in> set (trace q))"
  by simp

lemmas trace_dests = in_trace_call in_trace_performIgnore

section \<open>Sample values\<close>

definition sampleReads :: hub_reads where
  "sampleReads = \<lparr>rd_instance = (\<lambda>n. NotFound), rd_database = (\<lambda>n. NotFound), rd_user = (\<lambda>n. NotFound),
     rd_upgrade = (\<lambda>n. NotFound), rd_restore = (\<lambda>n. NotFound), rd_registration = (\<lambda>n. NotFound),
     rd_configMap = (\<lambda>n. NotFound), rd_instances = Inr [], rd_databases = Inr [], rd_users = Inr [],
     rd_upgrades = Inr [], rd_restores = Inr []\<rparr>"

definition sampleEnv :: hub_env where
  "sampleEnv = \<lparr>he_K = listConditions, he_Api = (\<lambda>c. None), he_Reads = sampleReads, he_Now = 0,
     he_BackupSpec = (\<lambda>t at. Inr t), he_DatabaseSpec = (\<lambda>s. Inr ''database''),
     he_UserSpec = (\<lambda>s. Inr ''user''), he_FormatDuration = fmt_d\<rparr>"

end
