(* ===== verification/Topology.thy ===== *)
theory Topology
  imports Hub_Api
begin

text \<open>
  The parts of \<open>internal/controller/multisitepostgres_controller.go\<close> that turn
  the reports of the sites into the status and the address plan of an
  instance: consensus on the primary, the merge of a reconciled status into
  the stored one, and the migration of member addresses one at a time.
\<close>

section \<open>Consensus on the topology\<close>

abbreviation updStatus :: "(MultiSitePostgresStatus \<Rightarrow> MultiSitePostgresStatus) \<Rightarrow> MultiSitePostgres
    \<Rightarrow> MultiSitePostgres" where
  "updStatus f inst \<equiv> inst\<lparr>i_Status := f (i_Status inst)\<rparr>"

definition setInstanceCond ::
  "condition_api \<Rightarrow> string \<Rightarrow> ConditionStatus \<Rightarrow> string \<Rightarrow> string \<Rightarrow> MultiSitePostgres
     \<Rightarrow> MultiSitePostgres" where
  "setInstanceCond K t status reason message inst =
     updStatus (it_Conditions_update (\<lambda>cs.
       setCondition K cs (om_Generation (i_Meta inst)) t status reason message)) inst"

definition setSynchronousReplicationCondition ::
  "condition_api \<Rightarrow> MultiSitePostgres \<Rightarrow> MultiSitePostgres" where
  "setSynchronousReplicationCondition K inst =
     (let required = pg_SynchronousStandbyCount (is_Postgres (i_Spec inst));
          observed = int (length (it_SynchronousStandbys (i_Status inst))) in
      if observed < required
      then setInstanceCond K ''SynchronousReplicationReady'' ConditionFalse ''StandbysPending''
             fixedText inst
      else setInstanceCond K ''SynchronousReplicationReady'' ConditionTrue ''RequiredStandbysReady''
             fixedText inst)"

text \<open>The result of every branch: the primary and the standbys, the
  \<open>TopologyReady\<close> condition, then the replication condition.\<close>

definition setTopology ::
  "condition_api \<Rightarrow> string \<Rightarrow> string list \<Rightarrow> ConditionStatus \<Rightarrow> string \<Rightarrow> MultiSitePostgres
     \<Rightarrow> MultiSitePostgres" where
  "setTopology K primary standbys status reason inst =
     setSynchronousReplicationCondition K
       (setInstanceCond K ''TopologyReady'' status reason fixedText
          (updStatus (\<lambda>st. st\<lparr>it_Primary := primary, it_SynchronousStandbys := standbys\<rparr>) inst))"

definition stoppedPhase :: "string \<Rightarrow> bool" where
  "stoppedPhase phase =
     (phase \<in> set (map majorPhaseName
        [MajorUpgradePhaseStop, MajorUpgradePhaseSnapshot, MajorUpgradePhaseUpgradePrimary,
         MajorUpgradePhaseStanzaUpgrade, MajorUpgradePhaseRollback]))"

definition seedRestore :: "MultiSitePostgres \<Rightarrow> bool" where
  "seedRestore inst = (annotation inst restorePhaseAnnotation = restorePhaseName RestorePhaseSeed)"

definition majorPrimaryOnly :: "MultiSitePostgres \<Rightarrow> bool" where
  "majorPrimaryOnly inst =
     (annotation inst upgradePhaseAnnotation = majorPhaseName MajorUpgradePhaseStartPrimary)"

definition expectedObservers :: "MultiSitePostgres \<Rightarrow> nat" where
  "expectedObservers inst =
     (if seedRestore inst \<or> majorPrimaryOnly inst then 1
      else length (filter (\<lambda>site. ps_Role site = SiteRoleData) (is_Sites (i_Spec inst))))"

definition currentObservations :: "MultiSitePostgres \<Rightarrow> time \<Rightarrow> SiteRevisionStatus list" where
  "currentObservations inst now =
     filter (\<lambda>site.
       \<not> (majorPrimaryOnly inst \<and>
          \<not> memberOfSite (annotation inst upgradeFromAnnotation) (st_Name site)) \<and>
       \<not> (st_Primary site = '''' \<or>
          (case st_TopologyObservedAt site of
             None \<Rightarrow> True
           | Some observedAt \<Rightarrow> now - observedAt > 2 * minute)))
       (it_Sites (i_Status inst))"

definition aggregateTopology :: "condition_api \<Rightarrow> MultiSitePostgres \<Rightarrow> time \<Rightarrow> MultiSitePostgres" where
  "aggregateTopology K inst now =
     (if stoppedPhase (annotation inst upgradePhaseAnnotation)
      then setTopology K '''' [] ConditionFalse ''PostgreSQLStopped'' inst
      else
        (let dataSites = expectedObservers inst;
             observed = currentObservations inst now;
             primaries = remdups (map st_Primary observed);
             reported = concat (map st_SynchronousStandbys observed);
             standbys = sort (filter (\<lambda>m. count_list reported m = dataSites) (remdups reported)) in
         if length observed \<noteq> dataSites
         then setTopology K '''' [] ConditionFalse ''InsufficientObservations'' inst
         else if length primaries \<noteq> 1
         then setTopology K '''' [] ConditionFalse ''ConflictingObservations'' inst
         else setTopology K (hd primaries) standbys ConditionTrue ''ObserverConsensus'' inst))"

section \<open>Merging a reconciled status\<close>

definition conditionTransitions ::
  "condition_api \<Rightarrow> condition list \<Rightarrow> condition list \<Rightarrow> condition list" where
  "conditionTransitions K current desired =
     filter (\<lambda>c. case FindStatusCondition K current (c_Type c) of
                   None \<Rightarrow> True
                 | Some previous \<Rightarrow> c_Status previous \<noteq> c_Status c \<or> c_Reason previous \<noteq> c_Reason c)
       desired"

text \<open>The body of the loop, then the loop.\<close>

definition mergeReconciledSite ::
  "SiteRevisionStatus list \<Rightarrow> SiteRevisionStatus \<Rightarrow> SiteRevisionStatus" where
  "mergeReconciledSite current wanted =
     (let found = previousSiteStatus current (st_Name wanted);
          observed = (if st_Name found = '''' then wanted else found);
          observed = observed\<lparr>st_Name := st_Name wanted,
                              st_SiteRegistrationRef := st_SiteRegistrationRef wanted,
                              st_DesiredRevision := st_DesiredRevision wanted\<rparr> in
      if st_Phase wanted = ''DeletionPlanIssued'' \<and> st_Phase observed \<noteq> ''Deleted''
      then observed\<lparr>st_Phase := st_Phase wanted\<rparr> else observed)"

definition mergeReconciledSites ::
  "SiteRevisionStatus list \<Rightarrow> SiteRevisionStatus list \<Rightarrow> SiteRevisionStatus list" where
  "mergeReconciledSites current desired = map (mergeReconciledSite current) desired"

definition mergeReconciledStatus ::
  "condition_api \<Rightarrow> MultiSitePostgresStatus \<Rightarrow> MultiSitePostgresStatus \<Rightarrow> MultiSitePostgresStatus" where
  "mergeReconciledStatus K current desired =
     current\<lparr>
       it_ObservedGeneration := it_ObservedGeneration desired,
       it_ActiveRevision := (if it_ActiveRevision desired > it_ActiveRevision current
                             then it_ActiveRevision desired else it_ActiveRevision current),
       it_PlanFingerprint := it_PlanFingerprint desired,
       it_Phase := it_Phase desired,
       it_Primary := it_Primary desired,
       it_SynchronousStandbys := it_SynchronousStandbys desired,
       it_Operation := (if it_Operation desired \<noteq> None then it_Operation desired
                        else it_Operation current),
       it_BackupSchedules := it_BackupSchedules desired,
       it_Conditions := fold (\<lambda>c cs. SetStatusCondition K cs c) (it_Conditions desired)
                          (it_Conditions current),
       it_Sites := mergeReconciledSites (it_Sites current) (it_Sites desired)\<rparr>"

text \<open>The status update of a reconciliation: the stored object is read again,
  merged and written; the condition changes are published as events when the
  write succeeded. A retry after a conflict runs the same function on a newer
  read.\<close>

definition updateInstanceStatus ::
  "hub_env \<Rightarrow> MultiSitePostgres read \<Rightarrow> MultiSitePostgres \<Rightarrow> unit reconciliation" where
  "updateInstanceStatus E stored inst =
     (case stored of
        NotFound \<Rightarrow> failWith ''NotFound''
      | ReadError e \<Rightarrow> failWith e
      | Found current \<Rightarrow>
          (let desired = i_Status inst;
               transitions = conditionTransitions (he_K E) (it_Conditions (i_Status current))
                               (it_Conditions desired) in
           perform E (StatusInstance
                      (updStatus (\<lambda>st. mergeReconciledStatus (he_K E) st desired) current))
             (map PublishEvent transitions, Inr ())))"

section \<open>Address migration\<close>

text \<open>The plan the hub last issued for the first site. No plan (no site, or no
  plan ConfigMap) is \<open>None\<close>, Go's zero \<open>SitePlan\<close>.\<close>

record envelope_api =
  UnmarshalEnvelope :: "string \<Rightarrow> string + Envelope"

definition activeSitePlan ::
  "json_api \<Rightarrow> envelope_api \<Rightarrow> (string \<Rightarrow> smap read) \<Rightarrow> MultiSitePostgres
     \<Rightarrow> string + SitePlan option" where
  "activeSitePlan J E getConfigMapData inst =
     (case is_Sites (i_Spec inst) of
        [] \<Rightarrow> Inr None
      | site # _ \<Rightarrow>
          (case getConfigMapData (''mspsql-plan-'' @ om_Name (i_Meta inst) @ ''-'' @ ps_Name site) of
             NotFound \<Rightarrow> Inr None
           | ReadError e \<Rightarrow> Inl e
           | Found data \<Rightarrow>
               (case UnmarshalEnvelope E (mget data ''envelope.json'') of
                  Inl e \<Rightarrow> Inl (''decode active site plan envelope: '' @ e)
                | Inr envelope \<Rightarrow>
                    (case UnmarshalPlan J (env_Plan envelope) of
                       Inl e \<Rightarrow> Inl (''decode active site plan: '' @ e)
                     | Inr desired \<Rightarrow> Inr (Some desired)))))"

definition activeAddresses :: "SitePlan option \<Rightarrow> smap" where
  "activeAddresses active = (case active of None \<Rightarrow> [] | Some p \<Rightarrow> p_MemberAddresses p)"

definition observedAddresses :: "MultiSitePostgres \<Rightarrow> smap" where
  "observedAddresses inst = fold (\<lambda>site m. mapsCopy m (st_Addresses site)) (it_Sites (i_Status inst)) []"

definition changedMembers :: "string list \<Rightarrow> smap \<Rightarrow> smap \<Rightarrow> string list" where
  "changedMembers expected observed previous =
     filter (\<lambda>m. mget observed m \<noteq> '''' \<and> mget observed m \<noteq> mget previous m) expected"

text \<open>The addresses of the next plan, the candidates, and the migration, if
  any. \<open>hex16\<close> is the hexadecimal form of the first 16 bytes of a SHA-256.\<close>

definition addressPlan ::
  "(string \<Rightarrow> string) \<Rightarrow> string + SitePlan option \<Rightarrow> MultiSitePostgres
     \<Rightarrow> string + (smap \<times> smap \<times> AddressMigrationPlan option)" where
  "addressPlan hex16 active inst =
     (let observed = observedAddresses inst in
      case active of
        Inl e \<Rightarrow> Inl e
      | Inr plan \<Rightarrow>
          (let previous = activeAddresses plan;
               migration = Option.bind plan p_AddressMigration in
           if migration \<noteq> None \<and>
              \<not> allSitesApplied (it_Sites (i_Status inst)) (it_ActiveRevision (i_Status inst))
           then Inr (previous, observed, migration)
           else
             (let expected = expectedAddressMembers (is_Sites (i_Spec inst)) in
              if \<not> addressesComplete previous expected then Inr (observed, observed, None)
              else
                (case sort (changedMembers expected observed previous) of
                   [] \<Rightarrow> Inr (previous, observed, None)
                 | member # _ \<Rightarrow>
                     (let oldAddress = mget previous member; newAddress = mget observed member in
                      Inr (AList.update member newAddress previous, observed,
                           Some \<lparr>am_OperationUID = hex16 (om_UID (i_Meta inst) @ [CHR 0x00] @ member @
                                   [CHR 0x00] @ oldAddress @ [CHR 0x00] @ newAddress),
                                 am_Member = member, am_OldAddress = oldAddress,
                                 am_NewAddress = newAddress\<rparr>))))))"

section \<open>Lemmas\<close>

context status_conditions
begin

lemma find_fold_set:
  "FindStatusCondition K (fold (\<lambda>c cs. SetStatusCondition K cs c) ds cs) t =
     (case filter (\<lambda>c. c_Type c = t) ds of
        [] \<Rightarrow> FindStatusCondition K cs t
      | c # rest \<Rightarrow> Some (last (c # rest)))"
proof (induction ds arbitrary: cs)
  case (Cons d ds)
  show ?case by (simp add: Cons.IH find_set split: list.splits)
qed simp

lemma find_merged:
  assumes "distinct (map c_Type ds)" "c \<in> set ds"
  shows "FindStatusCondition K (fold (\<lambda>c cs. SetStatusCondition K cs c) ds cs) (c_Type c) = Some c"
proof -
  have "filter (\<lambda>d. c_Type d = c_Type c) ds = [c]"
    using assms by (induction ds) (auto simp: filter_empty_conv image_iff)
  then show ?thesis by (simp add: find_fold_set)
qed

lemma setTopology_status:
  "it_Primary (i_Status (setTopology K p ss st r inst)) = p"
  "it_SynchronousStandbys (i_Status (setTopology K p ss st r inst)) = ss"
  "it_Sites (i_Status (setTopology K p ss st r inst)) = it_Sites (i_Status inst)"
  "i_Spec (setTopology K p ss st r inst) = i_Spec inst"
  "i_Meta (setTopology K p ss st r inst) = i_Meta inst"
  "conditionTrue K (it_Conditions (i_Status (setTopology K p ss st r inst))) ''TopologyReady'' \<longleftrightarrow>
     st = ConditionTrue"
  "conditionTrue K (it_Conditions (i_Status (setTopology K p ss st r inst)))
     ''SynchronousReplicationReady'' \<longleftrightarrow>
     pg_SynchronousStandbyCount (is_Postgres (i_Spec inst)) \<le> int (length ss)"
  by (auto simp: setTopology_def setSynchronousReplicationCondition_def setInstanceCond_def
      conditionTrue_set Let_def)

end

lemma currentObservations_fresh:
  assumes "s \<in> set (currentObservations inst now)"
  shows "s \<in> set (it_Sites (i_Status inst))" "st_Primary s \<noteq> ''''"
    "\<exists>t. st_TopologyObservedAt s = Some t \<and> now - t \<le> 2 * minute"
  using assms by (auto simp: currentObservations_def split: option.splits)

lemma length_remdups_one: "length (remdups xs) = 1 \<longleftrightarrow> (\<exists>x. set xs = {x})"
  by (simp add: length_remdups_card_conv card_1_singleton_iff)

lemma remdups_map_one:
  "length (remdups (map f xs)) = 1 \<longleftrightarrow> xs \<noteq> [] \<and> (\<forall>s \<in> set xs. f s = f (hd xs))"
proof (cases xs)
  case (Cons a as)
  have "(\<exists>x. insert (f a) (f ` set as) = {x}) \<longleftrightarrow> (\<forall>s \<in> set as. f s = f a)"
  proof
    assume "\<exists>x. insert (f a) (f ` set as) = {x}"
    then show "\<forall>s \<in> set as. f s = f a" by blast
  next
    assume "\<forall>s \<in> set as. f s = f a"
    then have "insert (f a) (f ` set as) = {f a}" by blast
    then show "\<exists>x. insert (f a) (f ` set as) = {x}" by blast
  qed
  with Cons show ?thesis by (simp only: length_remdups_one) simp
qed (simp add: length_remdups_one)

lemma hd_remdups_one: "set xs = {x} \<Longrightarrow> hd (remdups xs) = x"
  by (metis hd_in_set list.set(1) insert_not_empty set_remdups singletonD)

lemma count_list_distinct: "distinct xs \<Longrightarrow> count_list xs m = (if m \<in> set xs then 1 else 0)"
  by (induction xs) auto

lemma count_concat_all:
  assumes "\<forall>xs \<in> set xss. distinct xs"
  shows "count_list (concat xss) m = length xss \<longleftrightarrow> (\<forall>xs \<in> set xss. m \<in> set xs)"
proof -
  have le: "count_list (concat yss) m \<le> length yss" if "\<forall>xs \<in> set yss. distinct xs" for yss
    using that
  proof (induction yss)
    case (Cons ys yss)
    then show ?case by (auto simp: count_list_distinct)
  qed simp
  show ?thesis
    using assms
  proof (induction xss)
    case (Cons xs xss)
    then have "count_list (concat xss) m \<le> length xss" using le by auto
    with Cons show ?case
      by (cases "m \<in> set xs") (auto simp: count_list_distinct)
  qed simp
qed

lemma hd_remdups_map: "xs \<noteq> [] \<Longrightarrow> \<forall>s \<in> set xs. f s = q \<Longrightarrow> hd (remdups (map f xs)) = q"
  by (rule hd_remdups_one) (simp add: image_constant_conv)

text \<open>The agreement that the hub needs before it publishes a primary.\<close>

definition consensus :: "MultiSitePostgres \<Rightarrow> time \<Rightarrow> string \<Rightarrow> bool" where
  "consensus inst now p =
     (\<not> stoppedPhase (annotation inst upgradePhaseAnnotation) \<and>
      length (currentObservations inst now) = expectedObservers inst \<and>
      currentObservations inst now \<noteq> [] \<and>
      (\<forall>s \<in> set (currentObservations inst now). st_Primary s = p))"

lemma consensus_unique: "consensus inst now p \<Longrightarrow> consensus inst now q \<Longrightarrow> p = q"
  unfolding consensus_def by (metis list.set_sel(1))

lemma consensus_nonempty: "consensus inst now p \<Longrightarrow> p \<noteq> []"
  unfolding consensus_def using currentObservations_fresh(2) by (metis list.set_sel(1))

lemma aggregateTopology_consensus:
  assumes "consensus inst now p"
  shows "aggregateTopology K inst now =
    setTopology K p
      (sort (filter (\<lambda>m. count_list (concat (map st_SynchronousStandbys (currentObservations inst now))) m
                        = length (currentObservations inst now))
               (remdups (concat (map st_SynchronousStandbys (currentObservations inst now))))))
      ConditionTrue ''ObserverConsensus'' inst"
proof -
  let ?obs = "currentObservations inst now"
  have c: "\<not> stoppedPhase (annotation inst upgradePhaseAnnotation)" "length ?obs = expectedObservers inst"
    "?obs \<noteq> []" "\<forall>s \<in> set ?obs. st_Primary s = p"
    using assms by (simp_all add: consensus_def)
  have "length (remdups (map st_Primary ?obs)) = 1"
    using c(3,4) by (simp only: remdups_map_one) simp
  moreover have "hd (remdups (map st_Primary ?obs)) = p" using c(3,4) by (rule hd_remdups_map)
  ultimately show ?thesis using c(1,2) by (simp add: aggregateTopology_def Let_def)
qed

lemma aggregateTopology_no_consensus:
  assumes "\<And>p. \<not> consensus inst now p"
  shows "\<exists>r. aggregateTopology K inst now = setTopology K [] [] ConditionFalse r inst"
proof -
  have "length (remdups (map st_Primary (currentObservations inst now))) \<noteq> 1"
    if "\<not> stoppedPhase (annotation inst upgradePhaseAnnotation)"
      "length (currentObservations inst now) = expectedObservers inst"
    using assms that unfolding consensus_def remdups_map_one by blast
  then show ?thesis by (auto simp: aggregateTopology_def Let_def)
qed

lemma sort_eq_Nil [simp]: "sort xs = [] \<longleftrightarrow> xs = []"
  by (metis set_empty set_sort)

lemma sort_Cons_member: "sort xs = y # ys \<Longrightarrow> y \<in> set xs"
  by (metis list.set_intros(1) set_sort)

text \<open>One planning round with the observed addresses held fixed and every site
  at the active revision.\<close>

definition replan :: "(string \<Rightarrow> string) \<Rightarrow> MultiSitePostgres \<Rightarrow> SitePlan \<Rightarrow> SitePlan" where
  "replan hex16 inst p =
     (case addressPlan hex16 (Inr (Some p)) inst of
        Inl e \<Rightarrow> p
      | Inr (addresses, candidates, migration) \<Rightarrow>
          p\<lparr>p_MemberAddresses := addresses, p_AddressMigration := migration\<rparr>)"

lemma changedMembers_update:
  "changedMembers expected observed (AList.update m (mget observed m) previous) =
     filter (\<lambda>x. x \<noteq> m) (changedMembers expected observed previous)"
  unfolding changedMembers_def filter_filter by (rule filter_cong) auto

lemma addressesComplete_update:
  "addressesComplete previous expected \<Longrightarrow> a \<noteq> '''' \<Longrightarrow>
     addressesComplete (AList.update m a previous) expected"
  by (auto simp: addressesComplete_def)

definition pendingMembers :: "MultiSitePostgres \<Rightarrow> SitePlan \<Rightarrow> string list" where
  "pendingMembers inst p =
     changedMembers (expectedAddressMembers (is_Sites (i_Spec inst))) (observedAddresses inst)
       (p_MemberAddresses p)"

definition settledPlan :: "MultiSitePostgres \<Rightarrow> SitePlan \<Rightarrow> bool" where
  "settledPlan inst p =
     (allSitesApplied (it_Sites (i_Status inst)) (it_ActiveRevision (i_Status inst)) \<and>
      addressesComplete (p_MemberAddresses p) (expectedAddressMembers (is_Sites (i_Spec inst))))"

lemma replan_addresses:
  assumes "settledPlan inst p"
  shows "p_MemberAddresses (replan hex16 inst p) =
    (case sort (pendingMembers inst p) of
       [] \<Rightarrow> p_MemberAddresses p
     | m # _ \<Rightarrow> AList.update m (mget (observedAddresses inst) m) (p_MemberAddresses p))"
  using assms
  by (simp add: settledPlan_def pendingMembers_def replan_def addressPlan_def activeAddresses_def
      Let_def split: list.split)

lemma replan_progress:
  assumes "settledPlan inst p"
  shows "settledPlan inst (replan hex16 inst p) \<and>
    length (pendingMembers inst (replan hex16 inst p)) \<le> length (pendingMembers inst p) - 1"
proof (cases "sort (pendingMembers inst p)")
  case Nil
  then have "p_MemberAddresses (replan hex16 inst p) = p_MemberAddresses p" "pendingMembers inst p = []"
    by (simp_all add: replan_addresses [OF assms])
  with assms show ?thesis by (simp add: settledPlan_def pendingMembers_def)
next
  case (Cons m ms)
  then have r: "p_MemberAddresses (replan hex16 inst p) =
      AList.update m (mget (observedAddresses inst) m) (p_MemberAddresses p)"
    by (simp add: replan_addresses [OF assms])
  have m: "m \<in> set (pendingMembers inst p)" using Cons by (rule sort_Cons_member)
  then have "mget (observedAddresses inst) m \<noteq> ''''"
    by (simp add: pendingMembers_def changedMembers_def)
  moreover have "length (filter (\<lambda>x. x \<noteq> m) (pendingMembers inst p)) < length (pendingMembers inst p)"
    using m by (auto intro: length_filter_less)
  ultimately show ?thesis
    using assms by (simp add: settledPlan_def pendingMembers_def r changedMembers_update
        addressesComplete_update)
qed

lemma replan_iterate:
  assumes "settledPlan inst p"
  shows "settledPlan inst ((replan hex16 inst ^^ n) p) \<and>
    length (pendingMembers inst ((replan hex16 inst ^^ n) p)) \<le> length (pendingMembers inst p) - n"
proof (induction n)
  case (Suc n)
  then show ?case
    using replan_progress [of inst "(replan hex16 inst ^^ n) p" hex16] by auto
qed (use assms in simp)

section \<open>Properties\<close>

text \<open>C3: The hub publishes a primary exactly when PostgreSQL is not
  deliberately stopped, as many sites as it expects have reported within the
  last two minutes, and all of them name that primary; \<open>TopologyReady\<close> is true
  exactly when a primary is published. Outside a restore of the seed and the
  start of an upgraded primary, the number expected is the number of data
  sites.\<close>

theorem primary_needs_consensus:
  fixes inst :: MultiSitePostgres and now :: time
  assumes "status_conditions K"
  defines "st \<equiv> i_Status (aggregateTopology K inst now)" and "obs \<equiv> currentObservations inst now"
  shows "((it_Primary st = p \<and> p \<noteq> '''') \<longleftrightarrow>
           (\<not> stoppedPhase (annotation inst upgradePhaseAnnotation) \<and>
            length obs = expectedObservers inst \<and> obs \<noteq> [] \<and> (\<forall>s \<in> set obs. st_Primary s = p))) \<and>
         (conditionTrue K (it_Conditions st) ''TopologyReady'' \<longleftrightarrow> it_Primary st \<noteq> '''')"
proof -
  note tops = status_conditions.setTopology_status [OF assms(1)]
  have "((it_Primary st = p \<and> p \<noteq> []) \<longleftrightarrow> consensus inst now p) \<and>
      (conditionTrue K (it_Conditions st) ''TopologyReady'' \<longleftrightarrow> it_Primary st \<noteq> [])"
  proof (cases "\<exists>q. consensus inst now q")
    case True
    then obtain q where q: "consensus inst now q" ..
    then have "it_Primary st = q" "conditionTrue K (it_Conditions st) ''TopologyReady''"
      by (simp_all add: st_def aggregateTopology_consensus tops)
    with q consensus_unique consensus_nonempty show ?thesis by blast
  next
    case False
    then obtain r where "aggregateTopology K inst now = setTopology K [] [] ConditionFalse r inst"
      using aggregateTopology_no_consensus by blast
    with False show ?thesis by (simp add: st_def tops)
  qed
  then show ?thesis by (simp add: consensus_def obs_def)
qed

text \<open>An instance with two data sites, both reporting at time 0.\<close>

definition observedInstance :: MultiSitePostgres where
  "observedInstance =
     updStatus (\<lambda>st. st\<lparr>it_ActiveRevision := 2, it_Sites :=
        [(sampleSiteStatus ''a'')\<lparr>st_Primary := ''postgres-a-0'', st_TopologyObservedAt := Some 0,
           st_AppliedRevision := 2, st_Addresses := [(''postgres-a-0'', ''10.0.0.9'')]\<rparr>,
         (sampleSiteStatus ''b'')\<lparr>st_Primary := ''postgres-a-0'', st_TopologyObservedAt := Some 0,
           st_AppliedRevision := 2, st_SynchronousStandbys := [''postgres-b-0'']\<rparr>]\<rparr>)
       (sampleInstance [sampleSite ''a'' 0 1 0, sampleSite ''b'' 0 1 0])"

lemmas observed_defs = observedInstance_def sample_defs

theorem primary_needs_consensus_witness:
  "it_Primary (i_Status (aggregateTopology listConditions observedInstance 0)) = ''postgres-a-0''"
  using primary_needs_consensus [OF lc.status_conditions_axioms, of observedInstance 0 "''postgres-a-0''"]
  by (simp add: observed_defs currentObservations_def expectedObservers_def seedRestore_def
      majorPrimaryOnly_def stoppedPhase_def duration_defs)

text \<open>When the hub publishes a topology, a member is a synchronous standby
  of the instance exactly when every reporting site lists it as one, and
  \<open>SynchronousReplicationReady\<close> is true exactly when at least the required
  number of them is published.\<close>

theorem standbys_need_consensus:
  fixes inst :: MultiSitePostgres and now :: time
  assumes "status_conditions K"
  defines "st \<equiv> i_Status (aggregateTopology K inst now)" and "obs \<equiv> currentObservations inst now"
  assumes "\<forall>s \<in> set obs. distinct (st_SynchronousStandbys s)" and "it_Primary st \<noteq> ''''"
  shows "(m \<in> set (it_SynchronousStandbys st) \<longleftrightarrow> (\<forall>s \<in> set obs. m \<in> set (st_SynchronousStandbys s))) \<and>
         (conditionTrue K (it_Conditions st) ''SynchronousReplicationReady'' \<longleftrightarrow>
            pg_SynchronousStandbyCount (is_Postgres (i_Spec inst))
              \<le> int (length (it_SynchronousStandbys st)))"
proof -
  note tops = status_conditions.setTopology_status [OF assms(1)]
  let ?reported = "concat (map st_SynchronousStandbys obs)"
  obtain p where c: "consensus inst now p"
    using assms(5) aggregateTopology_no_consensus [of inst now K] tops(1) by (force simp: st_def)
  then have ss: "it_SynchronousStandbys st =
      sort (filter (\<lambda>m. count_list ?reported m = length obs) (remdups ?reported))"
    by (simp add: st_def obs_def aggregateTopology_consensus [OF c] tops)
  have ne: "obs \<noteq> []" using c by (simp add: consensus_def obs_def)
  have "count_list ?reported m = length obs \<longleftrightarrow> (\<forall>s \<in> set obs. m \<in> set (st_SynchronousStandbys s))"
    using count_concat_all [of "map st_SynchronousStandbys obs" m] assms(4) by simp
  then have "m \<in> set (it_SynchronousStandbys st) \<longleftrightarrow> (\<forall>s \<in> set obs. m \<in> set (st_SynchronousStandbys s))"
    using ne by (cases obs) (auto simp: ss)
  moreover have "conditionTrue K (it_Conditions st) ''SynchronousReplicationReady'' \<longleftrightarrow>
      pg_SynchronousStandbyCount (is_Postgres (i_Spec inst)) \<le> int (length (it_SynchronousStandbys st))"
    by (simp add: st_def aggregateTopology_consensus [OF c] tops)
  ultimately show ?thesis by blast
qed

theorem standbys_need_consensus_witness:
  "\<not> conditionTrue listConditions (it_Conditions (i_Status
        (aggregateTopology listConditions observedInstance 0))) ''SynchronousReplicationReady'' \<and>
   ''postgres-b-0'' \<notin> set (it_SynchronousStandbys (i_Status
        (aggregateTopology listConditions observedInstance 0)))"
proof -
  have obs: "currentObservations observedInstance 0 = it_Sites (i_Status observedInstance)"
    by (simp add: observed_defs currentObservations_def majorPrimaryOnly_def duration_defs)
  have p: "it_Primary (i_Status (aggregateTopology listConditions observedInstance 0)) \<noteq> ''''"
    by (simp add: observed_defs aggregateTopology_def Let_def currentObservations_def
        expectedObservers_def seedRestore_def majorPrimaryOnly_def stoppedPhase_def duration_defs
        lc.setTopology_status)
  have len: "length (it_SynchronousStandbys (i_Status
      (aggregateTopology listConditions observedInstance 0))) = 0"
    by (simp add: observed_defs aggregateTopology_def Let_def currentObservations_def
        expectedObservers_def seedRestore_def majorPrimaryOnly_def stoppedPhase_def duration_defs
        lc.setTopology_status)
  show ?thesis
    using standbys_need_consensus [OF lc.status_conditions_axioms _ p, of "''postgres-b-0''"] len
    by (simp add: obs) (simp add: observed_defs)
qed

text \<open>C17: From a plan that has an address for every member, the next plan
  moves at most one member. While a migration is under way and not every site
  has applied it, the addresses and the migration stay as they are; otherwise
  a new migration names the member that moves, an expected one, with its
  address before and after, and no migration means that no reported address
  differs from the plan.\<close>

theorem addresses_move_one_at_a_time:
  assumes "addressPlan hex16 (Inr (Some p)) inst = Inr (a, candidates, migration)"
    and "addressesComplete (p_MemberAddresses p) (expectedAddressMembers (is_Sites (i_Spec inst)))"
  shows "card {m. mget a m \<noteq> mget (p_MemberAddresses p) m} \<le> 1 \<and>
    candidates = observedAddresses inst \<and>
    (if p_AddressMigration p \<noteq> None \<and>
        \<not> allSitesApplied (it_Sites (i_Status inst)) (it_ActiveRevision (i_Status inst))
     then a = p_MemberAddresses p \<and> migration = p_AddressMigration p
     else (case migration of
        None \<Rightarrow> a = p_MemberAddresses p \<and>
          (\<forall>m \<in> set (expectedAddressMembers (is_Sites (i_Spec inst))).
             mget candidates m \<noteq> '''' \<longrightarrow> mget a m = mget candidates m)
      | Some g \<Rightarrow> am_Member g \<in> set (expectedAddressMembers (is_Sites (i_Spec inst))) \<and>
          am_OldAddress g = mget (p_MemberAddresses p) (am_Member g) \<and>
          am_NewAddress g = mget candidates (am_Member g) \<and> am_NewAddress g \<noteq> '''' \<and>
          am_NewAddress g \<noteq> am_OldAddress g \<and> mget a (am_Member g) = am_NewAddress g))"
proof -
  let ?exp = "expectedAddressMembers (is_Sites (i_Spec inst))"
  let ?changed = "changedMembers ?exp (observedAddresses inst) (p_MemberAddresses p)"
  have one: "card {m. mget (AList.update k v (p_MemberAddresses p)) m \<noteq> mget (p_MemberAddresses p) m} \<le> 1"
    for k v
    by (rule order_trans [OF card_mono [of "{k}"]]) (auto split: if_splits)
  show ?thesis
  proof (cases "p_AddressMigration p \<noteq> None \<and>
      \<not> allSitesApplied (it_Sites (i_Status inst)) (it_ActiveRevision (i_Status inst))")
    case True
    with assms(1) show ?thesis by (auto simp: addressPlan_def activeAddresses_def Let_def)
  next
    case False
    show ?thesis
    proof (cases "sort ?changed")
      case Nil
      then have "?changed = []" by simp
      then have "\<forall>m \<in> set ?exp. mget (observedAddresses inst) m \<noteq> '''' \<longrightarrow>
          mget (p_MemberAddresses p) m = mget (observedAddresses inst) m"
        by (auto simp: changedMembers_def filter_empty_conv)
      with assms False Nil show ?thesis
        by (auto simp: addressPlan_def activeAddresses_def Let_def)
    next
      case (Cons m ms)
      then have "m \<in> set ?changed" by (rule sort_Cons_member)
      with assms False Cons one [of m "mget (observedAddresses inst) m"] show ?thesis
        by (auto simp: addressPlan_def activeAddresses_def Let_def changedMembers_def)
    qed
  qed
qed

definition addressedPlan :: SitePlan where
  "addressedPlan = samplePlan\<lparr>p_MemberAddresses :=
     [(''postgres-a-0'', ''10.0.0.1''), (''postgres-b-0'', ''10.0.0.2'')]\<rparr>"

lemma fmt_d_0 [simp]: "fmt_d 0 = ''0''"
  by code_simp

lemma observed_expected:
  "expectedAddressMembers (is_Sites (i_Spec observedInstance)) = [''postgres-a-0'', ''postgres-b-0'']"
  by (simp add: observed_defs expectedAddressMembers_def postgresMember_def)

lemma addressed_complete:
  "addressesComplete (p_MemberAddresses addressedPlan)
     (expectedAddressMembers (is_Sites (i_Spec observedInstance)))"
  by (simp add: observed_expected addressesComplete_def addressedPlan_def)

theorem addresses_move_one_at_a_time_witness:
  "\<exists>a candidates g. addressPlan id (Inr (Some addressedPlan)) observedInstance =
       Inr (a, candidates, Some g) \<and> mget a (am_Member g) = am_NewAddress g \<and>
     card {m. mget a m \<noteq> mget (p_MemberAddresses addressedPlan) m} \<le> 1"
proof -
  obtain a c g where r: "addressPlan id (Inr (Some addressedPlan)) observedInstance = Inr (a, c, Some g)"
    and n: "p_AddressMigration addressedPlan = None"
    using addressed_complete
    by (simp add: addressPlan_def Let_def activeAddresses_def observed_expected changedMembers_def)
      (auto simp: addressedPlan_def observedAddresses_def observed_defs samplePlan_def Let_def)
  show ?thesis
    using addresses_move_one_at_a_time [OF r addressed_complete] r n by auto
qed

text \<open>C18: With the reported addresses held fixed and every revision applied by
  all sites, repeated planning reaches a plan that has every reported address
  after at most as many rounds as there are members.\<close>

theorem addresses_converge:
  assumes "settledPlan inst p"
    and "m \<in> set (expectedAddressMembers (is_Sites (i_Spec inst)))" "mget (observedAddresses inst) m \<noteq> ''''"
  shows "mget (p_MemberAddresses
           ((replan hex16 inst ^^ length (expectedAddressMembers (is_Sites (i_Spec inst)))) p)) m
         = mget (observedAddresses inst) m"
proof -
  let ?n = "length (expectedAddressMembers (is_Sites (i_Spec inst)))"
  have "length (pendingMembers inst p) \<le> ?n"
    by (simp add: pendingMembers_def changedMembers_def)
  with replan_iterate [OF assms(1), of ?n hex16]
  have "pendingMembers inst ((replan hex16 inst ^^ ?n) p) = []" by simp
  with assms(2,3) show ?thesis by (auto simp: pendingMembers_def changedMembers_def filter_empty_conv)
qed

theorem addresses_converge_witness:
  "mget (p_MemberAddresses ((replan id observedInstance ^^ 2) addressedPlan)) ''postgres-a-0'' = ''10.0.0.9''"
proof -
  have "settledPlan observedInstance addressedPlan"
    using addressed_complete by (simp add: settledPlan_def) (simp add: allSitesApplied_def observed_defs)
  moreover have "mget (observedAddresses observedInstance) ''postgres-a-0'' = ''10.0.0.9''"
    by (simp add: observedAddresses_def observed_defs)
  ultimately show ?thesis
    using addresses_converge [of observedInstance addressedPlan "''postgres-a-0''" id]
    by (simp add: observed_expected numeral_2_eq_2)
qed

text \<open>C20: Merging a reconciled status into the stored one never lowers the
  active revision, and keeps for every site that is still wanted what the
  control server recorded meanwhile: acknowledged and applied revision,
  addresses, topology, heartbeat and conditions. A site recorded as deleted
  stays deleted.\<close>

theorem merge_keeps_site_reports:
  assumes "distinct (map st_Name (it_Sites current))" "\<forall>s \<in> set (it_Sites current). st_Name s \<noteq> ''''"
    and "s \<in> set (it_Sites (mergeReconciledStatus K current desired))"
    and "old \<in> set (it_Sites current)" "st_Name old = st_Name s"
  shows "it_ActiveRevision (mergeReconciledStatus K current desired) =
           max (it_ActiveRevision current) (it_ActiveRevision desired) \<and>
         st_AcknowledgedRevision s = st_AcknowledgedRevision old \<and>
         st_AppliedRevision s = st_AppliedRevision old \<and> st_Addresses s = st_Addresses old \<and>
         st_Primary s = st_Primary old \<and> st_SynchronousStandbys s = st_SynchronousStandbys old \<and>
         st_TopologyObservedAt s = st_TopologyObservedAt old \<and>
         st_LastHeartbeatTime s = st_LastHeartbeatTime old \<and> st_Conditions s = st_Conditions old \<and>
         (st_Phase old = ''Deleted'' \<longrightarrow> st_Phase s = ''Deleted'') \<and>
         (st_Phase s \<noteq> st_Phase old \<longrightarrow> st_Phase s = ''DeletionPlanIssued'')"
proof -
  from assms(3) obtain wanted where w: "s = mergeReconciledSite (it_Sites current) wanted"
    by (auto simp: mergeReconciledStatus_def mergeReconciledSites_def)
  then have "st_Name s = st_Name wanted" by (simp add: mergeReconciledSite_def Let_def)
  moreover have "previousSiteStatus ss (st_Name old) = old"
    if "distinct (map st_Name ss)" "old \<in> set ss" for ss
    using that by (induction ss) auto
  ultimately have "previousSiteStatus (it_Sites current) (st_Name wanted) = old"
    using assms(1,4,5) by simp
  with w assms(2,4) show ?thesis
    by (auto simp: mergeReconciledSite_def mergeReconciledStatus_def Let_def)
qed

theorem merge_keeps_site_reports_witness:
  "st_AppliedRevision (hd (it_Sites (mergeReconciledStatus listConditions (i_Status observedInstance)
      (sampleStatus\<lparr>it_Sites := [sampleSiteStatus ''a'']\<rparr>)))) = 2"
proof -
  let ?cur = "i_Status observedInstance" and ?des = "sampleStatus\<lparr>it_Sites := [sampleSiteStatus ''a'']\<rparr>"
  let ?s = "hd (it_Sites (mergeReconciledStatus listConditions ?cur ?des))"
  have "?s \<in> set (it_Sites (mergeReconciledStatus listConditions ?cur ?des))"
    by (simp add: mergeReconciledStatus_def mergeReconciledSites_def sampleStatus_def)
  moreover have "st_Name (hd (it_Sites ?cur)) = st_Name ?s"
    by (simp add: mergeReconciledStatus_def mergeReconciledSites_def mergeReconciledSite_def Let_def
        observed_defs)
  ultimately show ?thesis
    using merge_keeps_site_reports [of ?cur ?s listConditions ?des "hd (it_Sites ?cur)"]
    by (simp add: observed_defs)
qed

text \<open>The same merge writes every condition of the reconciler's own
  snapshot over the stored one. A condition that the control server changed
  after the reconciler read the instance, such as \<open>BackupReady\<close>, is set back to
  the value of the snapshot.\<close>

theorem merge_overwrites_conditions:
  assumes "status_conditions K" "distinct (map c_Type (it_Conditions desired))"
    and "c \<in> set (it_Conditions desired)"
    and "FindStatusCondition K (it_Conditions current) (c_Type c) = Some newer" "newer \<noteq> c"
  shows "FindStatusCondition K (it_Conditions (mergeReconciledStatus K current desired)) (c_Type c) = Some c"
  using status_conditions.find_merged [OF assms(1-3)] by (simp add: mergeReconciledStatus_def)

definition sampleCond :: "string \<Rightarrow> ConditionStatus \<Rightarrow> condition" where
  "sampleCond t s = \<lparr>c_Type = t, c_Status = s, c_ObservedGeneration = 1, c_Reason = '''', c_Message = ''''\<rparr>"

theorem merge_overwrites_conditions_witness:
  "FindStatusCondition listConditions (it_Conditions (mergeReconciledStatus listConditions
      (sampleStatus\<lparr>it_Conditions := [sampleCond ''BackupReady'' ConditionTrue]\<rparr>)
      (sampleStatus\<lparr>it_Conditions := [sampleCond ''BackupReady'' ConditionFalse]\<rparr>))) ''BackupReady'' =
   Some (sampleCond ''BackupReady'' ConditionFalse)"
  using merge_overwrites_conditions [OF lc.status_conditions_axioms,
      of "sampleStatus\<lparr>it_Conditions := [sampleCond ''BackupReady'' ConditionFalse]\<rparr>"
        "sampleCond ''BackupReady'' ConditionFalse"
        "sampleStatus\<lparr>it_Conditions := [sampleCond ''BackupReady'' ConditionTrue]\<rparr>"
        "sampleCond ''BackupReady'' ConditionTrue"]
  by (simp add: sampleCond_def listConditions_def)

end
