(* ===== verification/Credential_Rotation.thy ===== *)
theory Credential_Rotation
  imports Topology
begin

text \<open>
  The rotation of the PostgreSQL credentials, planned by the hub
  (\<open>credentialRotationPlan\<close> and its helpers in
  \<open>internal/controller/multisitepostgres_controller.go\<close>) from the conditions
  the sites report.
\<close>

section \<open>Operations\<close>

text \<open>A site's condition is true and carries the version.\<close>

definition reportsVersion :: "condition option \<Rightarrow> int \<Rightarrow> bool" where
  "reportsVersion c version =
     (case c of
        None \<Rightarrow> False
      | Some cond \<Rightarrow> c_Status cond = ConditionTrue \<and> c_Message cond = fmt_d version)"

text \<open>The loops that look for the site of the primary and return at the first
  match.\<close>

fun primarySiteReports :: "string \<Rightarrow> SiteRevisionStatus list \<Rightarrow> string \<Rightarrow> int \<Rightarrow> bool" where
  "primarySiteReports primary [] t version = False"
| "primarySiteReports primary (site # sites) t version =
     (if \<not> memberOfSite primary (st_Name site) then primarySiteReports primary sites t version
      else reportsVersion (statusCondition (st_Conditions site) t) version)"

definition previousCredentialsRevoked :: "MultiSitePostgres \<Rightarrow> int \<Rightarrow> bool" where
  "previousCredentialsRevoked inst version =
     primarySiteReports (it_Primary (i_Status inst)) (it_Sites (i_Status inst))
       ''PreviousCredentialsRevoked'' version"

definition credentialCatalogUpdated :: "MultiSitePostgres \<Rightarrow> int \<Rightarrow> bool" where
  "credentialCatalogUpdated inst version =
     primarySiteReports (it_Primary (i_Status inst)) (it_Sites (i_Status inst))
       ''CredentialCatalogUpdated'' version"

text \<open>The version every site but the witnesses reports in a condition, from the
  version found so far (0 for none). \<open>None\<close> is the early return.\<close>

fun commonVersion ::
  "MultiSitePostgres \<Rightarrow> string \<Rightarrow> SiteRevisionStatus list \<Rightarrow> int \<Rightarrow> int option" where
  "commonVersion inst t [] version = Some version"
| "commonVersion inst t (site # sites) version =
     (if siteRoleForName inst (st_Name site) = Some SiteRoleWitness
      then commonVersion inst t sites version
      else
        (case statusCondition (st_Conditions site) t of
           None \<Rightarrow> None
         | Some cond \<Rightarrow>
             if c_Status cond \<noteq> ConditionTrue then None
             else (case parseInt 64 (c_Message cond) of
                     None \<Rightarrow> None
                   | Some siteVersion \<Rightarrow>
                       if siteVersion < 1 \<or> version \<noteq> 0 \<and> siteVersion \<noteq> version then None
                       else commonVersion inst t sites siteVersion)))"

definition activeCredentialVersion :: "MultiSitePostgres \<Rightarrow> int" where
  "activeCredentialVersion inst =
     (case commonVersion inst ''PostgresCredentialsActive'' (it_Sites (i_Status inst)) 0 of
        None \<Rightarrow> 0 | Some version \<Rightarrow> version)"

definition applicableSites :: "MultiSitePostgres \<Rightarrow> SiteRevisionStatus list" where
  "applicableSites inst =
     filter (\<lambda>site. siteRoleForName inst (st_Name site) \<noteq> Some SiteRoleWitness) (it_Sites (i_Status inst))"

definition commonStagedCredentialVersion :: "MultiSitePostgres \<Rightarrow> int \<times> bool" where
  "commonStagedCredentialVersion inst =
     (case commonVersion inst ''CredentialRotationPending'' (it_Sites (i_Status inst)) 0 of
        None \<Rightarrow> (0, False)
      | Some version \<Rightarrow> (version, applicableSites inst \<noteq> []))"

definition credentialUpdatedMembers :: "MultiSitePostgres \<Rightarrow> int \<Rightarrow> string list" where
  "credentialUpdatedMembers inst version =
     (let prefix = fmt_d version @ '':'' in
      sort (remdups (concat (map (\<lambda>site.
        case statusCondition (st_Conditions site) ''CredentialMembersUpdated'' of
          None \<Rightarrow> []
        | Some cond \<Rightarrow>
            if c_Status cond \<noteq> ConditionTrue \<or> \<not> hasPrefix (c_Message cond) prefix then []
            else splitMembers (drop (length prefix) (c_Message cond)))
        (it_Sites (i_Status inst))))))"

definition credentialMemberOrder :: "MultiSitePostgres \<Rightarrow> string list" where
  "credentialMemberOrder inst =
     (let primary = it_Primary (i_Status inst);
          order = fold (\<lambda>member order.
            if hasPrefix member ''postgres-'' \<and> member \<noteq> primary \<and> member \<notin> set order
            then order @ [member] else order)
            (expectedAddressMembers (is_Sites (i_Spec inst)))
            (sort (it_SynchronousStandbys (i_Status inst))) in
      if primary \<noteq> '''' then order @ [primary] else order)"

definition credentialRotationPlan ::
  "string + SitePlan option \<Rightarrow> MultiSitePostgres \<Rightarrow> AddressMigrationPlan option \<Rightarrow> RestorePlan option
     \<Rightarrow> UpgradePlan option \<Rightarrow> MajorUpgradePlan option \<Rightarrow> string + CredentialRotationPlan option" where
  "credentialRotationPlan active inst addressMigration restorePlan upgradePlan majorUpgradePlan =
     (case active of
        Inl e \<Rightarrow> Inl e
      | Inr plan \<Rightarrow>
          (let rotation = Option.bind plan p_CredentialRotation in
           if rotation \<noteq> None \<and>
              \<not> allSitesApplied (it_Sites (i_Status inst)) (it_ActiveRevision (i_Status inst))
           then Inr rotation
           else if addressMigration \<noteq> None \<or> restorePlan \<noteq> None \<or> upgradePlan \<noteq> None \<or>
                   majorUpgradePlan \<noteq> None
           then Inr None
           else
             (let (version, staged) = commonStagedCredentialVersion inst in
              if \<not> staged then Inr None
              else
                (let previousVersion = (case rotation of
                       None \<Rightarrow> activeCredentialVersion inst
                     | Some r \<Rightarrow> cr_PreviousVersion r) in
                 if previousVersion < 1 \<or> previousVersion = version then Inr None
                 else if \<not> credentialCatalogUpdated inst version
                 then Inr (Some \<lparr>cr_Version = version, cr_PreviousVersion = previousVersion,
                        cr_Phase = CredentialRotationPhaseCatalog, cr_TargetMember = '''',
                        cr_UpdatedMembers = []\<rparr>)
                 else
                   (let updated = credentialUpdatedMembers inst version in
                    case filter (\<lambda>member. member \<notin> set updated) (credentialMemberOrder inst) of
                      member # _ \<Rightarrow>
                        Inr (Some \<lparr>cr_Version = version, cr_PreviousVersion = previousVersion,
                          cr_Phase = CredentialRotationPhaseMember, cr_TargetMember = member,
                          cr_UpdatedMembers = updated\<rparr>)
                    | [] \<Rightarrow>
                        if \<not> previousCredentialsRevoked inst version
                        then Inr (Some \<lparr>cr_Version = version, cr_PreviousVersion = previousVersion,
                          cr_Phase = CredentialRotationPhaseRevoke, cr_TargetMember = '''',
                          cr_UpdatedMembers = updated\<rparr>)
                        else Inr (Some \<lparr>cr_Version = version, cr_PreviousVersion = previousVersion,
                          cr_Phase = CredentialRotationPhaseFinalize, cr_TargetMember = '''',
                          cr_UpdatedMembers = updated\<rparr>))))))"

section \<open>Lemmas\<close>

text \<open>The order in which the members restart.\<close>

abbreviation extendOrder :: "string \<Rightarrow> string list \<Rightarrow> string list \<Rightarrow> string list" where
  "extendOrder primary \<equiv> fold (\<lambda>member order.
     if hasPrefix member ''postgres-'' \<and> member \<noteq> primary \<and> member \<notin> set order
     then order @ [member] else order)"

lemma extendOrder_prefix: "\<exists>rest. extendOrder primary ms order = order @ rest"
proof (induction ms arbitrary: order)
  case (Cons m ms)
  show ?case
    using Cons.IH [of "order @ [m]"] Cons.IH [of order] by auto
qed simp

lemma set_extendOrder:
  "set (extendOrder primary ms order) =
     set order \<union> {m \<in> set ms. hasPrefix m ''postgres-'' \<and> m \<noteq> primary}"
  by (induction ms arbitrary: order) auto

lemma postgresMembers_prefix: "m \<in> set (postgresMembers sites) \<Longrightarrow> hasPrefix m ''postgres-''"
  by (auto simp: postgresMembers_def postgresMember_def hasPrefix_def)



lemma credentialMemberOrder_primary:
  assumes "it_Primary (i_Status inst) \<noteq> ''''"
  shows "credentialMemberOrder inst =
    extendOrder (it_Primary (i_Status inst)) (expectedAddressMembers (is_Sites (i_Spec inst)))
      (sort (it_SynchronousStandbys (i_Status inst))) @ [it_Primary (i_Status inst)]"
  using assms by (simp add: credentialMemberOrder_def Let_def)


lemma commonVersion_all:
  assumes "commonVersion inst t sites v = Some w"
    and "site \<in> set sites" "siteRoleForName inst (st_Name site) \<noteq> Some SiteRoleWitness"
  shows "w \<ge> 1 \<and> (\<exists>cond. statusCondition (st_Conditions site) t = Some cond \<and>
           c_Status cond = ConditionTrue \<and> parseInt 64 (c_Message cond) = Some w)"
  using assms
proof (induction sites arbitrary: v)
  case (Cons s sites)
  have stable: "commonVersion inst t ss x = Some w \<Longrightarrow> x \<noteq> 0 \<Longrightarrow> x = w" for ss x
    by (induction ss arbitrary: x) (auto split: if_splits option.splits)
  show ?case
  proof (cases "siteRoleForName inst (st_Name s) = Some SiteRoleWitness")
    case True
    with Cons show ?thesis by auto
  next
    case False
    with Cons.prems(1) obtain cond sv where c: "statusCondition (st_Conditions s) t = Some cond"
      "c_Status cond = ConditionTrue" "parseInt 64 (c_Message cond) = Some sv" "sv \<ge> 1"
      "commonVersion inst t sites sv = Some w"
      by (auto split: if_splits option.splits)
    with stable have "sv = w" by (metis not_one_le_zero)
    with c Cons show ?thesis by auto
  qed
qed simp

lemma rotation_cases:
  assumes "credentialRotationPlan (Inr plan) inst None None None None = Inr (Some r)"
    and "Option.bind plan p_CredentialRotation = None \<or>
         allSitesApplied (it_Sites (i_Status inst)) (it_ActiveRevision (i_Status inst))"
  obtains "commonStagedCredentialVersion inst = (cr_Version r, True)"
    "1 \<le> cr_PreviousVersion r" "cr_PreviousVersion r \<noteq> cr_Version r"
    "cr_Phase r \<noteq> CredentialRotationPhaseCatalog \<longleftrightarrow> credentialCatalogUpdated inst (cr_Version r)"
    "cr_Phase r = CredentialRotationPhaseMember \<Longrightarrow>
       cr_UpdatedMembers r = credentialUpdatedMembers inst (cr_Version r) \<and>
       (\<exists>rest. filter (\<lambda>m. m \<notin> set (cr_UpdatedMembers r)) (credentialMemberOrder inst) =
          cr_TargetMember r # rest)"
    "cr_Phase r \<in> {CredentialRotationPhaseRevoke, CredentialRotationPhaseFinalize} \<Longrightarrow>
       cr_UpdatedMembers r = credentialUpdatedMembers inst (cr_Version r) \<and>
       (\<forall>m \<in> set (credentialMemberOrder inst). m \<in> set (cr_UpdatedMembers r))"
    "cr_Phase r = CredentialRotationPhaseFinalize \<Longrightarrow> previousCredentialsRevoked inst (cr_Version r)"
    "cr_Phase r = CredentialRotationPhaseRevoke \<Longrightarrow> \<not> previousCredentialsRevoked inst (cr_Version r)"
  using assms
  by (auto simp: credentialRotationPlan_def Let_def filter_empty_conv
      split: if_splits prod.splits list.splits)

lemma order_before_primary:
  assumes "m \<in> set (postgresMembers (is_Sites (i_Spec inst)))" "m \<noteq> it_Primary (i_Status inst)"
  shows "m \<in> set (extendOrder (it_Primary (i_Status inst))
           (expectedAddressMembers (is_Sites (i_Spec inst))) (sort (it_SynchronousStandbys (i_Status inst))))"
  using assms postgresMembers_prefix [OF assms(1)] set_expected_mono by (auto simp: set_extendOrder)

lemma order_covers:
  assumes "m \<in> set (postgresMembers (is_Sites (i_Spec inst)))"
  shows "m \<in> set (credentialMemberOrder inst)"
proof (cases "m = it_Primary (i_Status inst)")
  case True
  moreover have "m \<noteq> ''''" using postgresMembers_prefix [OF assms] by (auto simp: hasPrefix_def)
  ultimately show ?thesis by (simp add: credentialMemberOrder_primary)
next
  case False
  then have "m \<in> set (extendOrder (it_Primary (i_Status inst))
      (expectedAddressMembers (is_Sites (i_Spec inst))) (sort (it_SynchronousStandbys (i_Status inst))))"
    by (rule order_before_primary [OF assms])
  then show ?thesis
    by (cases "it_Primary (i_Status inst) = ''''") (simp_all add: credentialMemberOrder_def Let_def)
qed

lemma staged_everywhere:
  assumes "commonStagedCredentialVersion inst = (v, True)"
    and "site \<in> set (it_Sites (i_Status inst))" "siteRoleForName inst (st_Name site) \<noteq> Some SiteRoleWitness"
  shows "1 \<le> v \<and> (\<exists>cond. statusCondition (st_Conditions site) ''CredentialRotationPending'' = Some cond \<and>
           c_Status cond = ConditionTrue \<and> parseInt 64 (c_Message cond) = Some v)"
  using commonVersion_all [OF _ assms(2,3)] assms(1)
  by (auto simp: commonStagedCredentialVersion_def split: option.splits)

section \<open>Sample values\<close>

definition versionCond :: "string \<Rightarrow> string \<Rightarrow> condition" where
  "versionCond t v = \<lparr>c_Type = t, c_Status = ConditionTrue, c_ObservedGeneration = 1, c_Reason = '''',
     c_Message = v\<rparr>"

text \<open>Two data sites that run version 1 and have staged version 2.\<close>

definition rotatingSite :: "string \<Rightarrow> condition list \<Rightarrow> SiteRevisionStatus" where
  "rotatingSite name extra = (sampleSiteStatus name)\<lparr>st_AppliedRevision := 2, st_Conditions :=
     [versionCond ''PostgresCredentialsActive'' ''1'', versionCond ''CredentialRotationPending'' ''2''] @ extra\<rparr>"

definition rotatingInstance :: "condition list \<Rightarrow> MultiSitePostgres" where
  "rotatingInstance extra =
     updStatus (\<lambda>st. st\<lparr>it_ActiveRevision := 2, it_Primary := ''postgres-a-0'',
        it_SynchronousStandbys := [''postgres-b-0''],
        it_Sites := [rotatingSite ''a'' extra, rotatingSite ''b'' []]\<rparr>)
       (sampleInstance [sampleSite ''a'' 0 1 0, sampleSite ''b'' 0 1 0])"

lemmas rotating_defs = rotatingInstance_def rotatingSite_def versionCond_def sample_defs

lemma small_numbers [simp]:
  "parseInt 64 ''1'' = Some 1" "parseInt 64 ''2'' = Some 2" "fmt_d 1 = ''1''" "fmt_d 2 = ''2''"
  by code_simp+

lemma rotating_staged: "commonStagedCredentialVersion (rotatingInstance extra) = (2, True)"
  by (simp add: rotating_defs commonStagedCredentialVersion_def siteRoleForName_def applicableSites_def)

lemma rotating_active: "activeCredentialVersion (rotatingInstance extra) = 1"
  by (simp add: rotating_defs activeCredentialVersion_def siteRoleForName_def)

section \<open>Properties\<close>

text \<open>A rotation the hub plans afresh moves every data site from one
  version that all of them run or ran to one that all of them have staged, and
  goes through its phases in order. A member restarts only after the catalog of
  the primary has the new version; the old version is revoked only after every
  PostgreSQL member of the instance has restarted; the rotation is finalised
  only after the revocation is reported.\<close>

theorem rotation_phases_in_order:
  assumes "credentialRotationPlan (Inr plan) inst None None None None = Inr (Some r)"
    and "Option.bind plan p_CredentialRotation = None \<or>
         allSitesApplied (it_Sites (i_Status inst)) (it_ActiveRevision (i_Status inst))"
  shows "1 \<le> cr_PreviousVersion r \<and> cr_PreviousVersion r \<noteq> cr_Version r \<and>
    (\<forall>site \<in> set (it_Sites (i_Status inst)). siteRoleForName inst (st_Name site) \<noteq> Some SiteRoleWitness \<longrightarrow>
       (\<exists>cond. statusCondition (st_Conditions site) ''CredentialRotationPending'' = Some cond \<and>
          c_Status cond = ConditionTrue \<and> parseInt 64 (c_Message cond) = Some (cr_Version r))) \<and>
    (cr_Phase r \<noteq> CredentialRotationPhaseCatalog \<longrightarrow> credentialCatalogUpdated inst (cr_Version r)) \<and>
    (cr_Phase r \<in> {CredentialRotationPhaseRevoke, CredentialRotationPhaseFinalize} \<longrightarrow>
       set (postgresMembers (is_Sites (i_Spec inst))) \<subseteq> set (credentialUpdatedMembers inst (cr_Version r))) \<and>
    (cr_Phase r = CredentialRotationPhaseFinalize \<longrightarrow> previousCredentialsRevoked inst (cr_Version r))"
  using assms
proof (cases rule: rotation_cases)
  case 1
  have "\<forall>site \<in> set (it_Sites (i_Status inst)).
      siteRoleForName inst (st_Name site) \<noteq> Some SiteRoleWitness \<longrightarrow>
       (\<exists>cond. statusCondition (st_Conditions site) ''CredentialRotationPending'' = Some cond \<and>
          c_Status cond = ConditionTrue \<and> parseInt 64 (c_Message cond) = Some (cr_Version r))"
    using staged_everywhere [OF 1(1)] by blast
  moreover have "set (postgresMembers (is_Sites (i_Spec inst))) \<subseteq> set (credentialUpdatedMembers inst (cr_Version r))"
    if "cr_Phase r \<in> {CredentialRotationPhaseRevoke, CredentialRotationPhaseFinalize}"
    using 1(6) [OF that] order_covers by fastforce
  ultimately show ?thesis using 1(2,3,4,7) by blast
qed

theorem rotation_phases_in_order_witness:
  "\<exists>r. credentialRotationPlan (Inr None)
         (rotatingInstance [versionCond ''CredentialCatalogUpdated'' ''2'']) None None None None = Inr (Some r) \<and>
       cr_Phase r = CredentialRotationPhaseMember \<and> 1 \<le> cr_PreviousVersion r"
proof -
  let ?i = "rotatingInstance [versionCond ''CredentialCatalogUpdated'' ''2'']"
  have cat: "credentialCatalogUpdated ?i 2"
    by (simp add: credentialCatalogUpdated_def rotating_defs memberOfSite_def hasPrefix_def reportsVersion_def)
  have upd: "credentialUpdatedMembers ?i 2 = []"
    by (simp add: credentialUpdatedMembers_def rotating_defs)
  have ord: "credentialMemberOrder ?i \<noteq> []"
    by (subst credentialMemberOrder_primary) (simp_all add: rotating_defs)
  obtain r where r: "credentialRotationPlan (Inr None) ?i None None None None = Inr (Some r)"
    "cr_Phase r = CredentialRotationPhaseMember"
    using cat upd ord
    by (cases "credentialMemberOrder ?i")
      (auto simp: credentialRotationPlan_def rotating_staged rotating_active)
  from rotation_phases_in_order [OF r(1)] r show ?thesis by auto
qed



text \<open>The site of the primary is found by the first site whose name makes a
  prefix of the member name. With one site named \<open>a\<close> and another \<open>a-b\<close>, the
  primary \<open>postgres-a-b-0\<close> counts as a member of site \<open>a\<close>, so the report of its
  own site is not seen and the rotation stays in the catalog phase.\<close>

theorem rotation_prefix_ambiguity:
  assumes "it_Sites (i_Status inst) = [s1, s2]" "st_Name s1 = site" "st_Name s2 = site @ ''-'' @ suffix"
    and "it_Primary (i_Status inst) = postgresMember (st_Name s2) n"
    and "statusCondition (st_Conditions s1) ''CredentialCatalogUpdated'' = None"
    and "reportsVersion (statusCondition (st_Conditions s2) ''CredentialCatalogUpdated'') version"
  shows "\<not> credentialCatalogUpdated inst version"
proof -
  have "memberOfSite (it_Primary (i_Status inst)) (st_Name s1)"
    using hasPrefix_append [of "''postgres-'' @ site @ ''-''" "suffix @ ''-'' @ fmt_d n"] assms(2-4)
    by (simp add: memberOfSite_def postgresMember_def)
  with assms(1,5) show ?thesis by (simp add: credentialCatalogUpdated_def reportsVersion_def)
qed

theorem rotation_prefix_ambiguity_witness:
  "\<not> credentialCatalogUpdated
       (updStatus (\<lambda>st. st\<lparr>it_Primary := postgresMember ''a-b'' 0,
          it_Sites := [sampleSiteStatus ''a'',
             (sampleSiteStatus ''a-b'')\<lparr>st_Conditions := [versionCond ''CredentialCatalogUpdated'' ''2'']\<rparr>]\<rparr>)
         (sampleInstance [])) 2"
  by (rule rotation_prefix_ambiguity [of _ "sampleSiteStatus ''a''"
        "(sampleSiteStatus ''a-b'')\<lparr>st_Conditions := [versionCond ''CredentialCatalogUpdated'' ''2'']\<rparr>"
        "''a''" "''b''" 0 2])
    (simp_all add: sampleSiteStatus_def versionCond_def reportsVersion_def)

end
