(* ===== verification/Upgrade_Common.thy ===== *)
theory Upgrade_Common
  imports Topology "HOL-Library.Word"
begin

text \<open>
  What the minor and the major upgrade of
  \<open>internal/controller/postgresupgrade_controller.go\<close> share: the annotations on
  the instance, the status of the operation, the choice of the next member,
  the gates on the instance, and the backups an upgrade asks for.
\<close>

section \<open>Status and annotations\<close>

abbreviation updUpgradeStatus ::
  "(PostgresUpgradeStatus \<Rightarrow> PostgresUpgradeStatus) \<Rightarrow> PostgresUpgrade \<Rightarrow> PostgresUpgrade" where
  "updUpgradeStatus f up \<equiv> up\<lparr>g_Status := f (g_Status up)\<rparr>"

definition setUpgradeCond ::
  "condition_api \<Rightarrow> string \<Rightarrow> ConditionStatus \<Rightarrow> string \<Rightarrow> string \<Rightarrow> PostgresUpgrade \<Rightarrow> PostgresUpgrade" where
  "setUpgradeCond K t status reason message up =
     updUpgradeStatus (gt_Conditions_update (\<lambda>cs.
       setCondition K cs (om_Generation (g_Meta up)) t status reason message)) up"

definition setUpgradePhase ::
  "hub_env \<Rightarrow> PostgresUpgrade \<Rightarrow> string \<Rightarrow> string \<Rightarrow> Result \<Rightarrow> Result reconciliation" where
  "setUpgradePhase E up phase reason result =
     (let up = (if gt_StartedAt (g_Status up) = None
                then updUpgradeStatus (gt_StartedAt_update (\<lambda>_. Some (he_Now E))) up else up);
          up = updUpgradeStatus (\<lambda>st. st\<lparr>gt_ObservedGeneration := om_Generation (g_Meta up),
                                         gt_Phase := phase\<rparr>) up;
          up = setUpgradeCond (he_K E) ''Ready'' ConditionFalse reason fixedText up in
      perform E (StatusUpgrade up) (finish result))"

definition upgradeBlocked ::
  "hub_env \<Rightarrow> PostgresUpgrade \<Rightarrow> string \<Rightarrow> string \<Rightarrow> PostgresUpgrade" where
  "upgradeBlocked E up reason message =
     setUpgradeCond (he_K E) ''Ready'' ConditionFalse reason message
       (updUpgradeStatus (\<lambda>st. st\<lparr>gt_ObservedGeneration := om_Generation (g_Meta up),
                                  gt_Phase := ''Preflight''\<rparr>) up)"

abbreviation blockUpgrade ::
  "hub_env \<Rightarrow> PostgresUpgrade \<Rightarrow> string \<Rightarrow> string \<Rightarrow> Result reconciliation" where
  "blockUpgrade E up reason message \<equiv>
     perform E (StatusUpgrade (upgradeBlocked E up reason message)) (finish emptyResult)"

definition completeUpgrade :: "hub_env \<Rightarrow> PostgresUpgrade \<Rightarrow> PostgresUpgrade" where
  "completeUpgrade E up =
     setUpgradeCond (he_K E) ''Ready'' ConditionTrue ''UpgradeCompleted'' fixedText
       (updUpgradeStatus (\<lambda>st. st\<lparr>gt_ObservedGeneration := om_Generation (g_Meta up),
                                  gt_Phase := ''Completed''\<rparr>) up)"

definition setAnnotations :: "MultiSitePostgres \<Rightarrow> smap \<Rightarrow> MultiSitePostgres" where
  "setAnnotations inst values =
     inst\<lparr>i_Meta := (i_Meta inst)\<lparr>om_Annotations := mapsCopy (om_Annotations (i_Meta inst)) values\<rparr>\<rparr>"

definition patchUpgradeAnnotations ::
  "hub_env \<Rightarrow> MultiSitePostgres \<Rightarrow> smap \<Rightarrow> 'r reconciliation \<Rightarrow> 'r reconciliation" where
  "patchUpgradeAnnotations E inst values k = perform E (PatchInstance (setAnnotations inst values)) k"

definition upgradeAnnotations :: "string list" where
  "upgradeAnnotations =
     [upgradeUIDAnnotation, upgradeNameAnnotation, upgradePhaseAnnotation, upgradeMemberAnnotation,
      upgradeMembersAnnotation, upgradeFromAnnotation, upgradeCandidateAnnotation,
      upgradeSwitchedAnnotation, upgradeRevisionAnnotation, upgradeSourceMajorAnnotation]"

definition clearUpgradeAnnotations :: "MultiSitePostgres \<Rightarrow> MultiSitePostgres" where
  "clearUpgradeAnnotations inst =
     inst\<lparr>i_Meta := (i_Meta inst)\<lparr>om_Annotations :=
       fold AList.delete upgradeAnnotations (om_Annotations (i_Meta inst))\<rparr>\<rparr>"

definition nextRevision :: "MultiSitePostgres \<Rightarrow> string" where
  "nextRevision inst = fmt_d (it_ActiveRevision (i_Status inst) + 1)"

section \<open>Gates\<close>

definition majorPhaseApplied :: "MultiSitePostgres \<Rightarrow> bool" where
  "majorPhaseApplied inst =
     (case parseInt 64 (annotation inst upgradeRevisionAnnotation) of
        None \<Rightarrow> False
      | Some expected \<Rightarrow> it_ActiveRevision (i_Status inst) \<ge> expected \<and>
          allSitesApplied (it_Sites (i_Status inst)) (it_ActiveRevision (i_Status inst)))"

definition instanceReadyForOperation :: "condition_api \<Rightarrow> MultiSitePostgres \<Rightarrow> bool" where
  "instanceReadyForOperation K inst =
     (case parseInt 64 (annotation inst upgradeRevisionAnnotation) of
        None \<Rightarrow> False
      | Some expectedRevision \<Rightarrow> it_ActiveRevision (i_Status inst) \<ge> expectedRevision \<and>
          allSitesApplied (it_Sites (i_Status inst)) (it_ActiveRevision (i_Status inst)) \<and>
          it_ObservedGeneration (i_Status inst) = om_Generation (i_Meta inst) \<and>
          conditionTrue K (it_Conditions (i_Status inst)) ''Ready'' \<and>
          conditionTrue K (it_Conditions (i_Status inst)) ''TopologyReady'')"

definition majorUpgradeFailed :: "MultiSitePostgres \<Rightarrow> bool" where
  "majorUpgradeFailed inst =
     (\<exists>site \<in> set (it_Sites (i_Status inst)).
        case statusCondition (st_Conditions site) ''MajorUpgradeBlocked'' of
          None \<Rightarrow> False
        | Some c \<Rightarrow> c_Status c = ConditionTrue \<and> hasSuffix (c_Reason c) ''Failed'')"

definition selectUpgradeCandidate :: "MultiSitePostgres \<Rightarrow> string list \<Rightarrow> string" where
  "selectUpgradeCandidate inst upgraded =
     (let primary = it_Primary (i_Status inst);
          candidates =
            (if upgraded = []
             then filter (\<lambda>standby. standby \<noteq> primary) (it_SynchronousStandbys (i_Status inst))
             else filter (\<lambda>member. member \<noteq> primary \<and> member \<notin> set upgraded)
                    (postgresMembers (is_Sites (i_Spec inst)))) in
      case sort candidates of [] \<Rightarrow> '''' | c # _ \<Rightarrow> c)"

section \<open>Backups of an upgrade\<close>

text \<open>A directive that asks for a full backup, owned by the upgrade.\<close>

definition upgradeBackupDirective ::
  "PostgresUpgrade \<Rightarrow> string \<Rightarrow> string \<Rightarrow> string \<Rightarrow> string \<Rightarrow> hub_call" where
  "upgradeBackupDirective up name operationUID backupPhase spec =
     CreateConfigMap name
       \<lparr>cm_Labels = [(''multisite-postgres.dev/directive'', ''Backup''),
                     (''multisite-postgres.dev/instance-ref'', gs_InstanceRef (g_Spec up))],
        cm_Data = [(''type'', ''Backup''), (''instanceRef'', gs_InstanceRef (g_Spec up)),
                   (''deleting'', ''false''), (''operationUID'', operationUID),
                   (''upgradeBackupPhase'', backupPhase), (''spec.json'', spec)]\<rparr>
       \<lparr>ow_Kind = ''PostgresUpgrade'', ow_Name = om_Name (g_Meta up), ow_UID = om_UID (g_Meta up)\<rparr>"

text \<open>Create the directive unless it exists, then go on.\<close>

definition ensureBackupDirective ::
  "hub_env \<Rightarrow> PostgresUpgrade \<Rightarrow> string \<Rightarrow> string \<Rightarrow> string \<Rightarrow> time \<Rightarrow> 'r reconciliation
     \<Rightarrow> 'r reconciliation" where
  "ensureBackupDirective E up name operationUID backupPhase requestedAt k =
     (case rd_configMap (he_Reads E) name of
        ReadError e \<Rightarrow> failWith e
      | Found _ \<Rightarrow> k
      | NotFound \<Rightarrow>
          (case he_BackupSpec E ''full'' requestedAt of
             Inl e \<Rightarrow> failWith e
           | Inr spec \<Rightarrow>
               perform E (upgradeBackupDirective up name operationUID backupPhase spec) k))"

text \<open>The backup before a major upgrade. The continuation is taken when the
  backup is ready.\<close>

definition ensureFreshUpgradeBackup ::
  "hub_env \<Rightarrow> PostgresUpgrade \<Rightarrow> Result reconciliation \<Rightarrow> Result reconciliation" where
  "ensureFreshUpgradeBackup E up ready =
     (let condition = statusCondition (gt_Conditions (g_Status up)) ''FreshBackupReady'' in
      if (case condition of None \<Rightarrow> False | Some c \<Rightarrow> c_Status c = ConditionTrue) then ready
      else if (case condition of None \<Rightarrow> False
               | Some c \<Rightarrow> c_Status c = ConditionFalse \<and> c_Reason c = ''BackupFailed'')
      then blockUpgrade E up ''FreshBackupFailed'' (case condition of None \<Rightarrow> '''' | Some c \<Rightarrow> c_Message c)
      else
        (case gt_PreflightBackupRequestedAt (g_Status up) of
           None \<Rightarrow>
             perform E (StatusUpgrade
               (setUpgradeCond (he_K E) ''FreshBackupReady'' ConditionFalse ''BackupRequested'' fixedText
                  (updUpgradeStatus (\<lambda>st. st\<lparr>gt_PreflightBackupRequestedAt := Some (he_Now E),
                     gt_ObservedGeneration := om_Generation (g_Meta up), gt_Phase := ''Preflight''\<rparr>) up)))
               (finish emptyResult)
         | Some requestedAt \<Rightarrow>
             ensureBackupDirective E up (''mspsql-upgrade-backup-'' @ om_UID (g_Meta up))
               (om_UID (g_Meta up) @ ''-preflight-backup'') ''preflight'' requestedAt
               (setUpgradePhase E up ''Preflight'' ''FreshBackupProgressing'' emptyResult)))"

section \<open>The backup after a major upgrade\<close>

definition maxPostUpgradeBackupAttempts :: int where "maxPostUpgradeBackupAttempts = 5"
definition postUpgradeBackupRetryBase :: duration where "postUpgradeBackupRetryBase = minute"
definition postUpgradeBackupRetryMax :: duration where "postUpgradeBackupRetryMax = 30 * minute"
definition postUpgradeBackupDeadline :: duration where "postUpgradeBackupDeadline = 24 * hour"

text \<open>\<open>hash/fnv\<close>: FNV-1a with 32 bits.\<close>

definition fnv32a :: "string \<Rightarrow> 32 word" where
  "fnv32a s = fold (\<lambda>c h. xor h (of_char c) * 16777619) s 2166136261"

text \<open>The doubling loop: \<open>n\<close> iterations from \<open>delay\<close>, ended early at the
  maximum.\<close>

fun doubleDelay :: "nat \<Rightarrow> duration \<Rightarrow> duration" where
  "doubleDelay 0 delay = delay"
| "doubleDelay (Suc n) delay =
     (if 2 * delay \<ge> postUpgradeBackupRetryMax then postUpgradeBackupRetryMax
      else doubleDelay n (2 * delay))"

definition postUpgradeBackupRetryDelay :: "string \<Rightarrow> int \<Rightarrow> duration" where
  "postUpgradeBackupRetryDelay operation attempt =
     (let attempt = (if attempt < 1 then 1 else attempt);
          delay = doubleDelay (nat (attempt - 1)) postUpgradeBackupRetryBase;
          hash = fnv32a (operation @ [char_of (nat (attempt mod 256))]);
          jitter = (uint hash mod (postUpgradeBackupRetryBase div second)) * second;
          delay = delay + jitter in
      if delay > postUpgradeBackupRetryMax then postUpgradeBackupRetryMax else delay)"

definition ensureUpgradeOperationProgress :: "PostgresUpgrade \<Rightarrow> string \<Rightarrow> time \<Rightarrow> PostgresUpgrade" where
  "ensureUpgradeOperationProgress up operationUID now =
     (let operation = (case gt_Operation (g_Status up) of
            None \<Rightarrow> newOperation\<lparr>op_OperationUID := operationUID, op_Phase := ''PostUpgradeBackup'',
                                 op_DeadlineAt := Some (now + postUpgradeBackupDeadline)\<rparr>
          | Some o' \<Rightarrow> o');
          operation = (if op_DeadlineAt operation = None
                       then operation\<lparr>op_DeadlineAt := Some (now + postUpgradeBackupDeadline)\<rparr>
                       else operation) in
      updUpgradeStatus (gt_Operation_update (\<lambda>_. Some operation)) up)"

definition updOperation ::
  "(OperationProgressStatus \<Rightarrow> OperationProgressStatus) \<Rightarrow> PostgresUpgrade \<Rightarrow> PostgresUpgrade" where
  "updOperation f up = updUpgradeStatus (gt_Operation_update (map_option f)) up"

definition postUpgradeOperationUID :: "PostgresUpgrade \<Rightarrow> string" where
  "postUpgradeOperationUID up =
     om_UID (g_Meta up) @ ''-post-upgrade-backup-'' @ fmt_d (gt_PostUpgradeBackupAttempt (g_Status up))"

text \<open>The continuation is taken, with the upgrade as it is then, when the backup
  is ready.\<close>

definition ensurePostUpgradeBackup ::
  "hub_env \<Rightarrow> PostgresUpgrade \<Rightarrow> (PostgresUpgrade \<Rightarrow> Result reconciliation) \<Rightarrow> Result reconciliation" where
  "ensurePostUpgradeBackup E up0 ready =
     (let operationUID = postUpgradeOperationUID up0;
          up = ensureUpgradeOperationProgress up0 operationUID (he_Now E);
          condition = statusCondition (gt_Conditions (g_Status up)) ''PostUpgradeBackupReady'';
          isFalse = (\<lambda>reason. case condition of None \<Rightarrow> False
                     | Some c \<Rightarrow> c_Status c = ConditionFalse \<and> c_Reason c = reason);
          retryAt = Option.bind (gt_Operation (g_Status up)) op_NextRetryAt in
      if (case condition of None \<Rightarrow> False | Some c \<Rightarrow> c_Status c = ConditionTrue)
      then ready (updOperation (\<lambda>o'. o'\<lparr>op_Terminal := True, op_ManualInterventionRequired := False,
                    op_LastErrorReason := '''', op_LastErrorMessage := '''', op_NextRetryAt := None\<rparr>) up)
      else if isFalse ''BackupFailed''
      then
        (let attempt = gt_PostUpgradeBackupAttempt (g_Status up);
             failed = updOperation (\<lambda>o'. o'\<lparr>op_Attempt := attempt,
                        op_LastErrorReason := (case condition of None \<Rightarrow> '''' | Some c \<Rightarrow> c_Reason c),
                        op_LastErrorMessage := (case condition of None \<Rightarrow> '''' | Some c \<Rightarrow> c_Message c)\<rparr>) up in
         if attempt \<ge> maxPostUpgradeBackupAttempts
         then
           perform E (StatusUpgrade
             (updUpgradeStatus (gt_Phase_update (\<lambda>_. ''Finalizing''))
                (setUpgradeCond (he_K E) ''Ready'' ConditionFalse ''ManualInterventionRequired'' fixedText
                   (setUpgradeCond (he_K E) ''PostUpgradeBackupReady'' ConditionFalse
                      ''ManualInterventionRequired'' fixedText
                      (updOperation (\<lambda>o'. o'\<lparr>op_Terminal := True, op_ManualInterventionRequired := True,
                                        op_NextRetryAt := None\<rparr>) failed)))))
             (finish emptyResult)
         else
           (let retried = updUpgradeStatus (\<lambda>st. st\<lparr>gt_PostUpgradeBackupAttempt := attempt + 1,
                            gt_PostUpgradeBackupRequestedAt := None\<rparr>) failed;
                delay = postUpgradeBackupRetryDelay (om_UID (g_Meta up)) (attempt + 1);
                retried = updOperation (\<lambda>o'. o'\<lparr>op_OperationUID := postUpgradeOperationUID retried,
                            op_Attempt := attempt + 1, op_NextRetryAt := Some (he_Now E + delay),
                            op_Terminal := False, op_ManualInterventionRequired := False\<rparr>) retried in
            perform E (StatusUpgrade (setUpgradeCond (he_K E) ''PostUpgradeBackupReady'' ConditionFalse
                       ''BackupRetryRequested'' fixedText retried))
              (finish \<lparr>RequeueAfter = delay\<rparr>)))
      else if isFalse ''BackupRetryRequested'' \<and>
              (case retryAt of None \<Rightarrow> False | Some at \<Rightarrow> he_Now E < at)
      then finish \<lparr>RequeueAfter = (case retryAt of None \<Rightarrow> 0 | Some at \<Rightarrow> at - he_Now E)\<rparr>
      else
        (case gt_PostUpgradeBackupRequestedAt (g_Status up) of
           None \<Rightarrow>
             (let attempt = gt_PostUpgradeBackupAttempt (g_Status up);
                  requested = updUpgradeStatus (gt_PostUpgradeBackupRequestedAt_update (\<lambda>_. Some (he_Now E))) up;
                  requested = updOperation (\<lambda>o'. o'\<lparr>op_OperationUID := operationUID,
                    op_Phase := ''PostUpgradeBackup'', op_Attempt := attempt, op_NextRetryAt := None\<rparr>) requested in
              perform E (StatusUpgrade (setUpgradeCond (he_K E) ''PostUpgradeBackupReady'' ConditionFalse
                         ''BackupRequested'' fixedText requested))
                (finish emptyResult))
         | Some requestedAt \<Rightarrow>
             ensureBackupDirective E up
               (''mspsql-post-upgrade-backup-'' @ om_UID (g_Meta up) @ ''-'' @
                  fmt_d (gt_PostUpgradeBackupAttempt (g_Status up)))
               operationUID ''post-upgrade'' requestedAt
               (setUpgradePhase E up ''Finalizing'' ''PostUpgradeBackupProgressing'' emptyResult)))"

section \<open>Lemmas\<close>

lemma annotation_setAnnotations [simp]:
  "annotation (setAnnotations inst values) k = mget (mapsCopy (om_Annotations (i_Meta inst)) values) k"
  by (simp add: setAnnotations_def)

lemma setAnnotations_simps [simp]:
  "i_Spec (setAnnotations inst values) = i_Spec inst"
  "i_Status (setAnnotations inst values) = i_Status inst"
  by (simp_all add: setAnnotations_def)

lemma mget_fold_delete: "mget (fold AList.delete ks m) k = (if k \<in> set ks then '''' else mget m k)"
  by (induction ks arbitrary: m) auto

lemma annotation_clear:
  "annotation (clearUpgradeAnnotations inst) k =
     (if k \<in> set upgradeAnnotations then '''' else annotation inst k)"
  by (simp add: clearUpgradeAnnotations_def mget_fold_delete)

lemma clear_simps [simp]:
  "i_Spec (clearUpgradeAnnotations inst) = i_Spec inst"
  "i_Status (clearUpgradeAnnotations inst) = i_Status inst"
  by (simp_all add: clearUpgradeAnnotations_def)

lemma upgradeAnnotations_members:
  "upgradeUIDAnnotation \<in> set upgradeAnnotations" "upgradePhaseAnnotation \<in> set upgradeAnnotations"
  by (simp_all add: upgradeAnnotations_def)

lemma clear_annotations [simp]:
  "annotation (clearUpgradeAnnotations inst) upgradeUIDAnnotation = ''''"
  "annotation (clearUpgradeAnnotations inst) upgradePhaseAnnotation = ''''"
  by (simp_all only: annotation_clear upgradeAnnotations_members if_True)

lemma g_Meta_setUpgradeCond [simp]:
  "g_Meta (setUpgradeCond K t s r m up) = g_Meta up" "g_Spec (setUpgradeCond K t s r m up) = g_Spec up"
  "gt_Phase (g_Status (setUpgradeCond K t s r m up)) = gt_Phase (g_Status up)"
  by (simp_all add: setUpgradeCond_def)

lemma trace_setUpgradePhase:
  "x \<in> set (trace (setUpgradePhase E up phase reason result)) \<Longrightarrow>
     \<exists>up'. x = StatusUpgrade up' \<and> gt_Phase (g_Status up') = phase \<and> g_Meta up' = g_Meta up"
  by (auto simp: setUpgradePhase_def Let_def dest!: in_trace_call split: if_splits)

lemma selectUpgradeCandidate_sound:
  assumes "selectUpgradeCandidate inst upgraded = c" "c \<noteq> ''''"
  shows "c \<noteq> it_Primary (i_Status inst)"
    and "upgraded = [] \<Longrightarrow> c \<in> set (it_SynchronousStandbys (i_Status inst))"
    and "upgraded \<noteq> [] \<Longrightarrow> c \<in> set (postgresMembers (is_Sites (i_Spec inst))) \<and> c \<notin> set upgraded"
proof -
  let ?cs = "if upgraded = []
     then filter (\<lambda>standby. standby \<noteq> it_Primary (i_Status inst)) (it_SynchronousStandbys (i_Status inst))
     else filter (\<lambda>member. member \<noteq> it_Primary (i_Status inst) \<and> member \<notin> set upgraded)
            (postgresMembers (is_Sites (i_Spec inst)))"
  have "c \<in> set ?cs"
    using assms unfolding selectUpgradeCandidate_def Let_def
    by (cases "sort ?cs") (auto dest: sort_Cons_member split: if_splits)
  then show "c \<noteq> it_Primary (i_Status inst)"
    and "upgraded = [] \<Longrightarrow> c \<in> set (it_SynchronousStandbys (i_Status inst))"
    and "upgraded \<noteq> [] \<Longrightarrow> c \<in> set (postgresMembers (is_Sites (i_Spec inst))) \<and> c \<notin> set upgraded"
    by (auto split: if_splits)
qed

lemma selectUpgradeCandidate_none:
  assumes "selectUpgradeCandidate inst upgraded = ''''" "upgraded \<noteq> []"
    and "m \<in> set (postgresMembers (is_Sites (i_Spec inst)))"
  shows "m = it_Primary (i_Status inst) \<or> m \<in> set upgraded"
proof (rule ccontr)
  assume contra: "\<not> ?thesis"
  define cs where "cs = filter (\<lambda>member. member \<noteq> it_Primary (i_Status inst) \<and> member \<notin> set upgraded)
            (postgresMembers (is_Sites (i_Spec inst)))"
  have m: "m \<in> set cs" using contra assms(3) by (simp add: cs_def)
  have sel: "(case sort cs of [] \<Rightarrow> [] | c # _ \<Rightarrow> c) = []"
    using assms(1,2) by (simp add: selectUpgradeCandidate_def Let_def cs_def)
  show False
  proof (cases "sort cs")
    case Nil
    with m show False by simp
  next
    case (Cons c rest)
    then have "c \<in> set cs" by (rule sort_Cons_member)
    then have "c \<in> set (postgresMembers (is_Sites (i_Spec inst)))" by (simp add: cs_def)
    then have "c \<noteq> []" by (auto simp: postgresMembers_def postgresMember_def)
    with sel Cons show False by simp
  qed
qed

lemma doubleDelay_bounds:
  "minute \<le> delay \<Longrightarrow> delay \<le> postUpgradeBackupRetryMax \<Longrightarrow>
     minute \<le> doubleDelay n delay \<and> doubleDelay n delay \<le> postUpgradeBackupRetryMax"
proof (induction n arbitrary: delay)
  case (Suc n)
  show ?case
  proof (cases "2 * delay \<ge> postUpgradeBackupRetryMax")
    case True
    then show ?thesis by (simp add: postUpgradeBackupRetryMax_def duration_defs)
  next
    case False
    with Suc.IH [of "2 * delay"] Suc.prems show ?thesis by (simp add: duration_defs)
  qed
qed simp

section \<open>Properties\<close>

text \<open>The delay before a failed backup is tried again lies between one
  minute and thirty minutes, for every operation and every attempt number.\<close>

theorem retry_delay_bounded:
  "minute \<le> postUpgradeBackupRetryDelay operation attempt \<and>
   postUpgradeBackupRetryDelay operation attempt \<le> 30 * minute"
proof -
  have cap: "minute \<le> (if d + j > postUpgradeBackupRetryMax then postUpgradeBackupRetryMax else d + j) \<and>
      (if d + j > postUpgradeBackupRetryMax then postUpgradeBackupRetryMax else d + j) \<le> 30 * minute"
    if "minute \<le> d" "0 \<le> j" for d j
    using that by (simp add: postUpgradeBackupRetryMax_def duration_defs)
  have "0 \<le> (uint h mod (postUpgradeBackupRetryBase div second)) * second" for h :: "32 word"
    by (simp add: postUpgradeBackupRetryBase_def duration_defs)
  moreover have "minute \<le> doubleDelay n postUpgradeBackupRetryBase" for n
    using doubleDelay_bounds [of postUpgradeBackupRetryBase n]
    by (simp add: postUpgradeBackupRetryBase_def postUpgradeBackupRetryMax_def duration_defs)
  ultimately show ?thesis
    unfolding postUpgradeBackupRetryDelay_def Let_def by (intro cap)
qed

end
