(* ===== verification/Upgrade_Major.thy ===== *)
theory Upgrade_Major
  imports Upgrade_Common
begin

text \<open>
  The major upgrade of \<open>internal/controller/postgresupgrade_controller.go\<close>: the
  contract that is checked before it starts and the phase machine that drains,
  stops, snapshots and converts an instance and brings it back, or rolls it
  back. The phase is an annotation of the instance; the machine moves by
  patching it.
\<close>

section \<open>Phases\<close>

definition majorPhases :: "MajorUpgradePhase list" where
  "majorPhases =
     [MajorUpgradePhasePreflight, MajorUpgradePhaseDrain, MajorUpgradePhaseStop,
      MajorUpgradePhaseSnapshot, MajorUpgradePhaseUpgradePrimary, MajorUpgradePhaseStanzaUpgrade,
      MajorUpgradePhaseStartPrimary, MajorUpgradePhaseRestoreWrites, MajorUpgradePhaseReplicas,
      MajorUpgradePhaseFinalize, MajorUpgradePhaseRollback, MajorUpgradePhaseRollbackStart,
      MajorUpgradePhaseRollbackRestoreWrites]"

text \<open>The phase a string denotes; \<open>None\<close> is the default branch of a switch.\<close>

definition majorPhaseOf :: "string \<Rightarrow> MajorUpgradePhase option" where
  "majorPhaseOf s = List.find (\<lambda>p. majorPhaseName p = s) majorPhases"

abbreviation majorPhase :: "MultiSitePostgres \<Rightarrow> MajorUpgradePhase option" where
  "majorPhase inst \<equiv> majorPhaseOf (annotation inst upgradePhaseAnnotation)"

section \<open>The contract\<close>

fun rollbackPolicy :: "StorageRollbackPolicy list \<Rightarrow> string \<Rightarrow> StorageRollbackPolicy option" where
  "rollbackPolicy [] storageClass = None"
| "rollbackPolicy (policy # policies) storageClass =
     (if srp_StorageClassName policy = storageClass then Some policy
      else rollbackPolicy policies storageClass)"

definition snapshotClassDiscovered :: "VolumeSnapshotClassInventory list \<Rightarrow> string \<Rightarrow> bool" where
  "snapshotClassDiscovered classes name =
     (name \<noteq> '''' \<and> (\<exists>c \<in> set classes. vsc_Name c = name \<and> vsc_Driver c \<noteq> ''''))"

definition checkSiteStorage ::
  "hub_env \<Rightarrow> MajorUpgradeBenchmark \<Rightarrow> PostgresSiteSpec \<Rightarrow> string option" where
  "checkSiteStorage E benchmark site =
     (case ss_Postgres (ps_Storage site) of
        None \<Rightarrow> None
      | Some request \<Rightarrow>
          if ps_Role site \<noteq> SiteRoleData then None
          else if sr_StorageClassName request \<notin> set (mb_PostgresStorageClasses benchmark)
          then Some (''benchmark does not cover site '' @ ps_Name site @ '' StorageClass '' @
                     sr_StorageClassName request)
          else
            (case rd_registration (he_Reads E) (ps_SiteRegistrationRef site) of
               NotFound \<Rightarrow> Some (''read site '' @ ps_Name site @ '' registration: NotFound'')
             | ReadError e \<Rightarrow> Some (''read site '' @ ps_Name site @ '' registration: '' @ e)
             | Found registration \<Rightarrow>
                 (case rollbackPolicy (rs_StorageRollbackPolicies (r_Spec registration))
                         (sr_StorageClassName request) of
                    None \<Rightarrow> Some (''site '' @ ps_Name site @ '' has no rollback policy for StorageClass '' @
                                  sr_StorageClassName request)
                  | Some policy \<Rightarrow>
                      if srp_Strategy policy = ''VolumeSnapshot'' \<and>
                         \<not> snapshotClassDiscovered
                             (rg_DiscoveredVolumeSnapshotClasses (r_Status registration))
                             (srp_VolumeSnapshotClassName policy)
                      then Some (''site '' @ ps_Name site @ '' VolumeSnapshotClass '' @
                                 srp_VolumeSnapshotClassName policy @ '' is not discovered'')
                      else None)))"

fun firstError :: "('a \<Rightarrow> string option) \<Rightarrow> 'a list \<Rightarrow> string option" where
  "firstError f [] = None"
| "firstError f (x # xs) = (case f x of Some e \<Rightarrow> Some e | None \<Rightarrow> firstError f xs)"

definition validateMajorUpgradeContract ::
  "hub_env \<Rightarrow> PostgresUpgrade \<Rightarrow> MultiSitePostgres \<Rightarrow> string option" where
  "validateMajorUpgradeContract E up inst =
     (let spec = g_Spec up; pg = is_Postgres (i_Spec inst); now = he_Now E in
      if gs_TargetMajorVersion spec < pg_MajorVersion pg
      then Some ''major-version downgrade is not supported''
      else if gs_UpgradeImage spec = '''' then Some ''major upgrade requires a purpose-built upgradeImage''
      else if \<not> containsSub (gs_UpgradeImage spec) ''@sha256:''
      then Some ''upgradeImage must be pinned by sha256 digest''
      else if \<not> containsSub (gs_TargetImage spec) ''@sha256:''
      then Some ''targetImage must be pinned by sha256 digest''
      else if gs_RollbackRetention spec \<le> 0 then Some ''rollbackRetention must be positive''
      else if is_Backup (i_Spec inst) = None
      then Some ''major upgrade requires a configured pgBackRest repository''
      else
        (case gs_Benchmark spec of
           None \<Rightarrow> Some ''major upgrade requires a qualified benchmark''
         | Some benchmark \<Rightarrow>
             if mb_EstimatedWriteOutage benchmark \<le> 0 \<or> mb_Evidence benchmark = ''''
             then Some ''benchmark must include a positive outage estimate and evidence reference''
             else if \<not> containsSub (mb_Evidence benchmark) ''@sha256:''
             then Some ''benchmark evidence must be pinned by sha256 digest''
             else if mb_TestedAt benchmark > now + 5 * minute
             then Some ''benchmark testedAt is in the future''
             else if now - mb_TestedAt benchmark > 30 * 24 * hour
             then Some ''benchmark is older than 30 days''
             else if mb_UpgradeImage benchmark \<noteq> gs_UpgradeImage spec
             then Some ''benchmark upgradeImage does not match this operation''
             else if mb_SourceMajorVersion benchmark \<noteq> pg_MajorVersion pg \<or>
                     mb_TargetMajorVersion benchmark \<noteq> gs_TargetMajorVersion spec
             then Some ''benchmark PostgreSQL versions do not match this operation''
             else if mb_TDEEnabled benchmark \<noteq> tde_Enabled (is_TDE (i_Spec inst))
             then Some ''benchmark TDE mode does not match this instance''
             else if mb_EstimatedWriteOutage benchmark > gs_ServiceRestorationTarget spec
             then Some (''benchmarked write outage '' @ he_FormatDuration E (mb_EstimatedWriteOutage benchmark) @
                        '' exceeds restoration target '' @ he_FormatDuration E (gs_ServiceRestorationTarget spec))
             else firstError (checkSiteStorage E benchmark) (is_Sites (i_Spec inst))))"

section \<open>The phase machine\<close>

definition advanceMajorPhase ::
  "hub_env \<Rightarrow> PostgresUpgrade \<Rightarrow> MultiSitePostgres \<Rightarrow> MajorUpgradePhase \<Rightarrow> string \<Rightarrow> string \<Rightarrow> bool
     \<Rightarrow> Result \<Rightarrow> Result reconciliation" where
  "advanceMajorPhase E up inst next statusPhase reason startOutage result =
     patchUpgradeAnnotations E inst
       [(upgradePhaseAnnotation, majorPhaseName next), (upgradeRevisionAnnotation, nextRevision inst)]
       (let up = (if startOutage \<and> gt_WriteOutageStartedAt (g_Status up) = None
                  then updUpgradeStatus (gt_WriteOutageStartedAt_update (\<lambda>_. Some (he_Now E))) up
                  else up) in
        setUpgradePhase E up statusPhase reason result)"

text \<open>Whether the instance may take writes again after its replicas were
  cloned.\<close>

definition replicasInSync :: "condition_api \<Rightarrow> MultiSitePostgres \<Rightarrow> bool" where
  "replicasInSync K inst =
     (conditionTrue K (it_Conditions (i_Status inst)) ''TopologyReady'' \<and>
      (pg_SynchronousStandbyCount (is_Postgres (i_Spec inst)) > 0 \<longrightarrow>
         conditionTrue K (it_Conditions (i_Status inst)) ''SynchronousReplicationReady''))"

text \<open>The switch over the phase, once every site has applied it.\<close>

definition majorPhaseStep ::
  "hub_env \<Rightarrow> PostgresUpgrade \<Rightarrow> MultiSitePostgres \<Rightarrow> Result reconciliation" where
  "majorPhaseStep E up inst =
     (case majorPhase inst of
        Some MajorUpgradePhasePreflight \<Rightarrow>
          advanceMajorPhase E up inst MajorUpgradePhaseDrain ''DrainingWrites'' ''PreflightPassed'' True emptyResult
      | Some MajorUpgradePhaseDrain \<Rightarrow>
          advanceMajorPhase E up inst MajorUpgradePhaseStop ''Stopping'' ''WritesDrained'' False emptyResult
      | Some MajorUpgradePhaseStop \<Rightarrow>
          advanceMajorPhase E up inst MajorUpgradePhaseSnapshot ''CapturingRollback'' ''MembersStopped'' False emptyResult
      | Some MajorUpgradePhaseSnapshot \<Rightarrow>
          advanceMajorPhase E up inst MajorUpgradePhaseUpgradePrimary ''UpgradingPrimary'' ''RollbackCaptured''
            False emptyResult
      | Some MajorUpgradePhaseUpgradePrimary \<Rightarrow>
          advanceMajorPhase E up inst MajorUpgradePhaseStanzaUpgrade ''UpgradingBackupStanza'' ''PrimaryConverted''
            False emptyResult
      | Some MajorUpgradePhaseStanzaUpgrade \<Rightarrow>
          advanceMajorPhase E up inst MajorUpgradePhaseStartPrimary ''RestoringService'' ''BackupStanzaUpgraded''
            False emptyResult
      | Some MajorUpgradePhaseStartPrimary \<Rightarrow>
          advanceMajorPhase E up inst MajorUpgradePhaseReplicas ''ReseedingReplicas'' ''PrimaryAccepted''
            False emptyResult
      | Some MajorUpgradePhaseReplicas \<Rightarrow>
          if \<not> replicasInSync (he_K E) inst
          then setUpgradePhase E up ''ReseedingReplicas'' ''ReplicaSyncPending'' emptyResult
          else advanceMajorPhase E up inst MajorUpgradePhaseRestoreWrites ''RestoringWrites'' ''ReplicaSyncVerified''
                 False emptyResult
      | Some MajorUpgradePhaseRestoreWrites \<Rightarrow>
          (let up' = (if gt_WriteServiceRestoredAt (g_Status up) = None
                      then updUpgradeStatus (gt_WriteServiceRestoredAt_update (\<lambda>_. Some (he_Now E))) up else up);
               inst' = setAnnotations
                 (inst\<lparr>i_Spec := (i_Spec inst)\<lparr>is_Postgres := (is_Postgres (i_Spec inst))
                    \<lparr>pg_MajorVersion := gs_TargetMajorVersion (g_Spec up), pg_Image := gs_TargetImage (g_Spec up)\<rparr>\<rparr>\<rparr>)
                 [(upgradePhaseAnnotation, majorPhaseName MajorUpgradePhaseFinalize),
                  (upgradeRevisionAnnotation, nextRevision inst)] in
           perform E (PatchInstance inst') (setUpgradePhase E up' ''Finalizing'' ''ReplicasReady'' emptyResult))
      | Some MajorUpgradePhaseFinalize \<Rightarrow>
          ensurePostUpgradeBackup E up (\<lambda>up'.
            perform E (StatusUpgrade (completeUpgrade E up'))
              (perform E (PatchInstance (clearUpgradeAnnotations inst)) (finish emptyResult)))
      | Some MajorUpgradePhaseRollback \<Rightarrow>
          advanceMajorPhase E up inst MajorUpgradePhaseRollbackStart ''VerifyingRollback'' ''RollbackStorageRestored''
            False emptyResult
      | Some MajorUpgradePhaseRollbackStart \<Rightarrow>
          advanceMajorPhase E up inst MajorUpgradePhaseRollbackRestoreWrites ''RestoringWrites'' ''RollbackAccepted''
            False emptyResult
      | Some MajorUpgradePhaseRollbackRestoreWrites \<Rightarrow>
          (let up' = setUpgradeCond (he_K E) ''Ready'' ConditionFalse ''RolledBack'' fixedText
                 (updUpgradeStatus (\<lambda>st. st\<lparr>gt_WriteServiceRestoredAt := Some (he_Now E),
                    gt_ObservedGeneration := om_Generation (g_Meta up), gt_Phase := ''Failed''\<rparr>) up) in
           perform E (StatusUpgrade up')
             (perform E (PatchInstance (clearUpgradeAnnotations inst)) (finish emptyResult)))
      | None \<Rightarrow> blockUpgrade E up ''InvalidState'' fixedText)"

definition reconcileMajorUpgrade ::
  "hub_env \<Rightarrow> PostgresUpgrade \<Rightarrow> MultiSitePostgres \<Rightarrow> Result reconciliation" where
  "reconcileMajorUpgrade E up inst =
     (let phase = annotation inst upgradePhaseAnnotation;
          waiting = (if \<not> majorPhaseApplied inst
                     then setUpgradePhase E up phase ''PhaseProgressing'' emptyResult
                     else majorPhaseStep E up inst) in
      if annotation inst upgradeUIDAnnotation = ''''
      then
        if it_Primary (i_Status inst) = '''' \<or>
           \<not> conditionTrue (he_K E) (it_Conditions (i_Status inst)) ''TopologyReady''
        then blockUpgrade E up ''TopologyUnavailable'' fixedText
        else
          patchUpgradeAnnotations E inst
            [(upgradeUIDAnnotation, om_UID (g_Meta up)), (upgradeNameAnnotation, om_Name (g_Meta up)),
             (upgradePhaseAnnotation, majorPhaseName MajorUpgradePhasePreflight),
             (upgradeFromAnnotation, it_Primary (i_Status inst)),
             (upgradeSourceMajorAnnotation, fmt_d (pg_MajorVersion (is_Postgres (i_Spec inst)))),
             (upgradeRevisionAnnotation, nextRevision inst)]
            (setUpgradePhase E up ''Preflight'' ''PreflightIssued'' emptyResult)
      else if annotation inst upgradeUIDAnnotation \<noteq> om_UID (g_Meta up)
      then blockUpgrade E up ''OperationConflict'' fixedText
      else if majorUpgradeFailed inst
      then
        (if majorPhase inst \<in> {Some MajorUpgradePhaseUpgradePrimary, Some MajorUpgradePhaseStanzaUpgrade,
                               Some MajorUpgradePhaseStartPrimary}
         then advanceMajorPhase E up inst MajorUpgradePhaseRollback ''RollingBack'' ''PhaseFailed'' False emptyResult
         else if majorPhase inst \<in> {Some MajorUpgradePhaseRollback, Some MajorUpgradePhaseRollbackStart,
                                    Some MajorUpgradePhaseRollbackRestoreWrites}
         then waiting
         else setUpgradePhase E up phase ''ForwardRepairRequired'' emptyResult)
      else waiting)"

section \<open>Deletion of an upgrade\<close>

definition removeUpgradeFinalizer :: "hub_env \<Rightarrow> PostgresUpgrade \<Rightarrow> Result reconciliation" where
  "removeUpgradeFinalizer E up =
     perform E (UpdateUpgrade (up\<lparr>g_Meta := removeFinalizer operationFinalizer (g_Meta up)\<rparr>)) (finish emptyResult)"

definition progressResult :: Result where
  "progressResult = \<lparr>RequeueAfter = 10 * second\<rparr>"

definition reconcileUpgradeDeletion :: "hub_env \<Rightarrow> PostgresUpgrade \<Rightarrow> Result reconciliation" where
  "reconcileUpgradeDeletion E up =
     (if \<not> containsFinalizer (g_Meta up) operationFinalizer then finish emptyResult
      else
        (case rd_instance (he_Reads E) (gs_InstanceRef (g_Spec up)) of
           ReadError e \<Rightarrow> failWith e
         | NotFound \<Rightarrow> removeUpgradeFinalizer E up
         | Found inst \<Rightarrow>
             (let owned = (annotation inst upgradeUIDAnnotation = om_UID (g_Meta up));
                  phase = gt_Phase (g_Status up) in
              if mget (om_Annotations (g_Meta up)) forceAbandonAnnotation = ''true''
              then
                (let blocked = upgradeBlocked E up ''ForceAbandoned'' fixedText;
                     rest = performIgnore E (StatusUpgrade blocked) (removeUpgradeFinalizer E blocked) in
                 if owned then perform E (PatchInstance (clearUpgradeAnnotations inst)) rest else rest)
              else if \<not> owned \<or> phase = '''' \<or> phase = ''Completed'' \<or> phase = ''Failed''
              then removeUpgradeFinalizer E up
              else
                (if majorPhase inst = Some MajorUpgradePhasePreflight
                 then perform E (PatchInstance (clearUpgradeAnnotations inst)) (removeUpgradeFinalizer E up)
                 else if majorPhase inst \<in> {Some MajorUpgradePhaseDrain, Some MajorUpgradePhaseStop,
                           Some MajorUpgradePhaseSnapshot, Some MajorUpgradePhaseUpgradePrimary,
                           Some MajorUpgradePhaseStanzaUpgrade, Some MajorUpgradePhaseStartPrimary}
                 then advanceMajorPhase E up inst MajorUpgradePhaseRollback ''RollingBack'' ''DeletionRequested''
                        False progressResult
                 else if majorPhase inst \<in> {Some MajorUpgradePhaseRollback, Some MajorUpgradePhaseRollbackStart,
                           Some MajorUpgradePhaseRollbackRestoreWrites}
                 then setUpgradePhase E up phase ''CancellationInProgress'' progressResult
                 else setUpgradePhase E up phase ''ForwardRepairRequired'' emptyResult))))"

section \<open>The moves of the machine, abstractly\<close>

text \<open>The phase changes of an upgrade that is not being deleted.\<close>

inductive majorMove :: "MajorUpgradePhase \<Rightarrow> MajorUpgradePhase \<Rightarrow> bool" where
  drain: "majorMove MajorUpgradePhasePreflight MajorUpgradePhaseDrain"
| stop: "majorMove MajorUpgradePhaseDrain MajorUpgradePhaseStop"
| snapshot: "majorMove MajorUpgradePhaseStop MajorUpgradePhaseSnapshot"
| convert: "majorMove MajorUpgradePhaseSnapshot MajorUpgradePhaseUpgradePrimary"
| stanza: "majorMove MajorUpgradePhaseUpgradePrimary MajorUpgradePhaseStanzaUpgrade"
| start: "majorMove MajorUpgradePhaseStanzaUpgrade MajorUpgradePhaseStartPrimary"
| replicas: "majorMove MajorUpgradePhaseStartPrimary MajorUpgradePhaseReplicas"
| writes: "majorMove MajorUpgradePhaseReplicas MajorUpgradePhaseRestoreWrites"
| final: "majorMove MajorUpgradePhaseRestoreWrites MajorUpgradePhaseFinalize"
| fail_convert: "majorMove MajorUpgradePhaseUpgradePrimary MajorUpgradePhaseRollback"
| fail_stanza: "majorMove MajorUpgradePhaseStanzaUpgrade MajorUpgradePhaseRollback"
| fail_start: "majorMove MajorUpgradePhaseStartPrimary MajorUpgradePhaseRollback"
| rollback_start: "majorMove MajorUpgradePhaseRollback MajorUpgradePhaseRollbackStart"
| rollback_writes: "majorMove MajorUpgradePhaseRollbackStart MajorUpgradePhaseRollbackRestoreWrites"

code_pred majorMove .


inductive_simps majorMove_to_rollback: "majorMove p MajorUpgradePhaseRollback"
inductive_simps majorMove_to_writes: "majorMove p MajorUpgradePhaseRestoreWrites"

section \<open>Lemmas\<close>

lemma majorPhaseOf_name [simp]: "majorPhaseOf (majorPhaseName p) = Some p"
  by (cases p) (simp_all add: majorPhaseOf_def majorPhases_def)

lemma majorPhaseOf_empty [simp]: "majorPhaseOf [] = None"
  by (simp add: majorPhaseOf_def majorPhases_def)

lemma phase_of_move:
  "majorPhase (setAnnotations inst [(upgradePhaseAnnotation, majorPhaseName q),
      (upgradeRevisionAnnotation, r)]) = Some q"
  by (simp add: annotation_neq)

lemma trace_advanceMajorPhase:
  assumes "x \<in> set (trace (advanceMajorPhase E up inst q statusPhase reason outage result))"
  shows "x = PatchInstance (setAnnotations inst [(upgradePhaseAnnotation, majorPhaseName q),
            (upgradeRevisionAnnotation, nextRevision inst)]) \<or> (\<exists>up'. x = StatusUpgrade up' \<and>
            gt_Phase (g_Status up') = statusPhase \<and> g_Meta up' = g_Meta up)"
  using assms
  by (auto simp: advanceMajorPhase_def patchUpgradeAnnotations_def Let_def
      dest!: in_trace_call trace_setUpgradePhase split: if_splits)

lemma advance_patch:
  assumes "PatchInstance inst' \<in> set (trace (advanceMajorPhase E up inst q statusPhase reason outage result))"
  shows "majorPhase inst' = Some q"
  using trace_advanceMajorPhase [OF assms] phase_of_move by blast

lemma no_patch_setUpgradePhase: "PatchInstance i \<notin> set (trace (setUpgradePhase E up p r res))"
  by (auto dest: trace_setUpgradePhase)

lemma no_patch_blockUpgrade: "PatchInstance i \<notin> set (trace (blockUpgrade E up r m))"
  by (auto dest: in_trace_call)

lemma trace_ensureBackupDirective:
  "x \<in> set (trace (ensureBackupDirective E up n o' b at k)) \<Longrightarrow>
     (\<exists>spec. x = upgradeBackupDirective up n o' b spec) \<or> x \<in> set (trace k)"
  by (auto simp: ensureBackupDirective_def split: read.splits sum.splits dest!: in_trace_call)

text \<open>What the post-upgrade backup writes: status updates, directives, and what
  the continuation writes once the backup is reported ready.\<close>

definition postUpgradeBackupDone :: "PostgresUpgrade \<Rightarrow> bool" where
  "postUpgradeBackupDone up =
     (case statusCondition (gt_Conditions (g_Status up)) ''PostUpgradeBackupReady'' of
        None \<Rightarrow> False | Some c \<Rightarrow> c_Status c = ConditionTrue)"

lemma gt_Conditions_ensureProgress [simp]:
  "gt_Conditions (g_Status (ensureUpgradeOperationProgress up o' now)) = gt_Conditions (g_Status up)"
  "gt_Phase (g_Status (ensureUpgradeOperationProgress up o' now)) = gt_Phase (g_Status up)"
  "g_Meta (ensureUpgradeOperationProgress up o' now) = g_Meta up"
  by (simp_all add: ensureUpgradeOperationProgress_def Let_def)

lemma updOperation_simps [simp]:
  "gt_Conditions (g_Status (updOperation f up)) = gt_Conditions (g_Status up)"
  "gt_Phase (g_Status (updOperation f up)) = gt_Phase (g_Status up)"
  "g_Meta (updOperation f up) = g_Meta up"
  by (simp_all add: updOperation_def)

lemma trace_ensurePostUpgradeBackup:
  assumes "x \<in> set (trace (ensurePostUpgradeBackup E up ready))"
  shows "(postUpgradeBackupDone up \<and> (\<exists>up'. x \<in> set (trace (ready up')))) \<or>
    (\<not> postUpgradeBackupDone up \<and>
      ((\<exists>up'. x = StatusUpgrade up' \<and> gt_Phase (g_Status up') \<in> {gt_Phase (g_Status up), ''Finalizing''}) \<or>
       (\<exists>n cm ow. x = CreateConfigMap n cm ow)))"
proof (cases "postUpgradeBackupDone up")
  case True
  with assms show ?thesis
    by (auto simp: ensurePostUpgradeBackup_def Let_def postUpgradeBackupDone_def)
next
  case False
  then have "\<not> (case statusCondition (gt_Conditions (g_Status up)) ''PostUpgradeBackupReady'' of
      None \<Rightarrow> False | Some c \<Rightarrow> c_Status c = ConditionTrue)" by (simp add: postUpgradeBackupDone_def)
  with assms False show ?thesis
    unfolding ensurePostUpgradeBackup_def Let_def
    by (auto simp: upgradeBackupDirective_def split: if_splits option.splits
        dest!: in_trace_call trace_ensureBackupDirective trace_setUpgradePhase)
qed

text \<open>Every patch of the machine is one of its moves.\<close>

lemma majorPhaseStep_patch:
  assumes "PatchInstance inst' \<in> set (trace (majorPhaseStep E up inst))"
    and "majorPhase inst = Some p" "majorPhase inst' = Some q"
  shows "majorMove p q \<and> q \<noteq> MajorUpgradePhaseRollback \<and>
         (q = MajorUpgradePhaseRestoreWrites \<longrightarrow> replicasInSync (he_K E) inst)"
proof (cases p)
  case MajorUpgradePhaseFinalize
  with assms have "inst' = clearUpgradeAnnotations inst"
    by (auto simp: majorPhaseStep_def dest!: trace_ensurePostUpgradeBackup in_trace_call)
  with assms(3) show ?thesis by simp
next
  case MajorUpgradePhaseRollbackRestoreWrites
  with assms have "inst' = clearUpgradeAnnotations inst"
    by (auto simp: majorPhaseStep_def Let_def dest!: in_trace_call)
  with assms(3) show ?thesis by simp
next
  case MajorUpgradePhaseRestoreWrites
  with assms have "q = MajorUpgradePhaseFinalize"
    by (auto simp: majorPhaseStep_def Let_def no_patch_setUpgradePhase annotation_neq
        simp del: majorPhaseName.simps dest!: in_trace_call)
  with MajorUpgradePhaseRestoreWrites show ?thesis by (simp add: majorMove.intros)
next
  case MajorUpgradePhaseReplicas
  with assms have "q = MajorUpgradePhaseRestoreWrites \<and> replicasInSync (he_K E) inst"
    by (auto simp: majorPhaseStep_def no_patch_setUpgradePhase dest!: advance_patch split: if_splits)
  with MajorUpgradePhaseReplicas show ?thesis by (simp add: majorMove.intros)
qed (use assms in \<open>auto simp: majorPhaseStep_def majorMove.intros dest!: advance_patch\<close>)

lemma reconcileMajorUpgrade_patch:
  assumes "PatchInstance inst' \<in> set (trace (reconcileMajorUpgrade E up inst))"
    and "annotation inst upgradeUIDAnnotation = om_UID (g_Meta up)" "om_UID (g_Meta up) \<noteq> ''''"
    and "majorPhase inst = Some p" "majorPhase inst' = Some q"
  shows "majorMove p q \<and>
    (q = MajorUpgradePhaseRollback \<longrightarrow> majorUpgradeFailed inst) \<and>
    (q \<noteq> MajorUpgradePhaseRollback \<longrightarrow> majorPhaseApplied inst) \<and>
    (q = MajorUpgradePhaseRestoreWrites \<longrightarrow> replicasInSync (he_K E) inst)"
proof (cases "majorUpgradeFailed inst \<and> p \<in> {MajorUpgradePhaseUpgradePrimary,
    MajorUpgradePhaseStanzaUpgrade, MajorUpgradePhaseStartPrimary}")
  case True
  with assms have "PatchInstance inst' \<in> set (trace (advanceMajorPhase E up inst
      MajorUpgradePhaseRollback ''RollingBack'' ''PhaseFailed'' False emptyResult))"
    by (auto simp: reconcileMajorUpgrade_def Let_def)
  with assms(5) have "q = MajorUpgradePhaseRollback" by (auto dest: advance_patch)
  with True show ?thesis by (auto intro: majorMove.intros)
next
  case False
  with assms have "PatchInstance inst' \<in> set (trace (majorPhaseStep E up inst)) \<and> majorPhaseApplied inst"
    by (auto simp: reconcileMajorUpgrade_def Let_def no_patch_setUpgradePhase split: if_splits)
  with majorPhaseStep_patch assms(4,5) show ?thesis by blast
qed





section \<open>Sample values\<close>

definition sampleUpgrade :: "string \<Rightarrow> PostgresUpgrade" where
  "sampleUpgrade phase = \<lparr>g_Meta = (sampleMeta ''up'')\<lparr>om_Finalizers := [operationFinalizer]\<rparr>,
     g_Spec = \<lparr>gs_InstanceRef = ''db'', gs_TargetImage = ''pg17@sha256:b'', gs_TargetMajorVersion = 17,
       gs_UpgradeImage = ''up@sha256:c'', gs_ServiceRestorationTarget = hour, gs_RollbackRetention = hour,
       gs_Benchmark = None\<rparr>,
     g_Status = \<lparr>gt_ObservedGeneration = 1, gt_Phase = phase, gt_StartedAt = None,
       gt_PreflightBackupRequestedAt = None, gt_PostUpgradeBackupRequestedAt = None,
       gt_PostUpgradeBackupAttempt = 0, gt_WriteOutageStartedAt = None, gt_WriteServiceRestoredAt = None,
       gt_UpgradedMembers = [], gt_Operation = None, gt_Conditions = []\<rparr>\<rparr>"

text \<open>An instance owned by that upgrade, in a phase that every site applied.\<close>

definition upgradingInstance :: "string \<Rightarrow> MultiSitePostgres" where
  "upgradingInstance phase = setAnnotations
     (updStatus (\<lambda>st. st\<lparr>it_ActiveRevision := 2, it_Primary := ''postgres-a-0'',
        it_Sites := [(sampleSiteStatus ''a'')\<lparr>st_AppliedRevision := 2\<rparr>],
        it_Conditions := [\<lparr>c_Type = ''TopologyReady'', c_Status = ConditionTrue, c_ObservedGeneration = 1,
            c_Reason = '''', c_Message = ''''\<rparr>,
          \<lparr>c_Type = ''SynchronousReplicationReady'', c_Status = ConditionTrue, c_ObservedGeneration = 1,
            c_Reason = '''', c_Message = ''''\<rparr>]\<rparr>)
       (sampleInstance [sampleSite ''a'' 1 1 1]))
     [(upgradeUIDAnnotation, ''uid''), (upgradePhaseAnnotation, phase), (upgradeRevisionAnnotation, ''2'')]"

lemma parse_2: "parseInt 64 ''2'' = Some 2"
  by code_simp

lemma upgrading_annotations:
  "annotation (upgradingInstance phase) upgradePhaseAnnotation = phase"
  "annotation (upgradingInstance phase) upgradeUIDAnnotation = ''uid''"
  "annotation (upgradingInstance phase) upgradeRevisionAnnotation = ''2''"
  by (simp_all add: upgradingInstance_def annotation_neq)

lemma upgrading_applied: "majorPhaseApplied (upgradingInstance phase)"
  unfolding majorPhaseApplied_def upgrading_annotations parse_2
  by (simp add: upgradingInstance_def sample_defs allSitesApplied_def)

lemma upgrading_healthy: "\<not> majorUpgradeFailed (upgradingInstance phase)"
  by (simp add: majorUpgradeFailed_def upgradingInstance_def sample_defs)

definition deletionEnv :: "string \<Rightarrow> hub_env" where
  "deletionEnv phase = sampleEnv\<lparr>he_Reads := sampleReads\<lparr>rd_instance := (\<lambda>n. Found (upgradingInstance phase))\<rparr>\<rparr>"

lemma deletion_ready:
  assumes "status \<notin> {'''', ''Completed'', ''Failed''}"
  shows "containsFinalizer (g_Meta (sampleUpgrade status)) operationFinalizer"
    "rd_instance (he_Reads (deletionEnv phase)) (gs_InstanceRef (g_Spec (sampleUpgrade status))) =
       Found (upgradingInstance phase)"
    "annotation (upgradingInstance phase) upgradeUIDAnnotation = om_UID (g_Meta (sampleUpgrade status))"
    "mget (om_Annotations (g_Meta (sampleUpgrade status))) forceAbandonAnnotation \<noteq> ''true''"
    "gt_Phase (g_Status (sampleUpgrade status)) \<notin> {'''', ''Completed'', ''Failed''}"
    "he_Api (deletionEnv phase) c = None"
  using assms unfolding upgrading_annotations
  by (simp_all add: deletionEnv_def sampleEnv_def sampleUpgrade_def sampleMeta_def containsFinalizer_def)

lemma upgrading_phase: "majorPhase (upgradingInstance (majorPhaseName p)) = Some p"
  by (simp only: upgrading_annotations majorPhaseOf_name)

section \<open>Properties\<close>

text \<open>C2: An upgrade that is not being deleted changes its phase only along
  the moves of the phase machine. It goes on only when every site has applied
  the phase it is in, it rolls back only when a site reports a failure, and it
  lets writes in again only when the topology is known and the required
  synchronous standbys have caught up.\<close>

theorem major_upgrade_moves:
  assumes "PatchInstance inst' \<in> set (trace (reconcileMajorUpgrade E up inst))"
    and "annotation inst upgradeUIDAnnotation = om_UID (g_Meta up)" "om_UID (g_Meta up) \<noteq> ''''"
    and "majorPhase inst = Some p" "majorPhase inst' = Some q"
  shows "majorMove p q \<and>
    (q = MajorUpgradePhaseRollback \<longrightarrow> majorUpgradeFailed inst) \<and>
    (q \<noteq> MajorUpgradePhaseRollback \<longrightarrow> majorPhaseApplied inst) \<and>
    (q = MajorUpgradePhaseRestoreWrites \<longrightarrow>
       conditionTrue (he_K E) (it_Conditions (i_Status inst)) ''TopologyReady'' \<and>
       (pg_SynchronousStandbyCount (is_Postgres (i_Spec inst)) > 0 \<longrightarrow>
          conditionTrue (he_K E) (it_Conditions (i_Status inst)) ''SynchronousReplicationReady''))"
  using reconcileMajorUpgrade_patch [OF assms] by (simp add: replicasInSync_def)

theorem major_upgrade_moves_witness:
  "\<exists>inst'. PatchInstance inst' \<in> set (trace (reconcileMajorUpgrade sampleEnv (sampleUpgrade ''x'')
      (upgradingInstance (majorPhaseName MajorUpgradePhaseReplicas)))) \<and>
     majorPhase inst' = Some MajorUpgradePhaseRestoreWrites \<and>
     majorMove MajorUpgradePhaseReplicas MajorUpgradePhaseRestoreWrites"
proof -
  let ?i = "upgradingInstance (majorPhaseName MajorUpgradePhaseReplicas)" and ?u = "sampleUpgrade ''x''"
  let ?i' = "setAnnotations ?i [(upgradePhaseAnnotation, majorPhaseName MajorUpgradePhaseRestoreWrites),
            (upgradeRevisionAnnotation, nextRevision ?i)]"
  have ph: "majorPhase ?i = Some MajorUpgradePhaseReplicas" by (simp only: upgrading_annotations majorPhaseOf_name)
  have uid: "annotation ?i upgradeUIDAnnotation = om_UID (g_Meta ?u)" "om_UID (g_Meta ?u) \<noteq> ''''"
    by (simp_all add: upgrading_annotations sampleUpgrade_def sampleMeta_def)
  have "replicasInSync listConditions ?i"
    by (simp add: replicasInSync_def upgradingInstance_def sample_defs listConditions_simps)
  then have tr: "PatchInstance ?i' \<in> set (trace (reconcileMajorUpgrade sampleEnv ?u ?i))"
    using ph uid upgrading_applied upgrading_healthy
    by (simp add: reconcileMajorUpgrade_def majorPhaseStep_def advanceMajorPhase_def
        patchUpgradeAnnotations_def sampleEnv_def call_def)
  have q: "majorPhase ?i' = Some MajorUpgradePhaseRestoreWrites" by (rule phase_of_move)
  from major_upgrade_moves [OF tr uid ph q] tr q show ?thesis by blast
qed



text \<open>Deleting an upgrade whose writes are drained or whose members are
  stopped, before any rollback storage was captured, sends the instance into
  the rollback phase all the same, in which every site deletes its data volumes
  to restore them from that storage. The upgrade itself never makes this
  move.\<close>

theorem deletion_rolls_back_without_snapshot:
  assumes "containsFinalizer (g_Meta up) operationFinalizer"
    and "rd_instance (he_Reads E) (gs_InstanceRef (g_Spec up)) = Found inst"
    and "annotation inst upgradeUIDAnnotation = om_UID (g_Meta up)"
    and "mget (om_Annotations (g_Meta up)) forceAbandonAnnotation \<noteq> ''true''"
    and "gt_Phase (g_Status up) \<notin> {'''', ''Completed'', ''Failed''}"
    and "majorPhase inst = Some p" "p \<in> {MajorUpgradePhaseDrain, MajorUpgradePhaseStop}"
    and "\<And>c. he_Api E c = None"
  shows "\<not> majorMove p MajorUpgradePhaseRollback \<and>
    (\<exists>inst'. PatchInstance inst' \<in> set (trace (reconcileUpgradeDeletion E up)) \<and>
       majorPhase inst' = Some MajorUpgradePhaseRollback)"
proof
  show "\<not> majorMove p MajorUpgradePhaseRollback"
    using assms(7) by (auto simp: majorMove_to_rollback)
  let ?i' = "setAnnotations inst [(upgradePhaseAnnotation, majorPhaseName MajorUpgradePhaseRollback),
            (upgradeRevisionAnnotation, nextRevision inst)]"
  have "PatchInstance ?i' \<in> set (trace (reconcileUpgradeDeletion E up))"
    using assms by (auto simp: reconcileUpgradeDeletion_def Let_def advanceMajorPhase_def
        patchUpgradeAnnotations_def call_def)
  then show "\<exists>inst'. PatchInstance inst' \<in> set (trace (reconcileUpgradeDeletion E up)) \<and>
       majorPhase inst' = Some MajorUpgradePhaseRollback"
    using phase_of_move by blast
qed

theorem deletion_rolls_back_without_snapshot_witness:
  "\<exists>inst'. PatchInstance inst' \<in> set (trace (reconcileUpgradeDeletion
       (deletionEnv (majorPhaseName MajorUpgradePhaseDrain)) (sampleUpgrade ''Draining''))) \<and>
     majorPhase inst' = Some MajorUpgradePhaseRollback"
proof -
  have st: "''Draining'' \<notin> {'''', ''Completed'', ''Failed''}" by simp
  show ?thesis
    using deletion_rolls_back_without_snapshot
      [OF deletion_ready(1-5) [OF st] upgrading_phase _ deletion_ready(6) [OF st], of MajorUpgradePhaseDrain]
    by blast
qed

text \<open>An upgrade that is deleted while its rollback is under way stays in
  that phase: the reconciliation of a deleted upgrade writes its own status and
  nothing else, so the phase of the instance never moves on, writes are not
  restored and the finalizer stays, until the operator forces it.\<close>

theorem deletion_stalls_rollback:
  assumes "containsFinalizer (g_Meta up) operationFinalizer"
    and "rd_instance (he_Reads E) (gs_InstanceRef (g_Spec up)) = Found inst"
    and "annotation inst upgradeUIDAnnotation = om_UID (g_Meta up)"
    and "mget (om_Annotations (g_Meta up)) forceAbandonAnnotation \<noteq> ''true''"
    and "gt_Phase (g_Status up) \<notin> {'''', ''Completed'', ''Failed''}"
    and "majorPhase inst \<in> {Some MajorUpgradePhaseRollback, Some MajorUpgradePhaseRollbackStart,
           Some MajorUpgradePhaseRollbackRestoreWrites}"
    and "c \<in> set (trace (reconcileUpgradeDeletion E up))"
  shows "\<exists>up'. c = StatusUpgrade up' \<and> gt_Phase (g_Status up') = gt_Phase (g_Status up) \<and> g_Meta up' = g_Meta up"
proof -
  have "trace (reconcileUpgradeDeletion E up) =
      trace (setUpgradePhase E up (gt_Phase (g_Status up)) ''CancellationInProgress'' progressResult)"
    using assms(1-6) by (auto simp: reconcileUpgradeDeletion_def Let_def)
  with assms(7) trace_setUpgradePhase show ?thesis by metis
qed

theorem deletion_stalls_rollback_witness:
  "\<exists>up'. hd (trace (reconcileUpgradeDeletion (deletionEnv (majorPhaseName MajorUpgradePhaseRollback))
       (sampleUpgrade ''RollingBack''))) = StatusUpgrade up' \<and> gt_Phase (g_Status up') = ''RollingBack'' \<and>
     g_Meta up' = g_Meta (sampleUpgrade ''RollingBack'')"
proof -
  let ?E = "deletionEnv (majorPhaseName MajorUpgradePhaseRollback)" and ?u = "sampleUpgrade ''RollingBack''"
  have st: "''RollingBack'' \<notin> {'''', ''Completed'', ''Failed''}" by simp
  note h = deletion_ready [OF st]
  have "trace (reconcileUpgradeDeletion ?E ?u) \<noteq> []"
    using h(1-5) upgrading_phase [of MajorUpgradePhaseRollback]
    by (simp add: reconcileUpgradeDeletion_def Let_def setUpgradePhase_def call_def h del: majorPhaseName.simps)
  then have "hd (trace (reconcileUpgradeDeletion ?E ?u)) \<in> set (trace (reconcileUpgradeDeletion ?E ?u))"
    by (rule hd_in_set)
  from deletion_stalls_rollback [OF h(1-5) _ this] upgrading_phase [of MajorUpgradePhaseRollback]
  show ?thesis by (simp add: sampleUpgrade_def del: majorPhaseName.simps)
qed

end
