(* ===== verification/Upgrade_Minor.thy ===== *)
theory Upgrade_Minor
  imports Upgrade_Major
begin

text \<open>
  The minor upgrade of \<open>internal/controller/postgresupgrade_controller.go\<close>, which
  rolls one member at a time, and \<open>Reconcile\<close>, which decides between the minor
  upgrade, the major one, the deletion and the clean-up of a finished upgrade.
\<close>

section \<open>The rollout of a minor version\<close>

definition setUpgradedMembers :: "string list \<Rightarrow> PostgresUpgrade \<Rightarrow> PostgresUpgrade" where
  "setUpgradedMembers ms up = updUpgradeStatus (gt_UpgradedMembers_update (\<lambda>_. ms)) up"

text \<open>The branch of the member phase.\<close>

definition minorMemberStep ::
  "hub_env \<Rightarrow> PostgresUpgrade \<Rightarrow> MultiSitePostgres \<Rightarrow> Result reconciliation" where
  "minorMemberStep E up inst =
     (let member = annotation inst upgradeMemberAnnotation in
      if member = '''' then blockUpgrade E up ''InvalidState'' fixedText
      else if \<not> instanceReadyForOperation (he_K E) inst
      then setUpgradePhase E up ''RollingReplicas'' ''MemberProgressing'' emptyResult
      else
        (let upgraded = appendUnique (splitMembers (annotation inst upgradeMembersAnnotation)) member in
         if annotation inst upgradeSwitchedAnnotation \<noteq> ''true''
         then
           patchUpgradeAnnotations E inst
             [(upgradePhaseAnnotation, upgradePhaseName UpgradePhaseSwitchover),
              (upgradeMembersAnnotation, joinStr '','' upgraded),
              (upgradeFromAnnotation, it_Primary (i_Status inst)),
              (upgradeCandidateAnnotation, member),
              (upgradeRevisionAnnotation, nextRevision inst)]
             (setUpgradePhase E (setUpgradedMembers upgraded up) ''SwitchingOver'' ''ReplicaVerified'' emptyResult)
         else
           (let next = selectUpgradeCandidate inst upgraded in
            if next = ''''
            then
              perform E (PatchInstance (setAnnotations
                 (inst\<lparr>i_Spec := (i_Spec inst)\<lparr>is_Postgres := (is_Postgres (i_Spec inst))
                    \<lparr>pg_Image := gs_TargetImage (g_Spec up)\<rparr>\<rparr>\<rparr>)
                 [(upgradePhaseAnnotation, upgradePhaseName UpgradePhaseFinalize),
                  (upgradeRevisionAnnotation, nextRevision inst)]))
                (setUpgradePhase E (setUpgradedMembers upgraded up) ''Finalizing'' ''MembersVerified'' emptyResult)
            else
              patchUpgradeAnnotations E inst
                [(upgradeMemberAnnotation, next), (upgradeMembersAnnotation, joinStr '','' upgraded),
                 (upgradeRevisionAnnotation, nextRevision inst)]
                (setUpgradePhase E (setUpgradedMembers upgraded up) ''RollingMembers'' ''MemberVerified'' emptyResult))))"

text \<open>The branch of the switchover phase.\<close>

definition minorSwitchoverStep ::
  "hub_env \<Rightarrow> PostgresUpgrade \<Rightarrow> MultiSitePostgres \<Rightarrow> Result reconciliation" where
  "minorSwitchoverStep E up inst =
     (let upgraded = splitMembers (annotation inst upgradeMembersAnnotation);
          candidate = annotation inst upgradeCandidateAnnotation in
      if candidate = '''' \<or> annotation inst upgradeFromAnnotation = ''''
      then blockUpgrade E up ''InvalidState'' fixedText
      else if it_Primary (i_Status inst) \<noteq> candidate \<or>
              \<not> conditionTrue (he_K E) (it_Conditions (i_Status inst)) ''TopologyReady''
      then setUpgradePhase E up ''SwitchingOver'' ''SwitchoverProgressing'' emptyResult
      else
        (let next = selectUpgradeCandidate inst upgraded in
         if next = '''' then blockUpgrade E up ''InvalidState'' fixedText
         else
           patchUpgradeAnnotations E inst
             [(upgradePhaseAnnotation, upgradePhaseName UpgradePhaseMember), (upgradeMemberAnnotation, next),
              (upgradeSwitchedAnnotation, ''true''), (upgradeRevisionAnnotation, nextRevision inst)]
             (setUpgradePhase E (setUpgradedMembers upgraded up) ''RollingMembers'' ''SwitchoverVerified''
                emptyResult)))"

definition minorFinalizeStep ::
  "hub_env \<Rightarrow> PostgresUpgrade \<Rightarrow> MultiSitePostgres \<Rightarrow> Result reconciliation" where
  "minorFinalizeStep E up inst =
     (if \<not> instanceReadyForOperation (he_K E) inst
      then setUpgradePhase E up ''Finalizing'' ''StablePlanProgressing'' emptyResult
      else perform E (StatusUpgrade (completeUpgrade E up))
             (perform E (PatchInstance (clearUpgradeAnnotations inst)) (finish emptyResult)))"

definition reconcileMinorUpgrade ::
  "hub_env \<Rightarrow> PostgresUpgrade \<Rightarrow> MultiSitePostgres \<Rightarrow> Result reconciliation" where
  "reconcileMinorUpgrade E up inst =
     (let uid = annotation inst upgradeUIDAnnotation; phase = annotation inst upgradePhaseAnnotation in
      if gs_TargetImage (g_Spec up) = pg_Image (is_Postgres (i_Spec inst)) \<and> uid = ''''
      then perform E (StatusUpgrade (completeUpgrade E up)) (finish emptyResult)
      else if uid = ''''
      then
        (let candidate = selectUpgradeCandidate inst [] in
         if candidate = '''' then blockUpgrade E up ''NoUpgradeCandidate'' fixedText
         else
           patchUpgradeAnnotations E inst
             [(upgradeUIDAnnotation, om_UID (g_Meta up)), (upgradeNameAnnotation, om_Name (g_Meta up)),
              (upgradePhaseAnnotation, upgradePhaseName UpgradePhaseMember),
              (upgradeMemberAnnotation, candidate), (upgradeMembersAnnotation, ''''),
              (upgradeRevisionAnnotation, nextRevision inst)]
             (setUpgradePhase E up ''RollingReplicas'' ''ReplicaSelected'' emptyResult))
      else if uid \<noteq> om_UID (g_Meta up) then blockUpgrade E up ''OperationConflict'' fixedText
      else if phase = upgradePhaseName UpgradePhaseMember then minorMemberStep E up inst
      else if phase = upgradePhaseName UpgradePhaseSwitchover then minorSwitchoverStep E up inst
      else if phase = upgradePhaseName UpgradePhaseFinalize then minorFinalizeStep E up inst
      else blockUpgrade E up ''InvalidState'' fixedText)"

section \<open>Reconciliation of an upgrade\<close>

text \<open>A finished upgrade gives the instance back; the result says whether the
  upgrade was finished.\<close>

definition reconcileTerminalUpgrade ::
  "hub_env \<Rightarrow> PostgresUpgrade \<Rightarrow> MultiSitePostgres \<Rightarrow> bool reconciliation" where
  "reconcileTerminalUpgrade E up inst =
     (if \<not> upgradeTerminal up then finish False
      else if annotation inst upgradeUIDAnnotation = om_UID (g_Meta up)
      then perform E (PatchInstance (clearUpgradeAnnotations inst)) (finish True)
      else finish True)"

definition dropUpgradeFinalizer :: "hub_env \<Rightarrow> PostgresUpgrade \<Rightarrow> Result reconciliation" where
  "dropUpgradeFinalizer E up =
     (if containsFinalizer (g_Meta up) operationFinalizer then removeUpgradeFinalizer E up
      else finish emptyResult)"

definition upgradeConflict :: "PostgresUpgrade \<Rightarrow> PostgresUpgrade list \<Rightarrow> bool" where
  "upgradeConflict up others =
     (\<exists>other \<in> set others. om_Name (g_Meta other) \<noteq> om_Name (g_Meta up) \<and>
        gs_InstanceRef (g_Spec other) = gs_InstanceRef (g_Spec up) \<and> \<not> upgradeTerminal other)"

definition restoreConflict :: "PostgresUpgrade \<Rightarrow> PostgresRestore list \<Rightarrow> bool" where
  "restoreConflict up restores =
     (\<exists>restore \<in> set restores. es_TargetInstanceRef (e_Spec restore) = gs_InstanceRef (g_Spec up) \<and>
        \<not> restoreTerminal restore)"

text \<open>The gates of an upgrade the instance does not carry out yet, and its
  start.\<close>

definition startUpgrade ::
  "hub_env \<Rightarrow> PostgresUpgrade \<Rightarrow> MultiSitePostgres \<Rightarrow> Result reconciliation" where
  "startUpgrade E up inst =
     (let conditions = it_Conditions (i_Status inst) in
      case it_LastBackupTime (i_Status inst) of
        None \<Rightarrow> blockUpgrade E up ''PreflightFailed'' fixedText
      | Some lastBackup \<Rightarrow>
          if \<not> conditionTrue (he_K E) conditions ''Ready'' \<or> \<not> conditionTrue (he_K E) conditions ''BackupReady''
          then blockUpgrade E up ''PreflightFailed'' fixedText
          else if he_Now E - lastBackup > 24 * hour then blockUpgrade E up ''BackupTooOld'' fixedText
          else
            (case rd_upgrades (he_Reads E) of
               Inl e \<Rightarrow> failWith e
             | Inr upgrades \<Rightarrow>
                 if upgradeConflict up upgrades then blockUpgrade E up ''OperationConflict'' fixedText
                 else
                   (case rd_restores (he_Reads E) of
                      Inl e \<Rightarrow> failWith e
                    | Inr restores \<Rightarrow>
                        if restoreConflict up restores then blockUpgrade E up ''OperationConflict'' fixedText
                        else if gs_TargetMajorVersion (g_Spec up) \<noteq> pg_MajorVersion (is_Postgres (i_Spec inst))
                        then
                          ensureFreshUpgradeBackup E up
                            (case validateMajorUpgradeContract E up inst of
                               Some e \<Rightarrow> blockUpgrade E up ''PlatformContractRejected'' e
                             | None \<Rightarrow>
                                 reconcileMajorUpgrade E
                                   (setUpgradeCond (he_K E) ''ServiceRestorationTargetAtRisk'' ConditionFalse
                                      ''BenchmarkWithinTarget'' fixedText up) inst)
                        else reconcileMinorUpgrade E up inst)))"

definition reconcileUpgrade :: "hub_env \<Rightarrow> string \<Rightarrow> Result reconciliation" where
  "reconcileUpgrade E name =
     (case rd_upgrade (he_Reads E) name of
        NotFound \<Rightarrow> finish emptyResult
      | ReadError e \<Rightarrow> failWith e
      | Found up \<Rightarrow>
          if om_DeletionTimestamp (g_Meta up) \<noteq> None then reconcileUpgradeDeletion E up
          else if upgradeTerminal up
          then
            (case rd_instance (he_Reads E) (gs_InstanceRef (g_Spec up)) of
               ReadError e \<Rightarrow> failWith e
             | NotFound \<Rightarrow> dropUpgradeFinalizer E up
             | Found inst \<Rightarrow> andThen (reconcileTerminalUpgrade E up inst) (\<lambda>_. dropUpgradeFinalizer E up))
          else if \<not> containsFinalizer (g_Meta up) operationFinalizer
          then perform E (UpdateUpgrade (up\<lparr>g_Meta := addFinalizer operationFinalizer (g_Meta up)\<rparr>)) (finish emptyResult)
          else
            (case rd_instance (he_Reads E) (gs_InstanceRef (g_Spec up)) of
               Found inst \<Rightarrow>
                 andThen (reconcileTerminalUpgrade E up inst) (\<lambda>handled.
                   if handled then dropUpgradeFinalizer E up
                   else if hasPrefix (annotation inst upgradePhaseAnnotation) ''Major'' \<and>
                           annotation inst upgradeUIDAnnotation = om_UID (g_Meta up)
                   then reconcileMajorUpgrade E up inst
                   else if gs_TargetMajorVersion (g_Spec up) = pg_MajorVersion (is_Postgres (i_Spec inst)) \<and>
                           annotation inst upgradeUIDAnnotation = om_UID (g_Meta up)
                   then reconcileMinorUpgrade E up inst
                   else startUpgrade E up inst)
             | _ \<Rightarrow> blockUpgrade E up ''InstanceUnavailable'' fixedText))"

section \<open>The rollout, abstractly\<close>

text \<open>What the annotations of the instance say of the rollout: the phase, the
  members done, the member in hand, and whether the primary has moved.\<close>

record minor_state =
  ms_phase :: string
  ms_done :: "string set"
  ms_member :: string
  ms_switched :: bool

definition minorState :: "MultiSitePostgres \<Rightarrow> minor_state" where
  "minorState inst = \<lparr>ms_phase = annotation inst upgradePhaseAnnotation,
     ms_done = set (splitMembers (annotation inst upgradeMembersAnnotation)),
     ms_member = annotation inst upgradeMemberAnnotation,
     ms_switched = (annotation inst upgradeSwitchedAnnotation = ''true'')\<rparr>"

text \<open>The moves, for the members \<open>M\<close> and the primary \<open>p\<close> at the time.\<close>

inductive minorMove :: "string set \<Rightarrow> string \<Rightarrow> minor_state \<Rightarrow> minor_state \<Rightarrow> bool"
  for M :: "string set" and p :: string where
  switchover: "minorMove M p \<lparr>ms_phase = ''Member'', ms_done = D, ms_member = m, ms_switched = False\<rparr>
     \<lparr>ms_phase = ''Switchover'', ms_done = insert m D, ms_member = m, ms_switched = False\<rparr>"
| resume: "n \<in> M - D \<Longrightarrow> n \<noteq> p \<Longrightarrow>
     minorMove M p \<lparr>ms_phase = ''Switchover'', ms_done = D, ms_member = m, ms_switched = s\<rparr>
     \<lparr>ms_phase = ''Member'', ms_done = D, ms_member = n, ms_switched = True\<rparr>"
| roll: "n \<in> M - insert m D \<Longrightarrow> n \<noteq> p \<Longrightarrow>
     minorMove M p \<lparr>ms_phase = ''Member'', ms_done = D, ms_member = m, ms_switched = True\<rparr>
     \<lparr>ms_phase = ''Member'', ms_done = insert m D, ms_member = n, ms_switched = True\<rparr>"
| finalize: "M \<subseteq> insert p (insert m D) \<Longrightarrow>
     minorMove M p \<lparr>ms_phase = ''Member'', ms_done = D, ms_member = m, ms_switched = True\<rparr>
     \<lparr>ms_phase = ''Finalize'', ms_done = D, ms_member = m, ms_switched = True\<rparr>"

inductive_cases minorMoveE: "minorMove M p s s'"

text \<open>A member in hand after the switchover is a member still to do.\<close>

definition minorInv :: "string set \<Rightarrow> minor_state \<Rightarrow> bool" where
  "minorInv M s = (ms_phase s = ''Member'' \<and> ms_switched s \<longrightarrow> ms_member s \<in> M - ms_done s)"

definition minorRank :: "string set \<Rightarrow> minor_state \<Rightarrow> nat" where
  "minorRank M s =
     (if ms_phase s = ''Member'' then (if ms_switched s then 1 else 3) + card (M - ms_done s)
      else if ms_phase s = ''Switchover'' then 2 + card (M - ms_done s) else 0)"

section \<open>Lemmas\<close>

lemma minorMove_inv: "minorMove M p s s' \<Longrightarrow> minorInv M s'"
  by (induction rule: minorMove.induct) (auto simp: minorInv_def)

lemma minorMove_rank:
  assumes "minorMove M p s s'" "finite M" "minorInv M s"
  shows "minorRank M s' < minorRank M s"
  using assms
proof (induction rule: minorMove.induct)
  case (switchover D m)
  have "card (M - insert m D) \<le> card (M - D)" using switchover.prems(1) by (intro card_mono) auto
  then show ?case by (simp add: minorRank_def)
next
  case (roll n m D)
  from roll.prems have "M - insert m D \<subset> M - D" by (auto simp: minorInv_def)
  with roll.prems(1) have "card (M - insert m D) < card (M - D)" by (intro psubset_card_mono) auto
  then show ?case by (simp add: minorRank_def)
qed (auto simp: minorRank_def)

text \<open>The list of members done is read back as it was written.\<close>

lemma splitChar_parts: "x \<in> set (splitChar c s) \<Longrightarrow> c \<notin> set x"
  by (induction s arbitrary: x) (auto split: list.splits if_splits)

lemma splitMembers_parts: "x \<in> set (splitMembers v) \<Longrightarrow> CHR '','' \<notin> set x"
  by (auto simp: splitMembers_def dest: splitChar_parts split: if_splits)

lemma joinStr_nonempty: "x \<in> set xs \<Longrightarrow> x \<noteq> [] \<Longrightarrow> joinStr sep xs \<noteq> []"
proof (induction xs)
  case (Cons y ys)
  then show ?case by (cases ys) auto
qed simp

lemma set_splitMembers_join:
  assumes "\<And>x. x \<in> set xs \<Longrightarrow> CHR '','' \<notin> set x" "x \<in> set xs" "x \<noteq> ''''"
  shows "set (splitMembers (joinStr '','' xs)) = set xs"
proof -
  from assms(2) have "xs \<noteq> []" by auto
  with splitChar_joinStr [OF this, of "CHR '',''"] assms joinStr_nonempty [OF assms(2,3)] show ?thesis
    by (simp add: splitMembers_def)
qed

lemma set_splitMembers_append:
  assumes "m \<noteq> ''''" "CHR '','' \<notin> set m"
  shows "set (splitMembers (joinStr '','' (appendUnique (splitMembers v) m))) = insert m (set (splitMembers v))"
  using set_splitMembers_join [of "appendUnique (splitMembers v) m" m] assms splitMembers_parts by auto

lemma appendUnique_nonempty [simp]: "appendUnique ms m \<noteq> []"
  by (metis set_appendUnique empty_set insert_not_empty)

text \<open>The annotations are those the rollout writes: a member name has no comma,
  and a switchover follows a member.\<close>

definition minorWf :: "MultiSitePostgres \<Rightarrow> bool" where
  "minorWf inst = (CHR '','' \<notin> set (annotation inst upgradeMemberAnnotation) \<and>
     (annotation inst upgradePhaseAnnotation = ''Switchover'' \<longrightarrow>
        splitMembers (annotation inst upgradeMembersAnnotation) \<noteq> []))"

abbreviation membersOf :: "MultiSitePostgres \<Rightarrow> string set" where
  "membersOf inst \<equiv> set (postgresMembers (is_Sites (i_Spec inst)))"

lemma member_patch:
  assumes "PatchInstance inst' \<in> set (trace (minorMemberStep E up inst))"
  obtains m upgraded where
    "annotation inst upgradeMemberAnnotation = m" "m \<noteq> ''''" "instanceReadyForOperation (he_K E) inst"
    "upgraded = appendUnique (splitMembers (annotation inst upgradeMembersAnnotation)) m"
    "annotation inst upgradeSwitchedAnnotation \<noteq> ''true''"
    "inst' = setAnnotations inst
       [(upgradePhaseAnnotation, ''Switchover''), (upgradeMembersAnnotation, joinStr '','' upgraded),
        (upgradeFromAnnotation, it_Primary (i_Status inst)), (upgradeCandidateAnnotation, m),
        (upgradeRevisionAnnotation, nextRevision inst)]"
  | m upgraded where
    "annotation inst upgradeMemberAnnotation = m" "m \<noteq> ''''" "instanceReadyForOperation (he_K E) inst"
    "upgraded = appendUnique (splitMembers (annotation inst upgradeMembersAnnotation)) m"
    "annotation inst upgradeSwitchedAnnotation = ''true''" "selectUpgradeCandidate inst upgraded = ''''"
    "inst' = setAnnotations (inst\<lparr>i_Spec := (i_Spec inst)\<lparr>is_Postgres := (is_Postgres (i_Spec inst))
          \<lparr>pg_Image := gs_TargetImage (g_Spec up)\<rparr>\<rparr>\<rparr>)
       [(upgradePhaseAnnotation, ''Finalize''), (upgradeRevisionAnnotation, nextRevision inst)]"
  | m upgraded n where
    "annotation inst upgradeMemberAnnotation = m" "m \<noteq> ''''" "instanceReadyForOperation (he_K E) inst"
    "upgraded = appendUnique (splitMembers (annotation inst upgradeMembersAnnotation)) m"
    "annotation inst upgradeSwitchedAnnotation = ''true''" "selectUpgradeCandidate inst upgraded = n" "n \<noteq> ''''"
    "inst' = setAnnotations inst
       [(upgradeMemberAnnotation, n), (upgradeMembersAnnotation, joinStr '','' upgraded),
        (upgradeRevisionAnnotation, nextRevision inst)]"
  using assms
  unfolding minorMemberStep_def Let_def patchUpgradeAnnotations_def
  by (auto simp: no_patch_setUpgradePhase no_patch_blockUpgrade split: if_splits dest!: in_trace_call)

lemma switchover_patch:
  assumes "PatchInstance inst' \<in> set (trace (minorSwitchoverStep E up inst))"
  obtains n where "selectUpgradeCandidate inst (splitMembers (annotation inst upgradeMembersAnnotation)) = n"
    "n \<noteq> ''''" "it_Primary (i_Status inst) = annotation inst upgradeCandidateAnnotation"
    "conditionTrue (he_K E) (it_Conditions (i_Status inst)) ''TopologyReady''"
    "inst' = setAnnotations inst
       [(upgradePhaseAnnotation, ''Member''), (upgradeMemberAnnotation, n),
        (upgradeSwitchedAnnotation, ''true''), (upgradeRevisionAnnotation, nextRevision inst)]"
  using assms
  unfolding minorSwitchoverStep_def Let_def patchUpgradeAnnotations_def
  by (auto simp: no_patch_setUpgradePhase no_patch_blockUpgrade split: if_splits dest!: in_trace_call)

lemma finalize_patch:
  "PatchInstance inst' \<in> set (trace (minorFinalizeStep E up inst)) \<Longrightarrow>
     instanceReadyForOperation (he_K E) inst \<and> inst' = clearUpgradeAnnotations inst"
  by (auto simp: minorFinalizeStep_def no_patch_setUpgradePhase split: if_splits dest!: in_trace_call)

lemma minorState_simps:
  "minorState (setAnnotations inst values) =
     (let m = mapsCopy (om_Annotations (i_Meta inst)) values in
      \<lparr>ms_phase = mget m upgradePhaseAnnotation, ms_done = set (splitMembers (mget m upgradeMembersAnnotation)),
       ms_member = mget m upgradeMemberAnnotation, ms_switched = (mget m upgradeSwitchedAnnotation = ''true'')\<rparr>)"
  by (simp add: minorState_def Let_def)

lemma minorMemberStep_moves:
  assumes patch: "PatchInstance inst' \<in> set (trace (minorMemberStep E up inst))"
    and phase: "annotation inst upgradePhaseAnnotation = ''Member''"
    and comma: "CHR '','' \<notin> set (annotation inst upgradeMemberAnnotation)"
  shows "minorMove (membersOf inst) (it_Primary (i_Status inst)) (minorState inst) (minorState inst')"
proof -
  let ?done = "splitMembers (annotation inst upgradeMembersAnnotation)"
  let ?m = "annotation inst upgradeMemberAnnotation"
  have st: "minorState inst = \<lparr>ms_phase = ''Member'', ms_done = set ?done, ms_member = ?m,
      ms_switched = (annotation inst upgradeSwitchedAnnotation = ''true'')\<rparr>"
    using phase by (simp add: minorState_def)
  from patch show ?thesis
  proof (cases rule: member_patch)
    case (1 m upgraded)
    then have "minorState inst' = \<lparr>ms_phase = ''Switchover'', ms_done = insert ?m (set ?done), ms_member = ?m,
        ms_switched = False\<rparr>"
      using set_splitMembers_append [OF _ comma] by (simp add: minorState_simps Let_def annotation_neqs)
    with st 1 show ?thesis by (simp add: minorMove.switchover)
  next
    case (2 m upgraded)
    then have "minorState inst' = \<lparr>ms_phase = ''Finalize'', ms_done = set ?done, ms_member = ?m,
        ms_switched = True\<rparr>"
      by (simp add: minorState_simps Let_def annotation_neqs)
    moreover have "membersOf inst \<subseteq> insert (it_Primary (i_Status inst)) (insert ?m (set ?done))"
      using selectUpgradeCandidate_none [OF 2(6)] 2(1,4) by auto
    ultimately show ?thesis using st 2 by (simp add: minorMove.finalize)
  next
    case (3 m upgraded n)
    then have "minorState inst' = \<lparr>ms_phase = ''Member'', ms_done = insert ?m (set ?done), ms_member = n,
        ms_switched = True\<rparr>"
      using phase set_splitMembers_append [OF _ comma] by (simp add: minorState_simps Let_def annotation_neqs)
    moreover have "n \<in> membersOf inst - insert ?m (set ?done)" "n \<noteq> it_Primary (i_Status inst)"
      using selectUpgradeCandidate_sound [OF 3(6,7)] 3(1,4) by auto
    ultimately show ?thesis using st 3 by (simp add: minorMove.roll)
  qed
qed

lemma minorSwitchoverStep_moves:
  assumes patch: "PatchInstance inst' \<in> set (trace (minorSwitchoverStep E up inst))"
    and phase: "annotation inst upgradePhaseAnnotation = ''Switchover''"
    and started: "splitMembers (annotation inst upgradeMembersAnnotation) \<noteq> []"
  shows "minorMove (membersOf inst) (it_Primary (i_Status inst)) (minorState inst) (minorState inst')"
proof -
  let ?done = "splitMembers (annotation inst upgradeMembersAnnotation)"
  from patch show ?thesis
  proof (cases rule: switchover_patch)
    case (1 n)
    then have "minorState inst' = \<lparr>ms_phase = ''Member'', ms_done = set ?done, ms_member = n, ms_switched = True\<rparr>"
      by (simp add: minorState_simps Let_def annotation_neqs)
    moreover have "n \<in> membersOf inst - set ?done" "n \<noteq> it_Primary (i_Status inst)"
      using selectUpgradeCandidate_sound [OF 1(1,2)] started by auto
    moreover have "minorState inst = \<lparr>ms_phase = ''Switchover'', ms_done = set ?done,
        ms_member = annotation inst upgradeMemberAnnotation,
        ms_switched = (annotation inst upgradeSwitchedAnnotation = ''true'')\<rparr>"
      using phase by (simp add: minorState_def)
    ultimately show ?thesis using minorMove.resume by metis
  qed
qed

lemma reconcileMinorUpgrade_cases:
  assumes "PatchInstance inst' \<in> set (trace (reconcileMinorUpgrade E up inst))"
    and "annotation inst upgradeUIDAnnotation = om_UID (g_Meta up)" "om_UID (g_Meta up) \<noteq> ''''"
  obtains "annotation inst upgradePhaseAnnotation = ''Member''"
      "PatchInstance inst' \<in> set (trace (minorMemberStep E up inst))"
  | "annotation inst upgradePhaseAnnotation = ''Switchover''"
      "PatchInstance inst' \<in> set (trace (minorSwitchoverStep E up inst))"
  | "annotation inst upgradePhaseAnnotation = ''Finalize''"
      "PatchInstance inst' \<in> set (trace (minorFinalizeStep E up inst))"
  using assms unfolding reconcileMinorUpgrade_def Let_def
  by (auto simp: no_patch_blockUpgrade split: if_splits)

text \<open>One step of a rollout. Between two steps the status of the instance and
  the environment may change in any way; the annotations and the sites are what
  the last step left.\<close>

definition minorStep :: "PostgresUpgrade \<Rightarrow> MultiSitePostgres \<Rightarrow> MultiSitePostgres \<Rightarrow> bool" where
  "minorStep up inst inst' =
     (\<exists>E cur. om_Annotations (i_Meta cur) = om_Annotations (i_Meta inst) \<and>
        is_Sites (i_Spec cur) = is_Sites (i_Spec inst) \<and>
        annotation cur upgradeUIDAnnotation = om_UID (g_Meta up) \<and>
        PatchInstance inst' \<in> set (trace (reconcileMinorUpgrade E up cur)))"

lemma nat_digits_no_comma: "CHR '','' \<notin> set (nat_digits n)"
proof
  assume "CHR '','' \<in> set (nat_digits n)"
  then obtain d :: nat where d: "d < 10" "CHR '','' = char_of (48 + d)"
    using nat_digits_digit by blast
  then have "of_char (CHR '','') = (of_char (char_of (48 + d) :: char) :: nat)" by metis
  with d(1) show False by simp
qed

lemma members_no_comma:
  assumes "\<And>site. site \<in> set sites \<Longrightarrow> CHR '','' \<notin> set (ps_Name site)" "m \<in> set (postgresMembers sites)"
  shows "CHR '','' \<notin> set m"
  using assms nat_digits_no_comma by (auto simp: postgresMembers_def postgresMember_def fmt_d_def)

lemma minor_step_cases:
  assumes "PatchInstance inst' \<in> set (trace (reconcileMinorUpgrade E up inst))"
    and "annotation inst upgradeUIDAnnotation = om_UID (g_Meta up)" "om_UID (g_Meta up) \<noteq> ''''" "minorWf inst"
  shows "(annotation inst upgradePhaseAnnotation = ''Finalize'' \<and> instanceReadyForOperation (he_K E) inst \<and>
           inst' = clearUpgradeAnnotations inst) \<or>
         (minorMove (membersOf inst) (it_Primary (i_Status inst)) (minorState inst) (minorState inst') \<and>
          (annotation inst upgradePhaseAnnotation = ''Member'' \<longrightarrow> instanceReadyForOperation (he_K E) inst) \<and>
          (annotation inst upgradePhaseAnnotation = ''Switchover'' \<longrightarrow>
             it_Primary (i_Status inst) = annotation inst upgradeCandidateAnnotation \<and>
             conditionTrue (he_K E) (it_Conditions (i_Status inst)) ''TopologyReady'') \<and>
          is_Sites (i_Spec inst') = is_Sites (i_Spec inst) \<and>
          annotation inst' upgradeUIDAnnotation = annotation inst upgradeUIDAnnotation)"
  using assms(1-3)
proof (cases rule: reconcileMinorUpgrade_cases)
  case 1
  have "instanceReadyForOperation (he_K E) inst \<and> is_Sites (i_Spec inst') = is_Sites (i_Spec inst) \<and>
      annotation inst' upgradeUIDAnnotation = annotation inst upgradeUIDAnnotation"
    using 1(2) by (cases rule: member_patch) (auto simp: annotation_neqs)
  with 1 minorMemberStep_moves [OF 1(2,1)] assms(4) show ?thesis by (simp add: minorWf_def)
next
  case 2
  have "it_Primary (i_Status inst) = annotation inst upgradeCandidateAnnotation \<and>
      conditionTrue (he_K E) (it_Conditions (i_Status inst)) ''TopologyReady'' \<and>
      is_Sites (i_Spec inst') = is_Sites (i_Spec inst) \<and>
      annotation inst' upgradeUIDAnnotation = annotation inst upgradeUIDAnnotation"
    using 2(2) by (cases rule: switchover_patch) (auto simp: annotation_neqs)
  with 2 minorSwitchoverStep_moves [OF 2(2,1)] assms(4) show ?thesis by (simp add: minorWf_def)
next
  case 3
  with finalize_patch show ?thesis by blast
qed

lemma minorWf_of_move:
  assumes "minorMove M p (minorState inst) (minorState inst')" "minorWf inst"
    and "\<And>m. m \<in> M \<Longrightarrow> CHR '','' \<notin> set m"
  shows "minorWf inst'"
proof -
  have wf: "minorWf i \<longleftrightarrow> CHR '','' \<notin> set (ms_member (minorState i)) \<and>
      (ms_phase (minorState i) = ''Switchover'' \<longrightarrow> ms_done (minorState i) \<noteq> {})" for i
    by (simp add: minorWf_def minorState_def)
  from assms(1) show ?thesis
    using assms(2,3) unfolding wf by (auto elim!: minorMoveE)
qed

lemma minorState_cong:
  "om_Annotations (i_Meta a) = om_Annotations (i_Meta b) \<Longrightarrow>
     minorState a = minorState b \<and> (minorWf a \<longleftrightarrow> minorWf b)"
  by (simp add: minorState_def minorWf_def)

text \<open>The sites are what \<open>sites\<close> says, the annotations are well formed, and the
  number of steps made is paid for by the rank.\<close>

lemma minorSteps_bounded:
  assumes "(minorStep up ^^ n) inst inst'" "om_UID (g_Meta up) \<noteq> ''''"
    and "minorWf inst" "minorInv (membersOf inst) (minorState inst)"
    and "\<And>site. site \<in> set (is_Sites (i_Spec inst)) \<Longrightarrow> CHR '','' \<notin> set (ps_Name site)"
  shows "n \<le> Suc (minorRank (membersOf inst) (minorState inst)) \<and>
    (annotation inst' upgradeUIDAnnotation = om_UID (g_Meta up) \<longrightarrow> minorWf inst' \<and>
       minorInv (membersOf inst) (minorState inst') \<and> is_Sites (i_Spec inst') = is_Sites (i_Spec inst) \<and>
       n + minorRank (membersOf inst) (minorState inst') \<le> minorRank (membersOf inst) (minorState inst))"
  using assms(1)
proof (induction n arbitrary: inst')
  case 0
  with assms show ?case by simp
next
  case (Suc n)
  let ?M = "membersOf inst"
  from Suc.prems obtain y where y: "(minorStep up ^^ n) inst y" "minorStep up y inst'" by auto
  from y(2) obtain E cur where cur: "om_Annotations (i_Meta cur) = om_Annotations (i_Meta y)"
      "is_Sites (i_Spec cur) = is_Sites (i_Spec y)" "annotation cur upgradeUIDAnnotation = om_UID (g_Meta up)"
      "PatchInstance inst' \<in> set (trace (reconcileMinorUpgrade E up cur))"
    unfolding minorStep_def by blast
  from cur(1,3) Suc.IH [OF y(1)] have ih: "minorWf y" "minorInv ?M (minorState y)"
      "is_Sites (i_Spec y) = is_Sites (i_Spec inst)" "n + minorRank ?M (minorState y) \<le> minorRank ?M (minorState inst)"
    by simp_all
  with cur minorState_cong [OF cur(1)] have c: "minorWf cur" "minorState cur = minorState y" "membersOf cur = ?M"
    by simp_all
  from minor_step_cases [OF cur(4,3) assms(2) c(1)] show ?case
  proof
    assume "annotation cur upgradePhaseAnnotation = ''Finalize'' \<and> instanceReadyForOperation (he_K E) cur \<and>
      inst' = clearUpgradeAnnotations cur"
    with ih(4) assms(2) show ?thesis by simp
  next
    assume move: "minorMove (membersOf cur) (it_Primary (i_Status cur)) (minorState cur) (minorState inst') \<and>
          (annotation cur upgradePhaseAnnotation = ''Member'' \<longrightarrow> instanceReadyForOperation (he_K E) cur) \<and>
          (annotation cur upgradePhaseAnnotation = ''Switchover'' \<longrightarrow>
             it_Primary (i_Status cur) = annotation cur upgradeCandidateAnnotation \<and>
             conditionTrue (he_K E) (it_Conditions (i_Status cur)) ''TopologyReady'') \<and>
          is_Sites (i_Spec inst') = is_Sites (i_Spec cur) \<and>
          annotation inst' upgradeUIDAnnotation = annotation cur upgradeUIDAnnotation"
    then have mv: "minorMove ?M (it_Primary (i_Status cur)) (minorState y) (minorState inst')" using c by simp
    have "minorRank ?M (minorState inst') < minorRank ?M (minorState y)"
      using minorMove_rank [OF mv _ ih(2)] by simp
    moreover have "minorWf inst'"
      using minorWf_of_move [OF _ ih(1)] mv members_no_comma [OF assms(5)] by blast
    ultimately show ?thesis using ih minorMove_inv [OF mv] move cur(2) by auto
  qed
qed

text \<open>What lets an upgrade take over an instance.\<close>

lemma freshBackup_patch:
  "PatchInstance i \<in> set (trace (ensureFreshUpgradeBackup E up ready)) \<Longrightarrow>
     (\<exists>c. statusCondition (gt_Conditions (g_Status up)) ''FreshBackupReady'' = Some c \<and> c_Status c = ConditionTrue) \<and>
     PatchInstance i \<in> set (trace ready)"
  unfolding ensureFreshUpgradeBackup_def Let_def
  by (auto simp: upgradeBackupDirective_def no_patch_setUpgradePhase no_patch_blockUpgrade
      split: if_splits option.splits dest!: in_trace_call trace_ensureBackupDirective)

lemma major_start_patch:
  assumes "PatchInstance i \<in> set (trace (reconcileMajorUpgrade E up inst))"
    and "annotation inst upgradeUIDAnnotation \<noteq> om_UID (g_Meta up)"
  shows "annotation inst upgradeUIDAnnotation = '''' \<and> annotation i upgradeUIDAnnotation = om_UID (g_Meta up) \<and>
    it_Primary (i_Status inst) \<noteq> '''' \<and> conditionTrue (he_K E) (it_Conditions (i_Status inst)) ''TopologyReady''"
  using assms unfolding reconcileMajorUpgrade_def Let_def patchUpgradeAnnotations_def
  by (auto simp: no_patch_setUpgradePhase no_patch_blockUpgrade annotation_neqs split: if_splits dest!: in_trace_call)

lemma minor_start_patch:
  assumes "PatchInstance i \<in> set (trace (reconcileMinorUpgrade E up inst))"
    and "annotation inst upgradeUIDAnnotation \<noteq> om_UID (g_Meta up)"
  shows "annotation inst upgradeUIDAnnotation = '''' \<and> annotation i upgradeUIDAnnotation = om_UID (g_Meta up) \<and>
    annotation i upgradeMemberAnnotation \<noteq> it_Primary (i_Status inst) \<and>
    annotation i upgradeMemberAnnotation \<in> set (it_SynchronousStandbys (i_Status inst))"
  using assms selectUpgradeCandidate_sound [OF refl, of inst "[]"]
  unfolding reconcileMinorUpgrade_def Let_def patchUpgradeAnnotations_def
  by (auto simp: no_patch_setUpgradePhase no_patch_blockUpgrade annotation_neqs split: if_splits dest!: in_trace_call)

definition upgradeGates :: "hub_env \<Rightarrow> PostgresUpgrade \<Rightarrow> MultiSitePostgres \<Rightarrow> bool" where
  "upgradeGates E up inst =
     (conditionTrue (he_K E) (it_Conditions (i_Status inst)) ''Ready'' \<and>
      conditionTrue (he_K E) (it_Conditions (i_Status inst)) ''BackupReady'' \<and>
      (\<exists>t. it_LastBackupTime (i_Status inst) = Some t \<and> he_Now E - t \<le> 24 * hour) \<and>
      (\<exists>upgrades. rd_upgrades (he_Reads E) = Inr upgrades \<and> \<not> upgradeConflict up upgrades) \<and>
      (\<exists>restores. rd_restores (he_Reads E) = Inr restores \<and> \<not> restoreConflict up restores))"

lemma startUpgrade_patch:
  assumes "PatchInstance i \<in> set (trace (startUpgrade E up inst))"
  shows "upgradeGates E up inst \<and>
    (if gs_TargetMajorVersion (g_Spec up) = pg_MajorVersion (is_Postgres (i_Spec inst))
     then PatchInstance i \<in> set (trace (reconcileMinorUpgrade E up inst))
     else (\<exists>c. statusCondition (gt_Conditions (g_Status up)) ''FreshBackupReady'' = Some c \<and> c_Status c = ConditionTrue) \<and>
       validateMajorUpgradeContract E up inst = None \<and>
       (\<exists>up'. g_Meta up' = g_Meta up \<and> PatchInstance i \<in> set (trace (reconcileMajorUpgrade E up' inst))))"
  using assms unfolding startUpgrade_def Let_def upgradeGates_def
  by (auto simp: no_patch_blockUpgrade split: option.splits if_splits sum.splits dest!: freshBackup_patch)
    (metis g_Meta_setUpgradeCond(1))+

lemma upgrade_takeover:
  assumes "PatchInstance i \<in> set (trace (reconcileUpgrade E name))"
    and "rd_upgrade (he_Reads E) name = Found up"
    and "om_DeletionTimestamp (g_Meta up) = None" "\<not> upgradeTerminal up"
    and "rd_instance (he_Reads E) (gs_InstanceRef (g_Spec up)) = Found inst"
    and "annotation inst upgradeUIDAnnotation \<noteq> om_UID (g_Meta up)"
  shows "PatchInstance i \<in> set (trace (startUpgrade E up inst))"
  using assms unfolding reconcileUpgrade_def
  by (auto simp: reconcileTerminalUpgrade_def andThen_def split: if_splits dest!: in_trace_call)

section \<open>Sample values\<close>

definition minorUpgrade :: PostgresUpgrade where
  "minorUpgrade = (sampleUpgrade '''')\<lparr>g_Spec := (g_Spec (sampleUpgrade ''''))\<lparr>gs_TargetMajorVersion := 16\<rparr>\<rparr>"

text \<open>An instance of one site with two members, healthy and backed up, with the
  given annotations.\<close>

definition rollingInstance :: "smap \<Rightarrow> MultiSitePostgres" where
  "rollingInstance values = setAnnotations
     (updStatus (\<lambda>st. st\<lparr>it_ActiveRevision := 2, it_Primary := ''postgres-a-0'',
        it_SynchronousStandbys := [''postgres-a-1''], it_LastBackupTime := Some 0,
        it_Sites := [(sampleSiteStatus ''a'')\<lparr>st_AppliedRevision := 2\<rparr>],
        it_Conditions := [sampleCond ''Ready'' ConditionTrue, sampleCond ''BackupReady'' ConditionTrue, sampleCond ''TopologyReady'' ConditionTrue]\<rparr>)
       (sampleInstance [sampleSite ''a'' 1 2 1])) values"

definition minorEnv :: "smap \<Rightarrow> hub_env" where
  "minorEnv values = sampleEnv\<lparr>he_Reads := sampleReads\<lparr>rd_instance := (\<lambda>n. Found (rollingInstance values)),
     rd_upgrade := (\<lambda>n. Found minorUpgrade)\<rparr>\<rparr>"

lemma rolling_facts:
  "i_Spec (rollingInstance values) = sampleSpec [sampleSite ''a'' 1 2 1]"
  "it_Primary (i_Status (rollingInstance values)) = ''postgres-a-0''"
  "it_SynchronousStandbys (i_Status (rollingInstance values)) = [''postgres-a-1'']"
  "it_LastBackupTime (i_Status (rollingInstance values)) = Some 0"
  "conditionTrue listConditions (it_Conditions (i_Status (rollingInstance values))) t \<longleftrightarrow>
     t \<in> {''Ready'', ''BackupReady'', ''TopologyReady''}"
  by (simp_all add: rollingInstance_def sample_defs listConditions_simps sampleCond_def)

lemma rolling_ready:
  "instanceReadyForOperation listConditions (rollingInstance
     [(upgradeUIDAnnotation, ''uid''), (upgradePhaseAnnotation, phase), (upgradeMemberAnnotation, m),
      (upgradeRevisionAnnotation, ''2'')])"
proof -
  have "annotation (rollingInstance [(upgradeUIDAnnotation, ''uid''), (upgradePhaseAnnotation, phase),
      (upgradeMemberAnnotation, m), (upgradeRevisionAnnotation, ''2'')]) upgradeRevisionAnnotation = ''2''"
    by (simp add: rollingInstance_def)
  then show ?thesis
    by (simp add: instanceReadyForOperation_def parse_2)
      (simp add: rollingInstance_def setAnnotations_def sample_defs allSitesApplied_def listConditions_simps sampleCond_def)
qed

section \<open>Properties\<close>

text \<open>An upgrade takes over an instance only when the instance is ready, its
  last verified backup is at most a day old, no other unfinished upgrade or
  restore targets it and no operation owns it. A minor upgrade then starts with
  a synchronous standby that is not the primary. A major one starts only with a
  fresh backup, a qualified benchmark and storage contract, and a known
  topology.\<close>

theorem upgrade_start_gated:
  assumes "PatchInstance i \<in> set (trace (reconcileUpgrade E name))"
    and "rd_upgrade (he_Reads E) name = Found up"
    and "om_DeletionTimestamp (g_Meta up) = None" "\<not> upgradeTerminal up"
    and "rd_instance (he_Reads E) (gs_InstanceRef (g_Spec up)) = Found inst"
    and "annotation inst upgradeUIDAnnotation \<noteq> om_UID (g_Meta up)"
  shows "upgradeGates E up inst \<and> annotation inst upgradeUIDAnnotation = '''' \<and>
    annotation i upgradeUIDAnnotation = om_UID (g_Meta up) \<and>
    (if gs_TargetMajorVersion (g_Spec up) = pg_MajorVersion (is_Postgres (i_Spec inst))
     then annotation i upgradeMemberAnnotation \<in> set (it_SynchronousStandbys (i_Status inst)) -
            {it_Primary (i_Status inst)}
     else (\<exists>c. statusCondition (gt_Conditions (g_Status up)) ''FreshBackupReady'' = Some c \<and>
              c_Status c = ConditionTrue) \<and>
          validateMajorUpgradeContract E up inst = None \<and>
          conditionTrue (he_K E) (it_Conditions (i_Status inst)) ''TopologyReady'')"
proof -
  have "PatchInstance i \<in> set (trace (startUpgrade E up inst))" using assms by (rule upgrade_takeover)
  from startUpgrade_patch [OF this] assms(6) show ?thesis
    by (auto split: if_splits dest: minor_start_patch major_start_patch)
qed

theorem upgrade_start_gated_witness:
  "\<exists>i. PatchInstance i \<in> set (trace (reconcileUpgrade (minorEnv []) ''up'')) \<and>
     upgradeGates (minorEnv []) minorUpgrade (rollingInstance []) \<and>
     annotation i upgradeMemberAnnotation \<in> {''postgres-a-1''} - {''postgres-a-0''}"
proof -
  let ?E = "minorEnv []"
  have r: "rd_upgrade (he_Reads ?E) ''up'' = Found minorUpgrade"
    "rd_instance (he_Reads ?E) (gs_InstanceRef (g_Spec minorUpgrade)) = Found (rollingInstance [])"
    by (simp_all add: minorEnv_def)
  have u: "om_DeletionTimestamp (g_Meta minorUpgrade) = None" "\<not> upgradeTerminal minorUpgrade"
    "om_UID (g_Meta minorUpgrade) = ''uid''" "containsFinalizer (g_Meta minorUpgrade) operationFinalizer"
    "gs_TargetMajorVersion (g_Spec minorUpgrade) = 16"
    by (simp_all add: minorUpgrade_def sampleUpgrade_def sampleMeta_def upgradeTerminal_def containsFinalizer_def)
  have a: "annotation (rollingInstance []) k = ''''" for k by (simp add: rollingInstance_def sample_defs)
  have s: "pg_MajorVersion (is_Postgres (i_Spec (rollingInstance []))) = 16"
    by (simp add: rolling_facts sample_defs)
  have "selectUpgradeCandidate (rollingInstance []) [] = ''postgres-a-1''"
    by (simp add: selectUpgradeCandidate_def rolling_facts)
  then have "\<exists>i. PatchInstance i \<in> set (trace (reconcileMinorUpgrade ?E minorUpgrade (rollingInstance [])))"
    by (auto simp: reconcileMinorUpgrade_def Let_def a rolling_facts sample_defs minorUpgrade_def sampleUpgrade_def
        patchUpgradeAnnotations_def call_def minorEnv_def sampleEnv_def)
  moreover have "trace (reconcileUpgrade ?E ''up'') =
      trace (reconcileMinorUpgrade ?E minorUpgrade (rollingInstance []))"
    using r u a s by (simp add: reconcileUpgrade_def reconcileTerminalUpgrade_def andThen_def startUpgrade_def
        rolling_facts hasPrefix_def upgradeConflict_def restoreConflict_def split: sum.splits)
      (simp add: minorEnv_def sampleEnv_def sampleReads_def rolling_facts duration_defs)
  ultimately obtain i where i: "PatchInstance i \<in> set (trace (reconcileUpgrade ?E ''up''))" by auto
  from upgrade_start_gated [OF i r(1) u(1,2) r(2)] i u s a show ?thesis
    by (auto simp: rolling_facts)
qed

text \<open>C22: Every write of a minor upgrade to its instance is a move of the abstract
  rollout on what the annotations say, or, in the last phase, the return of the
  instance. So the next member is never the primary and never one already done,
  the stable plan is reached only when every member but the primary is done, a
  verified member is recorded before the next is taken, and each move waits for
  the instance to be ready or for the switchover to be seen.\<close>

theorem minor_upgrade_refines:
  assumes "PatchInstance inst' \<in> set (trace (reconcileMinorUpgrade E up inst))"
    and "annotation inst upgradeUIDAnnotation = om_UID (g_Meta up)" "om_UID (g_Meta up) \<noteq> ''''" "minorWf inst"
  shows "(annotation inst upgradePhaseAnnotation = ''Finalize'' \<and> instanceReadyForOperation (he_K E) inst \<and>
           inst' = clearUpgradeAnnotations inst) \<or>
         (minorMove (membersOf inst) (it_Primary (i_Status inst)) (minorState inst) (minorState inst') \<and>
          (annotation inst upgradePhaseAnnotation = ''Member'' \<longrightarrow> instanceReadyForOperation (he_K E) inst) \<and>
          (annotation inst upgradePhaseAnnotation = ''Switchover'' \<longrightarrow>
             it_Primary (i_Status inst) = annotation inst upgradeCandidateAnnotation \<and>
             conditionTrue (he_K E) (it_Conditions (i_Status inst)) ''TopologyReady''))"
  using minor_step_cases [OF assms] by blast

definition memberAnnotations :: smap where
  "memberAnnotations = [(upgradeUIDAnnotation, ''uid''), (upgradePhaseAnnotation, ''Member''),
     (upgradeMemberAnnotation, ''postgres-a-1''), (upgradeRevisionAnnotation, ''2'')]"

lemma rolling_member:
  "annotation (rollingInstance memberAnnotations) upgradeUIDAnnotation = om_UID (g_Meta minorUpgrade)"
  "om_UID (g_Meta minorUpgrade) \<noteq> ''''" "minorWf (rollingInstance memberAnnotations)"
  "annotation (rollingInstance memberAnnotations) upgradePhaseAnnotation = ''Member''"
  "annotation (rollingInstance memberAnnotations) upgradeSwitchedAnnotation \<noteq> ''true''"
  "\<exists>i. PatchInstance i \<in> set (trace (reconcileMinorUpgrade sampleEnv minorUpgrade (rollingInstance memberAnnotations)))"
proof -
  let ?i = "rollingInstance memberAnnotations"
  have a: "annotation ?i upgradeUIDAnnotation = ''uid''" "annotation ?i upgradePhaseAnnotation = ''Member''"
    "annotation ?i upgradeMemberAnnotation = ''postgres-a-1''" "annotation ?i upgradeSwitchedAnnotation = ''''"
    "annotation ?i upgradeMembersAnnotation = ''''"
    by (simp_all add: rollingInstance_def memberAnnotations_def annotation_neqs sample_defs)
  show uid: "annotation ?i upgradeUIDAnnotation = om_UID (g_Meta minorUpgrade)" "om_UID (g_Meta minorUpgrade) \<noteq> ''''"
    by (simp_all add: a minorUpgrade_def sampleUpgrade_def sampleMeta_def)
  show "minorWf ?i" "annotation ?i upgradePhaseAnnotation = ''Member''" "annotation ?i upgradeSwitchedAnnotation \<noteq> ''true''"
    by (simp_all add: minorWf_def a)
  have "instanceReadyForOperation listConditions ?i" unfolding memberAnnotations_def by (rule rolling_ready)
  then show "\<exists>i. PatchInstance i \<in> set (trace (reconcileMinorUpgrade sampleEnv minorUpgrade ?i))"
    using uid a by (auto simp: reconcileMinorUpgrade_def minorMemberStep_def patchUpgradeAnnotations_def call_def
        sampleEnv_def Let_def)
qed

theorem minor_upgrade_refines_witness:
  "\<exists>i. minorMove (membersOf (rollingInstance memberAnnotations)) ''postgres-a-0''
     (minorState (rollingInstance memberAnnotations)) (minorState i)"
proof -
  obtain i where "PatchInstance i \<in> set (trace (reconcileMinorUpgrade sampleEnv minorUpgrade
      (rollingInstance memberAnnotations)))" using rolling_member(6) by blast
  from minor_upgrade_refines [OF this rolling_member(1-3)] rolling_member(4) show ?thesis
    by (auto simp: rolling_facts)
qed

text \<open>C23: A minor upgrade ends: from its first phase it writes to the instance at
  most four times more than the instance has members, whatever the sites report
  and whichever member is the primary in between.\<close>

theorem minor_upgrade_terminates:
  assumes "(minorStep up ^^ n) inst inst'" "om_UID (g_Meta up) \<noteq> ''''" "minorWf inst"
    and "annotation inst upgradePhaseAnnotation = ''Member''"
    and "annotation inst upgradeSwitchedAnnotation \<noteq> ''true''"
    and "\<And>site. site \<in> set (is_Sites (i_Spec inst)) \<Longrightarrow> CHR '','' \<notin> set (ps_Name site)"
  shows "n \<le> card (membersOf inst) + 4"
proof -
  have inv: "minorInv (membersOf inst) (minorState inst)"
    using assms(5) by (simp add: minorInv_def minorState_def)
  have "card (membersOf inst - X) \<le> card (membersOf inst)" for X by (intro card_mono) auto
  then have "minorRank (membersOf inst) (minorState inst) \<le> card (membersOf inst) + 3"
    using assms(4,5) by (simp add: minorRank_def minorState_def)
  with minorSteps_bounded [OF assms(1-3) inv assms(6)] show ?thesis by linarith
qed

theorem minor_upgrade_terminates_witness:
  "\<exists>i. (minorStep minorUpgrade ^^ 1) (rollingInstance memberAnnotations) i \<and>
     1 \<le> card (membersOf (rollingInstance memberAnnotations)) + 4"
proof -
  obtain i where i: "PatchInstance i \<in> set (trace (reconcileMinorUpgrade sampleEnv minorUpgrade
      (rollingInstance memberAnnotations)))" using rolling_member(6) by blast
  then have step: "(minorStep minorUpgrade ^^ 1) (rollingInstance memberAnnotations) i"
    using rolling_member(1) unfolding One_nat_def relpowp_1 [unfolded One_nat_def] minorStep_def by blast
  have "CHR '','' \<notin> set (ps_Name site)" if "site \<in> set (is_Sites (i_Spec (rollingInstance memberAnnotations)))" for site
    using that by (auto simp: rolling_facts sample_defs)
  from minor_upgrade_terminates [OF step rolling_member(2-5) this] step show ?thesis by blast
qed

end
