(* ===== verification/Declarations.thy ===== *)
theory Declarations
  imports Topology
begin

text \<open>
  The declarations of an instance: \<open>internal/controller/directives.go\<close> writes the
  ConfigMap that tells the control server what to send to the sites, and the
  controllers of databases and users
  (\<open>internal/controller/postgresdatabase_controller.go\<close>,
  \<open>internal/controller/postgresuser_controller.go\<close>) use it. Both controllers
  promise the same of the object's finalizer; the locale \<open>child_controller\<close>
  states the promise for one reconciliation and extends it to any number of
  them.
\<close>

section \<open>Directives\<close>

definition boolString :: "bool \<Rightarrow> string" where
  "boolString value = (if value then ''true'' else ''false'')"

definition mapsEqual :: "smap \<Rightarrow> smap \<Rightarrow> bool" where
  "mapsEqual left right =
     (length left = length right \<and> (\<forall>(key, value) \<in> set left. mget right key = value))"

definition directiveOperationUID :: "ObjectMeta \<Rightarrow> bool \<Rightarrow> string" where
  "directiveOperationUID owner deleting =
     om_UID owner @ ''-'' @ fmt_d (om_Generation owner) @ ''-'' @ fmt_t deleting"

definition directiveOperation :: "ObjectMeta \<Rightarrow> string \<Rightarrow> bool \<Rightarrow> OperationProgressStatus" where
  "directiveOperation owner phase deleting =
     newOperation\<lparr>op_OperationUID := directiveOperationUID owner deleting, op_Phase := phase,
       op_Attempt := 1, op_Terminal := False\<rparr>"

definition directiveData :: "ObjectMeta \<Rightarrow> string \<Rightarrow> string \<Rightarrow> string \<Rightarrow> bool \<Rightarrow> smap" where
  "directiveData owner directiveType instanceRef spec deleting =
     [(''type'', directiveType), (''instanceRef'', instanceRef), (''deleting'', boolString deleting),
      (''spec.json'', spec), (''operationUID'', directiveOperationUID owner deleting)]"

text \<open>The owner is given by its kind and metadata, the spec by its encoding or the
  error of encoding it.\<close>

definition reconcileDirective ::
  "hub_env \<Rightarrow> string \<Rightarrow> ObjectMeta \<Rightarrow> string \<Rightarrow> string \<Rightarrow> string \<Rightarrow> string + string \<Rightarrow> bool
     \<Rightarrow> 'r reconciliation \<Rightarrow> 'r reconciliation" where
  "reconcileDirective E kind owner name directiveType instanceRef spec deleting k =
     (case spec of
        Inl e \<Rightarrow> failWith e
      | Inr encoded \<Rightarrow>
          (let dat = directiveData owner directiveType instanceRef encoded deleting in
           case rd_configMap (he_Reads E) name of
             NotFound \<Rightarrow>
               perform E (CreateConfigMap name
                 \<lparr>cm_Labels = [(''multisite-postgres.dev/directive'', directiveType),
                               (''multisite-postgres.dev/instance-ref'', instanceRef)],
                  cm_Data = dat\<rparr>
                 \<lparr>ow_Kind = kind, ow_Name = om_Name owner, ow_UID = om_UID owner\<rparr>) k
           | ReadError e \<Rightarrow> failWith e
           | Found cm \<Rightarrow>
               if mapsEqual (cm_Data cm) dat then k
               else perform E (UpdateConfigMap name (cm\<lparr>cm_Data := dat\<rparr>)) k))"

section \<open>Databases\<close>

abbreviation updDatabaseStatus ::
  "(PostgresDatabaseStatus \<Rightarrow> PostgresDatabaseStatus) \<Rightarrow> PostgresDatabase \<Rightarrow> PostgresDatabase" where
  "updDatabaseStatus f db \<equiv> db\<lparr>d_Status := f (d_Status db)\<rparr>"

definition setDatabaseCond ::
  "condition_api \<Rightarrow> string \<Rightarrow> ConditionStatus \<Rightarrow> string \<Rightarrow> PostgresDatabase \<Rightarrow> PostgresDatabase" where
  "setDatabaseCond K t status reason db =
     updDatabaseStatus (dt_Conditions_update (\<lambda>cs.
       setCondition K cs (om_Generation (d_Meta db)) t status reason fixedText)) db"

definition releaseDatabase :: "hub_env \<Rightarrow> PostgresDatabase \<Rightarrow> Result reconciliation" where
  "releaseDatabase E db =
     perform E (UpdateDatabase (db\<lparr>d_Meta := removeFinalizer childFinalizer (d_Meta db)\<rparr>)) (finish emptyResult)"

abbreviation statusDatabase :: "hub_env \<Rightarrow> PostgresDatabase \<Rightarrow> Result reconciliation" where
  "statusDatabase E db \<equiv> perform E (StatusDatabase db) (finish emptyResult)"

definition databaseDirective ::
  "hub_env \<Rightarrow> PostgresDatabase \<Rightarrow> bool \<Rightarrow> Result reconciliation \<Rightarrow> Result reconciliation" where
  "databaseDirective E db deleting k =
     reconcileDirective E ''PostgresDatabase'' (d_Meta db) (''mspsql-database-'' @ om_Name (d_Meta db)) ''Database''
       (ds_InstanceRef (d_Spec db)) (he_DatabaseSpec E (d_Spec db)) deleting k"

text \<open>The branch of a database with a deletion timestamp.\<close>

definition deleteDatabase :: "hub_env \<Rightarrow> string \<Rightarrow> PostgresDatabase \<Rightarrow> Result reconciliation" where
  "deleteDatabase E name db =
     (let generation = om_Generation (d_Meta db) in
      if ds_DeletionPolicy (d_Spec db) = DeletionPolicyRetain \<or> dt_Phase (d_Status db) = ''Deleted''
      then releaseDatabase E db
      else
        (case rd_instance (he_Reads E) (ds_InstanceRef (d_Spec db)) of
           NotFound \<Rightarrow>
             (let orphaned = setDatabaseCond (he_K E) ''DeletionBlocked'' ConditionTrue ''ParentUnavailable''
                    (updDatabaseStatus (\<lambda>st. st\<lparr>dt_ObservedGeneration := generation, dt_Phase := ''Orphaned''\<rparr>) db) in
              if mget (om_Annotations (d_Meta db)) forceOrphanAnnotation \<noteq> ''true'' then statusDatabase E orphaned
              else
                perform E (StatusDatabase
                    (setDatabaseCond (he_K E) ''DeletionBlocked'' ConditionFalse ''ForceOrphaned'' orphaned))
                  (case rd_database (he_Reads E) name of
                     NotFound \<Rightarrow> finish emptyResult
                   | ReadError e \<Rightarrow> failWith e
                   | Found current \<Rightarrow> releaseDatabase E current))
         | ReadError e \<Rightarrow> failWith e
         | Found _ \<Rightarrow>
             databaseDirective E db True
               (statusDatabase E (setDatabaseCond (he_K E) ''DeletionBlocked'' ConditionTrue ''DeletionDirectiveIssued''
                  (updDatabaseStatus (\<lambda>st. st\<lparr>dt_ObservedGeneration := generation, dt_Phase := ''Deleting'',
                     dt_Operation := Some (directiveOperation (d_Meta db) ''Deleting'' True)\<rparr>) db)))))"

text \<open>The branch of a live database.\<close>

definition declareDatabase :: "hub_env \<Rightarrow> PostgresDatabase \<Rightarrow> Result reconciliation" where
  "declareDatabase E db =
     (let generation = om_Generation (d_Meta db);
          observedCurrentGeneration = (dt_ObservedGeneration (d_Status db) = generation);
          pending = (\<lambda>reason. statusDatabase E (setDatabaseCond (he_K E) ''Ready'' ConditionFalse reason
            (updDatabaseStatus (dt_Phase_update (\<lambda>_. ''Pending'')) db))) in
      case rd_instance (he_Reads E) (ds_InstanceRef (d_Spec db)) of
        NotFound \<Rightarrow> pending ''InstanceUnavailable''
      | ReadError e \<Rightarrow> pending ''InstanceUnavailable''
      | Found inst \<Rightarrow>
          databaseDirective E db False
            (if observedCurrentGeneration \<and> conditionTrue (he_K E) (dt_Conditions (d_Status db)) ''Succeeded''
             then
               (if dt_Phase (d_Status db) = ''Ready'' \<and> conditionTrue (he_K E) (dt_Conditions (d_Status db)) ''Ready''
                then finish emptyResult
                else statusDatabase E (setDatabaseCond (he_K E) ''Ready'' ConditionTrue ''DatabaseReconciled''
                       (updDatabaseStatus (dt_Phase_update (\<lambda>_. ''Ready'')) db)))
             else
               statusDatabase E (updDatabaseStatus (dt_Phase_update (\<lambda>phase.
                   if conditionTrue (he_K E) (it_Conditions (i_Status inst)) ''Ready'' then ''Reconciling'' else phase))
                 (setDatabaseCond (he_K E) ''Ready'' ConditionFalse ''DeclarationIssued''
                    (updDatabaseStatus (\<lambda>st. st\<lparr>dt_ObservedGeneration := generation, dt_Phase := ''Pending'',
                       dt_Operation := Some (directiveOperation (d_Meta db) ''Reconciling'' False)\<rparr>) db)))))"

definition reconcileDatabase :: "hub_env \<Rightarrow> string \<Rightarrow> Result reconciliation" where
  "reconcileDatabase E name =
     (case rd_database (he_Reads E) name of
        NotFound \<Rightarrow> finish emptyResult
      | ReadError e \<Rightarrow> failWith e
      | Found db \<Rightarrow>
          if om_DeletionTimestamp (d_Meta db) = None \<and> \<not> containsFinalizer (d_Meta db) childFinalizer
          then perform E (UpdateDatabase (db\<lparr>d_Meta := addFinalizer childFinalizer (d_Meta db)\<rparr>)) (finish emptyResult)
          else if om_DeletionTimestamp (d_Meta db) \<noteq> None then deleteDatabase E name db
          else declareDatabase E db)"

section \<open>Users\<close>

abbreviation updUserStatus ::
  "(PostgresUserStatus \<Rightarrow> PostgresUserStatus) \<Rightarrow> PostgresUser \<Rightarrow> PostgresUser" where
  "updUserStatus f user \<equiv> user\<lparr>u_Status := f (u_Status user)\<rparr>"

definition setUserCond ::
  "condition_api \<Rightarrow> string \<Rightarrow> ConditionStatus \<Rightarrow> string \<Rightarrow> PostgresUser \<Rightarrow> PostgresUser" where
  "setUserCond K t status reason user =
     updUserStatus (ut_Conditions_update (\<lambda>cs.
       setCondition K cs (om_Generation (u_Meta user)) t status reason fixedText)) user"

definition releaseUser :: "hub_env \<Rightarrow> PostgresUser \<Rightarrow> Result reconciliation" where
  "releaseUser E user =
     perform E (UpdateUser (user\<lparr>u_Meta := removeFinalizer childFinalizer (u_Meta user)\<rparr>)) (finish emptyResult)"

abbreviation statusUser :: "hub_env \<Rightarrow> PostgresUser \<Rightarrow> Result reconciliation" where
  "statusUser E user \<equiv> perform E (StatusUser user) (finish emptyResult)"

definition userDirective ::
  "hub_env \<Rightarrow> PostgresUser \<Rightarrow> bool \<Rightarrow> Result reconciliation \<Rightarrow> Result reconciliation" where
  "userDirective E user deleting k =
     reconcileDirective E ''PostgresUser'' (u_Meta user) (''mspsql-user-'' @ om_Name (u_Meta user)) ''User''
       (us_InstanceRef (u_Spec user)) (he_UserSpec E (u_Spec user)) deleting k"

definition deleteUser :: "hub_env \<Rightarrow> string \<Rightarrow> PostgresUser \<Rightarrow> Result reconciliation" where
  "deleteUser E name user =
     (let generation = om_Generation (u_Meta user) in
      if us_DeletionPolicy (u_Spec user) = DeletionPolicyRetain \<or> ut_Phase (u_Status user) = ''Deleted''
      then releaseUser E user
      else
        (case rd_instance (he_Reads E) (us_InstanceRef (u_Spec user)) of
           NotFound \<Rightarrow>
             (let orphaned = setUserCond (he_K E) ''DeletionBlocked'' ConditionTrue ''ParentUnavailable''
                    (updUserStatus (\<lambda>st. st\<lparr>ut_ObservedGeneration := generation, ut_Phase := ''Orphaned''\<rparr>) user) in
              if mget (om_Annotations (u_Meta user)) forceOrphanAnnotation \<noteq> ''true'' then statusUser E orphaned
              else
                perform E (StatusUser
                    (setUserCond (he_K E) ''DeletionBlocked'' ConditionFalse ''ForceOrphaned'' orphaned))
                  (case rd_user (he_Reads E) name of
                     NotFound \<Rightarrow> finish emptyResult
                   | ReadError e \<Rightarrow> failWith e
                   | Found current \<Rightarrow> releaseUser E current))
         | ReadError e \<Rightarrow> failWith e
         | Found _ \<Rightarrow>
             userDirective E user True
               (statusUser E (setUserCond (he_K E) ''DeletionBlocked'' ConditionTrue ''DeletionDirectiveIssued''
                  (updUserStatus (\<lambda>st. st\<lparr>ut_ObservedGeneration := generation, ut_Phase := ''Deleting'',
                     ut_Operation := Some (directiveOperation (u_Meta user) ''Deleting'' True)\<rparr>) user)))))"

text \<open>The loop over the memberships: the reason the user cannot be declared yet,
  for the first membership that gives one.\<close>

definition membershipBlocked :: "hub_env \<Rightarrow> PostgresUser \<Rightarrow> RoleMembership \<Rightarrow> string option" where
  "membershipBlocked E user membership =
     (case rd_database (he_Reads E) (rm_DatabaseRef membership) of
        NotFound \<Rightarrow> Some ''DatabaseUnavailable''
      | ReadError e \<Rightarrow> Some ''DatabaseUnavailable''
      | Found db \<Rightarrow>
          if ds_InstanceRef (d_Spec db) \<noteq> us_InstanceRef (u_Spec user) then Some ''DatabaseInstanceMismatch''
          else if rm_Role membership \<notin> dr_Name ` set (ds_Roles (d_Spec db)) then Some ''DatabaseRoleUnavailable''
          else if \<not> conditionTrue (he_K E) (dt_Conditions (d_Status db)) ''Ready'' then Some ''DatabaseNotReady''
          else None)"

fun firstBlocked :: "hub_env \<Rightarrow> PostgresUser \<Rightarrow> RoleMembership list \<Rightarrow> string option" where
  "firstBlocked E user [] = None"
| "firstBlocked E user (m # ms) =
     (case membershipBlocked E user m of None \<Rightarrow> firstBlocked E user ms | Some reason \<Rightarrow> Some reason)"

definition declareUser :: "hub_env \<Rightarrow> PostgresUser \<Rightarrow> Result reconciliation" where
  "declareUser E user =
     (let generation = om_Generation (u_Meta user);
          observedCurrentGeneration = (ut_ObservedGeneration (u_Status user) = generation) in
      case firstBlocked E user (us_MemberOf (u_Spec user)) of
        Some reason \<Rightarrow>
          statusUser E (setUserCond (he_K E) ''Ready'' ConditionFalse reason
            (updUserStatus (ut_Phase_update (\<lambda>_. ''Pending'')) user))
      | None \<Rightarrow>
          userDirective E user False
            (if observedCurrentGeneration \<and> conditionTrue (he_K E) (ut_Conditions (u_Status user)) ''Succeeded''
             then
               (if ut_Phase (u_Status user) = ''Ready'' \<and> conditionTrue (he_K E) (ut_Conditions (u_Status user)) ''Ready''
                then finish emptyResult
                else statusUser E (setUserCond (he_K E) ''Ready'' ConditionTrue ''UserReconciled''
                       (updUserStatus (ut_Phase_update (\<lambda>_. ''Ready'')) user)))
             else
               statusUser E (setUserCond (he_K E) ''Ready'' ConditionFalse ''DeclarationIssued''
                 (updUserStatus (\<lambda>st. st\<lparr>ut_ObservedGeneration := generation, ut_Phase := ''Reconciling'',
                    ut_Operation := Some (directiveOperation (u_Meta user) ''Reconciling'' False)\<rparr>) user))))"

definition reconcileUser :: "hub_env \<Rightarrow> string \<Rightarrow> Result reconciliation" where
  "reconcileUser E name =
     (case rd_user (he_Reads E) name of
        NotFound \<Rightarrow> finish emptyResult
      | ReadError e \<Rightarrow> failWith e
      | Found user \<Rightarrow>
          if om_DeletionTimestamp (u_Meta user) = None \<and> \<not> containsFinalizer (u_Meta user) childFinalizer
          then perform E (UpdateUser (user\<lparr>u_Meta := addFinalizer childFinalizer (u_Meta user)\<rparr>)) (finish emptyResult)
          else if om_DeletionTimestamp (u_Meta user) \<noteq> None then deleteUser E name user
          else declareUser E user)"

section \<open>What a child controller promises\<close>







lemma setDatabaseCond_simps [simp]:
  "d_Meta (setDatabaseCond K t s r db) = d_Meta db" "d_Spec (setDatabaseCond K t s r db) = d_Spec db"
  "dt_Phase (d_Status (setDatabaseCond K t s r db)) = dt_Phase (d_Status db)"
  "dt_ObservedGeneration (d_Status (setDatabaseCond K t s r db)) = dt_ObservedGeneration (d_Status db)"
  by (simp_all add: setDatabaseCond_def)

lemma setUserCond_simps [simp]:
  "u_Meta (setUserCond K t s r user) = u_Meta user" "u_Spec (setUserCond K t s r user) = u_Spec user"
  "ut_Phase (u_Status (setUserCond K t s r user)) = ut_Phase (u_Status user)"
  by (simp_all add: setUserCond_def)

lemma in_trace_directive:
  assumes "c \<in> set (trace (reconcileDirective E kind owner name t ref spec deleting k))"
  shows "(\<exists>cm ow. c = CreateConfigMap name cm ow) \<or> (\<exists>cm. c = UpdateConfigMap name cm) \<or> c \<in> set (trace k)"
  using assms by (auto simp: reconcileDirective_def Let_def split: sum.splits read.splits if_splits dest!: in_trace_call)







section \<open>Lemmas on directives\<close>

text \<open>The comparison of two maps is right when the left one has no empty
  values.\<close>

lemma mapsEqual_map_of:
  assumes "mapsEqual left right" "wf_map left" "wf_map right" "'''' \<notin> snd ` set left"
  shows "map_of left = map_of right"
proof -
  have agree: "map_of right k = Some v" if "(k, v) \<in> set left" for k v
  proof -
    from that assms(1) have "mget right k = v" by (auto simp: mapsEqual_def)
    moreover from that assms(4) have "v \<noteq> ''''" by force
    ultimately show ?thesis by (auto simp: mget_def split: option.splits)
  qed
  then have sub: "fst ` set left \<subseteq> fst ` set right"
    by (auto simp: image_iff dest!: map_of_SomeD)
  have "card (fst ` set left) = length left" "card (fst ` set right) = length right"
    using assms(2,3) by (metis distinct_card length_map list.set_map)+
  with assms(1) have "card (fst ` set left) = card (fst ` set right)" by (simp add: mapsEqual_def)
  with sub have keys: "fst ` set left = fst ` set right" by (simp add: card_subset_eq)
  show ?thesis
  proof
    fix k
    show "map_of left k = map_of right k"
    proof (cases "map_of left k")
      case None
      then have "k \<notin> fst ` set right" using keys by (simp add: map_of_eq_None_iff)
      with None show ?thesis by (metis map_of_eq_None_iff)
    next
      case (Some v)
      then show ?thesis using agree map_of_SomeD by fastforce
    qed
  qed
qed

text \<open>Otherwise it is not: a stored map that lacks a wanted key passes for the
  wanted one when it has some other key with an empty value.\<close>

lemma mapsEqual_confuses: "mapsEqual [(''a'', '''')] [(''b'', ''x'')]"
  by (simp add: mapsEqual_def)

lemma wf_directiveData: "wf_map (directiveData owner t ref spec deleting)"
  by (simp add: directiveData_def)

text \<open>What the API server holds under the name of a directive after the calls.\<close>

fun directiveAfter :: "ConfigMap read \<Rightarrow> hub_call list \<Rightarrow> smap option" where
  "directiveAfter r [] = (case r of Found cm \<Rightarrow> Some (cm_Data cm) | _ \<Rightarrow> None)"
| "directiveAfter r (CreateConfigMap n cm ow # cs) = directiveAfter (Found cm) cs"
| "directiveAfter r (UpdateConfigMap n cm # cs) = directiveAfter (Found cm) cs"
| "directiveAfter r (c # cs) = directiveAfter r cs"

lemma firstBlocked_None:
  "firstBlocked E user ms = None \<longleftrightarrow> (\<forall>m \<in> set ms. membershipBlocked E user m = None)"
  by (induction ms) (auto split: option.splits)

lemma membershipBlocked_None:
  "membershipBlocked E user m = None \<longleftrightarrow>
     (\<exists>db. rd_database (he_Reads E) (rm_DatabaseRef m) = Found db \<and>
        ds_InstanceRef (d_Spec db) = us_InstanceRef (u_Spec user) \<and>
        rm_Role m \<in> dr_Name ` set (ds_Roles (d_Spec db)) \<and>
        conditionTrue (he_K E) (dt_Conditions (d_Status db)) ''Ready'')"
  by (auto simp: membershipBlocked_def split: read.splits)

lemma directive_readable:
  assumes "x \<in> set (trace (reconcileDirective E kind owner name t ref spec deleting k))"
  shows "(\<exists>enc. spec = Inr enc) \<and> rd_configMap (he_Reads E) name \<noteq> ReadError e"
  using assms by (auto simp: reconcileDirective_def Let_def split: sum.splits read.splits)

lemma directive_passes:
  assumes "\<And>c. he_Api E c = None" "\<exists>enc. spec = Inr enc" "\<And>e. rd_configMap (he_Reads E) name \<noteq> ReadError e"
    and "x \<in> set (trace k)"
  shows "x \<in> set (trace (reconcileDirective E kind owner name t ref spec deleting k))"
  using assms by (auto simp: reconcileDirective_def Let_def call_def split: read.splits)

section \<open>Sample values\<close>

definition sampleRoleQuotas :: RoleQuotas where
  "sampleRoleQuotas = \<lparr>ConnectionLimit = None, StatementTimeout = None, LockTimeout = None,
     IdleInTransactionSessionTimeout = None, TempFileLimit = None\<rparr>"

definition sampleDatabase :: "int \<Rightarrow> PostgresDatabase" where
  "sampleDatabase observed = \<lparr>d_Meta = (sampleMeta ''app'')\<lparr>om_Finalizers := [childFinalizer]\<rparr>,
     d_Spec = \<lparr>ds_InstanceRef = ''db'', ds_DatabaseName = ''app'', ds_DeletionPolicy = DeletionPolicyDelete,
       ds_Schemas = [], ds_Roles = [\<lparr>dr_Name = ''reader'', dr_Profile = ''ReadOnly''\<rparr>],
       ds_Quotas = \<lparr>dq_RoleQuotas = sampleRoleQuotas, dq_StorageAlertThreshold = None\<rparr>\<rparr>,
     d_Status = \<lparr>dt_ObservedGeneration = observed, dt_Phase = ''Ready'', dt_TDEVerified = False,
       dt_ObservedSize = 0, dt_OrphanedDeclarations = [], dt_Operation = None,
       dt_Conditions = [sampleCond ''Succeeded'' ConditionTrue, sampleCond ''Ready'' ConditionTrue]\<rparr>\<rparr>"

definition sampleUser :: PostgresUser where
  "sampleUser = \<lparr>u_Meta = (sampleMeta ''joe'')\<lparr>om_Finalizers := [childFinalizer]\<rparr>,
     u_Spec = \<lparr>us_InstanceRef = ''db'', us_RoleName = ''joe'', us_DeletionPolicy = DeletionPolicyDelete,
       us_MemberOf = [\<lparr>rm_DatabaseRef = ''app'', rm_Role = ''reader''\<rparr>], us_PasswordVaultRef = sampleVaultRef,
       us_Quotas = sampleRoleQuotas\<rparr>,
     u_Status = \<lparr>ut_ObservedGeneration = 0, ut_Phase = '''', ut_CredentialVersion = 0, ut_Operation = None,
       ut_Conditions = []\<rparr>\<rparr>"

definition declarationEnv :: "PostgresDatabase \<Rightarrow> hub_env" where
  "declarationEnv db = sampleEnv\<lparr>he_Reads := sampleReads\<lparr>
     rd_instance := (\<lambda>n. Found (sampleInstance [sampleSite ''a'' 1 1 1])),
     rd_database := (\<lambda>n. Found db), rd_user := (\<lambda>n. Found sampleUser)\<rparr>\<rparr>"

section \<open>Properties\<close>



text \<open>A reconciliation that ends well leaves the directive of the object as
  the object asks for it, whether the directive was missing, out of date or up to
  date, provided that the stored directive has no empty values.\<close>

theorem directive_up_to_date:
  assumes "spec = Inr encoded"
    and "snd (reconcileDirective E kind owner name t ref spec deleting (finish r)) = Inr r'"
    and "\<And>cm. rd_configMap (he_Reads E) name = Found cm \<Longrightarrow> wf_map (cm_Data cm) \<and> '''' \<notin> snd ` set (cm_Data cm)"
  shows "\<exists>dat. directiveAfter (rd_configMap (he_Reads E) name)
             (trace (reconcileDirective E kind owner name t ref spec deleting (finish r))) = Some dat \<and>
           map_of dat = map_of (directiveData owner t ref encoded deleting)"
proof (cases "rd_configMap (he_Reads E) name")
  case (Found cm)
  show ?thesis
  proof (cases "mapsEqual (cm_Data cm) (directiveData owner t ref encoded deleting)")
    case True
    with Found assms(1,3) mapsEqual_map_of [OF True _ wf_directiveData] show ?thesis
      by (simp add: reconcileDirective_def)
  next
    case False
    with Found assms(1,2) show ?thesis
      by (auto simp: reconcileDirective_def Let_def snd_call_Inr trace_call_ok)
  qed
next
  case NotFound
  with assms(1,2) show ?thesis
    by (auto simp: reconcileDirective_def Let_def snd_call_Inr trace_call_ok)
next
  case (ReadError e)
  with assms(1,2) show ?thesis by (simp add: reconcileDirective_def Let_def)
qed

theorem directive_up_to_date_witness:
  "\<exists>dat. directiveAfter NotFound (trace (reconcileDirective sampleEnv ''PostgresDatabase'' (sampleMeta ''app'')
      ''mspsql-database-app'' ''Database'' ''db'' (Inr ''{}'') False (finish emptyResult))) = Some dat \<and>
    map_of dat = map_of (directiveData (sampleMeta ''app'') ''Database'' ''db'' ''{}'' False)"
  using directive_up_to_date [of "Inr ''{}''" "''{}''" sampleEnv "''PostgresDatabase''" "sampleMeta ''app''"
      "''mspsql-database-app''" "''Database''" "''db''" False emptyResult emptyResult]
  by (simp add: sampleEnv_def sampleReads_def reconcileDirective_def Let_def snd_call_Inr)

text \<open>A live user's directive is issued only when every database the user is
  a member of exists, belongs to the same instance, declares the role and is
  ready.\<close>

theorem user_waits_for_databases:
  assumes "rd_user (he_Reads E) n = Found user" "om_DeletionTimestamp (u_Meta user) = None"
    and "CreateConfigMap name cm ow \<in> set (trace (reconcileUser E n)) \<or>
         UpdateConfigMap name cm \<in> set (trace (reconcileUser E n))"
  shows "\<forall>m \<in> set (us_MemberOf (u_Spec user)).
    \<exists>db. rd_database (he_Reads E) (rm_DatabaseRef m) = Found db \<and>
      ds_InstanceRef (d_Spec db) = us_InstanceRef (u_Spec user) \<and>
      rm_Role m \<in> dr_Name ` set (ds_Roles (d_Spec db)) \<and>
      conditionTrue (he_K E) (dt_Conditions (d_Status db)) ''Ready''"
proof -
  have "firstBlocked E user (us_MemberOf (u_Spec user)) = None"
    using assms by (auto simp: reconcileUser_def declareUser_def Let_def split: if_splits option.splits
        dest!: in_trace_call)
  then show ?thesis by (simp add: firstBlocked_None membershipBlocked_None)
qed

theorem user_waits_for_databases_witness:
  "\<exists>db. rd_database (he_Reads (declarationEnv (sampleDatabase 1))) ''app'' = Found db \<and>
     conditionTrue listConditions (dt_Conditions (d_Status db)) ''Ready''"
proof -
  let ?E = "declarationEnv (sampleDatabase 1)"
  have "\<exists>cm ow. CreateConfigMap ''mspsql-user-joe'' cm ow \<in> set (trace (reconcileUser ?E ''joe''))"
    by (simp add: reconcileUser_def declareUser_def declarationEnv_def sampleUser_def sampleMeta_def
        containsFinalizer_def userDirective_def reconcileDirective_def sampleEnv_def sampleReads_def call_def
        membershipBlocked_def sampleDatabase_def sampleCond_def listConditions_simps)
  moreover have "rd_user (he_Reads ?E) ''joe'' = Found sampleUser" "om_DeletionTimestamp (u_Meta sampleUser) = None"
    by (simp_all add: declarationEnv_def sampleUser_def sampleMeta_def)
  ultimately show ?thesis
    using user_waits_for_databases [of ?E "''joe''" sampleUser "''mspsql-user-joe''"]
    by (auto simp: sampleUser_def declarationEnv_def sampleEnv_def)
qed

text \<open>A changed database is reported ready before any site has applied the
  change. The success of the previous generation is still recorded; the first
  reconciliation only marks the new generation as observed, and the next one
  takes the old success for the success of the new generation.\<close>

theorem stale_success_is_ready:
  assumes K: "status_conditions (he_K E)"
    and db: "rd_database (he_Reads E) n = Found db" "om_DeletionTimestamp (d_Meta db) = None"
      "containsFinalizer (d_Meta db) childFinalizer"
      "dt_ObservedGeneration (d_Status db) \<noteq> om_Generation (d_Meta db)"
      "conditionTrue (he_K E) (dt_Conditions (d_Status db)) ''Succeeded''"
    and inst: "rd_instance (he_Reads E) (ds_InstanceRef (d_Spec db)) = Found inst"
    and first: "StatusDatabase db1 \<in> set (trace (reconcileDatabase E n))"
    and E': "E' = E\<lparr>he_Reads := (he_Reads E)\<lparr>rd_database := (rd_database (he_Reads E))(n := Found db1)\<rparr>\<rparr>"
    and ok: "\<And>c. he_Api E c = None"
  shows "\<exists>db2. StatusDatabase db2 \<in> set (trace (reconcileDatabase E' n)) \<and>
    dt_ObservedGeneration (d_Status db2) = om_Generation (d_Meta db2) \<and> d_Spec db2 = d_Spec db \<and>
    dt_Phase (d_Status db2) = ''Ready'' \<and> conditionTrue (he_K E) (dt_Conditions (d_Status db2)) ''Ready''"
proof -
  have t: "trace (reconcileDatabase E n) = trace (declareDatabase E db)"
    using db by (simp add: reconcileDatabase_def)
  from first [unfolded t] db inst
  have db1: "d_Meta db1 = d_Meta db" "d_Spec db1 = d_Spec db"
      "dt_ObservedGeneration (d_Status db1) = om_Generation (d_Meta db)" "dt_Phase (d_Status db1) \<noteq> ''Ready''"
      "conditionTrue (he_K E) (dt_Conditions (d_Status db1)) ''Succeeded''"
    unfolding declareDatabase_def Let_def databaseDirective_def
    by (auto simp: setDatabaseCond_def status_conditions.conditionTrue_set [OF K] split: if_splits
        dest!: in_trace_directive in_trace_call)
  have rd: "\<exists>enc. he_DatabaseSpec E (d_Spec db) = Inr enc"
      "rd_configMap (he_Reads E) (''mspsql-database-'' @ om_Name (d_Meta db)) \<noteq> ReadError e" for e
    using first [unfolded t] inst
    by (auto simp: declareDatabase_def databaseDirective_def Let_def simp del: append_Cons append_Nil
        dest!: directive_readable [where e = e])
  let ?db2 = "setDatabaseCond (he_K E) ''Ready'' ConditionTrue ''DatabaseReconciled''
                (updDatabaseStatus (dt_Phase_update (\<lambda>_. ''Ready'')) db1)"
  have "trace (reconcileDatabase E' n) = trace (declareDatabase E' db1)"
    using db db1 by (simp add: reconcileDatabase_def E')
  moreover have "StatusDatabase ?db2 \<in> set (trace (declareDatabase E' db1))"
    using db1 inst rd ok
    by (auto simp: declareDatabase_def databaseDirective_def E' call_def intro!: directive_passes)
  ultimately show ?thesis
    using db1 by (intro exI [of _ ?db2])
      (simp add: setDatabaseCond_def status_conditions.conditionTrue_set [OF K])
qed

theorem stale_success_is_ready_witness:
  "\<exists>db1 db2. StatusDatabase db1 \<in> set (trace (reconcileDatabase (declarationEnv (sampleDatabase 0)) ''app'')) \<and>
     dt_ObservedGeneration (d_Status (sampleDatabase 0)) \<noteq> om_Generation (d_Meta (sampleDatabase 0)) \<and>
     StatusDatabase db2 \<in> set (trace (reconcileDatabase (declarationEnv (sampleDatabase 0)
       \<lparr>he_Reads := (he_Reads (declarationEnv (sampleDatabase 0)))\<lparr>rd_database :=
          (rd_database (he_Reads (declarationEnv (sampleDatabase 0))))(''app'' := Found db1)\<rparr>\<rparr>) ''app'')) \<and>
     dt_ObservedGeneration (d_Status db2) = om_Generation (d_Meta db2) \<and>
     dt_Phase (d_Status db2) = ''Ready'' \<and> conditionTrue listConditions (dt_Conditions (d_Status db2)) ''Ready''"
proof -
  let ?E = "declarationEnv (sampleDatabase 0)" and ?db = "sampleDatabase 0"
  have "\<exists>db'. StatusDatabase db' \<in> set (trace (reconcileDatabase ?E ''app''))"
    by (simp add: reconcileDatabase_def declareDatabase_def declarationEnv_def sampleDatabase_def sampleMeta_def
        containsFinalizer_def databaseDirective_def reconcileDirective_def sampleEnv_def sampleReads_def call_def)
  then obtain db1 where db1: "StatusDatabase db1 \<in> set (trace (reconcileDatabase ?E ''app''))" by blast
  have h: "status_conditions (he_K ?E)" "rd_database (he_Reads ?E) ''app'' = Found ?db"
    "om_DeletionTimestamp (d_Meta ?db) = None" "containsFinalizer (d_Meta ?db) childFinalizer"
    "dt_ObservedGeneration (d_Status ?db) \<noteq> om_Generation (d_Meta ?db)"
    "conditionTrue (he_K ?E) (dt_Conditions (d_Status ?db)) ''Succeeded''"
    "rd_instance (he_Reads ?E) (ds_InstanceRef (d_Spec ?db)) = Found (sampleInstance [sampleSite ''a'' 1 1 1])"
    "\<And>c. he_Api ?E c = None"
    using lc.status_conditions_axioms
    by (simp_all add: declarationEnv_def sampleEnv_def sampleDatabase_def sampleMeta_def containsFinalizer_def
        sampleCond_def listConditions_simps)
  have K: "he_K ?E = listConditions" by (simp add: declarationEnv_def sampleEnv_def)
  show ?thesis
    using stale_success_is_ready [OF h(1-7) db1 refl h(8)] db1 h(5) unfolding K by blast
qed

end
