(* ===== verification/Restore.thy ===== *)
theory Restore
  imports Topology
begin

text \<open>
  \<open>internal/controller/postgresrestore_controller.go\<close>: the point-in-time restore
  of an instance into a new one, its gates, its phases on the target, its
  deletion and the evidence of a restore drill. The check of a namespace name
  (\<open>validation.IsDNS1123Label\<close> of the Kubernetes library) is the parameter
  \<open>labelProblem\<close>.
\<close>

section \<open>Status of the operation\<close>

abbreviation updRestoreStatus ::
  "(PostgresRestoreStatus \<Rightarrow> PostgresRestoreStatus) \<Rightarrow> PostgresRestore \<Rightarrow> PostgresRestore" where
  "updRestoreStatus f restore \<equiv> restore\<lparr>e_Status := f (e_Status restore)\<rparr>"

definition restoreProgressRequeue :: duration where
  "restoreProgressRequeue = 10 * second"

definition restoreProgressResult :: Result where
  "restoreProgressResult = \<lparr>RequeueAfter = restoreProgressRequeue\<rparr>"

definition setRestoreCond ::
  "condition_api \<Rightarrow> string \<Rightarrow> ConditionStatus \<Rightarrow> string \<Rightarrow> string \<Rightarrow> PostgresRestore \<Rightarrow> PostgresRestore" where
  "setRestoreCond K t status reason message restore =
     updRestoreStatus (et_Conditions_update (\<lambda>cs.
       setCondition K cs (om_Generation (e_Meta restore)) t status reason message)) restore"

definition ensureRestoreOperation :: "time \<Rightarrow> string \<Rightarrow> PostgresRestore \<Rightarrow> PostgresRestore" where
  "ensureRestoreOperation now phase restore =
     (let uid = om_UID (e_Meta restore);
          operation = (case et_Operation (e_Status restore) of
            None \<Rightarrow> newOperation\<lparr>op_OperationUID := uid, op_Attempt := 1, op_DeadlineAt := Some (now + 24 * hour)\<rparr>
          | Some o' \<Rightarrow> o');
          operation = operation\<lparr>op_OperationUID := uid, op_Phase := phase\<rparr>;
          operation = (if op_Attempt operation = 0 then operation\<lparr>op_Attempt := 1\<rparr> else operation) in
      updRestoreStatus (et_Operation_update (\<lambda>_. Some operation)) restore)"

definition updRestoreOperation ::
  "(OperationProgressStatus \<Rightarrow> OperationProgressStatus) \<Rightarrow> PostgresRestore \<Rightarrow> PostgresRestore" where
  "updRestoreOperation f restore = updRestoreStatus (et_Operation_update (map_option f)) restore"

text \<open>The status is written only when it has changed.\<close>

definition writeRestoreStatus ::
  "hub_env \<Rightarrow> PostgresRestore \<Rightarrow> PostgresRestore \<Rightarrow> 'r reconciliation \<Rightarrow> 'r reconciliation" where
  "writeRestoreStatus E before after k =
     (if e_Status after = e_Status before then k else perform E (StatusRestore after) k)"

definition setRestorePhase ::
  "hub_env \<Rightarrow> PostgresRestore \<Rightarrow> string \<Rightarrow> string \<Rightarrow> Result reconciliation" where
  "setRestorePhase E restore phase reason =
     writeRestoreStatus E restore
       (setRestoreCond (he_K E) ''Ready'' ConditionFalse reason fixedText
          (updRestoreOperation (\<lambda>o'. o'\<lparr>op_Terminal := False, op_LastErrorReason := '''', op_LastErrorMessage := ''''\<rparr>)
             (ensureRestoreOperation (he_Now E) phase
                (updRestoreStatus (\<lambda>st. st\<lparr>et_ObservedGeneration := om_Generation (e_Meta restore),
                                          et_Phase := phase\<rparr>) restore))))
       (finish restoreProgressResult)"

definition blockedRestore :: "hub_env \<Rightarrow> PostgresRestore \<Rightarrow> string \<Rightarrow> string \<Rightarrow> PostgresRestore" where
  "blockedRestore E restore reason message =
     setRestoreCond (he_K E) ''Ready'' ConditionFalse reason message
       (updRestoreOperation (\<lambda>o'. o'\<lparr>op_Terminal := False, op_LastErrorReason := reason,
                                    op_LastErrorMessage := message\<rparr>)
          (ensureRestoreOperation (he_Now E) ''Preflight''
             (updRestoreStatus (\<lambda>st. st\<lparr>et_ObservedGeneration := om_Generation (e_Meta restore),
                                       et_Phase := ''Preflight''\<rparr>) restore)))"

definition restoreBlocked ::
  "hub_env \<Rightarrow> PostgresRestore \<Rightarrow> string \<Rightarrow> string \<Rightarrow> Result reconciliation" where
  "restoreBlocked E restore reason message =
     writeRestoreStatus E restore (blockedRestore E restore reason message) (finish restoreProgressResult)"

section \<open>Gates and the target\<close>

text \<open>\<open>operationConflict\<close>: an error, or the operation in the way, if any.\<close>

definition operationConflict ::
  "hub_env \<Rightarrow> string \<Rightarrow> string \<Rightarrow> string \<Rightarrow> string + string option" where
  "operationConflict E instanceRef operationName operationKind =
     (case rd_upgrades (he_Reads E) of
        Inl e \<Rightarrow> Inl e
      | Inr upgrades \<Rightarrow>
          if \<exists>up \<in> set upgrades. gs_InstanceRef (g_Spec up) = instanceRef \<and> \<not> upgradeTerminal up
          then Inr (Some ''another upgrade targets this instance'')
          else
            (case rd_restores (he_Reads E) of
               Inl e \<Rightarrow> Inl e
             | Inr restores \<Rightarrow>
                 if \<exists>r \<in> set restores. es_TargetInstanceRef (e_Spec r) = instanceRef \<and>
                      (operationKind \<noteq> ''restore'' \<or> om_Name (e_Meta r) \<noteq> operationName) \<and> \<not> restoreTerminal r
                 then Inr (Some ''another restore targets this instance'')
                 else Inr None))"

definition isDrill :: "PostgresRestore \<Rightarrow> bool" where
  "isDrill restore = (mget (om_Annotations (e_Meta restore)) restoreDrillAnnotation = ''true'')"

text \<open>The error of the preflight checks, if any.\<close>

definition preflight :: "hub_env \<Rightarrow> PostgresRestore \<Rightarrow> MultiSitePostgres \<Rightarrow> string option" where
  "preflight E restore source =
     (let st = i_Status source; conditions = it_Conditions st; drill = isDrill restore;
          targetTime = es_TargetTime (e_Spec restore) in
      if is_Backup (i_Spec source) = None then Some ''source has no pgBackRest repository''
      else
        (case it_RecoveryWindowStart st of
           None \<Rightarrow> Some ''source must be Ready with a verified recovery window''
         | Some windowStart \<Rightarrow>
             if \<not> conditionTrue (he_K E) conditions ''Ready''
             then Some ''source must be Ready with a verified recovery window''
             else if drill \<and> \<not> conditionTrue (he_K E) conditions ''BackupReady''
             then Some ''source must have archived WAL metadata before a disposable restore drill''
             else if \<not> drill \<and> \<not> conditionTrue (he_K E) conditions ''RecoveryWindowAvailable''
             then Some ''source must be Ready with a verified recovery window''
             else if it_RestoreDrillLastVerifiedAt st = None \<and> \<not> drill
             then Some ''source recovery window has no disposable restore verification''
             else if (case it_RestoreDrillLastVerifiedAt st of None \<Rightarrow> False | Some at \<Rightarrow> at < windowStart)
             then Some ''source disposable restore verification predates the recovery window''
             else if targetTime < windowStart then Some ''target time precedes the verified recovery window''
             else if targetTime > he_Now E then Some ''target time is in the future''
             else
               (case operationConflict E (es_TargetInstanceRef (e_Spec restore)) (om_Name (e_Meta restore))
                       ''restore'' of
                  Inl e \<Rightarrow> Some e
                | Inr (Some conflict) \<Rightarrow> Some conflict
                | Inr None \<Rightarrow> None)))"

text \<open>The loop keeps the best site so far.\<close>

definition isSeedSite :: "PostgresSiteSpec \<Rightarrow> bool" where
  "isSeedSite site = (ps_Role site = SiteRoleData \<and> PostgresReplicas (ps_Components site) \<ge> 1)"

definition betterSeed :: "PostgresSiteSpec \<Rightarrow> PostgresSiteSpec \<Rightarrow> bool" where
  "betterSeed site selected =
     (ps_PrimaryPreference site > ps_PrimaryPreference selected \<or>
      ps_PrimaryPreference site = ps_PrimaryPreference selected \<and> ps_Name site < ps_Name selected)"

fun seedLoop :: "PostgresSiteSpec list \<Rightarrow> PostgresSiteSpec option \<Rightarrow> PostgresSiteSpec option" where
  "seedLoop [] selected = selected"
| "seedLoop (site # sites) selected =
     (if \<not> isSeedSite site then seedLoop sites selected
      else
        (case selected of
           None \<Rightarrow> seedLoop sites (Some site)
         | Some best \<Rightarrow> seedLoop sites (if betterSeed site best then Some site else selected)))"

definition selectRestoreSeed :: "PostgresSiteSpec list \<Rightarrow> string + (string \<times> string)" where
  "selectRestoreSeed sites =
     (case seedLoop sites None of
        None \<Rightarrow> Inl ''restore topology has no PostgreSQL member''
      | Some selected \<Rightarrow> Inr (ps_Name selected, ''postgres-'' @ ps_Name selected @ ''-0''))"

fun firstLabelProblem :: "(string \<Rightarrow> string option) \<Rightarrow> PostgresSiteSpec list \<Rightarrow> string option" where
  "firstLabelProblem labelProblem [] = None"
| "firstLabelProblem labelProblem (site # sites) =
     (case labelProblem (ps_Namespace site) of
        None \<Rightarrow> firstLabelProblem labelProblem sites
      | Some problem \<Rightarrow> Some (''target namespace '' @ fmt_q (ps_Namespace site) @ '' is invalid: '' @ problem))"

text \<open>The status of an object that has just been created.\<close>

definition zeroInstanceStatus :: MultiSitePostgresStatus where
  "zeroInstanceStatus = \<lparr>it_ObservedGeneration = 0, it_ActiveRevision = 0, it_PlanFingerprint = '''',
     it_Phase = '''', it_Primary = '''', it_SynchronousStandbys = [], it_Sites = [],
     it_LastBackupTime = None, it_RecoveryWindowStart = None, it_RestoreDrillLastVerifiedAt = None,
     it_RestoreDrillBackupSet = '''', it_Operation = None, it_BackupSchedules = [], it_Conditions = []\<rparr>"

definition newTarget ::
  "(string \<Rightarrow> string option) \<Rightarrow> PostgresRestore \<Rightarrow> MultiSitePostgres \<Rightarrow> string + MultiSitePostgres" where
  "newTarget labelProblem restore source =
     (let target = es_TargetInstanceRef (e_Spec restore);
          sites = (if es_RestoreTopologySites (e_Spec restore) \<noteq> [] then es_RestoreTopologySites (e_Spec restore)
                   else map (\<lambda>site. site\<lparr>ps_Namespace := target @ ''-'' @ ps_Name site\<rparr>) (is_Sites (i_Spec source)));
          spec = (i_Spec source)\<lparr>is_Backup := es_TargetBackup (e_Spec restore), is_Sites := sites\<rparr> in
      case selectRestoreSeed sites of
        Inl e \<Rightarrow> Inl e
      | Inr _ \<Rightarrow>
          (case firstLabelProblem labelProblem sites of
             Some e \<Rightarrow> Inl e
           | None \<Rightarrow>
               Inr \<lparr>i_Meta = \<lparr>om_Namespace = om_Namespace (e_Meta restore), om_Name = target, om_UID = '''',
                       om_Generation = 0, om_DeletionTimestamp = None,
                       om_Annotations = [(restoreUIDAnnotation, om_UID (e_Meta restore)),
                         (restoreNameAnnotation, om_Name (e_Meta restore)),
                         (restoreSourceUIDAnnotation, om_UID (i_Meta source)),
                         (restorePhaseAnnotation, restorePhaseName RestorePhaseSeed)],
                       om_Labels = [], om_Finalizers = []\<rparr>,
                    i_Spec = spec, i_Status = zeroInstanceStatus\<rparr>))"

definition setTargetPhase ::
  "hub_env \<Rightarrow> MultiSitePostgres \<Rightarrow> string \<Rightarrow> 'r reconciliation \<Rightarrow> 'r reconciliation" where
  "setTargetPhase E target phase k =
     perform E (PatchInstance (target\<lparr>i_Meta := (i_Meta target)\<lparr>om_Annotations :=
       AList.update restorePhaseAnnotation phase (om_Annotations (i_Meta target))\<rparr>\<rparr>)) k"

section \<open>Completion\<close>

definition recordRestoreDrillEvidence ::
  "hub_env \<Rightarrow> PostgresRestore \<Rightarrow> 'r reconciliation \<Rightarrow> 'r reconciliation" where
  "recordRestoreDrillEvidence E restore k =
     (case rd_instance (he_Reads E) (es_SourceInstanceRef (e_Spec restore)) of
        NotFound \<Rightarrow> failWith ''NotFound''
      | ReadError e \<Rightarrow> failWith e
      | Found source \<Rightarrow>
          (let backupSet = (if es_BackupSet (e_Spec restore) \<noteq> '''' then es_BackupSet (e_Spec restore)
                            else if et_SelectedBackupSet (e_Status restore) \<noteq> ''''
                            then et_SelectedBackupSet (e_Status restore)
                            else it_RestoreDrillBackupSet (i_Status source));
               source = updStatus (\<lambda>st. st\<lparr>it_RestoreDrillLastVerifiedAt := Some (he_Now E),
                                          it_RestoreDrillBackupSet := backupSet\<rparr>) source;
               source = (case it_RecoveryWindowStart (i_Status source) of
                  None \<Rightarrow> source
                | Some windowStart \<Rightarrow>
                    if he_Now E < windowStart then source
                    else setInstanceCond (he_K E) ''RecoveryWindowAvailable'' ConditionTrue
                           ''DisposableRestoreVerified'' fixedText source) in
           perform E (StatusInstance source) k))"

definition completedRestore :: "hub_env \<Rightarrow> PostgresRestore \<Rightarrow> PostgresRestore" where
  "completedRestore E restore =
     setRestoreCond (he_K E) ''Completed'' ConditionTrue ''AcceptancePassed'' fixedText
       (setRestoreCond (he_K E) ''Ready'' ConditionTrue ''RestoreCompleted'' fixedText
          (updRestoreStatus (\<lambda>st. st\<lparr>et_RecoveredTo := Some (es_TargetTime (e_Spec restore)),
               et_SelectedBackupSet := (if es_BackupSet (e_Spec restore) \<noteq> '''' then es_BackupSet (e_Spec restore)
                                        else et_SelectedBackupSet st)\<rparr>)
             (updRestoreOperation (\<lambda>o'. o'\<lparr>op_Terminal := True, op_ManualInterventionRequired := False,
                  op_LastErrorReason := '''', op_LastErrorMessage := '''', op_NextRetryAt := None\<rparr>)
                (ensureRestoreOperation (he_Now E) ''Completed''
                   (updRestoreStatus (\<lambda>st. st\<lparr>et_ObservedGeneration := om_Generation (e_Meta restore),
                                             et_Phase := ''Completed''\<rparr>) restore)))))"

definition completeRestore :: "hub_env \<Rightarrow> PostgresRestore \<Rightarrow> Result reconciliation" where
  "completeRestore E restore =
     (let completed = completedRestore E restore;
          status = perform E (StatusRestore completed) (finish emptyResult) in
      if isDrill restore then recordRestoreDrillEvidence E completed status else status)"

section \<open>Reconciliation\<close>

definition releaseRestore :: "hub_env \<Rightarrow> PostgresRestore \<Rightarrow> Result reconciliation" where
  "releaseRestore E restore =
     perform E (UpdateRestore (restore\<lparr>e_Meta := removeFinalizer operationFinalizer (e_Meta restore)\<rparr>))
       (finish emptyResult)"

text \<open>A deletion call, for which an absent object is no error.\<close>

definition deleteInstance :: "hub_env \<Rightarrow> MultiSitePostgres \<Rightarrow> 'r reconciliation \<Rightarrow> 'r reconciliation" where
  "deleteInstance E target k =
     (case he_Api E (DeleteInstance target) of
        Some e \<Rightarrow> if e = ''NotFound'' then k else failWith e
      | None \<Rightarrow> (DeleteInstance target # fst k, snd k))"

definition reconcileRestoreDeletion :: "hub_env \<Rightarrow> PostgresRestore \<Rightarrow> Result reconciliation" where
  "reconcileRestoreDeletion E restore =
     (if \<not> containsFinalizer (e_Meta restore) operationFinalizer then finish emptyResult
      else if et_Phase (e_Status restore) = ''Completed'' \<or> et_Phase (e_Status restore) = ''''
      then releaseRestore E restore
      else
        (case rd_instance (he_Reads E) (es_TargetInstanceRef (e_Spec restore)) of
           NotFound \<Rightarrow> releaseRestore E restore
         | ReadError e \<Rightarrow> failWith e
         | Found target \<Rightarrow>
             (let owned = (annotation target restoreUIDAnnotation = om_UID (e_Meta restore)) in
              if mget (om_Annotations (e_Meta restore)) forceAbandonAnnotation = ''true''
              then
                (let blocked = blockedRestore E restore ''ForceAbandoned'' fixedText;
                     rest = (if e_Status blocked = e_Status restore then releaseRestore E blocked
                             else performIgnore E (StatusRestore blocked) (releaseRestore E blocked)) in
                 if owned
                 then
                   perform E (PatchInstance (target\<lparr>i_Meta := (i_Meta target)\<lparr>om_Annotations :=
                     fold AList.delete [restoreUIDAnnotation, restoreNameAnnotation, restoreSourceUIDAnnotation,
                       restorePhaseAnnotation] (om_Annotations (i_Meta target))\<rparr>\<rparr>)) rest
                 else rest)
              else if \<not> owned then releaseRestore E restore
              else
                (let blocked = restoreBlocked E restore ''CancellationInProgress'' fixedText in
                 if om_DeletionTimestamp (i_Meta target) = None then deleteInstance E target blocked
                 else blocked))))"

text \<open>The switch over the phase of the target.\<close>

definition restorePhaseStep ::
  "hub_env \<Rightarrow> PostgresRestore \<Rightarrow> MultiSitePostgres \<Rightarrow> MultiSitePostgres \<Rightarrow> Result reconciliation" where
  "restorePhaseStep E restore source target =
     (let phase = annotation target restorePhaseAnnotation; conditions = it_Conditions (i_Status target) in
      if phase = restorePhaseName RestorePhaseSeed
      then
        (case selectRestoreSeed (is_Sites (i_Spec target)) of
           Inl e \<Rightarrow> restoreBlocked E restore ''InvalidTarget'' e
         | Inr (seedSite, seedMember) \<Rightarrow>
             if it_Primary (i_Status target) \<noteq> seedMember \<or> \<not> conditionTrue (he_K E) conditions ''TopologyReady''
             then setRestorePhase E restore ''Restoring'' ''SeedRecoveryInProgress''
             else setTargetPhase E target (restorePhaseName RestorePhaseReplicas)
                    (setRestorePhase E restore ''SeedingReplicas'' ''SeedPromoted''))
      else if phase = restorePhaseName RestorePhaseReplicas
      then
        (if \<not> conditionTrue (he_K E) conditions ''TopologyReady'' \<or>
            int32 (int (length (it_SynchronousStandbys (i_Status target)))) <
              pg_SynchronousStandbyCount (is_Postgres (i_Spec target))
         then setRestorePhase E restore ''SeedingReplicas'' ''ReplicationConverging''
         else setTargetPhase E target (restorePhaseName RestorePhaseVerify)
                (setRestorePhase E restore ''Verifying'' ''ReplicationReady''))
      else if phase = restorePhaseName RestorePhaseVerify
      then
        (if \<not> conditionTrue (he_K E) conditions ''Ready'' \<or> \<not> conditionTrue (he_K E) conditions ''TopologyReady'' \<or>
            tde_Enabled (is_TDE (i_Spec source)) \<and> \<not> conditionTrue (he_K E) conditions ''TDEVerified''
         then setRestorePhase E restore ''Verifying'' ''AcceptancePending''
         else setTargetPhase E target ''Completed'' (completeRestore E restore))
      else if phase = ''Completed'' then completeRestore E restore
      else restoreBlocked E restore ''InvalidTarget'' fixedText)"

definition reconcileRestore ::
  "(string \<Rightarrow> string option) \<Rightarrow> hub_env \<Rightarrow> string \<Rightarrow> Result reconciliation" where
  "reconcileRestore labelProblem E name =
     (case rd_restore (he_Reads E) name of
        NotFound \<Rightarrow> finish emptyResult
      | ReadError e \<Rightarrow> failWith e
      | Found restore \<Rightarrow>
          if om_DeletionTimestamp (e_Meta restore) \<noteq> None then reconcileRestoreDeletion E restore
          else if et_Phase (e_Status restore) = ''Completed''
          then (if containsFinalizer (e_Meta restore) operationFinalizer then releaseRestore E restore
                else finish emptyResult)
          else if \<not> containsFinalizer (e_Meta restore) operationFinalizer
          then perform E (UpdateRestore (restore\<lparr>e_Meta := addFinalizer operationFinalizer (e_Meta restore)\<rparr>))
                 (finish emptyResult)
          else
            (case rd_instance (he_Reads E) (es_SourceInstanceRef (e_Spec restore)) of
               NotFound \<Rightarrow> restoreBlocked E restore ''SourceUnavailable'' ''NotFound''
             | ReadError e \<Rightarrow> restoreBlocked E restore ''SourceUnavailable'' e
             | Found source \<Rightarrow>
                 (case preflight E restore source of
                    Some e \<Rightarrow> restoreBlocked E restore ''PreflightFailed'' e
                  | None \<Rightarrow>
                      (case rd_instance (he_Reads E) (es_TargetInstanceRef (e_Spec restore)) of
                         NotFound \<Rightarrow>
                           (case newTarget labelProblem restore source of
                              Inl e \<Rightarrow> restoreBlocked E restore ''InvalidTarget'' e
                            | Inr target \<Rightarrow>
                                perform E (CreateInstance target)
                                  (setRestorePhase E restore ''Provisioning'' ''TargetCreated''))
                       | ReadError e \<Rightarrow> failWith e
                       | Found target \<Rightarrow>
                           if annotation target restoreUIDAnnotation \<noteq> om_UID (e_Meta restore) \<or>
                              annotation target restoreSourceUIDAnnotation \<noteq> om_UID (i_Meta source)
                           then restoreBlocked E restore ''TargetExists'' fixedText
                           else restorePhaseStep E restore source target))))"

section \<open>Lemmas\<close>

lemma ensureRestoreOperation_simps [simp]:
  "e_Meta (ensureRestoreOperation now phase restore) = e_Meta restore"
  "et_Phase (e_Status (ensureRestoreOperation now phase restore)) = et_Phase (e_Status restore)"
  by (simp_all add: ensureRestoreOperation_def Let_def)

lemma updRestoreOperation_simps [simp]:
  "e_Meta (updRestoreOperation f restore) = e_Meta restore"
  "et_Phase (e_Status (updRestoreOperation f restore)) = et_Phase (e_Status restore)"
  by (simp_all add: updRestoreOperation_def)

lemma setRestoreCond_simps [simp]:
  "e_Meta (setRestoreCond K t s r m restore) = e_Meta restore"
  "et_Phase (e_Status (setRestoreCond K t s r m restore)) = et_Phase (e_Status restore)"
  by (simp_all add: setRestoreCond_def)

lemma trace_setRestorePhase:
  "x \<in> set (trace (setRestorePhase E restore phase reason)) \<Longrightarrow>
     \<exists>r. x = StatusRestore r \<and> et_Phase (e_Status r) = phase"
  by (auto simp: setRestorePhase_def writeRestoreStatus_def split: if_splits dest!: in_trace_call)

lemma trace_restoreBlocked:
  "x \<in> set (trace (restoreBlocked E restore reason message)) \<Longrightarrow>
     \<exists>r. x = StatusRestore r \<and> et_Phase (e_Status r) = ''Preflight''"
  by (auto simp: restoreBlocked_def blockedRestore_def writeRestoreStatus_def split: if_splits dest!: in_trace_call)

lemma trace_releaseRestore:
  "x \<in> set (trace (releaseRestore E restore)) \<Longrightarrow> \<exists>r. x = UpdateRestore r"
  by (auto simp: releaseRestore_def dest: in_trace_call)

lemma trace_deleteInstance:
  "x \<in> set (trace (deleteInstance E target k)) \<Longrightarrow> x = DeleteInstance target \<or> x \<in> set (trace k)"
  by (auto simp: deleteInstance_def split: option.splits if_splits)

lemma trace_evidence:
  "x \<in> set (trace (recordRestoreDrillEvidence E restore k)) \<Longrightarrow>
     (\<exists>source s. rd_instance (he_Reads E) (es_SourceInstanceRef (e_Spec restore)) = Found source \<and>
        x = StatusInstance s \<and> i_Meta s = i_Meta source \<and> i_Spec s = i_Spec source) \<or> x \<in> set (trace k)"
  by (auto simp: recordRestoreDrillEvidence_def Let_def setInstanceCond_def split: read.splits option.splits if_splits
      dest!: in_trace_call)

lemma e_Spec_completedRestore [simp]: "e_Spec (completedRestore E restore) = e_Spec restore"
  by (simp add: completedRestore_def setRestoreCond_def updRestoreOperation_def ensureRestoreOperation_def Let_def)

lemma trace_completeRestore:
  "x \<in> set (trace (completeRestore E restore)) \<Longrightarrow>
     (\<exists>r. x = StatusRestore r) \<or>
     (isDrill restore \<and> (\<exists>source s. rd_instance (he_Reads E) (es_SourceInstanceRef (e_Spec restore)) = Found source \<and>
        x = StatusInstance s \<and> i_Meta s = i_Meta source \<and> i_Spec s = i_Spec source))"
  by (auto simp: completeRestore_def Let_def split: if_splits dest!: trace_evidence in_trace_call)

lemma trace_setTargetPhase:
  "x \<in> set (trace (setTargetPhase E target phase k)) \<Longrightarrow>
     (\<exists>t. x = PatchInstance t \<and> i_Spec t = i_Spec target \<and> i_Status t = i_Status target \<and>
        om_Name (i_Meta t) = om_Name (i_Meta target) \<and> annotation t restorePhaseAnnotation = phase) \<or> x \<in> set (trace k)"
  by (auto simp: setTargetPhase_def dest!: in_trace_call)

lemmas restore_traces = trace_setRestorePhase trace_restoreBlocked trace_releaseRestore trace_deleteInstance
  trace_completeRestore trace_setTargetPhase

text \<open>The moves of a restore on its target, with their gates.\<close>

inductive restoreMove :: "condition_api \<Rightarrow> bool \<Rightarrow> MultiSitePostgres \<Rightarrow> string \<Rightarrow> string \<Rightarrow> bool"
  for K :: condition_api and tde :: bool and target :: MultiSitePostgres where
  seeded: "selectRestoreSeed (is_Sites (i_Spec target)) = Inr (site, it_Primary (i_Status target)) \<Longrightarrow>
     conditionTrue K (it_Conditions (i_Status target)) ''TopologyReady'' \<Longrightarrow> restoreMove K tde target ''Seed'' ''Replicas''"
| cloned: "pg_SynchronousStandbyCount (is_Postgres (i_Spec target)) \<le>
       int32 (int (length (it_SynchronousStandbys (i_Status target)))) \<Longrightarrow>
     conditionTrue K (it_Conditions (i_Status target)) ''TopologyReady'' \<Longrightarrow>
     restoreMove K tde target ''Replicas'' ''Verify''"
| accepted: "conditionTrue K (it_Conditions (i_Status target)) ''Ready'' \<Longrightarrow>
     conditionTrue K (it_Conditions (i_Status target)) ''TopologyReady'' \<Longrightarrow>
     (tde \<longrightarrow> conditionTrue K (it_Conditions (i_Status target)) ''TDEVerified'') \<Longrightarrow>
     restoreMove K tde target ''Verify'' ''Completed''"


lemma restorePhaseStep_calls:
  assumes "x \<in> set (trace (restorePhaseStep E restore source target))"
  shows "(\<exists>t. x = PatchInstance t \<and> i_Spec t = i_Spec target \<and> i_Status t = i_Status target \<and>
            om_Name (i_Meta t) = om_Name (i_Meta target)) \<or>
         (\<exists>r. x = StatusRestore r) \<or>
         (isDrill restore \<and> (\<exists>src s. rd_instance (he_Reads E) (es_SourceInstanceRef (e_Spec restore)) = Found src \<and>
            x = StatusInstance s \<and> i_Meta s = i_Meta src \<and> i_Spec s = i_Spec src))"
  using assms unfolding restorePhaseStep_def Let_def
  by (auto split: sum.splits prod.splits if_splits dest!: restore_traces)


lemma reconcileRestoreDeletion_calls:
  assumes "x \<in> set (trace (reconcileRestoreDeletion E restore))"
  shows "(\<exists>r. x = UpdateRestore r) \<or> (\<exists>r. x = StatusRestore r \<and> et_Phase (e_Status r) = ''Preflight'') \<or>
    (\<exists>target. rd_instance (he_Reads E) (es_TargetInstanceRef (e_Spec restore)) = Found target \<and>
       annotation target restoreUIDAnnotation = om_UID (e_Meta restore) \<and>
       ((\<exists>t. x = PatchInstance t \<and> i_Spec t = i_Spec target \<and> i_Status t = i_Status target \<and>
           om_Name (i_Meta t) = om_Name (i_Meta target)) \<or> x = DeleteInstance target))"
  using assms unfolding reconcileRestoreDeletion_def Let_def
  by (auto simp: blockedRestore_def split: if_splits read.splits
      dest!: restore_traces in_trace_call in_trace_performIgnore)

text \<open>What the preflight checks amount to.\<close>

definition restoreWindow :: "hub_env \<Rightarrow> PostgresRestore \<Rightarrow> MultiSitePostgres \<Rightarrow> bool" where
  "restoreWindow E restore source =
     (is_Backup (i_Spec source) \<noteq> None \<and> conditionTrue (he_K E) (it_Conditions (i_Status source)) ''Ready'' \<and>
      (\<exists>start. it_RecoveryWindowStart (i_Status source) = Some start \<and>
         start \<le> es_TargetTime (e_Spec restore) \<and> es_TargetTime (e_Spec restore) \<le> he_Now E \<and>
         (\<forall>verified. it_RestoreDrillLastVerifiedAt (i_Status source) = Some verified \<longrightarrow> start \<le> verified)) \<and>
      (if isDrill restore then conditionTrue (he_K E) (it_Conditions (i_Status source)) ''BackupReady''
       else conditionTrue (he_K E) (it_Conditions (i_Status source)) ''RecoveryWindowAvailable'' \<and>
            it_RestoreDrillLastVerifiedAt (i_Status source) \<noteq> None) \<and>
      (\<exists>upgrades restores. rd_upgrades (he_Reads E) = Inr upgrades \<and> rd_restores (he_Reads E) = Inr restores \<and>
         (\<forall>up \<in> set upgrades. gs_InstanceRef (g_Spec up) = es_TargetInstanceRef (e_Spec restore) \<longrightarrow> upgradeTerminal up) \<and>
         (\<forall>r \<in> set restores. es_TargetInstanceRef (e_Spec r) = es_TargetInstanceRef (e_Spec restore) \<longrightarrow>
            om_Name (e_Meta r) = om_Name (e_Meta restore) \<or> restoreTerminal r)))"

lemma operationConflict_none:
  "operationConflict E ref name ''restore'' = Inr None \<longleftrightarrow>
     (\<exists>upgrades restores. rd_upgrades (he_Reads E) = Inr upgrades \<and> rd_restores (he_Reads E) = Inr restores \<and>
        (\<forall>up \<in> set upgrades. gs_InstanceRef (g_Spec up) = ref \<longrightarrow> upgradeTerminal up) \<and>
        (\<forall>r \<in> set restores. es_TargetInstanceRef (e_Spec r) = ref \<longrightarrow> om_Name (e_Meta r) = name \<or> restoreTerminal r))"
  by (auto simp: operationConflict_def split: sum.splits)

lemma preflight_iff: "preflight E restore source = None \<longleftrightarrow> restoreWindow E restore source"
proof (cases "it_RecoveryWindowStart (i_Status source)")
  case None
  then show ?thesis by (simp add: preflight_def restoreWindow_def Let_def)
next
  case (Some start)
  let ?conflict = "operationConflict E (es_TargetInstanceRef (e_Spec restore)) (om_Name (e_Meta restore)) ''restore''"
  have "(case ?conflict of Inl e \<Rightarrow> Some e | Inr (Some c) \<Rightarrow> Some c | Inr None \<Rightarrow> None) = None \<longleftrightarrow> ?conflict = Inr None"
    by (auto split: sum.splits option.splits)
  then show ?thesis
    unfolding preflight_def restoreWindow_def Let_def Some
    by (cases "it_RestoreDrillLastVerifiedAt (i_Status source)"; cases "isDrill restore")
      (auto simp: operationConflict_none not_less)
qed

text \<open>The seed: the loop keeps a site that no other betters.\<close>

lemma betterSeed_trans: "betterSeed a b \<Longrightarrow> betterSeed b c \<Longrightarrow> betterSeed a c"
  by (auto simp: betterSeed_def)

lemma not_betterSeed_trans: "\<not> betterSeed a b \<Longrightarrow> \<not> betterSeed b c \<Longrightarrow> \<not> betterSeed a c"
  by (auto simp: betterSeed_def)

lemma seedLoop_best:
  assumes "seedLoop sites selected = Some s"
  shows "(s \<in> set sites \<and> isSeedSite s \<or> selected = Some s) \<and>
    (\<forall>t \<in> set sites. isSeedSite t \<longrightarrow> \<not> betterSeed t s) \<and> (\<forall>b. selected = Some b \<longrightarrow> \<not> betterSeed b s)"
  using assms
proof (induction sites selected rule: seedLoop.induct)
  case (1 selected)
  then show ?case by (simp add: betterSeed_def)
next
  case (2 site sites selected)
  show ?case
  proof (cases "isSeedSite site")
    case False
    with 2 show ?thesis by auto
  next
    case True
    show ?thesis
    proof (cases selected)
      case None
      with True 2 show ?thesis by auto
    next
      case (Some best)
      show ?thesis
      proof (cases "betterSeed site best")
        case better: True
        with True Some 2 have "(s \<in> set sites \<and> isSeedSite s \<or> site = s) \<and>
            (\<forall>t \<in> set sites. isSeedSite t \<longrightarrow> \<not> betterSeed t s) \<and> \<not> betterSeed site s" by auto
        with True Some better betterSeed_trans show ?thesis by auto
      next
        case worse: False
        with True Some 2 have "(s \<in> set sites \<and> isSeedSite s \<or> best = s) \<and>
            (\<forall>t \<in> set sites. isSeedSite t \<longrightarrow> \<not> betterSeed t s) \<and> \<not> betterSeed best s" by auto
        with True Some worse not_betterSeed_trans show ?thesis by auto
      qed
    qed
  qed
qed

lemma seedLoop_none: "seedLoop sites selected = None \<longleftrightarrow> selected = None \<and> (\<forall>t \<in> set sites. \<not> isSeedSite t)"
  by (induction sites selected rule: seedLoop.induct) (auto split: option.splits if_splits)

section \<open>Sample values\<close>

definition sampleRestore :: PostgresRestore where
  "sampleRestore = \<lparr>e_Meta = (sampleMeta ''r'')\<lparr>om_Finalizers := [operationFinalizer]\<rparr>,
     e_Spec = \<lparr>es_SourceInstanceRef = ''db'', es_TargetInstanceRef = ''copy'', es_TargetTime = 5, es_BackupSet = '''',
       es_RestoreTopologySites = [], es_TargetBackup = None\<rparr>,
     e_Status = \<lparr>et_ObservedGeneration = 0, et_Phase = '''', et_SelectedBackupSet = '''', et_RecoveredTo = None,
       et_Operation = None, et_Conditions = []\<rparr>\<rparr>"

definition restoreSource :: MultiSitePostgres where
  "restoreSource = \<lparr>i_Meta = sampleMeta ''db'',
     i_Spec = (sampleSpec [sampleSite ''a'' 1 1 1, sampleSite ''b'' 1 1 1])\<lparr>is_Backup := Some sampleBackup\<rparr>,
     i_Status = sampleStatus\<lparr>it_RecoveryWindowStart := Some 1, it_RestoreDrillLastVerifiedAt := Some 2,
       it_Conditions := [sampleCond ''Ready'' ConditionTrue, sampleCond ''RecoveryWindowAvailable'' ConditionTrue]\<rparr>\<rparr>"


definition restoreEnv :: "MultiSitePostgres read \<Rightarrow> hub_env" where
  "restoreEnv target = sampleEnv\<lparr>he_Now := 10, he_Reads := sampleReads\<lparr>rd_restore := (\<lambda>n. Found sampleRestore),
     rd_instance := (\<lambda>n. if n = ''db'' then Found restoreSource else target)\<rparr>\<rparr>"

lemma restoreEnv_simps:
  "rd_restore (he_Reads (restoreEnv target)) n = Found sampleRestore"
  "rd_instance (he_Reads (restoreEnv target)) ''db'' = Found restoreSource"
  "rd_instance (he_Reads (restoreEnv target)) ''copy'' = target"
  "he_K (restoreEnv target) = listConditions" "he_Api (restoreEnv target) c = None"
  by (simp_all add: restoreEnv_def sampleEnv_def)

lemma sampleRestore_simps:
  "es_SourceInstanceRef (e_Spec sampleRestore) = ''db''" "es_TargetInstanceRef (e_Spec sampleRestore) = ''copy''"
  "om_DeletionTimestamp (e_Meta sampleRestore) = None" "et_Phase (e_Status sampleRestore) = ''''"
  "containsFinalizer (e_Meta sampleRestore) operationFinalizer" "om_UID (e_Meta sampleRestore) = ''uid''"
  "om_UID (i_Meta restoreSource) = ''uid''"
  by (simp_all add: sampleRestore_def restoreSource_def sampleMeta_def containsFinalizer_def)

lemma sample_preflight: "preflight (restoreEnv target) sampleRestore restoreSource = None"
  by (simp add: preflight_iff restoreWindow_def restoreEnv_def sampleEnv_def sampleReads_def sampleRestore_def
      restoreSource_def sampleStatus_def isDrill_def sampleMeta_def sampleCond_def listConditions_simps)

section \<open>Properties\<close>

text \<open>C24: A restore never touches an instance that is not its own. It creates its
  target only where no instance of that name exists, it annotates or deletes only
  a target that carries its own identity, without changing its spec or status, it
  deletes only when the restore itself is being deleted unfinished, and of its
  source it writes at most the status, for a restore drill.\<close>

theorem restore_touches_only_its_target:
  assumes "x \<in> set (trace (reconcileRestore labelProblem E name))"
    and "rd_restore (he_Reads E) name = Found restore"
  shows "case x of
      CreateInstance t \<Rightarrow> rd_instance (he_Reads E) (es_TargetInstanceRef (e_Spec restore)) = NotFound \<and>
        om_Name (i_Meta t) = es_TargetInstanceRef (e_Spec restore) \<and>
        annotation t restoreUIDAnnotation = om_UID (e_Meta restore)
    | PatchInstance t \<Rightarrow>
        (\<exists>target. rd_instance (he_Reads E) (es_TargetInstanceRef (e_Spec restore)) = Found target \<and>
           annotation target restoreUIDAnnotation = om_UID (e_Meta restore) \<and>
           om_Name (i_Meta t) = om_Name (i_Meta target) \<and> i_Spec t = i_Spec target \<and> i_Status t = i_Status target)
    | DeleteInstance t \<Rightarrow> rd_instance (he_Reads E) (es_TargetInstanceRef (e_Spec restore)) = Found t \<and>
        annotation t restoreUIDAnnotation = om_UID (e_Meta restore) \<and>
        om_DeletionTimestamp (e_Meta restore) \<noteq> None \<and> et_Phase (e_Status restore) \<notin> {''Completed'', ''''}
    | StatusInstance s \<Rightarrow> isDrill restore \<and>
        (\<exists>source. rd_instance (he_Reads E) (es_SourceInstanceRef (e_Spec restore)) = Found source \<and>
           i_Meta s = i_Meta source \<and> i_Spec s = i_Spec source)
    | StatusRestore r \<Rightarrow> True
    | UpdateRestore r \<Rightarrow> True
    | _ \<Rightarrow> False"
proof (cases "om_DeletionTimestamp (e_Meta restore) = None")
  case False
  with assms have del: "x \<in> set (trace (reconcileRestoreDeletion E restore))" by (simp add: reconcileRestore_def)
  have "et_Phase (e_Status restore) \<notin> {''Completed'', ''''}" if "x = DeleteInstance t" for t
    using del that by (auto simp: reconcileRestoreDeletion_def split: if_splits dest!: trace_releaseRestore)
  with False reconcileRestoreDeletion_calls [OF del] show ?thesis by auto
next
  case True
  have new: "newTarget labelProblem restore source = Inr t \<Longrightarrow>
      om_Name (i_Meta t) = es_TargetInstanceRef (e_Spec restore) \<and>
      annotation t restoreUIDAnnotation = om_UID (e_Meta restore)" for source t
    by (auto simp: newTarget_def Let_def split: sum.splits option.splits)
  from assms True show ?thesis
    unfolding reconcileRestore_def
    by (auto split: if_splits read.splits option.splits sum.splits
        dest!: restore_traces in_trace_call restorePhaseStep_calls new)
qed

theorem restore_touches_only_its_target_witness:
  "\<exists>t. CreateInstance t \<in> set (trace (reconcileRestore (\<lambda>n. None) (restoreEnv NotFound) ''r'')) \<and>
     om_Name (i_Meta t) = ''copy''"
proof -
  obtain t' where "newTarget (\<lambda>n. None) sampleRestore restoreSource = Inr t'"
    by (simp add: newTarget_def sampleRestore_def restoreSource_def sample_defs selectRestoreSeed_def isSeedSite_def
        betterSeed_def Let_def)
  then have "\<exists>t. CreateInstance t \<in> set (trace (reconcileRestore (\<lambda>n. None) (restoreEnv NotFound) ''r''))"
    by (auto simp: reconcileRestore_def restoreEnv_simps sampleRestore_simps sample_preflight call_def)
  then obtain t where t: "CreateInstance t \<in> set (trace (reconcileRestore (\<lambda>n. None) (restoreEnv NotFound) ''r''))"
    by blast
  from restore_touches_only_its_target [OF t restoreEnv_simps(1)] t show ?thesis
    by (auto simp: sampleRestore_simps)
qed



text \<open>The seed of a restore is a data site with a member, the one with the
  highest preference and, among equals, the first by name; there is none exactly
  when no data site has a member.\<close>

theorem restore_seed_is_best:
  shows "case selectRestoreSeed sites of
      Inl e \<Rightarrow> (\<forall>t \<in> set sites. \<not> isSeedSite t)
    | Inr (site, member) \<Rightarrow>
        (\<exists>s \<in> set sites. isSeedSite s \<and> ps_Name s = site \<and> member = postgresMember site 0 \<and>
           (\<forall>t \<in> set sites. isSeedSite t \<longrightarrow> ps_PrimaryPreference t < ps_PrimaryPreference s \<or>
              ps_PrimaryPreference t = ps_PrimaryPreference s \<and> ps_Name s \<le> ps_Name t))"
proof (cases "seedLoop sites None")
  case None
  then have "\<forall>t \<in> set sites. \<not> isSeedSite t" by (simp add: seedLoop_none)
  then show ?thesis by (simp add: selectRestoreSeed_def None)
next
  case (Some s)
  have zero: "fmt_d 0 = ''0''" by code_simp
  from seedLoop_best [OF Some] have "s \<in> set sites" "isSeedSite s"
      "\<forall>t \<in> set sites. isSeedSite t \<longrightarrow> \<not> betterSeed t s" by auto
  then have "\<forall>t \<in> set sites. isSeedSite t \<longrightarrow> ps_PrimaryPreference t < ps_PrimaryPreference s \<or>
      ps_PrimaryPreference t = ps_PrimaryPreference s \<and> ps_Name s \<le> ps_Name t"
    by (force simp: betterSeed_def not_less)
  with \<open>s \<in> set sites\<close> \<open>isSeedSite s\<close> show ?thesis
    by (auto simp: selectRestoreSeed_def Some postgresMember_def zero)
qed

theorem restore_seed_is_best_witness:
  "selectRestoreSeed [sampleSite ''b'' 1 1 1, sampleSite ''a'' 1 1 1] = Inr (''a'', ''postgres-a-0'') \<and>
   isSeedSite (sampleSite ''a'' 1 1 1)"
  using restore_seed_is_best [of "[sampleSite ''b'' 1 1 1, sampleSite ''a'' 1 1 1]"]
  by (simp add: selectRestoreSeed_def isSeedSite_def betterSeed_def sampleSite_def)

end
