(* ===== verification/Site_Registration.thy ===== *)
theory Site_Registration
  imports Topology
begin

text \<open>
  \<open>internal/controller/siteregistration_controller.go\<close>: the registration of a
  site, its token, its health as the heartbeats and the certificate tell it, its
  revocation and its deletion. What the controller reads beyond the objects of
  \<open>hub_reads\<close>, and the functions it takes from elsewhere (the token generator, the
  time format, the hash of the rendered peers), are the fields of the parameter
  \<open>site_env\<close>. The key material and the WireGuard peers are written by calls of
  their own (\<open>EnsureSigningKey\<close>, \<open>EnsureHubIdentity\<close>, \<open>RenderPeers\<close>, \<open>RevokePeer\<close>).
  An update that is retried on a conflict is one attempt: the API server answers a
  repeated call as it answered the first.
\<close>

section \<open>What the controller reads\<close>




section \<open>Tokens\<close>




section \<open>Health\<close>

definition siteHeartbeatTimeout :: duration where
  "siteHeartbeatTimeout = 150 * second"

definition minPositive :: "duration \<Rightarrow> duration \<Rightarrow> duration" where
  "minPositive current candidate =
     (if candidate \<le> 0 then current
      else if current = 0 \<or> candidate < current then candidate
      else current)"

abbreviation updSiteStatus ::
  "(SiteRegistrationStatus \<Rightarrow> SiteRegistrationStatus) \<Rightarrow> SiteRegistration \<Rightarrow> SiteRegistration" where
  "updSiteStatus f site \<equiv> site\<lparr>r_Status := f (r_Status site)\<rparr>"

definition setSiteCond ::
  "condition_api \<Rightarrow> string \<Rightarrow> ConditionStatus \<Rightarrow> string \<Rightarrow> string \<Rightarrow> SiteRegistration \<Rightarrow> SiteRegistration" where
  "setSiteCond K t status reason message site =
     updSiteStatus (rg_Conditions_update (\<lambda>cs.
       setCondition K cs (om_Generation (r_Meta site)) t status reason message)) site"

text \<open>The two checks against the clock, each with the time until it may change:
  the heartbeat, and the certificate.\<close>

definition refreshConnection ::
  "condition_api \<Rightarrow> time \<Rightarrow> SiteRegistration \<Rightarrow> SiteRegistration \<times> duration" where
  "refreshConnection K now site =
     (case rg_LastHeartbeatTime (r_Status site) of
        Some heartbeat \<Rightarrow>
          if now - heartbeat \<le> siteHeartbeatTimeout
          then (setSiteCond K ''Connected'' ConditionTrue ''HeartbeatCurrent'' fixedText
                  (updSiteStatus (rg_Phase_update (\<lambda>_. ''Connected'')) site),
                siteHeartbeatTimeout - (now - heartbeat))
          else (setSiteCond K ''Connected'' ConditionFalse ''HeartbeatStale'' fixedText site, 0)
      | None \<Rightarrow> (setSiteCond K ''Connected'' ConditionFalse ''HeartbeatStale'' fixedText site, 0))"

definition refreshIdentity ::
  "condition_api \<Rightarrow> time \<Rightarrow> SiteRegistration \<Rightarrow> duration \<Rightarrow> SiteRegistration \<times> duration" where
  "refreshIdentity K now site requeueAfter =
     (case rg_AgentCertificateExpiresAt (r_Status site) of
        None \<Rightarrow> (setSiteCond K ''IdentityReady'' ConditionFalse ''CertificateExpiryUnknown'' fixedText site, requeueAfter)
      | Some expires \<Rightarrow>
          if \<not> now < expires
          then (setSiteCond K ''IdentityReady'' ConditionFalse ''CertificateExpired'' fixedText site, requeueAfter)
          else if now + 2 * hour > expires
          then (setSiteCond K ''IdentityReady'' ConditionFalse ''CertificateExpiring'' fixedText site,
                minPositive requeueAfter (expires - now))
          else (setSiteCond K ''IdentityReady'' ConditionTrue ''CertificateCurrent'' fixedText site,
                minPositive requeueAfter (expires - 2 * hour - now)))"

definition refreshRegistrationHealth ::
  "condition_api \<Rightarrow> SiteRegistration \<Rightarrow> time \<Rightarrow> SiteRegistration \<times> duration" where
  "refreshRegistrationHealth K site now =
     (let site = setSiteCond K ''Registered'' ConditionFalse ''AwaitingAgent'' fixedText
            (updSiteStatus (rg_Phase_update (\<lambda>_. ''Pending'')) site) in
      if rg_ClusterUID (r_Status site) = '''' then (site, 0)
      else
        (let site = setSiteCond K ''Registered'' ConditionTrue ''ClusterBound'' fixedText
               (updSiteStatus (rg_Phase_update (\<lambda>_. ''Registered'')) site);
             (site, requeueAfter) = refreshConnection K now site in
         refreshIdentity K now site requeueAfter))"


section \<open>Revocation and deletion\<close>











section \<open>Reconciliation\<close>




section \<open>Lemmas\<close>






lemma minPositive_bounds:
  "0 \<le> current \<Longrightarrow> 0 \<le> minPositive current candidate"
  "0 < current \<Longrightarrow> 0 < minPositive current candidate \<and> minPositive current candidate \<le> current"
  "0 < candidate \<Longrightarrow> 0 \<le> current \<Longrightarrow> 0 < minPositive current candidate \<and> minPositive current candidate \<le> candidate"
  by (auto simp: minPositive_def)

lemma setSiteCond_simps [simp]:
  "r_Meta (setSiteCond K t s r m site) = r_Meta site" "r_Spec (setSiteCond K t s r m site) = r_Spec site"
  "rg_ClusterUID (r_Status (setSiteCond K t s r m site)) = rg_ClusterUID (r_Status site)"
  "rg_LastHeartbeatTime (r_Status (setSiteCond K t s r m site)) = rg_LastHeartbeatTime (r_Status site)"
  "rg_AgentCertificateExpiresAt (r_Status (setSiteCond K t s r m site)) = rg_AgentCertificateExpiresAt (r_Status site)"
  by (simp_all add: setSiteCond_def)

text \<open>What each of the two checks finds, and the time until it may change.\<close>

definition heartbeatCurrent :: "time option \<Rightarrow> time \<Rightarrow> bool" where
  "heartbeatCurrent hb now = (case hb of None \<Rightarrow> False | Some h \<Rightarrow> now - h \<le> siteHeartbeatTimeout)"

definition heartbeatWait :: "time option \<Rightarrow> time \<Rightarrow> duration" where
  "heartbeatWait hb now =
     (case hb of None \<Rightarrow> 0
      | Some h \<Rightarrow> if now - h \<le> siteHeartbeatTimeout then siteHeartbeatTimeout - (now - h) else 0)"

definition certificateState :: "time option \<Rightarrow> time \<Rightarrow> nat" where
  "certificateState cert now =
     (case cert of None \<Rightarrow> 0 | Some e \<Rightarrow> if \<not> now < e then 1 else if now + 2 * hour > e then 2 else 3)"

definition certificateWait :: "time option \<Rightarrow> time \<Rightarrow> duration \<Rightarrow> duration" where
  "certificateWait cert now r =
     (case cert of None \<Rightarrow> r
      | Some e \<Rightarrow> if \<not> now < e then r else if now + 2 * hour > e then minPositive r (e - now)
                  else minPositive r (e - 2 * hour - now))"

lemma snd_refreshConnection: "snd (refreshConnection K now site) = heartbeatWait (rg_LastHeartbeatTime (r_Status site)) now"
  by (simp add: refreshConnection_def heartbeatWait_def split: option.split)

lemma fst_refreshConnection:
  "heartbeatCurrent (rg_LastHeartbeatTime (r_Status site)) t = heartbeatCurrent (rg_LastHeartbeatTime (r_Status site)) now \<Longrightarrow>
     fst (refreshConnection K t site) = fst (refreshConnection K now site)"
  by (cases "rg_LastHeartbeatTime (r_Status site)") (simp_all add: refreshConnection_def heartbeatCurrent_def)

lemma cert_refreshConnection:
  "rg_AgentCertificateExpiresAt (r_Status (fst (refreshConnection K now site))) =
     rg_AgentCertificateExpiresAt (r_Status site)"
  by (simp add: refreshConnection_def split: option.split)

lemma snd_refreshIdentity:
  "snd (refreshIdentity K now site r) = certificateWait (rg_AgentCertificateExpiresAt (r_Status site)) now r"
  by (simp add: refreshIdentity_def certificateWait_def split: option.split)

lemma fst_refreshIdentity:
  "certificateState (rg_AgentCertificateExpiresAt (r_Status site)) t =
     certificateState (rg_AgentCertificateExpiresAt (r_Status site)) now \<Longrightarrow>
     fst (refreshIdentity K t site r) = fst (refreshIdentity K now site r')"
  by (auto simp: refreshIdentity_def certificateState_def split: option.splits if_splits)

lemma health_cong:
  assumes "heartbeatCurrent (rg_LastHeartbeatTime (r_Status site)) t =
      heartbeatCurrent (rg_LastHeartbeatTime (r_Status site)) now"
    and "certificateState (rg_AgentCertificateExpiresAt (r_Status site)) t =
      certificateState (rg_AgentCertificateExpiresAt (r_Status site)) now"
  shows "fst (refreshRegistrationHealth K site t) = fst (refreshRegistrationHealth K site now)"
proof -
  let ?s = "setSiteCond K ''Registered'' ConditionTrue ''ClusterBound'' fixedText
     (updSiteStatus (rg_Phase_update (\<lambda>_. ''Registered''))
        (setSiteCond K ''Registered'' ConditionFalse ''AwaitingAgent'' fixedText
           (updSiteStatus (rg_Phase_update (\<lambda>_. ''Pending'')) site)))"
  have "fst (refreshConnection K t ?s) = fst (refreshConnection K now ?s)"
    by (rule fst_refreshConnection) (simp add: assms(1))
  moreover have "fst (refreshIdentity K t x r) = fst (refreshIdentity K now x r')"
    if "rg_AgentCertificateExpiresAt (r_Status x) = rg_AgentCertificateExpiresAt (r_Status site)" for x r r'
    by (rule fst_refreshIdentity) (simp add: assms(2) that)
  ultimately show ?thesis
    by (simp add: refreshRegistrationHealth_def Let_def case_prod_beta cert_refreshConnection)
qed

lemma snd_health:
  "snd (refreshRegistrationHealth K site now) =
     (if rg_ClusterUID (r_Status site) = '''' then 0
      else certificateWait (rg_AgentCertificateExpiresAt (r_Status site)) now
             (heartbeatWait (rg_LastHeartbeatTime (r_Status site)) now))"
  by (simp add: refreshRegistrationHealth_def Let_def case_prod_beta snd_refreshIdentity snd_refreshConnection
      cert_refreshConnection)

lemma heartbeatWait_nonneg: "0 \<le> heartbeatWait hb now"
  by (simp add: heartbeatWait_def split: option.splits)

lemma certificateWait_nonneg: "0 \<le> r \<Longrightarrow> 0 \<le> certificateWait cert now r"
  by (simp add: certificateWait_def minPositive_bounds split: option.splits)

lemma heartbeat_stable:
  assumes "now \<le> t" "\<And>h. hb = Some h \<Longrightarrow> now - h \<noteq> siteHeartbeatTimeout"
    and "heartbeatWait hb now = 0 \<or> t < now + heartbeatWait hb now"
  shows "heartbeatCurrent hb t = heartbeatCurrent hb now"
  using assms by (cases hb) (auto simp: heartbeatCurrent_def heartbeatWait_def split: if_splits)

lemma certificate_stable:
  assumes "now \<le> t" "\<And>e. cert = Some e \<Longrightarrow> e - 2 * hour \<noteq> now"
    and "0 < certificateWait cert now 0 \<Longrightarrow> t < now + certificateWait cert now 0"
  shows "certificateState cert t = certificateState cert now"
proof (cases cert)
  case (Some e)
  have h: "0 < hour" by (simp add: duration_defs)
  show ?thesis
  proof (cases "now < e")
    case True
    have "certificateWait cert now 0 = (if now + 2 * hour > e then e - now else e - 2 * hour - now)"
      using True assms(2) [OF Some] by (auto simp: certificateWait_def Some minPositive_def)
    moreover have "e - 2 * hour \<noteq> now" using assms(2) [OF Some] .
    ultimately show ?thesis
      using True assms(1,3) h by (auto simp: certificateState_def Some split: if_splits)
  next
    case False
    with assms(1) show ?thesis by (simp add: certificateState_def Some)
  qed
qed (simp add: certificateState_def)

text \<open>The wait over both checks is over no later than either.\<close>

lemma certificateWait_le:
  assumes "0 \<le> r"
  shows "0 < r \<Longrightarrow> 0 < certificateWait cert now r \<and> certificateWait cert now r \<le> r"
    and "0 < certificateWait cert now 0 \<Longrightarrow>
      0 < certificateWait cert now r \<and> certificateWait cert now r \<le> certificateWait cert now 0"
  using assms by (auto simp: certificateWait_def minPositive_def split: option.splits if_splits)


section \<open>Sample values\<close>

definition sampleRegistration :: SiteRegistration where
  "sampleRegistration = \<lparr>r_Meta = (sampleMeta ''a'')\<lparr>om_Finalizers := [siteFinalizer]\<rparr>,
     r_Spec = \<lparr>rs_DisplayName = '''', rs_Revoked = False, rs_PermittedStorageClasses =
         \<lparr>scp_Etcd = [''fast''], scp_Postgres = [''fast''], scp_RestoreWorkspace = []\<rparr>,
       rs_StorageRollbackPolicies = [], rs_PermittedIssuers =
         \<lparr>ip_Etcd = [sampleIssuer], ip_Postgres = [sampleIssuer], ip_Pgpool = [sampleIssuer],
          ip_Backup = [sampleIssuer]\<rparr>,
       rs_MetallbAddressPools = []\<rparr>,
     r_Status = \<lparr>rg_ObservedGeneration = 1, rg_ClusterUID = ''c'', rg_Phase = ''Connected'', rg_RegistrationURL = '''',
       rg_RegistrationExpiresAt = None, rg_LastHeartbeatTime = Some 0, rg_AgentCertificateExpiresAt = None,
       rg_AgentVersion = '''', rg_DiscoveredStorageClasses = [], rg_DiscoveredVolumeSnapshotClasses = [],
       rg_DiscoveredIssuers = [], rg_Capabilities = [], rg_Conditions = []\<rparr>\<rparr>"




section \<open>Properties\<close>



text \<open>The controller looks at a site again before its health can change: until
  the time it asks for, or forever when it asks for none, the phase and the
  conditions it would write stay what they are. The instants at which a heartbeat
  is exactly as old as the timeout, or a certificate exactly two hours from its
  end, are the exception.\<close>

theorem site_health_requeue:
  assumes "now \<le> t"
    and "snd (refreshRegistrationHealth K site now) = 0 \<or> t < now + snd (refreshRegistrationHealth K site now)"
    and "\<And>h. rg_LastHeartbeatTime (r_Status site) = Some h \<Longrightarrow> now - h \<noteq> siteHeartbeatTimeout"
    and "\<And>e. rg_AgentCertificateExpiresAt (r_Status site) = Some e \<Longrightarrow> e - 2 * hour \<noteq> now"
  shows "0 \<le> snd (refreshRegistrationHealth K site now) \<and>
    fst (refreshRegistrationHealth K site t) = fst (refreshRegistrationHealth K site now)"
proof -
  let ?hb = "rg_LastHeartbeatTime (r_Status site)" and ?ce = "rg_AgentCertificateExpiresAt (r_Status site)"
  let ?w = "certificateWait ?ce now (heartbeatWait ?hb now)"
  show ?thesis
  proof (cases "rg_ClusterUID (r_Status site) = ''''")
    case True
    then show ?thesis by (simp add: refreshRegistrationHealth_def)
  next
    case False
    with assms(2) have w: "?w = 0 \<or> t < now + ?w" by (simp add: snd_health)
    have "heartbeatWait ?hb now = 0 \<or> t < now + heartbeatWait ?hb now"
      using w certificateWait_le(1) [OF heartbeatWait_nonneg, of ?hb now ?ce now] heartbeatWait_nonneg [of ?hb now]
      by linarith
    with assms(1,3) have hb: "heartbeatCurrent ?hb t = heartbeatCurrent ?hb now"
      by (intro heartbeat_stable) auto
    have "0 < certificateWait ?ce now 0 \<Longrightarrow> t < now + certificateWait ?ce now 0"
      using w certificateWait_le(2) [OF heartbeatWait_nonneg, of ?ce now ?hb now] by linarith
    with assms(1,4) have "certificateState ?ce t = certificateState ?ce now"
      by (intro certificate_stable) auto
    with hb health_cong have "fst (refreshRegistrationHealth K site t) = fst (refreshRegistrationHealth K site now)" by blast
    then show ?thesis by (simp add: snd_health certificateWait_nonneg heartbeatWait_nonneg)
  qed
qed

theorem site_health_requeue_witness:
  "snd (refreshRegistrationHealth listConditions sampleRegistration second) = 149 * second \<and>
   fst (refreshRegistrationHealth listConditions sampleRegistration (149 * second)) =
     fst (refreshRegistrationHealth listConditions sampleRegistration second)"
proof -
  have w: "snd (refreshRegistrationHealth listConditions sampleRegistration second) = 149 * second"
    by (simp add: snd_health certificateWait_def heartbeatWait_def sampleRegistration_def siteHeartbeatTimeout_def
        second_def)
  have "second \<le> 149 * second" "149 * second < second + 149 * second" by (simp_all add: second_def)
  moreover have "second - h \<noteq> siteHeartbeatTimeout" if "rg_LastHeartbeatTime (r_Status sampleRegistration) = Some h" for h
    using that by (simp add: sampleRegistration_def siteHeartbeatTimeout_def second_def)
  moreover have "e - 2 * hour \<noteq> second" if "rg_AgentCertificateExpiresAt (r_Status sampleRegistration) = Some e" for e
    using that by (simp add: sampleRegistration_def)
  ultimately show ?thesis
    using site_health_requeue [of second "149 * second" listConditions sampleRegistration] w by simp
qed

end
