(* ===== verification/Validation.thy ===== *)
theory Validation
  imports Members
begin

text \<open>
  The admission webhooks, \<open>internal/webhook/v1alpha1/validation.go\<close> and the
  \<open>*_webhook.go\<close> files beside it: the defaults and the checks of every resource.
  A validation returns the list of its errors, each with its kind and the path of
  the field; values and messages are left out. Where the code ranges over a map of
  fields, whose order Go does not fix, the model takes the order of the text. The
  Kubernetes name checks, the URL parser, the time zone database, the cron parser
  and the semantic equality of two specs are the fields of the parameter
  \<open>validation_api\<close>.
\<close>

section \<open>Errors and parameters\<close>

datatype error_kind = DuplicateValue | InvalidValue | RequiredValue | ForbiddenValue | TooLongValue

type_synonym field_error = "error_kind \<times> string"

datatype admission_error = Aggregate "field_error list" | FieldError field_error | PlainError | BadRequest string

text \<open>\<open>ErrorList.ToAggregate\<close>: nil for an empty list. The validations of the model
  return the list; the webhook methods aggregate it.\<close>

definition toAggregate :: "field_error list \<Rightarrow> admission_error option" where
  "toAggregate errs = (if errs = [] then None else Some (Aggregate errs))"

record parsed_url =
  url_Scheme :: string
  url_Host :: string
  url_Hostname :: string

record validation_api =
  IsDNS1123Label :: "string \<Rightarrow> string list"
  IsDNS1123Subdomain :: "string \<Rightarrow> string list"
  urlParse :: "string \<Rightarrow> parsed_url option"
  loadLocation :: "string \<Rightarrow> bool"
  cronParse :: "string \<Rightarrow> bool"
  restoreSpecEqual :: "PostgresRestoreSpec \<Rightarrow> PostgresRestoreSpec \<Rightarrow> bool"
  upgradeSpecEqual :: "PostgresUpgradeSpec \<Rightarrow> PostgresUpgradeSpec \<Rightarrow> bool"

definition child :: "string \<Rightarrow> string \<Rightarrow> string" where
  "child path name = path @ ''.'' @ name"

definition indexed :: "string \<Rightarrow> nat \<Rightarrow> string" where
  "indexed path i = path @ ''['' @ fmt_d (int i) @ '']''"

definition lineBreaks :: "char list" where
  "lineBreaks = [CHR 0x0D, CHR 0x0A]"

section \<open>UTF-8\<close>

text \<open>The code points of a well-formed UTF-8 string (\<open>unicode/utf8\<close>): no overlong
  forms, no surrogates, nothing above U+10FFFF.\<close>

definition cont :: "nat \<Rightarrow> bool" where
  "cont b = (0x80 \<le> b \<and> b \<le> 0xBF)"

fun utf8 :: "nat list \<Rightarrow> nat list option" where
  "utf8 [] = Some []"
| "utf8 (a # s) =
     (if a < 0x80 then map_option (Cons a) (utf8 s)
      else if 0xC2 \<le> a \<and> a \<le> 0xDF then
        (case s of
           b # s' \<Rightarrow> if cont b then map_option (Cons ((a - 0xC0) * 64 + (b - 0x80))) (utf8 s') else None
         | [] \<Rightarrow> None)
      else if 0xE0 \<le> a \<and> a \<le> 0xEF then
        (case s of
           b # c # s' \<Rightarrow>
             if cont b \<and> cont c \<and> (a = 0xE0 \<longrightarrow> 0xA0 \<le> b) \<and> (a = 0xED \<longrightarrow> b \<le> 0x9F)
             then map_option (Cons ((a - 0xE0) * 4096 + (b - 0x80) * 64 + (c - 0x80))) (utf8 s')
             else None
         | _ \<Rightarrow> None)
      else if 0xF0 \<le> a \<and> a \<le> 0xF4 then
        (case s of
           b # c # d # s' \<Rightarrow>
             if cont b \<and> cont c \<and> cont d \<and> (a = 0xF0 \<longrightarrow> 0x90 \<le> b) \<and> (a = 0xF4 \<longrightarrow> b \<le> 0x8F)
             then map_option (Cons ((a - 0xF0) * 262144 + (b - 0x80) * 4096 + (c - 0x80) * 64 + (d - 0x80))) (utf8 s')
             else None
         | _ \<Rightarrow> None)
      else None)"

definition runes :: "string \<Rightarrow> nat list option" where
  "runes s = utf8 (map of_char s)"

text \<open>\<open>unicode.IsControl\<close>: the category Cc.\<close>

definition isControl :: "nat \<Rightarrow> bool" where
  "isControl r = (r < 0x20 \<or> 0x7F \<le> r \<and> r < 0xA0)"

section \<open>Names and paths\<close>

definition validateSQLIdentifier :: "string \<Rightarrow> string \<Rightarrow> field_error list" where
  "validateSQLIdentifier path value =
     (if value = '''' then [(RequiredValue, path)]
      else if length value > 63 then [(TooLongValue, path)]
      else
        (case runes value of
           None \<Rightarrow> [(InvalidValue, path)]
         | Some characters \<Rightarrow>
             if \<exists>c \<in> set characters. c = 0 \<or> isControl c then [(InvalidValue, path)] else []))"

definition protectedRoles :: "string list" where
  "protectedRoles = [''postgres'', ''replication'', ''patroni'', ''pgbackrest'', ''pgpool'']"

definition protectedRole :: "string \<Rightarrow> bool" where
  "protectedRole name = (name \<in> set protectedRoles \<or> hasPrefix name ''mspsql_'')"

definition validateVaultPath :: "string \<Rightarrow> string \<Rightarrow> field_error option" where
  "validateVaultPath path value =
     (if value = '''' then Some (RequiredValue, path)
      else if length value > 1024 \<or> trimChar (CHR ''/'') value \<noteq> value \<or>
              containsAny value (CHR 0x00 # lineBreaks) \<or> containsSub value ''//''
      then Some (InvalidValue, path)
      else if \<exists>segment \<in> set (splitChar (CHR ''/'') value). segment = '''' \<or> segment = ''.'' \<or> segment = ''..''
      then Some (InvalidValue, path)
      else None)"

definition optErr :: "field_error option \<Rightarrow> field_error list" where
  "optErr e = (case e of None \<Rightarrow> [] | Some x \<Rightarrow> [x])"

definition validateVaultSecretReference ::
  "string \<Rightarrow> VaultSecretReference \<Rightarrow> bool \<Rightarrow> field_error list" where
  "validateVaultSecretReference path reference requireKey =
     optErr (validateVaultPath (child path ''mount'') (vsr_Mount reference)) @
     optErr (validateVaultPath (child path ''path'') (vsr_Path reference)) @
     (if requireKey \<or> vsr_Key reference \<noteq> ''''
      then
        (if vsr_Key reference = '''' then [(RequiredValue, child path ''key'')]
         else if length (vsr_Key reference) > 253 \<or> containsAny (vsr_Key reference) (CHR 0x00 # lineBreaks)
         then [(InvalidValue, child path ''key'')] else [])
      else [])"

section \<open>Backups\<close>

definition validateBackupRepository ::
  "validation_api \<Rightarrow> BackupRepositorySpec \<Rightarrow> string \<Rightarrow> field_error list" where
  "validateBackupRepository V repository path =
     concat (map (\<lambda>(name, value). if containsAny value lineBreaks then [(InvalidValue, child path name)] else [])
       [(''bucket'', br_Bucket repository), (''prefix'', br_Prefix repository), (''region'', br_Region repository)]) @
     (if br_Endpoint repository \<noteq> ''''
      then
        (case urlParse V (br_Endpoint repository) of
           None \<Rightarrow> [(InvalidValue, child path ''endpoint'')]
         | Some endpoint \<Rightarrow>
             if url_Scheme endpoint \<noteq> ''https'' \<or> url_Hostname endpoint = ''''
             then [(InvalidValue, child path ''endpoint'')] else [])
      else []) @
     (case br_CABundleSecretRef repository of
        Some ref \<Rightarrow> if skr_Name ref = '''' then [(RequiredValue, child path ''caBundleSecretRef.name'')] else []
      | None \<Rightarrow> []) @
     validateVaultSecretReference (child path ''credentialVaultRef'') (br_CredentialVaultRef repository) False"

definition scheduleTimezone :: "BackupSchedules \<Rightarrow> string" where
  "scheduleTimezone schedules = (if bs_Timezone schedules = '''' then ''UTC'' else bs_Timezone schedules)"

definition validateBackupSchedules ::
  "validation_api \<Rightarrow> BackupSchedules \<Rightarrow> string \<Rightarrow> field_error list" where
  "validateBackupSchedules V schedules path =
     (let timezone = scheduleTimezone schedules in
      if \<not> loadLocation V timezone then [(InvalidValue, child path ''timezone'')]
      else
        concat (map (\<lambda>(name, expression).
          if expression = '''' then []
          else if \<not> cronParse V (''CRON_TZ='' @ timezone @ '' '' @ expression) then [(InvalidValue, child path name)]
          else [])
          [(''full'', bs_Full schedules), (''differential'', bs_Differential schedules),
           (''incremental'', bs_Incremental schedules)]))"

section \<open>Instances\<close>

definition pinned :: "string \<Rightarrow> bool" where
  "pinned ref = containsSub ref ''@sha256:''"

definition defaultPolicy :: "DeletionPolicy \<Rightarrow> DeletionPolicy" where
  "defaultPolicy p = (if p = DeletionPolicyUnset then DeletionPolicyRetain else p)"

definition defaultIssuer :: "IssuerReference \<Rightarrow> IssuerReference" where
  "defaultIssuer ref =
     ref\<lparr>ir_Kind := (if ir_Kind ref = '''' then ''ClusterIssuer'' else ir_Kind ref),
         ir_Group := (if ir_Group ref = '''' then ''cert-manager.io'' else ir_Group ref)\<rparr>"

definition defaultCertificates :: "SiteCertificateSpec \<Rightarrow> SiteCertificateSpec" where
  "defaultCertificates c =
     (let postgres = defaultIssuer (PostgresIssuerRef c) in
      c\<lparr>EtcdIssuerRef := defaultIssuer (EtcdIssuerRef c), EtcdPeerIssuerRef := defaultIssuer (EtcdPeerIssuerRef c),
        EtcdClientIssuerRef := defaultIssuer (EtcdClientIssuerRef c), PostgresIssuerRef := postgres,
        PgpoolIssuerRef := defaultIssuer (PgpoolIssuerRef c),
        BackupIssuerRef := defaultIssuer (if ir_Name (BackupIssuerRef c) = '''' then postgres else BackupIssuerRef c)\<rparr>)"

definition defaultBackup :: "BackupSpec \<Rightarrow> BackupSpec" where
  "defaultBackup b =
     b\<lparr>bk_Retention := (bk_Retention b)
          \<lparr>rt_Duration := (if rt_Duration (bk_Retention b) = 0 then 7 * 24 * hour else rt_Duration (bk_Retention b)),
           rt_WALDuration := (if rt_WALDuration (bk_Retention b) = 0 then 7 * 24 * hour
                              else rt_WALDuration (bk_Retention b))\<rparr>,
       bk_Repository := (bk_Repository b)
          \<lparr>br_Region := (if br_Region (bk_Repository b) = '''' then ''us-east-1'' else br_Region (bk_Repository b)),
           br_URIStyle := (if br_URIStyle (bk_Repository b) = '''' then ''host''
                           else br_URIStyle (bk_Repository b))\<rparr>\<rparr>"

definition defaultInstance :: "MultiSitePostgres \<Rightarrow> MultiSitePostgres" where
  "defaultInstance obj =
     obj\<lparr>i_Spec := (i_Spec obj)
       \<lparr>is_DeletionPolicy := defaultPolicy (is_DeletionPolicy (i_Spec obj)),
        is_Backup := map_option defaultBackup (is_Backup (i_Spec obj)),
        is_Sites := map (\<lambda>site. site\<lparr>ps_Certificates := defaultCertificates (ps_Certificates site)\<rparr>)
                      (is_Sites (i_Spec obj))\<rparr>\<rparr>"

definition validateDataSite :: "validation_api \<Rightarrow> PostgresSiteSpec \<Rightarrow> string \<Rightarrow> field_error list" where
  "validateDataSite V site path =
     (if ps_Role site = SiteRoleWitness
      then
        (if PostgresReplicas (ps_Components site) \<noteq> 0 \<or> PgpoolReplicas (ps_Components site) \<noteq> 0
         then [(InvalidValue, child path ''components'')] else [])
      else
        (if PostgresReplicas (ps_Components site) = 0
         then [(InvalidValue, child path ''components.postgresReplicas'')] else []) @
        (if ss_Postgres (ps_Storage site) = None \<or> ss_Etcd (ps_Storage site) = None
         then [(RequiredValue, child path ''storage'')] else []) @
        (case ps_VaultAuth site of
           None \<Rightarrow> [(RequiredValue, child path ''vaultAuth'')]
         | Some auth \<Rightarrow>
             (case urlParse V (va_Address auth) of
                None \<Rightarrow> [(InvalidValue, child path ''vaultAuth.address'')]
              | Some address \<Rightarrow>
                  if url_Scheme address \<noteq> ''https'' \<or> url_Host address = ''''
                  then [(InvalidValue, child path ''vaultAuth.address'')] else []) @
             (if va_AuthMount auth = '''' then [(RequiredValue, child path ''vaultAuth.authMount'')] else []) @
             (if va_AuthRole auth = '''' then [(RequiredValue, child path ''vaultAuth.authRole'')] else []) @
             (case va_CABundleSecretRef auth of
                Some ref \<Rightarrow>
                  if skr_Name ref = '''' then [(RequiredValue, child path ''vaultAuth.caBundleSecretRef.name'')] else []
              | None \<Rightarrow> [])))"

definition namespaceKey :: "PostgresSiteSpec \<Rightarrow> string" where
  "namespaceKey site = ps_SiteRegistrationRef site @ ''/'' @ ps_Namespace site"

text \<open>The loop over the sites, with the names and namespaces seen so far.\<close>

fun validateSites ::
  "validation_api \<Rightarrow> nat \<Rightarrow> string list \<Rightarrow> string list \<Rightarrow> PostgresSiteSpec list \<Rightarrow> field_error list" where
  "validateSites V i names namespaces [] = []"
| "validateSites V i names namespaces (site # sites) =
     (let p = indexed ''spec.sites'' i in
      (if ps_Name site \<in> set names then [(DuplicateValue, child p ''name'')] else []) @
      (if namespaceKey site \<in> set namespaces then [(DuplicateValue, child p ''namespace'')] else []) @
      map (\<lambda>msg. (InvalidValue, child p ''namespace'')) (IsDNS1123Label V (ps_Namespace site)) @
      validateDataSite V site p @
      validateSites V (Suc i) (ps_Name site # names) (namespaceKey site # namespaces) sites)"

text \<open>A sum of 32-bit counts, which wraps around.\<close>

definition total32 :: "(SiteComponents \<Rightarrow> int) \<Rightarrow> PostgresSiteSpec list \<Rightarrow> int" where
  "total32 count sites = foldl (\<lambda>acc site. int32 (acc + count (ps_Components site))) 0 sites"

definition validateTDE :: "TDESpec \<Rightarrow> field_error list" where
  "validateTDE tde =
     (let path = ''spec.tde.vault'' in
      if \<not> tde_Enabled tde then []
      else
        (case tde_Vault tde of
           None \<Rightarrow> [(RequiredValue, path)]
         | Some vault \<Rightarrow>
             optErr (validateVaultPath (child path ''kvMount'') (tv_KVMount vault)) @
             optErr (validateVaultPath (child path ''keyPath'') (tv_KeyPath vault)) @
             concat (map (\<lambda>(name, value).
               if value = '''' then [(RequiredValue, child path name)]
               else if length value > 63 \<or> containsAny value lineBreaks then [(InvalidValue, child path name)]
               else [])
               [(''providerName'', tv_ProviderName vault), (''principalKeyName'', tv_PrincipalKeyName vault)])))"

definition validateBackup :: "validation_api \<Rightarrow> string \<Rightarrow> BackupSpec option \<Rightarrow> field_error list" where
  "validateBackup V path backup =
     (case backup of
        None \<Rightarrow> []
      | Some b \<Rightarrow>
          (if trimChar (CHR ''/'') (br_Prefix (bk_Repository b)) = ''''
           then [(RequiredValue, child path ''repository.prefix'')] else []) @
          validateBackupRepository V (bk_Repository b) (child path ''repository'') @
          validateBackupSchedules V (bk_Schedules b) (child path ''schedules''))"

definition validateInstance :: "validation_api \<Rightarrow> MultiSitePostgres \<Rightarrow> field_error list" where
  "validateInstance V obj =
     (let spec = i_Spec obj; sites = is_Sites spec; etcd = total32 EtcdReplicas sites;
          postgres = total32 PostgresReplicas sites in
      (if \<not> pinned (pg_Image (is_Postgres spec))
       then [(InvalidValue, ''spec.postgres.image'')] else []) @
      validateSites V 0 [] [] sites @
      (if etcd < 3 \<or> even etcd then [(InvalidValue, ''spec.sites'')] else []) @
      (if postgres < 2 then [(InvalidValue, ''spec.sites'')] else []) @
      (if pg_SynchronousStandbyCount (is_Postgres spec) \<ge> postgres
       then [(InvalidValue, ''spec.postgres.synchronousStandbyCount'')] else []) @
      validateTDE (is_TDE spec) @
      validateVaultSecretReference ''spec.credentials.postgresVaultRef'' (PostgresVaultRef (is_Credentials spec)) False @
      (if \<exists>site \<in> set sites. PgpoolReplicas (ps_Components site) > 0
       then validateVaultSecretReference ''spec.credentials.pgpoolVaultRef'' (PgpoolVaultRef (is_Credentials spec)) False
       else []) @
      validateBackup V ''spec.backup'' (is_Backup spec))"

section \<open>Registrations\<close>

fun validatePolicies ::
  "string list \<Rightarrow> nat \<Rightarrow> string list \<Rightarrow> StorageRollbackPolicy list \<Rightarrow> field_error list" where
  "validatePolicies permitted i seen [] = []"
| "validatePolicies permitted i seen (policy # policies) =
     (let p = indexed ''spec.storageRollbackPolicies'' i in
      (if srp_StorageClassName policy \<in> set seen then [(DuplicateValue, child p ''storageClassName'')] else []) @
      (if srp_StorageClassName policy \<notin> set permitted then [(InvalidValue, child p ''storageClassName'')] else []) @
      (if srp_Strategy policy = ''VolumeSnapshot'' \<and> srp_VolumeSnapshotClassName policy = ''''
       then [(RequiredValue, child p ''volumeSnapshotClassName'')] else []) @
      (if srp_Strategy policy = ''PVCClone'' \<and> srp_VolumeSnapshotClassName policy \<noteq> ''''
       then [(ForbiddenValue, child p ''volumeSnapshotClassName'')] else []) @
      validatePolicies permitted (Suc i) (srp_StorageClassName policy # seen) policies)"

definition validateSiteRegistration :: "SiteRegistration \<Rightarrow> field_error list" where
  "validateSiteRegistration obj =
     validatePolicies (scp_Postgres (rs_PermittedStorageClasses (r_Spec obj))) 0 []
       (rs_StorageRollbackPolicies (r_Spec obj))"

definition validateRegistrationUpdate :: "SiteRegistration \<Rightarrow> SiteRegistration \<Rightarrow> admission_error option" where
  "validateRegistrationUpdate oldObj newObj =
     (if rg_ClusterUID (r_Status oldObj) \<noteq> '''' \<and> rg_ClusterUID (r_Status newObj) \<noteq> rg_ClusterUID (r_Status oldObj)
      then Some (FieldError (ForbiddenValue, ''status.clusterUID''))
      else if rs_Revoked (r_Spec oldObj) \<and> \<not> rs_Revoked (r_Spec newObj)
      then Some (FieldError (ForbiddenValue, ''spec.revoked''))
      else toAggregate (validateSiteRegistration newObj))"

section \<open>Databases and users\<close>

fun validateRoles :: "nat \<Rightarrow> string list \<Rightarrow> DatabaseRole list \<Rightarrow> field_error list" where
  "validateRoles i seen [] = []"
| "validateRoles i seen (role # roles) =
     (let p = child (indexed ''spec.roles'' i) ''name'' in
      validateSQLIdentifier p (dr_Name role) @
      (if protectedRole (dr_Name role) then [(ForbiddenValue, p)] else []) @
      (if dr_Name role \<in> set seen then [(DuplicateValue, p)] else []) @
      validateRoles (Suc i) (dr_Name role # seen) roles)"

fun validateSchemas :: "nat \<Rightarrow> string list \<Rightarrow> field_error list" where
  "validateSchemas i [] = []"
| "validateSchemas i (schema # schemas) =
     validateSQLIdentifier (indexed ''spec.schemas'' i) schema @ validateSchemas (Suc i) schemas"

definition owners :: "DatabaseRole list \<Rightarrow> nat" where
  "owners roles = length (filter (\<lambda>role. dr_Profile role = ''Owner'') roles)"

definition validateDatabase :: "validation_api \<Rightarrow> PostgresDatabase \<Rightarrow> field_error list" where
  "validateDatabase V obj =
     (if ds_InstanceRef (d_Spec obj) = '''' then [(RequiredValue, ''spec.instanceRef'')] else []) @
     (if IsDNS1123Subdomain V (ds_DatabaseName (d_Spec obj)) \<noteq> []
      then [(InvalidValue, ''spec.databaseName'')] else []) @
     validateSQLIdentifier ''spec.databaseName'' (ds_DatabaseName (d_Spec obj)) @
     validateRoles 0 [] (ds_Roles (d_Spec obj)) @
     (if owners (ds_Roles (d_Spec obj)) > 1 then [(InvalidValue, ''spec.roles'')] else []) @
     validateSchemas 0 (ds_Schemas (d_Spec obj))"

definition membershipKey :: "RoleMembership \<Rightarrow> string" where
  "membershipKey m = rm_DatabaseRef m @ [CHR 0x00] @ rm_Role m"

fun validateMemberships ::
  "validation_api \<Rightarrow> nat \<Rightarrow> string list \<Rightarrow> RoleMembership list \<Rightarrow> field_error list" where
  "validateMemberships V i seen [] = []"
| "validateMemberships V i seen (m # ms) =
     (let p = indexed ''spec.memberOf'' i in
      (if IsDNS1123Subdomain V (rm_DatabaseRef m) \<noteq> [] then [(InvalidValue, child p ''databaseRef'')] else []) @
      validateSQLIdentifier (child p ''role'') (rm_Role m) @
      (if membershipKey m \<in> set seen then [(DuplicateValue, p)] else []) @
      validateMemberships V (Suc i) (membershipKey m # seen) ms)"

definition validateUser :: "validation_api \<Rightarrow> PostgresUser \<Rightarrow> field_error list" where
  "validateUser V obj =
     (if us_InstanceRef (u_Spec obj) = '''' then [(RequiredValue, ''spec.instanceRef'')] else []) @
     validateSQLIdentifier ''spec.roleName'' (us_RoleName (u_Spec obj)) @
     (if protectedRole (us_RoleName (u_Spec obj)) then [(ForbiddenValue, ''spec.roleName'')] else []) @
     validateVaultSecretReference ''spec.passwordVaultRef'' (us_PasswordVaultRef (u_Spec obj)) True @
     validateMemberships V 0 [] (us_MemberOf (u_Spec obj))"

definition defaultDatabase :: "PostgresDatabase \<Rightarrow> PostgresDatabase" where
  "defaultDatabase obj = obj\<lparr>d_Spec := (d_Spec obj)\<lparr>ds_DeletionPolicy := defaultPolicy (ds_DeletionPolicy (d_Spec obj))\<rparr>\<rparr>"

definition defaultUser :: "PostgresUser \<Rightarrow> PostgresUser" where
  "defaultUser obj = obj\<lparr>u_Spec := (u_Spec obj)\<lparr>us_DeletionPolicy := defaultPolicy (us_DeletionPolicy (u_Spec obj))\<rparr>\<rparr>"

section \<open>Restores and upgrades\<close>

definition validateRestore :: "validation_api \<Rightarrow> PostgresRestore \<Rightarrow> field_error list" where
  "validateRestore V obj =
     (let spec = e_Spec obj in
      concat (map (\<lambda>(name, value).
        if value = '''' then [(RequiredValue, child ''spec'' name)]
        else map (\<lambda>problem. (InvalidValue, child ''spec'' name)) (IsDNS1123Subdomain V value))
        [(''sourceInstanceRef'', es_SourceInstanceRef spec), (''targetInstanceRef'', es_TargetInstanceRef spec)]) @
      (if es_SourceInstanceRef spec = es_TargetInstanceRef spec
       then [(InvalidValue, ''spec.targetInstanceRef'')] else []) @
      (if es_TargetTime spec = zeroTime then [(RequiredValue, ''spec.targetTime'')] else []) @
      validateBackup V ''spec.targetBackup'' (es_TargetBackup spec))"

definition validateRestoreUpdate ::
  "validation_api \<Rightarrow> PostgresRestore \<Rightarrow> PostgresRestore \<Rightarrow> admission_error option" where
  "validateRestoreUpdate V oldObj newObj =
     (if \<not> restoreSpecEqual V (e_Spec oldObj) (e_Spec newObj)
      then Some (BadRequest ''PostgresRestore spec is immutable'')
      else toAggregate (validateRestore V newObj))"

definition defaultUpgrade :: "PostgresUpgrade \<Rightarrow> PostgresUpgrade" where
  "defaultUpgrade obj =
     obj\<lparr>g_Spec := (g_Spec obj)
       \<lparr>gs_ServiceRestorationTarget :=
          (if gs_ServiceRestorationTarget (g_Spec obj) = 0 then 15 * minute else gs_ServiceRestorationTarget (g_Spec obj)),
        gs_RollbackRetention :=
          (if gs_RollbackRetention (g_Spec obj) = 0 then 24 * hour else gs_RollbackRetention (g_Spec obj))\<rparr>\<rparr>"

definition validateBenchmark :: "MajorUpgradeBenchmark \<Rightarrow> admission_error option" where
  "validateBenchmark benchmark =
     (let path = ''spec.benchmark'' in
      if mb_TestedAt benchmark = zeroTime then Some (FieldError (RequiredValue, child path ''testedAt''))
      else if mb_EstimatedWriteOutage benchmark \<le> 0
      then Some (FieldError (InvalidValue, child path ''estimatedWriteOutage''))
      else if mb_UpgradeImage benchmark = '''' \<or> mb_Evidence benchmark = ''''
      then Some (FieldError (RequiredValue, path))
      else if \<not> pinned (mb_UpgradeImage benchmark) \<or> \<not> pinned (mb_Evidence benchmark)
      then Some (FieldError (InvalidValue, path))
      else if mb_SourceMajorVersion benchmark < 14 \<or> mb_TargetMajorVersion benchmark \<le> mb_SourceMajorVersion benchmark
      then Some (FieldError (InvalidValue, path))
      else if mb_PostgresStorageClasses benchmark = []
      then Some (FieldError (RequiredValue, child path ''postgresStorageClasses''))
      else None)"

definition validateUpgrade :: "PostgresUpgrade \<Rightarrow> admission_error option" where
  "validateUpgrade obj =
     (let spec = g_Spec obj in
      if gs_InstanceRef spec = '''' \<or> gs_TargetImage spec = '''' then Some PlainError
      else if \<not> pinned (gs_TargetImage spec) then Some (FieldError (InvalidValue, ''spec.targetImage''))
      else if gs_UpgradeImage spec \<noteq> '''' \<and> \<not> pinned (gs_UpgradeImage spec)
      then Some (FieldError (InvalidValue, ''spec.upgradeImage''))
      else if gs_ServiceRestorationTarget spec \<le> 0
      then Some (FieldError (InvalidValue, ''spec.serviceRestorationTarget''))
      else if gs_RollbackRetention spec \<le> 0 then Some (FieldError (InvalidValue, ''spec.rollbackRetention''))
      else (case gs_Benchmark spec of None \<Rightarrow> None | Some benchmark \<Rightarrow> validateBenchmark benchmark))"

definition validateUpgradeUpdate ::
  "validation_api \<Rightarrow> PostgresUpgrade \<Rightarrow> PostgresUpgrade \<Rightarrow> admission_error option" where
  "validateUpgradeUpdate V oldObj newObj =
     (if \<not> upgradeSpecEqual V (g_Spec oldObj) (g_Spec newObj)
      then Some (BadRequest ''PostgresUpgrade spec is immutable'')
      else validateUpgrade newObj)"

section \<open>What the validations accept\<close>

lemma split_nonempty_trim:
  assumes "[] \<notin> set (splitChar c s)"
  shows "trimChar c s = s"
proof -
  have "hd s \<noteq> c" if "s \<noteq> []"
    using assms that by (cases s) auto
  moreover have "last s \<noteq> c" if "s \<noteq> []"
  proof
    assume "last s = c"
    then have "s = butlast s @ [c]" using that by (metis append_butlast_last_id)
    then show False using assms splitChar_sep [of c "butlast s" "[]"] by simp
  qed
  ultimately have "dropWhile (\<lambda>x. x = c) s = s" "dropWhile (\<lambda>x. x = c) (rev s) = rev s"
    by (auto simp: dropWhile_eq_self_iff hd_rev)
  then show ?thesis by (simp add: trimChar_def)
qed

lemma split_nonempty_single:
  assumes "[] \<notin> set (splitChar c s)"
  shows "\<not> containsSub s [c, c]"
  using assms splitChar_sep [of c _ "c # _"] by (auto simp: containsSub_iff)

text \<open>A Vault path is accepted exactly when its segments are plain names: the checks on
  leading, trailing and doubled slashes say nothing more.\<close>

definition vaultPathOK :: "string \<Rightarrow> bool" where
  "vaultPathOK value \<longleftrightarrow> length value \<le> 1024 \<and> \<not> containsAny value (CHR 0x00 # lineBreaks) \<and>
     set (splitChar (CHR ''/'') value) \<inter> {'''', ''.'', ''..''} = {}"

lemma validateVaultPath_iff: "optErr (validateVaultPath path value) = [] \<longleftrightarrow> vaultPathOK value"
proof (cases "value = ''''")
  case True
  then show ?thesis by (simp add: validateVaultPath_def optErr_def vaultPathOK_def)
next
  case False
  have "trimChar (CHR ''/'') value = value \<and> \<not> containsSub value ''//''"
    if "[] \<notin> set (splitChar (CHR ''/'') value)"
    using split_nonempty_trim [OF that] split_nonempty_single [OF that] by simp
  with False show ?thesis
    unfolding validateVaultPath_def optErr_def vaultPathOK_def
    by (cases "[] \<in> set (splitChar (CHR ''/'') value)") (simp, fastforce, simp add: not_less, blast)
qed

definition vaultRefOK :: "VaultSecretReference \<Rightarrow> bool \<Rightarrow> bool" where
  "vaultRefOK ref requireKey \<longleftrightarrow> vaultPathOK (vsr_Mount ref) \<and> vaultPathOK (vsr_Path ref) \<and>
     (requireKey \<longrightarrow> vsr_Key ref \<noteq> '''') \<and> length (vsr_Key ref) \<le> 253 \<and>
     \<not> containsAny (vsr_Key ref) (CHR 0x00 # lineBreaks)"

lemma validateVaultSecretReference_iff:
  "validateVaultSecretReference path ref requireKey = [] \<longleftrightarrow> vaultRefOK ref requireKey"
  unfolding validateVaultSecretReference_def vaultRefOK_def append_is_Nil_conv validateVaultPath_iff
  by (cases "vsr_Key ref = ''''") (simp_all add: containsAny_def not_less)

definition identifierOK :: "string \<Rightarrow> bool" where
  "identifierOK value \<longleftrightarrow> value \<noteq> '''' \<and> length value \<le> 63 \<and>
     (case runes value of None \<Rightarrow> False | Some cs \<Rightarrow> \<forall>c \<in> set cs. \<not> isControl c)"

lemma validateSQLIdentifier_iff: "validateSQLIdentifier path value = [] \<longleftrightarrow> identifierOK value"
proof -
  have "c = 0 \<or> isControl c \<longleftrightarrow> isControl c" for c
    by (auto simp: isControl_def)
  then show ?thesis
    by (simp add: validateSQLIdentifier_def identifierOK_def split: option.splits)
qed

definition httpsURL :: "validation_api \<Rightarrow> (parsed_url \<Rightarrow> string) \<Rightarrow> string \<Rightarrow> bool" where
  "httpsURL V host address =
     (case urlParse V address of None \<Rightarrow> False | Some u \<Rightarrow> url_Scheme u = ''https'' \<and> host u \<noteq> '''')"

definition secretRefOK :: "SecretKeyReference option \<Rightarrow> bool" where
  "secretRefOK ref = (case ref of None \<Rightarrow> True | Some r \<Rightarrow> skr_Name r \<noteq> '''')"

definition vaultAuthOK :: "validation_api \<Rightarrow> VaultAuthSpec option \<Rightarrow> bool" where
  "vaultAuthOK V auth =
     (case auth of
        None \<Rightarrow> False
      | Some a \<Rightarrow> httpsURL V url_Host (va_Address a) \<and> va_AuthMount a \<noteq> '''' \<and> va_AuthRole a \<noteq> '''' \<and>
                  secretRefOK (va_CABundleSecretRef a))"

definition dataSiteOK :: "validation_api \<Rightarrow> PostgresSiteSpec \<Rightarrow> bool" where
  "dataSiteOK V site =
     (if ps_Role site = SiteRoleWitness
      then PostgresReplicas (ps_Components site) = 0 \<and> PgpoolReplicas (ps_Components site) = 0
      else PostgresReplicas (ps_Components site) \<noteq> 0 \<and> ss_Postgres (ps_Storage site) \<noteq> None \<and>
           ss_Etcd (ps_Storage site) \<noteq> None \<and> vaultAuthOK V (ps_VaultAuth site))"

lemma if_nil_iff [simp]:
  "((if b then [x] else []) = []) \<longleftrightarrow> \<not> b"
  by simp

lemma validateDataSite_iff: "validateDataSite V site path = [] \<longleftrightarrow> dataSiteOK V site"
  unfolding validateDataSite_def dataSiteOK_def vaultAuthOK_def httpsURL_def secretRefOK_def
  by (simp split: option.split)

lemma validateSites_iff:
  "validateSites V i names namespaces sites = [] \<longleftrightarrow>
     distinct (map ps_Name sites) \<and> set (map ps_Name sites) \<inter> set names = {} \<and>
     distinct (map namespaceKey sites) \<and> set (map namespaceKey sites) \<inter> set namespaces = {} \<and>
     (\<forall>site \<in> set sites. IsDNS1123Label V (ps_Namespace site) = [] \<and> dataSiteOK V site)"
proof (induction sites arbitrary: i names namespaces)
  case (Cons site sites)
  show ?case
    unfolding validateSites.simps Let_def append_is_Nil_conv if_nil_iff Cons.IH validateDataSite_iff map_is_Nil_conv
    by (simp only: list.map set_simps distinct.simps ball_simps) blast
qed simp

lemma sep_first_eq:
  assumes "a @ c # b = a' @ c # b'" "c \<notin> set a" "c \<notin> set a'"
  shows "a = a' \<and> b = b'"
  using assms by (induction a arbitrary: a') (case_tac [!] a', auto)

lemma sep_last_eq:
  assumes "a @ c # b = a' @ c # b'" "c \<notin> set b" "c \<notin> set b'"
  shows "a = a' \<and> b = b'"
proof -
  have "rev (a @ c # b) = rev (a' @ c # b')" using assms(1) by simp
  then show ?thesis using sep_first_eq [of "rev b" c "rev a" "rev b'" "rev a'"] assms(2,3) by simp
qed

text \<open>A namespace on a registration: the key of the duplicate check determines both, since
  a DNS label has no slash.\<close>

lemma namespaceKey_eq:
  assumes "CHR ''/'' \<notin> set (ps_Namespace a)" "CHR ''/'' \<notin> set (ps_Namespace b)"
  shows "namespaceKey a = namespaceKey b \<longleftrightarrow>
    ps_SiteRegistrationRef a = ps_SiteRegistrationRef b \<and> ps_Namespace a = ps_Namespace b"
proof
  assume "namespaceKey a = namespaceKey b"
  then have "ps_SiteRegistrationRef a @ CHR ''/'' # ps_Namespace a = ps_SiteRegistrationRef b @ CHR ''/'' # ps_Namespace b"
    by (simp add: namespaceKey_def)
  then show "ps_SiteRegistrationRef a = ps_SiteRegistrationRef b \<and> ps_Namespace a = ps_Namespace b"
    by (rule sep_last_eq [OF _ assms])
qed (simp add: namespaceKey_def)

lemma distinct_map_cong_on:
  assumes "\<And>a b. a \<in> set xs \<Longrightarrow> b \<in> set xs \<Longrightarrow> f a = f b \<longleftrightarrow> g a = g b"
  shows "distinct (map f xs) \<longleftrightarrow> distinct (map g xs)"
  using assms by (auto simp: distinct_map inj_on_def)

definition tdeOK :: "TDESpec \<Rightarrow> bool" where
  "tdeOK tde \<longleftrightarrow> tde_Enabled tde \<longrightarrow>
     (case tde_Vault tde of
        None \<Rightarrow> False
      | Some v \<Rightarrow> vaultPathOK (tv_KVMount v) \<and> vaultPathOK (tv_KeyPath v) \<and>
          (\<forall>name \<in> {tv_ProviderName v, tv_PrincipalKeyName v}.
             name \<noteq> '''' \<and> length name \<le> 63 \<and> \<not> containsAny name lineBreaks))"

lemma validateTDE_iff: "validateTDE tde = [] \<longleftrightarrow> tdeOK tde"
  unfolding validateTDE_def tdeOK_def Let_def
  by (simp add: validateVaultPath_iff not_less split: option.split)

definition repositoryOK :: "validation_api \<Rightarrow> BackupRepositorySpec \<Rightarrow> bool" where
  "repositoryOK V r \<longleftrightarrow>
     (\<forall>value \<in> {br_Bucket r, br_Prefix r, br_Region r}. \<not> containsAny value lineBreaks) \<and>
     (br_Endpoint r \<noteq> '''' \<longrightarrow> httpsURL V url_Hostname (br_Endpoint r)) \<and>
     secretRefOK (br_CABundleSecretRef r) \<and> vaultRefOK (br_CredentialVaultRef r) False"

lemma validateBackupRepository_iff: "validateBackupRepository V r path = [] \<longleftrightarrow> repositoryOK V r"
  unfolding validateBackupRepository_def repositoryOK_def httpsURL_def secretRefOK_def
  by (simp add: validateVaultSecretReference_iff split: option.split)

definition schedulesOK :: "validation_api \<Rightarrow> BackupSchedules \<Rightarrow> bool" where
  "schedulesOK V s \<longleftrightarrow> loadLocation V (scheduleTimezone s) \<and>
     (\<forall>e \<in> {bs_Full s, bs_Differential s, bs_Incremental s}.
        e \<noteq> '''' \<longrightarrow> cronParse V (''CRON_TZ='' @ scheduleTimezone s @ '' '' @ e))"

lemma validateBackupSchedules_iff: "validateBackupSchedules V s path = [] \<longleftrightarrow> schedulesOK V s"
  unfolding validateBackupSchedules_def schedulesOK_def Let_def by simp

definition backupOK :: "validation_api \<Rightarrow> BackupSpec option \<Rightarrow> bool" where
  "backupOK V backup =
     (case backup of
        None \<Rightarrow> True
      | Some b \<Rightarrow> (\<exists>c \<in> set (br_Prefix (bk_Repository b)). c \<noteq> CHR ''/'') \<and>
          repositoryOK V (bk_Repository b) \<and> schedulesOK V (bk_Schedules b))"

lemma dropWhile_same: "dropWhile (\<lambda>x. x = c) s = [] \<or> hd (dropWhile (\<lambda>x. x = c) s) \<noteq> c"
  by (induction s) auto

lemma trimChar_Nil_iff: "trimChar c s = [] \<longleftrightarrow> (\<forall>x \<in> set s. x = c)"
proof -
  let ?d = "dropWhile (\<lambda>x. x = c) s"
  have "trimChar c s = [] \<longleftrightarrow> (\<forall>x \<in> set ?d. x = c)"
    unfolding trimChar_def rev_is_Nil_conv dropWhile_eq_Nil_conv set_rev ..
  also have "\<dots> \<longleftrightarrow> ?d = []"
    using dropWhile_same [of c s] by (metis empty_iff hd_in_set list.set(1))
  also have "\<dots> \<longleftrightarrow> (\<forall>x \<in> set s. x = c)"
    by (rule dropWhile_eq_Nil_conv)
  finally show ?thesis .
qed

lemma validateBackup_iff: "validateBackup V path backup = [] \<longleftrightarrow> backupOK V backup"
  unfolding validateBackup_def backupOK_def
  by (simp add: validateBackupRepository_iff validateBackupSchedules_iff trimChar_Nil_iff split: option.split)

lemma total32_fold:
  "foldl (\<lambda>acc site. int32 (acc + count (ps_Components site))) (int32 z) sites =
   int32 (z + (\<Sum>site \<leftarrow> sites. count (ps_Components site)))"
  by (induction sites arbitrary: z) (simp_all add: int32_add add.assoc)

lemma total32_eq: "total32 count sites = int32 (\<Sum>site \<leftarrow> sites. count (ps_Components site))"
proof -
  have "int32 0 = 0" by (simp add: int32_def)
  then show ?thesis using total32_fold [of count 0 sites] by (simp add: total32_def)
qed

abbreviation etcdVoters :: "MultiSitePostgres \<Rightarrow> int" where
  "etcdVoters obj \<equiv> \<Sum>site \<leftarrow> is_Sites (i_Spec obj). EtcdReplicas (ps_Components site)"

abbreviation postgresTotal :: "MultiSitePostgres \<Rightarrow> int" where
  "postgresTotal obj \<equiv> \<Sum>site \<leftarrow> is_Sites (i_Spec obj). PostgresReplicas (ps_Components site)"

definition acceptableInstance :: "validation_api \<Rightarrow> MultiSitePostgres \<Rightarrow> bool" where
  "acceptableInstance V obj \<longleftrightarrow>
     pinned (pg_Image (is_Postgres (i_Spec obj))) \<and>
     distinct (map ps_Name (is_Sites (i_Spec obj))) \<and>
     distinct (map (\<lambda>site. (ps_SiteRegistrationRef site, ps_Namespace site)) (is_Sites (i_Spec obj))) \<and>
     (\<forall>site \<in> set (is_Sites (i_Spec obj)). IsDNS1123Label V (ps_Namespace site) = [] \<and> dataSiteOK V site) \<and>
     3 \<le> etcdVoters obj \<and> odd (etcdVoters obj) \<and>
     2 \<le> postgresTotal obj \<and> pg_SynchronousStandbyCount (is_Postgres (i_Spec obj)) < postgresTotal obj \<and>
     tdeOK (is_TDE (i_Spec obj)) \<and> vaultRefOK (PostgresVaultRef (is_Credentials (i_Spec obj))) False \<and>
     ((\<exists>site \<in> set (is_Sites (i_Spec obj)). PgpoolReplicas (ps_Components site) > 0) \<longrightarrow>
        vaultRefOK (PgpoolVaultRef (is_Credentials (i_Spec obj))) False) \<and>
     backupOK V (is_Backup (i_Spec obj))"

lemma distinct_namespaces:
  assumes "\<And>s. IsDNS1123Label V s = [] \<Longrightarrow> CHR ''/'' \<notin> set s"
    and "\<forall>site \<in> set sites. IsDNS1123Label V (ps_Namespace site) = []"
  shows "distinct (map namespaceKey sites) \<longleftrightarrow>
         distinct (map (\<lambda>site. (ps_SiteRegistrationRef site, ps_Namespace site)) sites)"
  by (rule distinct_map_cong_on) (use assms namespaceKey_eq in auto)

section \<open>Properties\<close>

text \<open>C26: The admission check of an instance is sound and complete: it reports no error
  exactly when the image is pinned by digest, no two sites share a name or a namespace
  on one registration, every site is a witness without PostgreSQL or a data site with
  storage and Vault access over HTTPS, the etcd voters are odd in number and at least
  three, there are at least two PostgreSQL members and fewer synchronous standbys than
  members, and every Vault reference, schedule and repository is well formed. It relies on a
  DNS label having no slash (the key of the namespace check joins two names with one),
  and on totals that fit 32 bits.\<close>

theorem instance_accepted_iff:
  assumes "\<And>s. IsDNS1123Label V s = [] \<Longrightarrow> CHR ''/'' \<notin> set s"
    and "\<bar>etcdVoters obj\<bar> \<le> 2147483647" "\<bar>postgresTotal obj\<bar> \<le> 2147483647"
  shows "validateInstance V obj = [] \<longleftrightarrow> acceptableInstance V obj"
proof -
  have totals: "total32 EtcdReplicas (is_Sites (i_Spec obj)) = etcdVoters obj"
    "total32 PostgresReplicas (is_Sites (i_Spec obj)) = postgresTotal obj"
    using assms(2,3) by (simp_all add: total32_eq int32_id abs_le_iff)
  have keys: "distinct (map namespaceKey (is_Sites (i_Spec obj))) \<longleftrightarrow>
      distinct (map (\<lambda>site. (ps_SiteRegistrationRef site, ps_Namespace site)) (is_Sites (i_Spec obj)))"
    if "\<forall>site \<in> set (is_Sites (i_Spec obj)). IsDNS1123Label V (ps_Namespace site) = []"
    by (rule distinct_namespaces [OF assms(1) that])
  have sites: "validateSites V 0 [] [] (is_Sites (i_Spec obj)) = [] \<longleftrightarrow>
      distinct (map ps_Name (is_Sites (i_Spec obj))) \<and>
      distinct (map (\<lambda>site. (ps_SiteRegistrationRef site, ps_Namespace site)) (is_Sites (i_Spec obj))) \<and>
      (\<forall>site \<in> set (is_Sites (i_Spec obj)). IsDNS1123Label V (ps_Namespace site) = [] \<and> dataSiteOK V site)"
    unfolding validateSites_iff using keys by auto
  have pgpool: "(if b then validateVaultSecretReference p ref False else []) = [] \<longleftrightarrow> (b \<longrightarrow> vaultRefOK ref False)"
    for b p ref by (simp add: validateVaultSecretReference_iff)
  show ?thesis
    unfolding validateInstance_def Let_def append_is_Nil_conv if_nil_iff totals sites validateTDE_iff
      validateBackup_iff pgpool validateVaultSecretReference_iff acceptableInstance_def
    by (simp only: not_not de_Morgan_disj not_less not_le conj_assoc)
qed

text \<open>Name checks that reject every character but letters, digits, \<open>-\<close> and \<open>.\<close>, and
  parsers that accept what the sample instance uses.\<close>

definition sampleValidation :: validation_api where
  "sampleValidation = \<lparr>
     IsDNS1123Label = (\<lambda>s. if s \<noteq> '''' \<and> CHR ''/'' \<notin> set s \<and> CHR 0x00 \<notin> set s then [] else [''label'']),
     IsDNS1123Subdomain = (\<lambda>s. if s \<noteq> '''' \<and> CHR ''/'' \<notin> set s \<and> CHR 0x00 \<notin> set s then [] else [''subdomain'']),
     urlParse = (\<lambda>s. if hasPrefix s ''https://'' then Some \<lparr>url_Scheme = ''https'', url_Host = drop 8 s,
                                                              url_Hostname = drop 8 s\<rparr> else None),
     loadLocation = (\<lambda>s. s = ''UTC''), cronParse = (\<lambda>s. True),
     restoreSpecEqual = (=), upgradeSpecEqual = (=)\<rparr>"

definition sampleSites :: "PostgresSiteSpec list" where
  "sampleSites = [sampleSite ''a'' 1 1 1, sampleSite ''b'' 1 1 0, sampleSite ''c'' 1 1 0]"

theorem instance_accepted_iff_witness:
  "validateInstance sampleValidation (sampleInstance sampleSites) = [] \<and>
   validateInstance sampleValidation (sampleInstance (tl sampleSites)) \<noteq> []"
proof -
  have label: "CHR ''/'' \<notin> set s" if "IsDNS1123Label sampleValidation s = []" for s
    using that by (simp add: sampleValidation_def split: if_splits)
  have totals: "\<bar>etcdVoters (sampleInstance sampleSites)\<bar> \<le> 2147483647"
    "\<bar>postgresTotal (sampleInstance sampleSites)\<bar> \<le> 2147483647"
    "\<bar>etcdVoters (sampleInstance (tl sampleSites))\<bar> \<le> 2147483647"
    "\<bar>postgresTotal (sampleInstance (tl sampleSites))\<bar> \<le> 2147483647"
    by (simp_all add: sample_defs sampleSites_def)
  have "acceptableInstance sampleValidation (sampleInstance sampleSites)" by code_simp
  moreover have "\<not> acceptableInstance sampleValidation (sampleInstance (tl sampleSites))" by code_simp
  ultimately show ?thesis
    using instance_accepted_iff [OF label totals(1,2)] instance_accepted_iff [OF label totals(3,4)] by simp
qed

definition acceptableUser :: "validation_api \<Rightarrow> PostgresUser \<Rightarrow> bool" where
  "acceptableUser V obj \<longleftrightarrow>
     us_InstanceRef (u_Spec obj) \<noteq> '''' \<and> identifierOK (us_RoleName (u_Spec obj)) \<and>
     \<not> protectedRole (us_RoleName (u_Spec obj)) \<and> vaultRefOK (us_PasswordVaultRef (u_Spec obj)) True \<and>
     (\<forall>m \<in> set (us_MemberOf (u_Spec obj)). IsDNS1123Subdomain V (rm_DatabaseRef m) = [] \<and> identifierOK (rm_Role m)) \<and>
     distinct (us_MemberOf (u_Spec obj))"

lemma validateMemberships_iff:
  "validateMemberships V i seen ms = [] \<longleftrightarrow>
     (\<forall>m \<in> set ms. IsDNS1123Subdomain V (rm_DatabaseRef m) = [] \<and> identifierOK (rm_Role m)) \<and>
     distinct (map membershipKey ms) \<and> set (map membershipKey ms) \<inter> set seen = {}"
proof (induction ms arbitrary: i seen)
  case (Cons m ms)
  show ?case
    unfolding validateMemberships.simps Let_def append_is_Nil_conv if_nil_iff Cons.IH validateSQLIdentifier_iff
    by (simp only: list.map set_simps distinct.simps ball_simps) blast
qed simp

lemma membershipKey_eq:
  assumes "CHR 0x00 \<notin> set (rm_DatabaseRef a)" "CHR 0x00 \<notin> set (rm_DatabaseRef b)"
  shows "membershipKey a = membershipKey b \<longleftrightarrow> a = b"
proof
  assume "membershipKey a = membershipKey b"
  then have "rm_DatabaseRef a @ CHR 0x00 # rm_Role a = rm_DatabaseRef b @ CHR 0x00 # rm_Role b"
    by (simp add: membershipKey_def)
  from sep_first_eq [OF this assms] show "a = b" by simp
qed simp

text \<open>The admission check of a database user is sound and complete: it reports no error
  exactly when the user names an instance, its role name is 1 to 63 bytes of well-formed
  UTF-8 without control characters and is none of the infrastructure roles, its password
  reference names a key, and its memberships name valid databases and roles, none of them
  twice. The duplicate check joins a database and a role with a NUL byte, so it relies on
  a DNS name having none.\<close>

theorem user_accepted_iff:
  assumes "\<And>s. IsDNS1123Subdomain V s = [] \<Longrightarrow> CHR 0x00 \<notin> set s"
  shows "validateUser V obj = [] \<longleftrightarrow> acceptableUser V obj"
proof -
  let ?ms = "us_MemberOf (u_Spec obj)"
  have keys: "distinct (map membershipKey ?ms) \<longleftrightarrow> distinct ?ms"
    if "\<forall>m \<in> set ?ms. IsDNS1123Subdomain V (rm_DatabaseRef m) = []"
  proof -
    have "distinct (map membershipKey ?ms) \<longleftrightarrow> distinct (map (\<lambda>m. m) ?ms)"
      by (rule distinct_map_cong_on) (use that assms membershipKey_eq in blast)
    then show ?thesis by simp
  qed
  have memberships: "validateMemberships V 0 [] ?ms = [] \<longleftrightarrow>
      (\<forall>m \<in> set ?ms. IsDNS1123Subdomain V (rm_DatabaseRef m) = [] \<and> identifierOK (rm_Role m)) \<and> distinct ?ms"
    unfolding validateMemberships_iff using keys by auto
  show ?thesis
    unfolding validateUser_def append_is_Nil_conv if_nil_iff memberships validateSQLIdentifier_iff
      validateVaultSecretReference_iff acceptableUser_def
    by (simp only: conj_assoc)
qed

definition roleUser :: "string \<Rightarrow> RoleMembership list \<Rightarrow> PostgresUser" where
  "roleUser role ms = \<lparr>u_Meta = sampleMeta ''app'',
     u_Spec = \<lparr>us_InstanceRef = ''db'', us_RoleName = role, us_DeletionPolicy = DeletionPolicyRetain, us_MemberOf = ms,
       us_PasswordVaultRef = \<lparr>vsr_Mount = ''kv'', vsr_Path = ''users/app'', vsr_Key = ''password''\<rparr>,
       us_Quotas = \<lparr>ConnectionLimit = None, StatementTimeout = None, LockTimeout = None,
         IdleInTransactionSessionTimeout = None, TempFileLimit = None\<rparr>\<rparr>,
     u_Status = \<lparr>ut_ObservedGeneration = 0, ut_Phase = '''', ut_CredentialVersion = 0, ut_Operation = None,
       ut_Conditions = []\<rparr>\<rparr>"

theorem user_accepted_iff_witness:
  "validateUser sampleValidation (roleUser ''app'' [\<lparr>rm_DatabaseRef = ''orders'', rm_Role = ''reader''\<rparr>]) = [] \<and>
   validateUser sampleValidation (roleUser ''mspsql_app'' []) \<noteq> []"
proof -
  have name: "CHR 0x00 \<notin> set s" if "IsDNS1123Subdomain sampleValidation s = []" for s
    using that by (simp add: sampleValidation_def split: if_splits)
  have "acceptableUser sampleValidation (roleUser ''app'' [\<lparr>rm_DatabaseRef = ''orders'', rm_Role = ''reader''\<rparr>])"
    by code_simp
  moreover have "\<not> acceptableUser sampleValidation (roleUser ''mspsql_app'' [])" by code_simp
  ultimately show ?thesis by (simp only: user_accepted_iff [OF name] simp_thms)
qed

text \<open>What a chain of accepted updates of a registration keeps, from the contract of a
  monotone system: the view is the bound cluster and whether the site is revoked.\<close>

definition registrationView :: "SiteRegistration \<Rightarrow> (string \<times> bool) option" where
  "registrationView r = Some (rg_ClusterUID (r_Status r), rs_Revoked (r_Spec r))"

definition bindingLe :: "string \<times> bool \<Rightarrow> string \<times> bool \<Rightarrow> bool" where
  "bindingLe v w \<longleftrightarrow> (fst v \<noteq> '''' \<longrightarrow> fst w = fst v) \<and> (snd v \<longrightarrow> snd w)"

abbreviation acceptedUpdate :: "SiteRegistration \<Rightarrow> SiteRegistration \<Rightarrow> bool" where
  "acceptedUpdate r r' \<equiv> validateRegistrationUpdate r r' = None"

interpretation ru: monotone_system acceptedUpdate "\<lambda>r. True" registrationView bindingLe
proof
  fix u v w :: "string \<times> bool"
  show "bindingLe v v" by (simp add: bindingLe_def)
  show "bindingLe u w" if "bindingLe u v" "bindingLe v w"
    using that by (auto simp: bindingLe_def)
next
  fix s s' :: SiteRegistration and v
  show True ..
  assume "acceptedUpdate s s'" "registrationView s = Some v"
  then show "\<exists>w. registrationView s' = Some w \<and> bindingLe v w"
    by (auto simp: validateRegistrationUpdate_def registrationView_def bindingLe_def split: if_splits)
qed

text \<open>Over any number of updates that the admission check accepts, a registration that
  is bound to a cluster stays bound to that cluster, and one that is revoked stays
  revoked.\<close>

theorem registration_updates_keep_binding:
  assumes "acceptedUpdate\<^sup>*\<^sup>* r r'"
  shows "(rg_ClusterUID (r_Status r) \<noteq> '''' \<longrightarrow> rg_ClusterUID (r_Status r') = rg_ClusterUID (r_Status r)) \<and>
    (rs_Revoked (r_Spec r) \<longrightarrow> rs_Revoked (r_Spec r'))"
  using ru.reach_le [OF assms, of "(rg_ClusterUID (r_Status r), rs_Revoked (r_Spec r))"]
  by (auto simp: registrationView_def bindingLe_def)

definition boundRegistration :: "string \<Rightarrow> bool \<Rightarrow> SiteRegistration" where
  "boundRegistration uid revoked = \<lparr>r_Meta = sampleMeta ''a'',
     r_Spec = \<lparr>rs_DisplayName = '''', rs_Revoked = revoked,
       rs_PermittedStorageClasses = \<lparr>scp_Etcd = [], scp_Postgres = [''fast''], scp_RestoreWorkspace = []\<rparr>,
       rs_StorageRollbackPolicies = [\<lparr>srp_StorageClassName = ''fast'', srp_Strategy = ''PVCClone'',
         srp_VolumeSnapshotClassName = ''''\<rparr>],
       rs_PermittedIssuers = \<lparr>ip_Etcd = [], ip_Postgres = [], ip_Pgpool = [], ip_Backup = []\<rparr>,
       rs_MetallbAddressPools = []\<rparr>,
     r_Status = \<lparr>rg_ObservedGeneration = 0, rg_ClusterUID = uid, rg_Phase = '''', rg_RegistrationURL = '''',
       rg_RegistrationExpiresAt = None, rg_LastHeartbeatTime = None, rg_AgentCertificateExpiresAt = None,
       rg_AgentVersion = '''', rg_DiscoveredStorageClasses = [], rg_DiscoveredVolumeSnapshotClasses = [],
       rg_DiscoveredIssuers = [], rg_Capabilities = [], rg_Conditions = []\<rparr>\<rparr>"

theorem registration_updates_keep_binding_witness:
  "acceptedUpdate\<^sup>*\<^sup>* (boundRegistration ''u'' False) (boundRegistration ''u'' True) \<and>
   \<not> acceptedUpdate\<^sup>*\<^sup>* (boundRegistration ''u'' True) (boundRegistration ''u'' False)"
proof
  have "acceptedUpdate (boundRegistration ''u'' False) (boundRegistration ''u'' True)" by code_simp
  then show "acceptedUpdate\<^sup>*\<^sup>* (boundRegistration ''u'' False) (boundRegistration ''u'' True)" by blast
  show "\<not> acceptedUpdate\<^sup>*\<^sup>* (boundRegistration ''u'' True) (boundRegistration ''u'' False)"
    using registration_updates_keep_binding [of "boundRegistration ''u'' True" "boundRegistration ''u'' False"]
    by (auto simp: boundRegistration_def)
qed

section \<open>Defaults\<close>

text \<open>The defaults never change the verdict on an instance, and they are applied once.\<close>

lemma defaultIssuer_idem [simp]: "defaultIssuer (defaultIssuer ref) = defaultIssuer ref"
  by (simp add: defaultIssuer_def)

lemma defaultIssuer_name [simp]: "ir_Name (defaultIssuer ref) = ir_Name ref"
  by (simp add: defaultIssuer_def)

lemma defaultCertificates_idem [simp]: "defaultCertificates (defaultCertificates c) = defaultCertificates c"
  by (cases "ir_Name (PostgresIssuerRef c) = ''''") (simp_all add: defaultCertificates_def Let_def)

lemma defaultBackup_idem [simp]: "defaultBackup (defaultBackup b) = defaultBackup b"
  by (simp add: defaultBackup_def hour_def minute_def second_def)

lemma defaultInstance_idem: "defaultInstance (defaultInstance obj) = defaultInstance obj"
  by (simp add: defaultInstance_def defaultPolicy_def option.map_comp comp_def)

lemma validateSites_default:
  "validateSites V i names namespaces (map (\<lambda>site. site\<lparr>ps_Certificates := f site\<rparr>) sites) =
   validateSites V i names namespaces sites"
  by (induction sites arbitrary: i names namespaces) (simp_all add: validateDataSite_def namespaceKey_def Let_def)

lemma total32_default: "total32 count (map (\<lambda>site. site\<lparr>ps_Certificates := f site\<rparr>) sites) = total32 count sites"
  by (simp add: total32_eq comp_def)

lemma validateBackup_default: "validateBackup V path (map_option defaultBackup b) = validateBackup V path b"
  by (cases b) (simp_all add: validateBackup_def defaultBackup_def validateBackupRepository_def
    containsAny_def lineBreaks_def)

lemma defaultInstance_verdict: "validateInstance V (defaultInstance obj) = validateInstance V obj"
  unfolding validateInstance_def Let_def
  by (simp add: defaultInstance_def validateSites_default total32_default validateBackup_default)

end
