(* ===== verification/Policy.thy ===== *)
theory Policy
  imports Members
begin

text \<open>
  What an instance may use: the policy of a site registration
  (\<open>internal/controller/policy.go\<close>), the claims on backup repositories and encryption
  keys that no two instances may share, and the capabilities a plan asks of the agents
  (both in \<open>internal/controller/multisitepostgres_controller.go\<close>).
\<close>

section \<open>Site policy\<close>

definition discoveredStorageClass :: "StorageClassInventory list \<Rightarrow> StorageRequest option \<Rightarrow> bool" where
  "discoveredStorageClass inventory requested =
     (case requested of
        None \<Rightarrow> True
      | Some request \<Rightarrow> \<exists>item \<in> set inventory. sci_Name item = sr_StorageClassName request)"

definition issuerAllowed :: "IssuerReference list \<Rightarrow> IssuerReference \<Rightarrow> bool" where
  "issuerAllowed allowed requested =
     (\<exists>item \<in> set allowed. ir_Name item = ir_Name requested \<and> ir_Kind item = ir_Kind requested \<and>
        ir_Group item = ir_Group requested)"

definition permittedClass :: "string list \<Rightarrow> StorageRequest option \<Rightarrow> bool" where
  "permittedClass classes requested =
     (case requested of None \<Rightarrow> True | Some request \<Rightarrow> sr_StorageClassName request \<in> set classes)"

definition backupIssuers :: "IssuerPolicy \<Rightarrow> IssuerReference list" where
  "backupIssuers permitted = (if ip_Backup permitted = [] then ip_Postgres permitted else ip_Backup permitted)"

text \<open>The error of the first check that fails.\<close>

definition validateSitePolicy :: "PostgresSiteSpec \<Rightarrow> SiteRegistration \<Rightarrow> string option" where
  "validateSitePolicy site registration =
     (let spec = r_Spec registration; classes = rs_PermittedStorageClasses spec;
          issuers = rs_PermittedIssuers spec; certificates = ps_Certificates site;
          storage = ps_Storage site; inventory = rg_DiscoveredStorageClasses (r_Status registration);
          className = (\<lambda>request. case request of None \<Rightarrow> '''' | Some r \<Rightarrow> sr_StorageClassName r) in
      if rs_Revoked spec then Some (''site registration '' @ fmt_q (om_Name (r_Meta registration)) @ '' is revoked'')
      else if \<not> permittedClass (scp_Etcd classes) (ss_Etcd storage)
      then Some (''etcd StorageClass '' @ fmt_q (className (ss_Etcd storage)) @ '' is not permitted'')
      else if \<not> permittedClass (scp_Postgres classes) (ss_Postgres storage)
      then Some (''PostgreSQL StorageClass '' @ fmt_q (className (ss_Postgres storage)) @ '' is not permitted'')
      else if (case ps_LoadBalancer site of None \<Rightarrow> False
               | Some lb \<Rightarrow> lb_AddressPool lb \<notin> set (rs_MetallbAddressPools spec))
      then Some (''MetalLB address pool '' @
             fmt_q (case ps_LoadBalancer site of None \<Rightarrow> '''' | Some lb \<Rightarrow> lb_AddressPool lb) @ '' is not permitted'')
      else if \<not> issuerAllowed (ip_Etcd issuers) (EtcdIssuerRef certificates)
      then Some (''etcd issuer '' @ fmt_q (ir_Name (EtcdIssuerRef certificates)) @ '' is not permitted'')
      else if ir_Name (EtcdPeerIssuerRef certificates) \<noteq> '''' \<and>
              \<not> issuerAllowed (ip_Etcd issuers) (EtcdPeerIssuerRef certificates)
      then Some (''etcd peer issuer '' @ fmt_q (ir_Name (EtcdPeerIssuerRef certificates)) @ '' is not permitted'')
      else if ir_Name (EtcdClientIssuerRef certificates) \<noteq> '''' \<and>
              \<not> issuerAllowed (ip_Etcd issuers) (EtcdClientIssuerRef certificates)
      then Some (''etcd client issuer '' @ fmt_q (ir_Name (EtcdClientIssuerRef certificates)) @ '' is not permitted'')
      else if ps_Role site = SiteRoleData \<and> \<not> issuerAllowed (ip_Postgres issuers) (PostgresIssuerRef certificates)
      then Some (''PostgreSQL issuer '' @ fmt_q (ir_Name (PostgresIssuerRef certificates)) @ '' is not permitted'')
      else if ps_Role site = SiteRoleData \<and> \<not> issuerAllowed (ip_Pgpool issuers) (PgpoolIssuerRef certificates)
      then Some (''pgpool issuer '' @ fmt_q (ir_Name (PgpoolIssuerRef certificates)) @ '' is not permitted'')
      else if ps_Role site = SiteRoleData \<and> ir_Name (BackupIssuerRef certificates) \<noteq> '''' \<and>
              \<not> issuerAllowed (backupIssuers issuers) (BackupIssuerRef certificates)
      then Some (''backup issuer '' @ fmt_q (ir_Name (BackupIssuerRef certificates)) @ '' is not permitted'')
      else if \<not> discoveredStorageClass inventory (ss_Etcd storage) \<or>
              \<not> discoveredStorageClass inventory (ss_Postgres storage)
      then Some ''requested StorageClass is not present in the site inventory''
      else None)"

section \<open>Claims\<close>

definition backupClaimsConflict :: "BackupSpec option \<Rightarrow> BackupSpec option \<Rightarrow> bool" where
  "backupClaimsConflict left right =
     (case (left, right) of
        (Some l, Some r) \<Rightarrow>
          (let a = bk_Repository l; b = bk_Repository r in
           br_Type a = br_Type b \<and> br_Bucket a = br_Bucket b \<and>
             trimChar (CHR ''/'') (br_Prefix a) = trimChar (CHR ''/'') (br_Prefix b) \<or>
           vsr_Mount (br_CredentialVaultRef a) = vsr_Mount (br_CredentialVaultRef b) \<and>
             vsr_Path (br_CredentialVaultRef a) = vsr_Path (br_CredentialVaultRef b))
      | _ \<Rightarrow> False)"

definition tdeClaimsConflict :: "TDESpec \<Rightarrow> TDESpec \<Rightarrow> bool" where
  "tdeClaimsConflict left right =
     (tde_Enabled left \<and> tde_Enabled right \<and>
      (case (tde_Vault left, tde_Vault right) of
         (Some l, Some r) \<Rightarrow> tv_KVMount l = tv_KVMount r \<and> tv_KeyPath l = tv_KeyPath r \<and>
           tv_ProviderName l = tv_ProviderName r \<and> tv_PrincipalKeyName l = tv_PrincipalKeyName r
       | _ \<Rightarrow> False))"

fun claimConflict :: "MultiSitePostgres \<Rightarrow> MultiSitePostgres list \<Rightarrow> string option" where
  "claimConflict inst [] = None"
| "claimConflict inst (other # others) =
     (if om_UID (i_Meta other) = om_UID (i_Meta inst) \<or> om_DeletionTimestamp (i_Meta other) \<noteq> None
      then claimConflict inst others
      else if backupClaimsConflict (is_Backup (i_Spec inst)) (is_Backup (i_Spec other))
      then Some (''backup repository claim conflicts with '' @ om_Namespace (i_Meta other) @ ''/'' @ om_Name (i_Meta other))
      else if tdeClaimsConflict (is_TDE (i_Spec inst)) (is_TDE (i_Spec other)) \<and>
              annotation inst restoreSourceUIDAnnotation \<noteq> om_UID (i_Meta other)
      then Some (''TDE key identity conflicts with '' @ om_Namespace (i_Meta other) @ ''/'' @ om_Name (i_Meta other))
      else claimConflict inst others)"

section \<open>Capabilities\<close>

definition capabilityMajorUpgradeSyncBeforeWrites :: string where
  "capabilityMajorUpgradeSyncBeforeWrites = ''major-upgrade-sync-before-writes''"

definition requiredPlanCapabilities :: "MajorUpgradePlan option \<Rightarrow> string list" where
  "requiredPlanCapabilities majorUpgradePlan =
     (if majorUpgradePlan = None then [] else [capabilityMajorUpgradeSyncBeforeWrites])"

definition missingPlanCapabilities ::
  "MultiSitePostgres \<Rightarrow> (string, SiteRegistration) gomap \<Rightarrow> MajorUpgradePlan option \<Rightarrow> string list" where
  "missingPlanCapabilities inst registrations majorUpgradePlan =
     sort (concat (map (\<lambda>site.
       map (\<lambda>capability. ps_Name site @ ''/'' @ ps_SiteRegistrationRef site @ '':'' @ capability)
         (filter (\<lambda>capability. case map_of registrations (ps_Name site) of
             None \<Rightarrow> True
           | Some registration \<Rightarrow> capability \<notin> set (rg_Capabilities (r_Status registration)))
           (requiredPlanCapabilities majorUpgradePlan)))
       (is_Sites (i_Spec inst))))"

section \<open>Lemmas\<close>

text \<open>The claims of two live instances: apart unless one is a restore of the other.\<close>

lemma claimConflict_none_iff:
  "claimConflict inst others = None \<longleftrightarrow>
     (\<forall>other \<in> set others. om_UID (i_Meta other) \<noteq> om_UID (i_Meta inst) \<and> om_DeletionTimestamp (i_Meta other) = None \<longrightarrow>
        \<not> backupClaimsConflict (is_Backup (i_Spec inst)) (is_Backup (i_Spec other)) \<and>
        (tdeClaimsConflict (is_TDE (i_Spec inst)) (is_TDE (i_Spec other)) \<longrightarrow>
           annotation inst restoreSourceUIDAnnotation = om_UID (i_Meta other)))"
  by (induction others) auto

lemma backupClaimsConflict_sym: "backupClaimsConflict a b = backupClaimsConflict b a"
  by (auto simp: backupClaimsConflict_def Let_def split: option.splits)

lemma tdeClaimsConflict_sym: "tdeClaimsConflict a b = tdeClaimsConflict b a"
  by (auto simp: tdeClaimsConflict_def split: option.splits)

text \<open>What an accepted site uses is permitted and was discovered, and its registration is
  not revoked.\<close>

lemma validateSitePolicy_none:
  assumes "validateSitePolicy site registration = None"
  shows "\<not> rs_Revoked (r_Spec registration)"
    and "permittedClass (scp_Etcd (rs_PermittedStorageClasses (r_Spec registration))) (ss_Etcd (ps_Storage site))"
    and "permittedClass (scp_Postgres (rs_PermittedStorageClasses (r_Spec registration))) (ss_Postgres (ps_Storage site))"
    and "discoveredStorageClass (rg_DiscoveredStorageClasses (r_Status registration)) (ss_Etcd (ps_Storage site))"
    and "discoveredStorageClass (rg_DiscoveredStorageClasses (r_Status registration)) (ss_Postgres (ps_Storage site))"
  using assms unfolding validateSitePolicy_def Let_def by (simp_all split: if_split_asm)

lemma missingPlanCapabilities_none:
  assumes "missingPlanCapabilities inst registrations (Some p) = []" "site \<in> set (is_Sites (i_Spec inst))"
  shows "\<exists>registration. map_of registrations (ps_Name site) = Some registration \<and>
           capabilityMajorUpgradeSyncBeforeWrites \<in> set (rg_Capabilities (r_Status registration))"
proof -
  have "set (missingPlanCapabilities inst registrations (Some p)) = {}" using assms(1) by simp
  then show ?thesis using assms(2)
    by (auto simp: missingPlanCapabilities_def requiredPlanCapabilities_def filter_empty_conv split: option.splits if_splits)
qed

end
