(* ===== verification/Backups.thy ===== *)
theory Backups
  imports Topology
begin

text \<open>
  Scheduled backups, \<open>internal/controller/backups.go\<close>: which schedules an instance
  has, when each is next due, the directive of a due backup, and when the controller
  looks again. The time zone database and the cron parser are the parameter
  \<open>schedule_api\<close>; a parsed schedule is the function that gives the next time after
  another. The loop that catches up with missed runs need not end for every such
  function, so it is a partial function: \<open>None\<close> is a reconciliation that does not
  return.
\<close>

section \<open>Schedules\<close>

record schedule_api =
  sa_LoadLocation :: "string \<Rightarrow> string option"
  sa_ParseStandard :: "string \<Rightarrow> string + (time \<Rightarrow> time)"

definition defaultWeeklyBackupSchedule :: string where
  "defaultWeeklyBackupSchedule = ''30 6 * * 0''"

record backupSchedule =
  backupType :: string
  expression :: string

definition configuredBackupSchedules :: "BackupSpec \<Rightarrow> string \<Rightarrow> backupSchedule list" where
  "configuredBackupSchedules backup defaultSchedule =
     (let configured = (\<lambda>kind e. if e \<noteq> '''' then [\<lparr>backupType = kind, expression = e\<rparr>] else []);
          schedules = configured ''full'' (bs_Full (bk_Schedules backup)) @
            configured ''diff'' (bs_Differential (bk_Schedules backup)) @
            configured ''incr'' (bs_Incremental (bk_Schedules backup)) in
      if schedules = []
      then [\<lparr>backupType = ''full'',
              expression = (if defaultSchedule = '''' then defaultWeeklyBackupSchedule else defaultSchedule)\<rparr>]
      else schedules)"

definition parseBackupSchedule :: "schedule_api \<Rightarrow> string \<Rightarrow> string \<Rightarrow> string + (time \<Rightarrow> time)" where
  "parseBackupSchedule S expr timezone =
     (let timezone' = (if timezone = '''' then ''UTC'' else timezone) in
      case sa_LoadLocation S timezone' of
        Some e \<Rightarrow> Inl (''load backup timezone '' @ fmt_q timezone' @ '': '' @ e)
      | None \<Rightarrow>
          (case sa_ParseStandard S (''CRON_TZ='' @ timezone' @ '' '' @ expr) of
             Inl e \<Rightarrow> Inl (''parse backup schedule '' @ fmt_q expr @ '': '' @ e)
           | Inr nextTime \<Rightarrow> Inr nextTime))"

definition zeroScheduleStatus :: BackupScheduleStatus where
  "zeroScheduleStatus = \<lparr>bss_Type = '''', bss_LastScheduledAt = None, bss_NextScheduledAt = None,
     bss_Operation = None\<rparr>"

fun previousBackupScheduleStatus :: "BackupScheduleStatus list \<Rightarrow> string \<Rightarrow> BackupScheduleStatus" where
  "previousBackupScheduleStatus [] kind = zeroScheduleStatus"
| "previousBackupScheduleStatus (status # statuses) kind =
     (if bss_Type status = kind then status else previousBackupScheduleStatus statuses kind)"

definition minimumPositiveDuration :: "duration \<Rightarrow> duration \<Rightarrow> duration" where
  "minimumPositiveDuration current candidate =
     (let candidate' = (if candidate < second then second else candidate) in
      if current = 0 \<or> candidate' < current then candidate' else current)"

section \<open>Directives\<close>

definition unix :: "time \<Rightarrow> int" where
  "unix t = t div second"

definition scheduledBackupOperationUID :: "MultiSitePostgres \<Rightarrow> string \<Rightarrow> time \<Rightarrow> string" where
  "scheduledBackupOperationUID inst kind scheduledAt =
     om_UID (i_Meta inst) @ ''-backup-'' @ kind @ ''-'' @ fmt_d (unix scheduledAt)"

definition scheduledBackupOperation :: "MultiSitePostgres \<Rightarrow> string \<Rightarrow> time \<Rightarrow> OperationProgressStatus" where
  "scheduledBackupOperation inst kind scheduledAt =
     newOperation\<lparr>op_OperationUID := scheduledBackupOperationUID inst kind scheduledAt,
       op_Phase := ''ScheduledBackup'', op_Attempt := 1\<rparr>"

definition backupDirectiveName :: "string \<Rightarrow> time \<Rightarrow> string" where
  "backupDirectiveName kind scheduledAt = ''mspsql-backup-'' @ kind @ ''-'' @ fmt_d (unix scheduledAt)"

definition backupDirective :: "MultiSitePostgres \<Rightarrow> string \<Rightarrow> time \<Rightarrow> string \<Rightarrow> hub_call" where
  "backupDirective inst kind scheduledAt spec =
     CreateConfigMap (backupDirectiveName kind scheduledAt)
       \<lparr>cm_Labels = [(''multisite-postgres.dev/directive'', ''Backup''),
          (''multisite-postgres.dev/instance-ref'', om_Name (i_Meta inst)),
          (''multisite-postgres.dev/instance-uid'', om_UID (i_Meta inst))],
        cm_Data = [(''type'', ''Backup''), (''instanceRef'', om_Name (i_Meta inst)), (''deleting'', ''false''),
          (''operationUID'', scheduledBackupOperationUID inst kind scheduledAt), (''spec.json'', spec)]\<rparr>
       \<lparr>ow_Kind = ''MultiSitePostgres'', ow_Name = om_Name (i_Meta inst), ow_UID = om_UID (i_Meta inst)\<rparr>"

definition reconcileBackupDirective ::
  "hub_env \<Rightarrow> MultiSitePostgres \<Rightarrow> string \<Rightarrow> time \<Rightarrow> unit reconciliation" where
  "reconcileBackupDirective E inst kind scheduledAt =
     (case he_BackupSpec E kind scheduledAt of
        Inl e \<Rightarrow> failWith e
      | Inr spec \<Rightarrow>
          (case rd_configMap (he_Reads E) (backupDirectiveName kind scheduledAt) of
             NotFound \<Rightarrow> perform E (backupDirective inst kind scheduledAt spec) (finish ())
           | ReadError e \<Rightarrow> failWith e
           | Found _ \<Rightarrow> finish ()))"

section \<open>Catching up\<close>

text \<open>The loop over missed runs: the last one that is due, and the first that is not.\<close>

partial_function (option) catchUp :: "(time \<Rightarrow> time) \<Rightarrow> time \<Rightarrow> time \<Rightarrow> time \<Rightarrow> (time \<times> time) option" where
  "catchUp nextTime now due following =
     (if following > now then Some (due, following) else catchUp nextTime now following (nextTime following))"

text \<open>A handler that returns, followed by one that may not.\<close>

definition thenMaybe :: "('c, 'a) outcome \<Rightarrow> ('c, 'r) outcome option \<Rightarrow> ('c, 'r) outcome option" where
  "thenMaybe m k =
     (case snd m of
        Inl e \<Rightarrow> Some (fst m, Inl e)
      | Inr _ \<Rightarrow> map_option (\<lambda>k. (fst m @ fst k, snd k)) k)"

fun scheduleLoop ::
  "hub_env \<Rightarrow> schedule_api \<Rightarrow> MultiSitePostgres \<Rightarrow> string \<Rightarrow> time \<Rightarrow> bool \<Rightarrow> backupSchedule list
     \<Rightarrow> BackupScheduleStatus list \<Rightarrow> duration \<Rightarrow> (BackupScheduleStatus list \<times> duration) reconciliation option" where
  "scheduleLoop E S inst timezone now canRun [] statuses nextReconcile = Some (finish (statuses, nextReconcile))"
| "scheduleLoop E S inst timezone now canRun (configured # rest) statuses nextReconcile =
     (case parseBackupSchedule S (expression configured) timezone of
        Inl e \<Rightarrow> Some (failWith e)
      | Inr nextTime \<Rightarrow>
          (let kind = backupType configured;
               status = (previousBackupScheduleStatus (it_BackupSchedules (i_Status inst)) kind)\<lparr>bss_Type := kind\<rparr>;
               go = (\<lambda>status' wait. scheduleLoop E S inst timezone now canRun rest (statuses @ [status'])
                       (minimumPositiveDuration nextReconcile wait)) in
           case bss_NextScheduledAt status of
             None \<Rightarrow> go (status\<lparr>bss_NextScheduledAt := Some (nextTime now)\<rparr>) (nextTime now - now)
           | Some at \<Rightarrow>
               if at > now then go status (at - now)
               else if \<not> canRun then go status (30 * second)
               else
                 (case catchUp nextTime now at (nextTime at) of
                    None \<Rightarrow> None
                  | Some (due, following) \<Rightarrow>
                      thenMaybe (reconcileBackupDirective E inst kind due)
                        (go (status\<lparr>bss_LastScheduledAt := Some due, bss_NextScheduledAt := Some following,
                              bss_Operation := Some (scheduledBackupOperation inst kind due)\<rparr>)
                           (following - now)))))"

definition reconcileBackupSchedules ::
  "hub_env \<Rightarrow> schedule_api \<Rightarrow> string \<Rightarrow> MultiSitePostgres \<Rightarrow> time \<Rightarrow> bool
     \<Rightarrow> (MultiSitePostgres \<times> duration) reconciliation option" where
  "reconcileBackupSchedules E S defaultSchedule inst now canRun =
     (case is_Backup (i_Spec inst) of
        None \<Rightarrow> Some (finish (updStatus (\<lambda>st. st\<lparr>it_BackupSchedules := []\<rparr>) inst, 0))
      | Some backup \<Rightarrow>
          map_option (\<lambda>m. andThen m (\<lambda>(statuses, wait).
              finish (updStatus (\<lambda>st. st\<lparr>it_BackupSchedules := statuses\<rparr>) inst, wait)))
            (scheduleLoop E S inst (bs_Timezone (bk_Schedules backup)) now canRun
               (configuredBackupSchedules backup defaultSchedule) [] 0))"

section \<open>Lemmas\<close>

text \<open>With a schedule that moves forward the loop ends, at the last run that is due.\<close>

lemma catchUp_ends:
  assumes "\<And>t. t < nextTime t" "due \<le> now" "following = nextTime due"
  shows "\<exists>d f. catchUp nextTime now due following = Some (d, f) \<and> due \<le> d \<and> d \<le> now \<and> now < f \<and> f = nextTime d"
  using assms(2,3)
proof (induction "nat (now + 1 - following)" arbitrary: due following rule: less_induct)
  case less
  show ?case
  proof (cases "following > now")
    case True
    then show ?thesis using less.prems by (subst catchUp.simps) simp
  next
    case False
    have "nat (now + 1 - nextTime following) < nat (now + 1 - following)"
      using assms(1) [of following] False by simp
    from less.hyps [OF this _ refl] False obtain d f where df: "catchUp nextTime now following (nextTime following) = Some (d, f)"
      "following \<le> d" "d \<le> now" "now < f" "f = nextTime d" by auto
    moreover have "due < following" using assms(1) [of due] less.prems by simp
    ultimately show ?thesis using False by (subst catchUp.simps) simp
  qed
qed

text \<open>With one that stays at an instant in the past, such as the zero time of a schedule
  without any run, it does not.\<close>

lemma catchUp_fixpoint:
  assumes "catchUp nextTime now due following = Some y"
  shows "nextTime following = following \<longrightarrow> now < following"
proof (rule catchUp.raw_induct [OF _ assms, where P = "\<lambda>nt n d f y. nt f = f \<longrightarrow> n < f"])
  fix self :: "(time \<Rightarrow> time) \<Rightarrow> time \<Rightarrow> time \<Rightarrow> time \<Rightarrow> (time \<times> time) option"
    and nt :: "time \<Rightarrow> time" and n d f :: time and y
  assume IH: "\<And>nt n d f y. self nt n d f = Some y \<Longrightarrow> nt f = f \<longrightarrow> n < f"
    and eq: "(if n < f then Some (d, f) else self nt n f (nt f)) = Some y"
  show "nt f = f \<longrightarrow> n < f"
  proof (cases "n < f")
    case False
    with eq have "self nt n f (nt f) = Some y" by (simp only: if_False)
    from IH [OF this] show ?thesis by metis
  qed simp
qed

lemma catchUp_stuck:
  assumes "nextTime z = z" "z \<le> now"
  shows "catchUp nextTime now due z = None"
proof (rule ccontr)
  assume "catchUp nextTime now due z \<noteq> None"
  then obtain y where "catchUp nextTime now due z = Some y" by blast
  from catchUp_fixpoint [OF this] assms show False by linarith
qed

lemma minimumPositiveDuration_bounds:
  assumes "current = 0 \<or> second \<le> current"
  shows "second \<le> minimumPositiveDuration current candidate"
    and "minimumPositiveDuration current candidate \<le> max second candidate"
    and "current \<noteq> 0 \<Longrightarrow> minimumPositiveDuration current candidate \<le> current"
  using assms by (auto simp: minimumPositiveDuration_def Let_def second_def)

text \<open>What the cron library documents of a schedule: the next time is later.\<close>

definition advances :: "schedule_api \<Rightarrow> bool" where
  "advances S \<longleftrightarrow> (\<forall>s f t. sa_ParseStandard S s = Inr f \<longrightarrow> t < f t)"

lemma trace_reconcileBackupDirective:
  "c \<in> set (trace (reconcileBackupDirective E inst kind due)) \<Longrightarrow> \<exists>spec. c = backupDirective inst kind due spec"
  by (auto simp: reconcileBackupDirective_def finish_def failWith_def dest!: in_trace_call split: read.splits sum.splits)

definition dueDirective :: "MultiSitePostgres \<Rightarrow> time \<Rightarrow> hub_call \<Rightarrow> bool" where
  "dueDirective inst now c \<longleftrightarrow> (\<exists>kind due spec. c = backupDirective inst kind due spec \<and> due \<le> now)"

definition upcoming :: "time \<Rightarrow> duration \<Rightarrow> BackupScheduleStatus \<Rightarrow> bool" where
  "upcoming now wait status \<longleftrightarrow>
     (\<exists>at. bss_NextScheduledAt status = Some at \<and> now < at \<and> wait \<le> max second (at - now))"

lemma upcoming_mono: "upcoming now wait status \<Longrightarrow> wait' \<le> wait \<Longrightarrow> upcoming now wait' status"
  by (auto simp: upcoming_def)

definition loopInv :: "time \<Rightarrow> bool \<Rightarrow> BackupScheduleStatus list \<Rightarrow> duration \<Rightarrow> bool" where
  "loopInv now canRun statuses wait \<longleftrightarrow>
     (if statuses = [] then wait = 0 else second \<le> wait) \<and>
     (canRun \<longrightarrow> (\<forall>status \<in> set statuses. upcoming now wait status))"

lemma loopInv_step:
  assumes "loopInv now canRun statuses wait"
    and "canRun \<Longrightarrow> bss_NextScheduledAt status = Some at \<and> now < at \<and> w = at - now"
  shows "loopInv now canRun (statuses @ [status]) (minimumPositiveDuration wait w)"
proof -
  let ?m = "minimumPositiveDuration wait w"
  have wait: "wait = 0 \<or> second \<le> wait" using assms(1) by (auto simp: loopInv_def split: if_splits)
  note b = minimumPositiveDuration_bounds [OF wait, of w]
  have "upcoming now ?m status" if canRun
    using assms(2) [OF that] b(2) by (auto simp: upcoming_def)
  moreover have "upcoming now ?m s" if canRun "s \<in> set statuses" for s
  proof -
    have "wait \<noteq> 0" using assms(1) that(2) by (auto simp: loopInv_def second_def split: if_splits)
    then show ?thesis using assms(1) that b(3) upcoming_mono by (auto simp: loopInv_def)
  qed
  ultimately show ?thesis using b(1) by (auto simp: loopInv_def)
qed

lemma scheduleLoop_ends:
  assumes "advances S"
    and "loopInv now canRun statuses wait"
  shows "\<exists>m. scheduleLoop E S inst tz now canRun schedules statuses wait = Some m \<and>
    (\<forall>c \<in> set (trace m). canRun \<and> dueDirective inst now c) \<and>
    (\<forall>statuses' wait'. snd m = Inr (statuses', wait') \<longrightarrow>
       length statuses' = length statuses + length schedules \<and> loopInv now canRun statuses' wait')"
  using assms(2)
proof (induction schedules arbitrary: statuses wait)
  case (Cons configured rest)
  let ?kind = "backupType configured"
  let ?status = "(previousBackupScheduleStatus (it_BackupSchedules (i_Status inst)) ?kind)\<lparr>bss_Type := ?kind\<rparr>"
  let ?go = "\<lambda>status' w. scheduleLoop E S inst tz now canRun rest (statuses @ [status']) (minimumPositiveDuration wait w)"
  have go: "\<exists>m. ?go status' w = Some m \<and> (\<forall>c \<in> set (trace m). canRun \<and> dueDirective inst now c) \<and>
      (\<forall>statuses' wait'. snd m = Inr (statuses', wait') \<longrightarrow>
         length statuses' = length statuses + Suc (length rest) \<and> loopInv now canRun statuses' wait')"
    if "canRun \<Longrightarrow> bss_NextScheduledAt status' = Some at \<and> now < at \<and> w = at - now" for status' w at
    using Cons.IH [OF loopInv_step [OF Cons.prems that]] by fastforce
  show ?case
  proof (cases "parseBackupSchedule S (expression configured) tz")
    case (Inl e)
    then show ?thesis by (simp add: failWith_def)
  next
    case (Inr nextTime)
    have forward: "t < nextTime t" for t
      using Inr assms(1) by (auto simp: advances_def parseBackupSchedule_def Let_def split: option.splits sum.splits)
    consider (new) "bss_NextScheduledAt ?status = None"
      | (later) at where "bss_NextScheduledAt ?status = Some at" "now < at"
      | (waiting) at where "bss_NextScheduledAt ?status = Some at" "at \<le> now" "\<not> canRun"
      | (due) at where "bss_NextScheduledAt ?status = Some at" "at \<le> now" canRun
      by (cases "bss_NextScheduledAt ?status") force+
    then show ?thesis
    proof cases
      case new
      then show ?thesis
        using go [of "?status\<lparr>bss_NextScheduledAt := Some (nextTime now)\<rparr>" "nextTime now" "nextTime now - now"] forward
        by (simp add: Inr Let_def)
    next
      case later
      then show ?thesis using go [of ?status at "at - now"] by (simp add: Inr Let_def)
    next
      case waiting
      then show ?thesis using go [of ?status 0 "30 * second"] by (simp add: Inr Let_def)
    next
      case due
      from catchUp_ends [OF forward due(2) refl] obtain d f where df:
        "catchUp nextTime now at (nextTime at) = Some (d, f)" "d \<le> now" "now < f" by blast
      let ?next = "?status\<lparr>bss_LastScheduledAt := Some d, bss_NextScheduledAt := Some f,
        bss_Operation := Some (scheduledBackupOperation inst ?kind d)\<rparr>"
      let ?dir = "reconcileBackupDirective E inst ?kind d"
      have dir: "canRun \<and> dueDirective inst now c" if "c \<in> set (trace ?dir)" for c
        using trace_reconcileBackupDirective [OF that] df(2) due(3) by (auto simp: dueDirective_def)
      from go [of ?next f "f - now"] df(3) obtain m where m: "?go ?next (f - now) = Some m"
        "\<forall>c \<in> set (trace m). canRun \<and> dueDirective inst now c"
        "\<forall>statuses' wait'. snd m = Inr (statuses', wait') \<longrightarrow>
           length statuses' = length statuses + Suc (length rest) \<and> loopInv now canRun statuses' wait'"
        by auto
      have "scheduleLoop E S inst tz now canRun (configured # rest) statuses wait = thenMaybe ?dir (Some m)"
        using due df(1) m(1) by (simp add: Inr Let_def)
      then show ?thesis using m(2,3) dir by (auto simp: thenMaybe_def split: sum.splits)
    qed
  qed
qed (simp add: finish_def)

section \<open>Properties\<close>

text \<open>C29: If every schedule's next time is later than the time it is asked about, a
  reconciliation of the backup schedules returns. Each write it makes is the directive of a
  backup that is due, and it makes one only while backups may run. When it succeeds with
  backups allowed, every schedule has a next time in the future, so a missed run is
  never left due, and the controller looks again within that time (one second at least).\<close>

theorem scheduled_backups_catch_up:
  assumes "advances S"
  shows "\<exists>m. reconcileBackupSchedules E S defaultSchedule inst now canRun = Some m \<and>
    (\<forall>c \<in> set (trace m). canRun \<and> dueDirective inst now c) \<and>
    (\<forall>inst' wait. snd m = Inr (inst', wait) \<and> is_Backup (i_Spec inst) \<noteq> None \<and> canRun \<longrightarrow>
       second \<le> wait \<and> it_BackupSchedules (i_Status inst') \<noteq> [] \<and>
       (\<forall>status \<in> set (it_BackupSchedules (i_Status inst')). upcoming now wait status))"
proof (cases "is_Backup (i_Spec inst)")
  case None
  then show ?thesis by (simp add: reconcileBackupSchedules_def finish_def)
next
  case (Some backup)
  let ?schedules = "configuredBackupSchedules backup defaultSchedule"
  have "loopInv now canRun [] 0" by (simp add: loopInv_def)
  from scheduleLoop_ends [OF assms this, of E inst "bs_Timezone (bk_Schedules backup)" ?schedules] obtain m where m:
    "scheduleLoop E S inst (bs_Timezone (bk_Schedules backup)) now canRun ?schedules [] 0 = Some m"
    "\<forall>c \<in> set (trace m). canRun \<and> dueDirective inst now c"
    "\<forall>statuses' wait'. snd m = Inr (statuses', wait') \<longrightarrow>
       length statuses' = length ?schedules \<and> loopInv now canRun statuses' wait'"
    by auto
  have "?schedules \<noteq> []" by (simp add: configuredBackupSchedules_def Let_def)
  then show ?thesis
    using m Some by (auto simp: reconcileBackupSchedules_def andThen_def finish_def loopInv_def split: sum.splits if_splits)
qed

definition hourly :: schedule_api where
  "hourly = \<lparr>sa_LoadLocation = (\<lambda>tz. None), sa_ParseStandard = (\<lambda>s. Inr (\<lambda>t. (t div hour + 1) * hour))\<rparr>"

text \<open>An instance with a full backup every hour, the last planned for \<open>at\<close>.\<close>

definition backedUp :: "string \<Rightarrow> time \<Rightarrow> MultiSitePostgres" where
  "backedUp name at = (sampleInstance [])\<lparr>i_Meta := (sampleMeta name)\<lparr>om_UID := name\<rparr>,
     i_Spec := (sampleSpec [])\<lparr>is_Backup := Some sampleBackup\<rparr>,
     i_Status := sampleStatus\<lparr>it_BackupSchedules := [\<lparr>bss_Type = ''full'', bss_LastScheduledAt = None,
       bss_NextScheduledAt = Some at, bss_Operation = None\<rparr>]\<rparr>\<rparr>"

lemma hourly_advances: "advances hourly"
proof -
  have "t < (t div hour + 1) * hour" for t
    using div_mult_mod_eq [of t hour] pos_mod_bound [of hour t] by (simp add: duration_defs distrib_right)
  then show ?thesis by (simp add: advances_def hourly_def)
qed

theorem scheduled_backups_catch_up_witness:
  "\<exists>m. reconcileBackupSchedules sampleEnv hourly '''' (backedUp ''db'' 0) (3 * hour + 1) True = Some m \<and>
     (\<forall>c \<in> set (trace m). True \<and> dueDirective (backedUp ''db'' 0) (3 * hour + 1) c)"
  using scheduled_backups_catch_up [OF hourly_advances, of sampleEnv "''''" "backedUp ''db'' 0" "3 * hour + 1" True]
  by blast

text \<open>The name of a scheduled backup's directive has the kind and the time of the
  backup but not the instance. When another instance of the namespace has already
  published its directive for that time, the reconciliation publishes none, and yet
  records the run as scheduled, with its operation.\<close>

theorem scheduled_backup_lost:
  assumes "rd_configMap (he_Reads E) (backupDirectiveName kind due) = Found other"
    and "he_BackupSpec E kind due = Inr spec"
    and "bss_NextScheduledAt (previousBackupScheduleStatus (it_BackupSchedules (i_Status inst)) kind) = Some due"
    and "due \<le> now" "now < f due" "is_Backup (i_Spec inst) = Some backup"
    and "configuredBackupSchedules backup defaultSchedule = [\<lparr>backupType = kind, expression = expr\<rparr>]"
    and "parseBackupSchedule S expr (bs_Timezone (bk_Schedules backup)) = Inr f"
  shows "\<exists>inst' wait status. reconcileBackupSchedules E S defaultSchedule inst now True = Some ([], Inr (inst', wait)) \<and>
    it_BackupSchedules (i_Status inst') = [status] \<and> bss_LastScheduledAt status = Some due \<and>
    bss_Operation status = Some (scheduledBackupOperation inst kind due)"
proof -
  have "catchUp f now due (f due) = Some (due, f due)" using assms(5) by (subst catchUp.simps) simp
  moreover have "reconcileBackupDirective E inst kind due = finish ()"
    using assms(1,2) by (simp add: reconcileBackupDirective_def)
  ultimately show ?thesis
    using assms(3-8) by (simp add: reconcileBackupSchedules_def Let_def thenMaybe_def finish_def andThen_def)
qed

text \<open>Two instances of one namespace with the default schedule: the directive of the first
  hides the one of the second.\<close>

theorem scheduled_backup_lost_witness:
  "\<exists>inst' wait status. reconcileBackupSchedules (sampleEnv\<lparr>he_Reads := sampleReads\<lparr>rd_configMap :=
       (\<lambda>n. if n = backupDirectiveName ''full'' hour then Found \<lparr>cm_Labels = [], cm_Data = []\<rparr> else NotFound)\<rparr>\<rparr>)
     hourly '''' (backedUp ''second'' hour) (hour + 1) True = Some ([], Inr (inst', wait)) \<and>
   it_BackupSchedules (i_Status inst') = [status] \<and> bss_LastScheduledAt status = Some hour \<and>
   bss_Operation status = Some (scheduledBackupOperation (backedUp ''second'' hour) ''full'' hour)"
  by (rule scheduled_backup_lost [where backup = sampleBackup and expr = defaultWeeklyBackupSchedule
        and f = "\<lambda>t. (t div hour + 1) * hour" and spec = "''full''" and other = "\<lparr>cm_Labels = [], cm_Data = []\<rparr>"])
    (simp_all add: sampleEnv_def backedUp_def sample_defs configuredBackupSchedules_def parseBackupSchedule_def
      hourly_def duration_defs)

end
