(* ===== verification/Instance_Plans.thy ===== *)
theory Instance_Plans
  imports Policy Restore Backups Upgrade_Major
begin

text \<open>
  The parts of a site's plan and its publication, from
  \<open>internal/controller/plans.go\<close> and
  \<open>internal/controller/multisitepostgres_controller.go\<close>: the signing key, the
  restore and upgrade sections read from the instance's annotations, the fingerprint
  that decides when the revision advances, and the ConfigMap that carries the signed
  envelope. JSON, SHA-256 and the generation of a key are the fields of the parameter
  \<open>instance_env\<close>.
\<close>

section \<open>The signing key\<close>

datatype create_answer = Created | AlreadyExists | CreateError string

text \<open>One attempt reads the secret and, when there is none, creates it; losing that race
  starts another attempt. The list holds what the API server answers to each; \<open>None\<close> is
  running out of answers, while the attempts go on.\<close>

fun ensureSigningKey ::
  "crypto_api \<Rightarrow> string + bytes \<Rightarrow> (smap read \<times> create_answer) list \<Rightarrow> (string + bytes) option" where
  "ensureSigningKey C generated [] = None"
| "ensureSigningKey C generated ((secret, answer) # attempts) =
     (case secret of
        Found data \<Rightarrow>
          (case b64Decode C (mget data ''privateKey'') of
             Inl e \<Rightarrow> Some (Inl ''plan signing Secret contains an invalid private key'')
           | Inr privateKey \<Rightarrow>
               if length privateKey \<noteq> PrivateKeySize
               then Some (Inl ''plan signing Secret contains an invalid private key'')
               else Some (Inr privateKey))
      | ReadError e \<Rightarrow> Some (Inl e)
      | NotFound \<Rightarrow>
          (case generated of
             Inl e \<Rightarrow> Some (Inl e)
           | Inr privateKey \<Rightarrow>
               (case answer of
                  Created \<Rightarrow> Some (Inr privateKey)
                | AlreadyExists \<Rightarrow> ensureSigningKey C generated attempts
                | CreateError e \<Rightarrow> Some (Inl e))))"

section \<open>Parameters\<close>

record plan_identity =
  pi_Generation :: int
  pi_Addresses :: smap
  pi_AddressCandidates :: smap
  pi_AddressMigration :: "AddressMigrationPlan option"
  pi_CredentialRotation :: "CredentialRotationPlan option"
  pi_RestoreUID :: string
  pi_RestorePhase :: string
  pi_UpgradeUID :: string
  pi_UpgradePhase :: string
  pi_UpgradeMember :: string
  pi_UpgradedMembers :: string

record instance_env =
  ie_Crypto :: crypto_api
  ie_Json :: json_api
  ie_Envelope :: envelope_api
  ie_MarshalEnvelope :: "Envelope \<Rightarrow> string + string"
  ie_HashIdentity :: "plan_identity \<Rightarrow> string + string"
  ie_Hex16 :: "string \<Rightarrow> string"
  ie_GeneratedKey :: "string + bytes"
  ie_KeyAttempts :: "(smap read \<times> create_answer) list"
  ie_Schedule :: schedule_api
  ie_DefaultSchedule :: string
  ie_PlanMaps :: "string + string list"

abbreviation signingKey :: "instance_env \<Rightarrow> (string + bytes) option" where
  "signingKey I \<equiv> ensureSigningKey (ie_Crypto I) (ie_GeneratedKey I) (ie_KeyAttempts I)"

section \<open>The fingerprint\<close>

text \<open>The hexadecimal SHA-256 of the encoded identity is \<open>ie_HashIdentity\<close>.\<close>

definition planIdentity ::
  "MultiSitePostgres \<Rightarrow> smap \<Rightarrow> smap \<Rightarrow> AddressMigrationPlan option \<Rightarrow> CredentialRotationPlan option \<Rightarrow> plan_identity" where
  "planIdentity inst addresses candidates migration credentialRotation =
     \<lparr>pi_Generation = om_Generation (i_Meta inst), pi_Addresses = addresses, pi_AddressCandidates = candidates,
      pi_AddressMigration = migration, pi_CredentialRotation = credentialRotation,
      pi_RestoreUID = annotation inst restoreUIDAnnotation, pi_RestorePhase = annotation inst restorePhaseAnnotation,
      pi_UpgradeUID = annotation inst upgradeUIDAnnotation, pi_UpgradePhase = annotation inst upgradePhaseAnnotation,
      pi_UpgradeMember = annotation inst upgradeMemberAnnotation,
      pi_UpgradedMembers = annotation inst upgradeMembersAnnotation\<rparr>"

definition planFingerprint ::
  "instance_env \<Rightarrow> MultiSitePostgres \<Rightarrow> smap \<Rightarrow> smap \<Rightarrow> AddressMigrationPlan option
     \<Rightarrow> CredentialRotationPlan option \<Rightarrow> string + string" where
  "planFingerprint I inst addresses candidates migration credentialRotation =
     ie_HashIdentity I (planIdentity inst addresses candidates migration credentialRotation)"

section \<open>Restore and upgrade sections\<close>

definition restorePhases :: "RestorePhase list" where
  "restorePhases = [RestorePhaseSeed, RestorePhaseReplicas, RestorePhaseVerify]"

definition upgradePhases :: "UpgradePhase list" where
  "upgradePhases = [UpgradePhaseMember, UpgradePhaseSwitchover, UpgradePhaseFinalize]"

definition restorePlan :: "hub_env \<Rightarrow> MultiSitePostgres \<Rightarrow> string + RestorePlan option" where
  "restorePlan E inst =
     (let restoreName = annotation inst restoreNameAnnotation; phaseName = annotation inst restorePhaseAnnotation in
      if restoreName = '''' \<or> phaseName = ''Completed'' then Inr None
      else
        (case rd_restore (he_Reads E) restoreName of
           NotFound \<Rightarrow> Inl ''read owning restore: NotFound''
         | ReadError e \<Rightarrow> Inl (''read owning restore: '' @ e)
         | Found restore \<Rightarrow>
             (case rd_instance (he_Reads E) (es_SourceInstanceRef (e_Spec restore)) of
                NotFound \<Rightarrow> Inl ''read restore source: NotFound''
              | ReadError e \<Rightarrow> Inl (''read restore source: '' @ e)
              | Found source \<Rightarrow>
                  (case is_Backup (i_Spec source) of
                     None \<Rightarrow> Inl ''restore source has no backup repository''
                   | Some backup \<Rightarrow>
                       (case selectRestoreSeed (is_Sites (i_Spec inst)) of
                          Inl e \<Rightarrow> Inl e
                        | Inr (seedSite, seedMember) \<Rightarrow>
                            (case List.find (\<lambda>p. restorePhaseName p = phaseName) restorePhases of
                               None \<Rightarrow> Inl (''unsupported restore phase '' @ fmt_q phaseName)
                             | Some phase \<Rightarrow>
                                 Inr (Some \<lparr>rp_OperationUID = om_UID (e_Meta restore),
                                   rp_SourceInstanceUID = om_UID (i_Meta source), rp_SourceBackup = backup,
                                   rp_TargetTime = es_TargetTime (e_Spec restore),
                                   rp_BackupSet = es_BackupSet (e_Spec restore), rp_SeedSite = seedSite,
                                   rp_SeedMember = seedMember, rp_Phase = phase\<rparr>)))))))"

text \<open>The rollback policies of the data sites.\<close>

fun sitePolicies ::
  "hub_env \<Rightarrow> PostgresSiteSpec list \<Rightarrow> (string, StorageRollbackPolicy) gomap
     \<Rightarrow> string + (string, StorageRollbackPolicy) gomap" where
  "sitePolicies E [] policies = Inr policies"
| "sitePolicies E (site # sites) policies =
     (case ss_Postgres (ps_Storage site) of
        None \<Rightarrow> sitePolicies E sites policies
      | Some request \<Rightarrow>
          if ps_Role site \<noteq> SiteRoleData then sitePolicies E sites policies
          else
            (case rd_registration (he_Reads E) (ps_SiteRegistrationRef site) of
               NotFound \<Rightarrow> Inl (''read site '' @ ps_Name site @ '' registration: NotFound'')
             | ReadError e \<Rightarrow> Inl (''read site '' @ ps_Name site @ '' registration: '' @ e)
             | Found registration \<Rightarrow>
                 (case rollbackPolicy (rs_StorageRollbackPolicies (r_Spec registration)) (sr_StorageClassName request) of
                    None \<Rightarrow> Inl (''site '' @ ps_Name site @ '' rollback policy is unavailable'')
                  | Some policy \<Rightarrow> sitePolicies E sites (AList.update (ps_Name site) policy policies))))"

definition upgradePlans ::
  "hub_env \<Rightarrow> MultiSitePostgres \<Rightarrow> string + (UpgradePlan option \<times> MajorUpgradePlan option)" where
  "upgradePlans E inst =
     (let upgradeName = annotation inst upgradeNameAnnotation; phaseValue = annotation inst upgradePhaseAnnotation in
      if upgradeName = '''' then Inr (None, None)
      else
        (case rd_upgrade (he_Reads E) upgradeName of
           NotFound \<Rightarrow> Inl ''read owning upgrade: NotFound''
         | ReadError e \<Rightarrow> Inl (''read owning upgrade: '' @ e)
         | Found upgrade \<Rightarrow>
             if hasPrefix phaseValue ''Major''
             then
               (case majorPhaseOf phaseValue of
                  None \<Rightarrow> Inl (''unsupported major-upgrade phase '' @ fmt_q phaseValue)
                | Some phase \<Rightarrow>
                    (case sitePolicies E (is_Sites (i_Spec inst)) [] of
                       Inl e \<Rightarrow> Inl e
                     | Inr policies \<Rightarrow>
                         (case parseInt 32 (annotation inst upgradeSourceMajorAnnotation) of
                            None \<Rightarrow> Inl ''major upgrade source version is invalid''
                          | Some sourceMajor \<Rightarrow>
                              Inr (None, Some \<lparr>mu_OperationUID = om_UID (g_Meta upgrade), mu_Phase = phase,
                                mu_Primary = annotation inst upgradeFromAnnotation, mu_SourceMajor = int32 sourceMajor,
                                mu_TargetMajor = gs_TargetMajorVersion (g_Spec upgrade),
                                mu_TargetImage = gs_TargetImage (g_Spec upgrade),
                                mu_UpgradeImage = gs_UpgradeImage (g_Spec upgrade),
                                mu_RollbackRetention = gs_RollbackRetention (g_Spec upgrade),
                                mu_RollbackPolicies = policies\<rparr>))))
             else
               (case List.find (\<lambda>p. upgradePhaseName p = phaseValue) upgradePhases of
                  None \<Rightarrow> Inl (''unsupported minor-upgrade phase '' @ fmt_q phaseValue)
                | Some phase \<Rightarrow>
                    Inr (Some \<lparr>up_OperationUID = om_UID (g_Meta upgrade), up_TargetImage = gs_TargetImage (g_Spec upgrade),
                      up_TargetMember = annotation inst upgradeMemberAnnotation,
                      up_UpgradedMembers = splitMembers (annotation inst upgradeMembersAnnotation),
                      up_FromPrimary = annotation inst upgradeFromAnnotation,
                      up_Candidate = annotation inst upgradeCandidateAnnotation, up_Phase = phase\<rparr>, None))))"

section \<open>Publication\<close>

definition envelopeData :: "instance_env \<Rightarrow> Envelope \<Rightarrow> string + smap" where
  "envelopeData I envelope =
     (case ie_MarshalEnvelope I envelope of Inl e \<Rightarrow> Inl e | Inr encoded \<Rightarrow> Inr [(''envelope.json'', encoded)])"

definition planEnvelopeEqual :: "instance_env \<Rightarrow> string \<Rightarrow> Envelope \<Rightarrow> bool" where
  "planEnvelopeEqual I currentJSON desired =
     (case UnmarshalEnvelope (ie_Envelope I) currentJSON of
        Inl e \<Rightarrow> False
      | Inr current \<Rightarrow>
          (case (UnmarshalPlan (ie_Json I) (env_Plan current), UnmarshalPlan (ie_Json I) (env_Plan desired)) of
             (Inr currentPlan, Inr desiredPlan) \<Rightarrow>
               (case (Canonical (ie_Json I) (JPlan (currentPlan\<lparr>p_GeneratedAt := zeroTime\<rparr>)),
                      Canonical (ie_Json I) (JPlan (desiredPlan\<lparr>p_GeneratedAt := zeroTime\<rparr>))) of
                  (Inr a, Inr b) \<Rightarrow> a = b
                | _ \<Rightarrow> False)
           | _ \<Rightarrow> False))"

definition planName :: "MultiSitePostgres \<Rightarrow> string \<Rightarrow> string" where
  "planName inst siteName = ''mspsql-plan-'' @ om_Name (i_Meta inst) @ ''-'' @ siteName"

definition planConfigMap :: "MultiSitePostgres \<Rightarrow> string \<Rightarrow> string \<Rightarrow> smap \<Rightarrow> ConfigMap" where
  "planConfigMap inst siteName siteUID data =
     \<lparr>cm_Labels = [(''multisite-postgres.dev/instance-uid'', om_UID (i_Meta inst)),
        (''multisite-postgres.dev/site-name'', siteName),
        (''multisite-postgres.dev/site-registration-uid'', siteUID)],
      cm_Data = data\<rparr>"

definition instanceOwner :: "MultiSitePostgres \<Rightarrow> owner_ref" where
  "instanceOwner inst = \<lparr>ow_Kind = ''MultiSitePostgres'', ow_Name = om_Name (i_Meta inst), ow_UID = om_UID (i_Meta inst)\<rparr>"

definition reconcilePlan ::
  "hub_env \<Rightarrow> instance_env \<Rightarrow> MultiSitePostgres \<Rightarrow> string \<Rightarrow> string \<Rightarrow> Envelope \<Rightarrow> unit reconciliation" where
  "reconcilePlan E I inst siteName siteUID envelope =
     (let name = planName inst siteName; deleting = (om_DeletionTimestamp (i_Meta inst) \<noteq> None) in
      case envelopeData I envelope of
        Inl e \<Rightarrow> failWith e
      | Inr data \<Rightarrow>
          (case rd_configMap (he_Reads E) name of
             NotFound \<Rightarrow>
               (let configMap = planConfigMap inst siteName siteUID data in
                perform E (if deleting then CreateOrphanConfigMap name configMap
                           else CreateConfigMap name configMap (instanceOwner inst)) (finish ()))
           | ReadError e \<Rightarrow> failWith e
           | Found configMap \<Rightarrow>
               if planEnvelopeEqual I (mget (cm_Data configMap) ''envelope.json'') envelope then finish ()
               else
                 (let updated = configMap\<lparr>cm_Data := data\<rparr> in
                  perform E (if deleting then OrphanConfigMap name updated else UpdateConfigMap name updated)
                    (finish ()))))"

end
