(* ===== verification/Instance_Controller.thy ===== *)
theory Instance_Controller
  imports Instance_Plans Credential_Rotation Site_Registration
begin

text \<open>
  The controller of a \<open>MultiSitePostgres\<close>, the reconciler of
  \<open>internal/controller/multisitepostgres_controller.go\<close>: it checks the sites and the
  claims of an instance, works out the plan of every site, publishes the signed plans,
  aggregates what the sites report and schedules the backups; and it takes a deleted
  instance down. A reconciliation that does not return (see \<open>Backups\<close>) is \<open>None\<close>.
\<close>

section \<open>Conditions and phases\<close>

abbreviation condition_of :: "hub_env \<Rightarrow> string \<Rightarrow> ConditionStatus \<Rightarrow> string \<Rightarrow> string \<Rightarrow> MultiSitePostgres
    \<Rightarrow> MultiSitePostgres" where
  "condition_of E t status reason message inst \<equiv> setInstanceCond (he_K E) t status reason message inst"

abbreviation instanceCondTrue :: "hub_env \<Rightarrow> MultiSitePostgres \<Rightarrow> string \<Rightarrow> bool" where
  "instanceCondTrue E inst t \<equiv> conditionTrue (he_K E) (it_Conditions (i_Status inst)) t"

definition setPhase :: "string \<Rightarrow> MultiSitePostgres \<Rightarrow> MultiSitePostgres" where
  "setPhase phase inst = updStatus (\<lambda>st. st\<lparr>it_Phase := phase\<rparr>) inst"

text \<open>Write the status and stop.\<close>

definition statusAndStop :: "hub_env \<Rightarrow> string \<Rightarrow> MultiSitePostgres \<Rightarrow> Result reconciliation" where
  "statusAndStop E name inst =
     andThen (updateInstanceStatus E (rd_instance (he_Reads E) name) inst) (\<lambda>_. finish emptyResult)"

definition notReady :: "hub_env \<Rightarrow> string \<Rightarrow> string \<Rightarrow> string \<Rightarrow> string \<Rightarrow> MultiSitePostgres \<Rightarrow> Result reconciliation" where
  "notReady E name phase reason message inst =
     statusAndStop E name (setPhase phase (condition_of E ''Ready'' ConditionFalse reason message inst))"

section \<open>Declarations and upgrades\<close>

definition declarationPending :: "hub_env \<Rightarrow> ObjectMeta \<Rightarrow> int \<Rightarrow> condition list \<Rightarrow> bool" where
  "declarationPending E meta observed conditions =
     (observed \<noteq> om_Generation meta \<or> \<not> conditionTrue (he_K E) conditions ''Ready'')"

definition activeUpgrade :: "MultiSitePostgres \<Rightarrow> PostgresUpgrade \<Rightarrow> bool" where
  "activeUpgrade inst upgrade =
     (gs_InstanceRef (g_Spec upgrade) = om_Name (i_Meta inst) \<and> om_DeletionTimestamp (g_Meta upgrade) = None \<and>
      \<not> upgradeTerminal upgrade)"

definition activeRestore :: "MultiSitePostgres \<Rightarrow> PostgresRestore \<Rightarrow> bool" where
  "activeRestore inst restore =
     (es_TargetInstanceRef (e_Spec restore) = om_Name (i_Meta inst) \<and> om_DeletionTimestamp (e_Meta restore) = None \<and>
      \<not> restoreTerminal restore)"

definition setDeclarations :: "hub_env \<Rightarrow> nat \<Rightarrow> nat \<Rightarrow> MultiSitePostgres \<Rightarrow> MultiSitePostgres" where
  "setDeclarations E declarations pending inst =
     (if pending > 0
      then condition_of E ''DatabasesReconciled'' ConditionFalse ''DeclarationsPending''
             (''Waiting for '' @ fmt_d (int pending) @ '' of '' @ fmt_d (int declarations) @
              '' database or user declarations'') inst
      else condition_of E ''DatabasesReconciled'' ConditionTrue ''AllDeclarationsReady''
             (''All '' @ fmt_d (int declarations) @ '' database and user declarations are reconciled'') inst)"

definition aggregateDeclarationAndUpgradeStatus ::
  "hub_env \<Rightarrow> MultiSitePostgres \<Rightarrow> string + MultiSitePostgres" where
  "aggregateDeclarationAndUpgradeStatus E inst =
     (case rd_databases (he_Reads E) of
        Inl e \<Rightarrow> Inl e
      | Inr databases \<Rightarrow>
          (case rd_users (he_Reads E) of
             Inl e \<Rightarrow> Inl e
           | Inr users \<Rightarrow>
               (let dbs = filter (\<lambda>db. ds_InstanceRef (d_Spec db) = om_Name (i_Meta inst) \<and>
                                        om_DeletionTimestamp (d_Meta db) = None) databases;
                    us = filter (\<lambda>u. us_InstanceRef (u_Spec u) = om_Name (i_Meta inst) \<and>
                                      om_DeletionTimestamp (u_Meta u) = None) users;
                    pending = length (filter (\<lambda>db. declarationPending E (d_Meta db)
                                  (dt_ObservedGeneration (d_Status db)) (dt_Conditions (d_Status db))) dbs) +
                              length (filter (\<lambda>u. declarationPending E (u_Meta u)
                                  (ut_ObservedGeneration (u_Status u)) (ut_Conditions (u_Status u))) us);
                    inst1 = setDeclarations E (length dbs + length us) pending inst in
                case rd_upgrades (he_Reads E) of
                  Inl e \<Rightarrow> Inl e
                | Inr upgrades \<Rightarrow>
                    (case List.find (activeUpgrade inst) upgrades of
                       Some upgrade \<Rightarrow>
                         Inr (condition_of E ''UpgradeInProgress'' ConditionTrue ''UpgradeActive''
                           (''Upgrade '' @ om_Name (g_Meta upgrade) @ '' is in phase '' @ gt_Phase (g_Status upgrade)) inst1)
                     | None \<Rightarrow>
                         Inr (condition_of E ''UpgradeInProgress'' ConditionFalse ''NoUpgradeActive'' fixedText inst1)))))"

definition lifecycleOperationActive :: "hub_env \<Rightarrow> MultiSitePostgres \<Rightarrow> string + bool" where
  "lifecycleOperationActive E inst =
     (case rd_upgrades (he_Reads E) of
        Inl e \<Rightarrow> Inl e
      | Inr upgrades \<Rightarrow>
          if \<exists>upgrade \<in> set upgrades. activeUpgrade inst upgrade then Inr True
          else
            (case rd_restores (he_Reads E) of
               Inl e \<Rightarrow> Inl e
             | Inr restores \<Rightarrow> Inr (\<exists>restore \<in> set restores. activeRestore inst restore)))"

section \<open>Sites\<close>

datatype site_scan =
    SiteMissing string
  | SiteRejected string
  | Scanned "(string, SiteRegistration) gomap" nat nat

fun scanSites ::
  "hub_env \<Rightarrow> PostgresSiteSpec list \<Rightarrow> (string, SiteRegistration) gomap \<Rightarrow> nat \<Rightarrow> nat \<Rightarrow> site_scan" where
  "scanSites E [] registrations disconnectedData disconnectedControl =
     Scanned registrations disconnectedData disconnectedControl"
| "scanSites E (site # sites) registrations disconnectedData disconnectedControl =
     (case rd_registration (he_Reads E) (ps_SiteRegistrationRef site) of
        NotFound \<Rightarrow> SiteMissing ''NotFound''
      | ReadError e \<Rightarrow> SiteMissing e
      | Found registration \<Rightarrow>
          (case validateSitePolicy site registration of
             Some e \<Rightarrow> SiteRejected (ps_Name site @ '': '' @ e)
           | None \<Rightarrow>
               (let lost = (rg_Phase (r_Status registration) \<noteq> ''Connected'');
                    isData = (ps_Role site = SiteRoleData) in
                scanSites E sites (AList.update (ps_Name site) registration registrations)
                  (if lost \<and> isData then Suc disconnectedData else disconnectedData)
                  (if lost \<and> \<not> isData then Suc disconnectedControl else disconnectedControl))))"

definition validateInstanceClaims :: "hub_env \<Rightarrow> MultiSitePostgres \<Rightarrow> string option" where
  "validateInstanceClaims E inst =
     (case rd_instances (he_Reads E) of Inl e \<Rightarrow> Some e | Inr instances \<Rightarrow> claimConflict inst instances)"

definition dataSitesApplied :: "MultiSitePostgres \<Rightarrow> bool" where
  "dataSitesApplied inst =
     (\<forall>site \<in> set (is_Sites (i_Spec inst)). ps_Role site = SiteRoleData \<longrightarrow>
        st_AppliedRevision (previousSiteStatus (it_Sites (i_Status inst)) (ps_Name site)) =
        it_ActiveRevision (i_Status inst))"

definition backupSchedulingReady ::
  "hub_env \<Rightarrow> MultiSitePostgres \<Rightarrow> RestorePlan option \<Rightarrow> UpgradePlan option \<Rightarrow> MajorUpgradePlan option \<Rightarrow> bool \<Rightarrow> bool" where
  "backupSchedulingReady E inst restoreP upgradeP majorP operationActive =
     (dataSitesApplied inst \<and> instanceCondTrue E inst ''TopologyReady'' \<and>
      (is_Backup (i_Spec inst) = None \<or> instanceCondTrue E inst ''BackupTLSReady'') \<and>
      restoreP = None \<and> upgradeP = None \<and> majorP = None \<and> \<not> operationActive)"

definition topologyChangingOperationPending ::
  "RestorePlan option \<Rightarrow> UpgradePlan option \<Rightarrow> MajorUpgradePlan option \<Rightarrow> bool" where
  "topologyChangingOperationPending restoreP upgradeP majorP = (restoreP \<noteq> None \<or> upgradeP \<noteq> None \<or> majorP \<noteq> None)"

definition tdeKeyCreatorName :: "bool \<Rightarrow> PostgresSiteSpec list \<Rightarrow> string" where
  "tdeKeyCreatorName enabled sites =
     (if \<not> enabled then ''''
      else (case List.find (\<lambda>site. ps_Role site = SiteRoleData) sites of None \<Rightarrow> '''' | Some site \<Rightarrow> ps_Name site))"

section \<open>Readiness\<close>

text \<open>The phases of a major upgrade in which writes are not yet back: all but the first
  and the last of a rollback.\<close>

definition writesUnavailable :: "MajorUpgradePhase \<Rightarrow> bool" where
  "writesUnavailable phase =
     (phase \<notin> {MajorUpgradePhasePreflight, MajorUpgradePhaseRollbackRestoreWrites})"

definition setAppliedInstanceReady ::
  "hub_env \<Rightarrow> MultiSitePostgres \<Rightarrow> RestorePlan option \<Rightarrow> MajorUpgradePlan option \<Rightarrow> MultiSitePostgres" where
  "setAppliedInstanceReady E inst restoreP majorP =
     (let blocked = (\<lambda>phase reason. condition_of E ''Ready'' ConditionFalse reason fixedText (setPhase phase inst)) in
      if (case restoreP of None \<Rightarrow> False | Some p \<Rightarrow> rp_Phase p \<noteq> RestorePhaseVerify)
      then blocked ''Restoring'' ''RestoreInProgress''
      else if (case majorP of None \<Rightarrow> False | Some p \<Rightarrow> writesUnavailable (mu_Phase p))
      then blocked ''Upgrading'' ''WriteServiceUnavailable''
      else if is_Backup (i_Spec inst) \<noteq> None \<and> \<not> instanceCondTrue E inst ''BackupTLSReady''
      then blocked ''Reconciling'' ''BackupTrustPending''
      else if \<not> instanceCondTrue E inst ''EtcdTLSReady'' then blocked ''Reconciling'' ''EtcdTrustPending''
      else if \<not> instanceCondTrue E inst ''TopologyReady'' then blocked ''Reconciling'' ''TopologyPending''
      else if pg_SynchronousStandbyCount (is_Postgres (i_Spec inst)) > 0 \<and>
              \<not> instanceCondTrue E inst ''SynchronousReplicationReady''
      then blocked ''Reconciling'' ''SynchronousReplicationPending''
      else condition_of E ''Ready'' ConditionTrue ''AllSitesReady'' fixedText (setPhase ''Ready'' inst))"

section \<open>Plans\<close>

text \<open>What the plans of all sites share.\<close>

record plan_parts =
  pp_Addresses :: smap
  pp_Candidates :: smap
  pp_Migration :: "AddressMigrationPlan option"
  pp_Rotation :: "CredentialRotationPlan option"
  pp_Restore :: "RestorePlan option"
  pp_Upgrade :: "UpgradePlan option"
  pp_Major :: "MajorUpgradePlan option"

definition emptyPlan :: "hub_env \<Rightarrow> MultiSitePostgres \<Rightarrow> SiteRegistration \<Rightarrow> PostgresSiteSpec \<Rightarrow> smap \<Rightarrow> SitePlan" where
  "emptyPlan E inst registration site addresses =
     \<lparr>p_ProtocolVersion = '''', p_SiteUID = om_UID (r_Meta registration), p_InstanceUID = om_UID (i_Meta inst),
      p_HubNamespace = om_Namespace (i_Meta inst), p_HubName = om_Name (i_Meta inst),
      p_Revision = it_ActiveRevision (i_Status inst), p_GeneratedAt = he_Now E, p_Site = site,
      p_Postgres = is_Postgres (i_Spec inst), p_TDE = is_TDE (i_Spec inst), p_TDEKeyCreator = False,
      p_Backup = is_Backup (i_Spec inst), p_Credentials = is_Credentials (i_Spec inst),
      p_MemberAddresses = addresses, p_AddressCandidates = [], p_AddressMigration = None,
      p_CredentialRotation = None, p_RequiredCapabilities = [], p_RuntimeCredentialVersion = 0,
      p_RuntimeCertificateHashes = [], p_Restore = None, p_Upgrade = None, p_MajorUpgrade = None, p_Deletion = None\<rparr>"

definition sitePlan ::
  "hub_env \<Rightarrow> MultiSitePostgres \<Rightarrow> SiteRegistration \<Rightarrow> PostgresSiteSpec \<Rightarrow> plan_parts \<Rightarrow> SitePlan" where
  "sitePlan E inst registration site parts =
     (emptyPlan E inst registration site (pp_Addresses parts))
       \<lparr>p_TDEKeyCreator := (ps_Name site = tdeKeyCreatorName (tde_Enabled (is_TDE (i_Spec inst))) (is_Sites (i_Spec inst))),
        p_AddressCandidates := pp_Candidates parts, p_AddressMigration := pp_Migration parts,
        p_CredentialRotation := pp_Rotation parts,
        p_RequiredCapabilities := requiredPlanCapabilities (pp_Major parts),
        p_Restore := pp_Restore parts, p_Upgrade := pp_Upgrade parts, p_MajorUpgrade := pp_Major parts\<rparr>"

definition deletionPlan :: "hub_env \<Rightarrow> MultiSitePostgres \<Rightarrow> SiteRegistration \<Rightarrow> PostgresSiteSpec \<Rightarrow> smap \<Rightarrow> SitePlan" where
  "deletionPlan E inst registration site addresses =
     (let policy = is_DeletionPolicy (i_Spec inst) in
      (emptyPlan E inst registration site addresses)
        \<lparr>p_Deletion := Some \<lparr>del_Policy = (if policy = DeletionPolicyUnset then DeletionPolicyRetain else policy)\<rparr>\<rparr>)"

definition signAndPublish ::
  "hub_env \<Rightarrow> instance_env \<Rightarrow> bytes \<Rightarrow> MultiSitePostgres \<Rightarrow> SiteRegistration \<Rightarrow> PostgresSiteSpec \<Rightarrow> SitePlan
     \<Rightarrow> unit reconciliation" where
  "signAndPublish E I key inst registration site desired =
     (case Sign (ie_Crypto I) (ie_Json I) key desired of
        Inl e \<Rightarrow> failWith e
      | Inr envelope \<Rightarrow> reconcilePlan E I inst (ps_Name site) (om_UID (r_Meta registration)) envelope)"

definition issuedStatus :: "MultiSitePostgres \<Rightarrow> PostgresSiteSpec \<Rightarrow> (string \<Rightarrow> string) \<Rightarrow> SiteRevisionStatus" where
  "issuedStatus inst site phase =
     (let status = previousSiteStatus (it_Sites (i_Status inst)) (ps_Name site) in
      status\<lparr>st_Name := ps_Name site, st_SiteRegistrationRef := ps_SiteRegistrationRef site,
        st_DesiredRevision := it_ActiveRevision (i_Status inst), st_Phase := phase (st_Phase status)\<rparr>)"

fun issuePlans ::
  "hub_env \<Rightarrow> instance_env \<Rightarrow> bytes \<Rightarrow> MultiSitePostgres \<Rightarrow> (string, SiteRegistration) gomap \<Rightarrow> plan_parts
     \<Rightarrow> PostgresSiteSpec list \<Rightarrow> SiteRevisionStatus list \<Rightarrow> SiteRevisionStatus list reconciliation" where
  "issuePlans E I key inst registrations parts [] statuses = finish statuses"
| "issuePlans E I key inst registrations parts (site # sites) statuses =
     (case map_of registrations (ps_Name site) of
        None \<Rightarrow> failWith ''nil pointer dereference''
      | Some registration \<Rightarrow>
          andThen (signAndPublish E I key inst registration site (sitePlan E inst registration site parts)) (\<lambda>_.
            issuePlans E I key inst registrations parts sites
              (statuses @ [issuedStatus inst site (\<lambda>phase. if phase = '''' then ''PlanIssued'' else phase)])))"

definition bumpRevision :: "MultiSitePostgres \<Rightarrow> MultiSitePostgres" where
  "bumpRevision inst =
     updStatus (\<lambda>st. st\<lparr>it_ActiveRevision :=
       (let next = it_ActiveRevision st + 1 in if next = 0 then 1 else next)\<rparr>) inst"

definition withFingerprint :: "string \<Rightarrow> MultiSitePostgres \<Rightarrow> MultiSitePostgres" where
  "withFingerprint fingerprint inst =
     (if it_PlanFingerprint (i_Status inst) \<noteq> fingerprint
      then updStatus (\<lambda>st. st\<lparr>it_PlanFingerprint := fingerprint\<rparr>) (bumpRevision inst)
      else inst)"

definition configMapData :: "hub_env \<Rightarrow> string \<Rightarrow> smap read" where
  "configMapData E name =
     (case rd_configMap (he_Reads E) name of
        Found cm \<Rightarrow> Found (cm_Data cm) | NotFound \<Rightarrow> NotFound | ReadError e \<Rightarrow> ReadError e)"

text \<open>After the plans: what the sites report, whether the instance is ready, and the
  backups.\<close>

definition judgeInstance ::
  "hub_env \<Rightarrow> MultiSitePostgres \<Rightarrow> plan_parts \<Rightarrow> SiteRevisionStatus list \<Rightarrow> MultiSitePostgres" where
  "judgeInstance E inst parts statuses =
     (let observed = aggregateTopology (he_K E) (updStatus (\<lambda>st. st\<lparr>it_Sites := statuses\<rparr>) inst) (he_Now E);
          issued = condition_of E ''Ready'' ConditionFalse ''PlansIssued'' fixedText
            (setPhase ''Reconciling''
              (updStatus (\<lambda>st. st\<lparr>it_ObservedGeneration := om_Generation (i_Meta inst)\<rparr>) observed)) in
      if allSitesApplied (it_Sites (i_Status issued)) (it_ActiveRevision (i_Status issued))
      then setAppliedInstanceReady E issued (pp_Restore parts) (pp_Major parts) else issued)"

definition scheduleBackups ::
  "hub_env \<Rightarrow> instance_env \<Rightarrow> string \<Rightarrow> MultiSitePostgres \<Rightarrow> bool \<Rightarrow> Result reconciliation option" where
  "scheduleBackups E I name judged canRun =
     (case reconcileBackupSchedules E (ie_Schedule I) (ie_DefaultSchedule I) judged (he_Now E) canRun of
        None \<Rightarrow> None
      | Some (calls, Inl e) \<Rightarrow>
          (let m = statusAndStop E name (condition_of E ''BackupReady'' ConditionFalse ''ScheduleInvalid'' e judged) in
           Some (calls @ fst m, snd m))
      | Some (calls, Inr (scheduled, wait)) \<Rightarrow>
          (let m = andThen (updateInstanceStatus E (rd_instance (he_Reads E) name) scheduled)
                     (\<lambda>_. finish \<lparr>RequeueAfter = wait\<rparr>) in
           Some (calls @ fst m, snd m)))"

definition concludeInstance ::
  "hub_env \<Rightarrow> instance_env \<Rightarrow> string \<Rightarrow> MultiSitePostgres \<Rightarrow> plan_parts \<Rightarrow> SiteRevisionStatus list
     \<Rightarrow> Result reconciliation option" where
  "concludeInstance E I name inst parts statuses =
     (let judged = judgeInstance E inst parts statuses in
      case lifecycleOperationActive E judged of
        Inl e \<Rightarrow> Some (failWith e)
      | Inr active \<Rightarrow>
          scheduleBackups E I name judged
            (backupSchedulingReady E judged (pp_Restore parts) (pp_Upgrade parts) (pp_Major parts) active))"

definition publishPlans ::
  "hub_env \<Rightarrow> instance_env \<Rightarrow> string \<Rightarrow> MultiSitePostgres \<Rightarrow> (string, SiteRegistration) gomap \<Rightarrow> plan_parts
     \<Rightarrow> Result reconciliation option" where
  "publishPlans E I name inst registrations parts =
     (case planFingerprint I inst (pp_Addresses parts) (pp_Candidates parts) (pp_Migration parts) (pp_Rotation parts) of
        Inl e \<Rightarrow> Some (failWith e)
      | Inr fingerprint \<Rightarrow>
          (let revised = withFingerprint fingerprint inst in
           case signingKey I of
             None \<Rightarrow> None
           | Some (Inl e) \<Rightarrow> Some (failWith e)
           | Some (Inr key) \<Rightarrow>
               (case issuePlans E I key revised registrations parts (is_Sites (i_Spec revised)) [] of
                  (calls, Inl e) \<Rightarrow> Some (calls, Inl e)
                | (calls, Inr statuses) \<Rightarrow>
                    map_option (\<lambda>m. (calls @ fst m, snd m)) (concludeInstance E I name revised parts statuses))))"

definition planInstance ::
  "hub_env \<Rightarrow> instance_env \<Rightarrow> string \<Rightarrow> MultiSitePostgres \<Rightarrow> (string, SiteRegistration) gomap \<Rightarrow> nat
     \<Rightarrow> Result reconciliation option" where
  "planInstance E I name inst registrations disconnectedControl =
     (case restorePlan E inst of
        Inl e \<Rightarrow> Some (notReady E name ''Restoring'' ''RestoreContractInvalid'' e inst)
      | Inr restoreP \<Rightarrow>
          (case upgradePlans E inst of
             Inl e \<Rightarrow> Some (notReady E name ''Upgrading'' ''UpgradeContractInvalid'' e inst)
           | Inr (upgradeP, majorP) \<Rightarrow>
               if disconnectedControl > 0 \<and> topologyChangingOperationPending restoreP upgradeP majorP
               then Some (notReady E name ''Blocked'' ''ControlPlaneDegraded'' fixedText
                      (condition_of E ''TopologyAuthoritative'' ConditionFalse ''ControlPlaneDegraded'' fixedText inst))
               else
                 (case missingPlanCapabilities inst registrations majorP of
                    m # ms \<Rightarrow>
                      Some (notReady E name ''Blocked'' ''AgentCapabilityMissing''
                        (''Plan requires newer site-agent capabilities: '' @ joinStr '', '' (m # ms)) inst)
                  | [] \<Rightarrow>
                      (let active = activeSitePlan (ie_Json I) (ie_Envelope I) (configMapData E) inst in
                       case addressPlan (ie_Hex16 I) active inst of
                         Inl e \<Rightarrow> Some (failWith e)
                       | Inr (addresses, candidates, migration) \<Rightarrow>
                           (case credentialRotationPlan active inst migration restoreP upgradeP majorP of
                              Inl e \<Rightarrow> Some (failWith e)
                            | Inr rotation \<Rightarrow>
                                publishPlans E I name inst registrations
                                  \<lparr>pp_Addresses = addresses, pp_Candidates = candidates, pp_Migration = migration,
                                   pp_Rotation = rotation, pp_Restore = restoreP, pp_Upgrade = upgradeP,
                                   pp_Major = majorP\<rparr>)))))"

definition setAgentsConnected :: "hub_env \<Rightarrow> nat \<Rightarrow> MultiSitePostgres \<Rightarrow> MultiSitePostgres" where
  "setAgentsConnected E disconnectedControl inst =
     (if disconnectedControl > 0
      then condition_of E ''ControlPlaneDegraded'' ConditionTrue ''WitnessDisconnected'' fixedText
             (condition_of E ''AgentsConnected'' ConditionFalse ''ControlPlaneDegraded'' fixedText inst)
      else condition_of E ''ControlPlaneDegraded'' ConditionFalse ''AllAgentsConnected'' fixedText
             (condition_of E ''AgentsConnected'' ConditionTrue ''AllAgentsConnected'' fixedText inst))"

definition connectSites ::
  "hub_env \<Rightarrow> instance_env \<Rightarrow> string \<Rightarrow> MultiSitePostgres \<Rightarrow> (string, SiteRegistration) gomap \<Rightarrow> nat \<Rightarrow> nat
     \<Rightarrow> Result reconciliation option" where
  "connectSites E I name inst registrations disconnectedData disconnectedControl =
     (let valid = condition_of E ''StorageValidated'' ConditionTrue ''SitePolicyAccepted'' fixedText
            (condition_of E ''SitesRegistered'' ConditionTrue ''AllSitesRegistered'' fixedText inst) in
      case validateInstanceClaims E valid of
        Some e \<Rightarrow> Some (notReady E name ''ValidatingSites'' ''InstanceIsolationConflict'' e valid)
      | None \<Rightarrow>
          if disconnectedData > 0
          then Some (notReady E name ''Pending'' ''AgentDisconnected'' fixedText
                 (condition_of E ''TopologyReady'' ConditionFalse ''AgentDisconnected'' fixedText
                   (updStatus (\<lambda>st. st\<lparr>it_Primary := '''', it_SynchronousStandbys := []\<rparr>)
                     (condition_of E ''AgentsConnected'' ConditionFalse ''AgentDisconnected'' fixedText valid))))
          else
            planInstance E I name (setAgentsConnected E disconnectedControl valid) registrations disconnectedControl)"

definition reconcileLive ::
  "hub_env \<Rightarrow> instance_env \<Rightarrow> string \<Rightarrow> MultiSitePostgres \<Rightarrow> Result reconciliation option" where
  "reconcileLive E I name inst =
     (case aggregateDeclarationAndUpgradeStatus E
             (updStatus (\<lambda>st. st\<lparr>it_ObservedGeneration := om_Generation (i_Meta inst)\<rparr>) inst) of
        Inl e \<Rightarrow> Some (failWith e)
      | Inr counted \<Rightarrow>
          (case scanSites E (is_Sites (i_Spec counted)) [] 0 0 of
             SiteMissing e \<Rightarrow>
               Some (notReady E name ''ValidatingSites'' ''SiteNotFound'' e
                 (condition_of E ''AgentsConnected'' ConditionFalse ''SiteUnavailable'' fixedText
                   (condition_of E ''StorageValidated'' ConditionFalse ''SiteUnavailable'' fixedText
                     (condition_of E ''SitesRegistered'' ConditionFalse ''SiteNotFound'' e counted))))
           | SiteRejected e \<Rightarrow>
               Some (notReady E name ''ValidatingSites'' ''SitePolicyRejected'' e
                 (condition_of E ''StorageValidated'' ConditionFalse ''SitePolicyRejected'' e
                   (condition_of E ''SitesRegistered'' ConditionFalse ''SiteValidationIncomplete'' fixedText counted)))
           | Scanned registrations disconnectedData disconnectedControl \<Rightarrow>
               connectSites E I name counted registrations disconnectedData disconnectedControl))"

section \<open>Deletion\<close>

definition instanceDeletionOperationUID :: "MultiSitePostgres \<Rightarrow> string" where
  "instanceDeletionOperationUID inst = om_UID (i_Meta inst) @ ''-delete-'' @ fmt_d (om_Generation (i_Meta inst))"

definition instanceDeletionOperation :: "MultiSitePostgres \<Rightarrow> string \<Rightarrow> OperationProgressStatus" where
  "instanceDeletionOperation inst phase =
     newOperation\<lparr>op_OperationUID := instanceDeletionOperationUID inst, op_Phase := phase, op_Attempt := 1\<rparr>"

definition childForceOrphaned :: "ObjectMeta \<Rightarrow> bool" where
  "childForceOrphaned meta =
     (om_DeletionTimestamp meta \<noteq> None \<and> mget (om_Annotations meta) forceOrphanAnnotation = ''true'')"

definition referencingDeclarations :: "hub_env \<Rightarrow> MultiSitePostgres \<Rightarrow> string + string list" where
  "referencingDeclarations E inst =
     (case rd_databases (he_Reads E) of
        Inl e \<Rightarrow> Inl e
      | Inr databases \<Rightarrow>
          (case rd_users (he_Reads E) of
             Inl e \<Rightarrow> Inl e
           | Inr users \<Rightarrow>
               Inr (sort
                 (map (\<lambda>db. ''PostgresDatabase/'' @ om_Name (d_Meta db))
                    (filter (\<lambda>db. ds_InstanceRef (d_Spec db) = om_Name (i_Meta inst) \<and>
                                   \<not> childForceOrphaned (d_Meta db)) databases) @
                  map (\<lambda>u. ''PostgresUser/'' @ om_Name (u_Meta u))
                    (filter (\<lambda>u. us_InstanceRef (u_Spec u) = om_Name (i_Meta inst) \<and>
                                  \<not> childForceOrphaned (u_Meta u)) users)))))"

fun deleteConfigMaps :: "hub_env \<Rightarrow> string list \<Rightarrow> unit reconciliation" where
  "deleteConfigMaps E [] = finish ()"
| "deleteConfigMaps E (name # names) =
     (case he_Api E (DeleteConfigMap name) of
        Some e \<Rightarrow> if e = ''NotFound'' then deleteConfigMaps E names else failWith e
      | None \<Rightarrow> (DeleteConfigMap name # fst (deleteConfigMaps E names), snd (deleteConfigMaps E names)))"

definition deletePlanConfigMaps :: "hub_env \<Rightarrow> instance_env \<Rightarrow> unit reconciliation" where
  "deletePlanConfigMaps E I =
     (case ie_PlanMaps I of Inl e \<Rightarrow> failWith e | Inr names \<Rightarrow> deleteConfigMaps E names)"

definition releaseInstance :: "hub_env \<Rightarrow> instance_env \<Rightarrow> MultiSitePostgres \<Rightarrow> Result reconciliation" where
  "releaseInstance E I inst =
     andThen (deletePlanConfigMaps E I) (\<lambda>_.
       perform E (UpdateInstance (inst\<lparr>i_Meta := removeFinalizer instanceFinalizer (i_Meta inst)\<rparr>)) (finish emptyResult))"

fun issueDeletions ::
  "hub_env \<Rightarrow> instance_env \<Rightarrow> bytes \<Rightarrow> MultiSitePostgres \<Rightarrow> smap \<Rightarrow> PostgresSiteSpec list \<Rightarrow> SiteRevisionStatus list
     \<Rightarrow> SiteRevisionStatus list reconciliation" where
  "issueDeletions E I key inst addresses [] statuses = finish statuses"
| "issueDeletions E I key inst addresses (site # sites) statuses =
     (case rd_registration (he_Reads E) (ps_SiteRegistrationRef site) of
        NotFound \<Rightarrow> failWith ''NotFound''
      | ReadError e \<Rightarrow> failWith e
      | Found registration \<Rightarrow>
          andThen (signAndPublish E I key inst registration site (deletionPlan E inst registration site addresses)) (\<lambda>_.
            issueDeletions E I key inst addresses sites
              (statuses @ [issuedStatus inst site (\<lambda>_. ''DeletionPlanIssued'')])))"

definition deletionIssued :: "hub_env \<Rightarrow> MultiSitePostgres \<Rightarrow> SiteRevisionStatus list \<Rightarrow> MultiSitePostgres" where
  "deletionIssued E inst statuses =
     condition_of E ''DeletionBlocked'' ConditionTrue ''AwaitingSites'' fixedText
       (updStatus (\<lambda>st. st\<lparr>it_Sites := statuses, it_PlanFingerprint := ''deleting'', it_Phase := ''Deleting'',
          it_Operation := Some (instanceDeletionOperation inst ''AwaitingSites'')\<rparr>) inst)"

definition issueDeletionPlans ::
  "hub_env \<Rightarrow> instance_env \<Rightarrow> string \<Rightarrow> MultiSitePostgres \<Rightarrow> Result reconciliation option" where
  "issueDeletionPlans E I name inst =
     (case signingKey I of
        None \<Rightarrow> None
      | Some (Inl e) \<Rightarrow> Some (failWith e)
      | Some (Inr key) \<Rightarrow>
          (let revised = bumpRevision inst in
           Some (andThen (issueDeletions E I key revised (observedAddresses inst) (is_Sites (i_Spec inst)) [])
             (\<lambda>statuses. statusAndStop E name (deletionIssued E revised statuses)))))"

definition deletionBlocked ::
  "hub_env \<Rightarrow> string \<Rightarrow> string \<Rightarrow> string \<Rightarrow> string \<Rightarrow> MultiSitePostgres \<Rightarrow> Result reconciliation" where
  "deletionBlocked E name reason errorMessage message inst =
     statusAndStop E name (condition_of E ''DeletionBlocked'' ConditionTrue reason message
       (updStatus (\<lambda>st. st\<lparr>it_Phase := ''Deleting'', it_Operation := Some ((instanceDeletionOperation inst ''DeletionBlocked'')
          \<lparr>op_LastErrorReason := reason, op_LastErrorMessage := errorMessage\<rparr>)\<rparr>) inst))"

definition waitingSites :: "MultiSitePostgres \<Rightarrow> string list" where
  "waitingSites inst = map st_Name (filter (\<lambda>site. st_Phase site \<noteq> ''Deleted'') (it_Sites (i_Status inst)))"

definition finalizeInstance ::
  "hub_env \<Rightarrow> instance_env \<Rightarrow> string \<Rightarrow> MultiSitePostgres \<Rightarrow> Result reconciliation option" where
  "finalizeInstance E I name inst =
     (if \<not> containsFinalizer (i_Meta inst) instanceFinalizer then Some (finish emptyResult)
      else if annotation inst forceOrphanAnnotation = ''true'' then Some (releaseInstance E I inst)
      else
        (case referencingDeclarations E inst of
           Inl e \<Rightarrow> Some (failWith e)
         | Inr children \<Rightarrow>
             if children \<noteq> []
             then Some (deletionBlocked E name ''ChildDeclarationsPresent''
                    ''Child declarations still reference the instance''
                    (''Delete or force-orphan child declarations before deleting the parent: '' @ joinStr '', '' children) inst)
             else if it_PlanFingerprint (i_Status inst) \<noteq> ''deleting''
             then
               (if is_DeletionPolicy (i_Spec inst) = DeletionPolicyDelete \<and> \<not> instanceCondTrue E inst ''BackupReady''
                then Some (deletionBlocked E name ''BackupNotVerified'' ''Delete policy requires a verified backup''
                       fixedText inst)
                else issueDeletionPlans E I name inst)
             else if waitingSites inst \<noteq> []
             then Some (statusAndStop E name
                    (condition_of E ''DeletionBlocked'' ConditionTrue ''AwaitingSites''
                      (''Waiting for deletion acknowledgement from: '' @ joinStr '', '' (waitingSites inst))
                      (updStatus (\<lambda>st. st\<lparr>it_Phase := ''Deleting'',
                         it_Operation := Some (instanceDeletionOperation inst ''AwaitingSites'')\<rparr>) inst)))
             else Some (releaseInstance E I inst)))"

section \<open>The reconciler\<close>

definition reconcileInstance :: "hub_env \<Rightarrow> instance_env \<Rightarrow> string \<Rightarrow> Result reconciliation option" where
  "reconcileInstance E I name =
     (case rd_instance (he_Reads E) name of
        NotFound \<Rightarrow> Some (finish emptyResult)
      | ReadError e \<Rightarrow> Some (failWith e)
      | Found inst \<Rightarrow>
          if om_DeletionTimestamp (i_Meta inst) \<noteq> None then finalizeInstance E I name inst
          else if \<not> containsFinalizer (i_Meta inst) instanceFinalizer
          then Some (perform E (UpdateInstance (inst\<lparr>i_Meta := addFinalizer instanceFinalizer (i_Meta inst)\<rparr>))
                       (finish emptyResult))
          else reconcileLive E I name inst)"

section \<open>Watches\<close>

definition instanceForDeclaration :: "string \<Rightarrow> string list" where
  "instanceForDeclaration instanceRef = (if instanceRef = '''' then [] else [instanceRef])"

definition instancesForRegistration :: "hub_env \<Rightarrow> string \<Rightarrow> (string \<times> string) list" where
  "instancesForRegistration E registration =
     (case rd_instances (he_Reads E) of
        Inl e \<Rightarrow> []
      | Inr instances \<Rightarrow>
          map (\<lambda>inst. (om_Namespace (i_Meta inst), om_Name (i_Meta inst)))
            (filter (\<lambda>inst. \<exists>site \<in> set (is_Sites (i_Spec inst)). ps_SiteRegistrationRef site = registration) instances))"

section \<open>Lemmas\<close>

lemma setInstanceCond_simps [simp]:
  "i_Meta (setInstanceCond K t s r m inst) = i_Meta inst"
  "i_Spec (setInstanceCond K t s r m inst) = i_Spec inst"
  "it_Sites (i_Status (setInstanceCond K t s r m inst)) = it_Sites (i_Status inst)"
  "it_ActiveRevision (i_Status (setInstanceCond K t s r m inst)) = it_ActiveRevision (i_Status inst)"
  "it_PlanFingerprint (i_Status (setInstanceCond K t s r m inst)) = it_PlanFingerprint (i_Status inst)"
  "it_Phase (i_Status (setInstanceCond K t s r m inst)) = it_Phase (i_Status inst)"
  "it_Primary (i_Status (setInstanceCond K t s r m inst)) = it_Primary (i_Status inst)"
  "it_SynchronousStandbys (i_Status (setInstanceCond K t s r m inst)) = it_SynchronousStandbys (i_Status inst)"
  by (simp_all add: setInstanceCond_def)

lemma setPhase_simps [simp]:
  "i_Meta (setPhase p inst) = i_Meta inst" "i_Spec (setPhase p inst) = i_Spec inst"
  "it_Sites (i_Status (setPhase p inst)) = it_Sites (i_Status inst)"
  "it_ActiveRevision (i_Status (setPhase p inst)) = it_ActiveRevision (i_Status inst)"
  "it_Conditions (i_Status (setPhase p inst)) = it_Conditions (i_Status inst)"
  "it_Primary (i_Status (setPhase p inst)) = it_Primary (i_Status inst)"
  "it_SynchronousStandbys (i_Status (setPhase p inst)) = it_SynchronousStandbys (i_Status inst)"
  "it_Phase (i_Status (setPhase p inst)) = p"
  by (simp_all add: setPhase_def)

lemma withFingerprint_simps [simp]:
  "i_Meta (withFingerprint f inst) = i_Meta inst" "i_Spec (withFingerprint f inst) = i_Spec inst"
  "it_Sites (i_Status (withFingerprint f inst)) = it_Sites (i_Status inst)"
  "it_Conditions (i_Status (withFingerprint f inst)) = it_Conditions (i_Status inst)"
  "it_PlanFingerprint (i_Status (withFingerprint f inst)) = f"
  by (simp_all add: withFingerprint_def bumpRevision_def)

text \<open>Status writes and events: the calls that change nothing but the status.\<close>

definition quiet :: "hub_call \<Rightarrow> bool" where
  "quiet c \<longleftrightarrow> (\<exists>x. c = StatusInstance x) \<or> (\<exists>e. c = PublishEvent e)"

lemma trace_updateInstanceStatus: "c \<in> set (trace (updateInstanceStatus E s inst)) \<Longrightarrow> quiet c"
  by (auto simp: updateInstanceStatus_def failWith_def quiet_def call_def Let_def split: read.splits option.splits)

lemma trace_statusAndStop: "c \<in> set (trace (statusAndStop E name inst)) \<Longrightarrow> quiet c"
  by (auto simp: statusAndStop_def andThen_def finish_def dest: trace_updateInstanceStatus split: sum.splits)

lemma trace_notReady: "c \<in> set (trace (notReady E name p r m inst)) \<Longrightarrow> quiet c"
  by (auto simp: notReady_def dest: trace_statusAndStop)

lemma trace_thenMaybe:
  assumes "thenMaybe m k = Some r" "c \<in> set (trace r)"
  shows "c \<in> set (trace m) \<or> (\<exists>k'. k = Some k' \<and> c \<in> set (trace k'))"
  using assms by (auto simp: thenMaybe_def split: sum.splits)

lemma trace_scheduleLoop:
  assumes "scheduleLoop E S inst tz now canRun schedules statuses wait = Some m" "c \<in> set (trace m)"
  shows "\<exists>kind due spec. c = backupDirective inst kind due spec"
  using assms
proof (induction schedules arbitrary: statuses wait m)
  case (Cons configured rest)
  show ?case
  proof (cases "parseBackupSchedule S (expression configured) tz")
    case (Inl e)
    then show ?thesis using Cons.prems by (auto simp: failWith_def)
  next
    case (Inr nextTime)
    let ?go = "\<lambda>s w. scheduleLoop E S inst tz now canRun rest (statuses @ [s]) (minimumPositiveDuration wait w)"
    consider s w where "?go s w = Some m"
      | s w due where "thenMaybe (reconcileBackupDirective E inst (backupType configured) due) (?go s w) = Some m"
      using Cons.prems(1) unfolding scheduleLoop.simps Inr sum.case Let_def
      by (auto split: option.splits if_splits)
    then show ?thesis
    proof cases
      case 1
      then show ?thesis using Cons.IH Cons.prems(2) by blast
    next
      case 2
      from trace_thenMaybe [OF this Cons.prems(2)] show ?thesis
        using Cons.IH trace_reconcileBackupDirective by blast
    qed
  qed
qed (simp add: finish_def)

lemma trace_reconcileBackupSchedules:
  assumes "reconcileBackupSchedules E S d inst now canRun = Some m" "c \<in> set (trace m)"
  shows "\<exists>kind due spec. c = backupDirective inst kind due spec"
proof (cases "is_Backup (i_Spec inst)")
  case None
  then show ?thesis using assms by (auto simp: reconcileBackupSchedules_def finish_def)
next
  case (Some backup)
  then obtain l where l: "scheduleLoop E S inst (bs_Timezone (bk_Schedules backup)) now canRun
      (configuredBackupSchedules backup d) [] 0 = Some l" "c \<in> set (trace l)"
    using assms by (auto simp: reconcileBackupSchedules_def in_trace_andThen finish_def)
  show ?thesis by (rule trace_scheduleLoop [OF l])
qed

definition planWrite :: "hub_call \<Rightarrow> (string \<times> smap) option" where
  "planWrite c =
     (let written = (\<lambda>n cm. if hasPrefix n ''mspsql-plan-'' then Some (n, cm_Data cm) else None) in
      case c of
        CreateConfigMap n cm ow \<Rightarrow> written n cm
      | CreateOrphanConfigMap n cm \<Rightarrow> written n cm
      | UpdateConfigMap n cm \<Rightarrow> written n cm
      | OrphanConfigMap n cm \<Rightarrow> written n cm
      | _ \<Rightarrow> None)"

lemma quiet_no_plan [simp]: "quiet c \<Longrightarrow> planWrite c = None"
  by (auto simp: quiet_def planWrite_def)

lemma backup_no_plan [simp]: "planWrite (backupDirective inst kind due spec) = None"
  by (simp add: planWrite_def backupDirective_def backupDirectiveName_def hasPrefix_def)

lemma scheduleBackups_trace:
  assumes "scheduleBackups E I name judged canRun = Some m" "c \<in> set (trace m)"
  shows "quiet c \<or> (\<exists>kind due spec. c = backupDirective judged kind due spec)"
proof -
  obtain calls r where l: "reconcileBackupSchedules E (ie_Schedule I) (ie_DefaultSchedule I) judged (he_Now E) canRun =
      Some (calls, r)"
    using assms(1) by (auto simp: scheduleBackups_def split: option.splits)
  have calls: "\<exists>kind due spec. c = backupDirective judged kind due spec" if "c \<in> set calls"
    using trace_reconcileBackupSchedules [OF l] that by simp
  show ?thesis
  proof (cases r)
    case (Inl e)
    then show ?thesis using assms l calls by (auto simp: scheduleBackups_def Let_def dest: trace_statusAndStop)
  next
    case (Inr r')
    then show ?thesis
      using assms l calls
      by (cases r') (auto simp: scheduleBackups_def Let_def in_trace_andThen finish_def dest: trace_updateInstanceStatus)
  qed
qed

lemma concludeInstance_no_plan:
  assumes "concludeInstance E I name inst parts statuses = Some m" "c \<in> set (trace m)"
  shows "planWrite c = None"
proof (cases "lifecycleOperationActive E (judgeInstance E inst parts statuses)")
  case (Inl e)
  then show ?thesis using assms by (auto simp: concludeInstance_def failWith_def)
next
  case (Inr active)
  then have "scheduleBackups E I name (judgeInstance E inst parts statuses)
      (backupSchedulingReady E (judgeInstance E inst parts statuses) (pp_Restore parts) (pp_Upgrade parts) (pp_Major parts)
        active) = Some m"
    using assms(1) by (simp add: concludeInstance_def Let_def)
  from scheduleBackups_trace [OF this assms(2)] show ?thesis by auto
qed

lemma reconcilePlan_trace:
  assumes "c \<in> set (trace (reconcilePlan E I inst siteName siteUID envelope))"
  shows "\<exists>data. envelopeData I envelope = Inr data \<and> planWrite c = Some (planName inst siteName, data)"
proof -
  have "hasPrefix (planName inst siteName) ''mspsql-plan-''" by (simp add: planName_def hasPrefix_def)
  then show ?thesis
    using assms unfolding reconcilePlan_def Let_def
    by (auto simp: failWith_def finish_def planWrite_def planConfigMap_def dest!: in_trace_call
        split: sum.splits read.splits if_splits)
qed

lemma issuePlans_trace:
  assumes "c \<in> set (trace (issuePlans E I key inst regs parts sites statuses))"
  shows "\<exists>site reg envelope data. site \<in> set sites \<and> map_of regs (ps_Name site) = Some reg \<and>
    Sign (ie_Crypto I) (ie_Json I) key (sitePlan E inst reg site parts) = Inr envelope \<and>
    envelopeData I envelope = Inr data \<and> planWrite c = Some (planName inst (ps_Name site), data)"
  using assms
proof (induction sites arbitrary: statuses)
  case (Cons site sites)
  then obtain reg where reg: "map_of regs (ps_Name site) = Some reg"
    by (auto simp: failWith_def split: option.splits)
  consider (this) "c \<in> set (trace (signAndPublish E I key inst reg site (sitePlan E inst reg site parts)))"
    | (later) statuses' where "c \<in> set (trace (issuePlans E I key inst regs parts sites statuses'))"
    using Cons.prems reg by (auto simp: in_trace_andThen)
  then show ?case
  proof cases
    case this
    then show ?thesis
      using reg by (fastforce simp: signAndPublish_def failWith_def dest: reconcilePlan_trace split: sum.splits)
  next
    case later
    then show ?thesis using Cons.IH by fastforce
  qed
qed (simp add: finish_def)

text \<open>What the scan of the sites finds.\<close>

lemma scanSites_mono:
  assumes "scanSites E sites regs dd dc = Scanned regs' dd' dc'"
  shows "dd \<le> dd' \<and> dc \<le> dc'"
  using assms
proof (induction sites arbitrary: regs dd dc)
  case (Cons site sites)
  then obtain reg where "rd_registration (he_Reads E) (ps_SiteRegistrationRef site) = Found reg"
    "validateSitePolicy site reg = None"
    by (auto split: read.splits option.splits)
  with Cons.prems Cons.IH show ?case by (force simp: Let_def split: if_splits)
qed simp

lemma scanSites_found:
  assumes "scanSites E sites regs dd dc = Scanned regs' dd' dc'" "site \<in> set sites"
  shows "\<exists>reg. rd_registration (he_Reads E) (ps_SiteRegistrationRef site) = Found reg \<and>
    validateSitePolicy site reg = None \<and>
    (rg_Phase (r_Status reg) \<noteq> ''Connected'' \<longrightarrow> (if ps_Role site = SiteRoleData then 0 < dd' else 0 < dc'))"
  using assms
proof (induction sites arbitrary: regs dd dc)
  case (Cons s sites)
  then obtain reg where reg: "rd_registration (he_Reads E) (ps_SiteRegistrationRef s) = Found reg"
    "validateSitePolicy s reg = None"
    by (auto split: read.splits option.splits)
  define lost where "lost \<longleftrightarrow> rg_Phase (r_Status reg) \<noteq> ''Connected''"
  have rest: "scanSites E sites (AList.update (ps_Name s) reg regs)
      (if lost \<and> ps_Role s = SiteRoleData then Suc dd else dd)
      (if lost \<and> ps_Role s \<noteq> SiteRoleData then Suc dc else dc) = Scanned regs' dd' dc'"
    using Cons.prems(1) reg by (simp add: Let_def lost_def)
  show ?case
  proof (cases "site = s")
    case True
    then show ?thesis using reg scanSites_mono [OF rest] by (auto simp: lost_def split: if_splits)
  next
    case False
    then show ?thesis using Cons.IH [OF rest] Cons.prems(2) by simp
  qed
qed simp

lemma scanSites_keeps:
  assumes "scanSites E sites regs dd dc = Scanned regs' dd' dc'" "n \<notin> set (map ps_Name sites)"
  shows "map_of regs' n = map_of regs n"
  using assms
proof (induction sites arbitrary: regs dd dc)
  case (Cons s sites)
  then obtain reg where reg: "rd_registration (he_Reads E) (ps_SiteRegistrationRef s) = Found reg"
    "validateSitePolicy s reg = None"
    by (auto split: read.splits option.splits)
  with Cons.prems(1) obtain a b where "scanSites E sites (AList.update (ps_Name s) reg regs) a b = Scanned regs' dd' dc'"
    by (auto simp: Let_def)
  from Cons.IH [OF this] Cons.prems(2) show ?case by (simp add: update_conv')
qed simp

lemma scanSites_registered:
  assumes "scanSites E sites regs dd dc = Scanned regs' dd' dc'" "distinct (map ps_Name sites)" "site \<in> set sites"
  shows "\<exists>reg. rd_registration (he_Reads E) (ps_SiteRegistrationRef site) = Found reg \<and>
    map_of regs' (ps_Name site) = Some reg"
  using assms
proof (induction sites arbitrary: regs dd dc)
  case (Cons s sites)
  then obtain reg where reg: "rd_registration (he_Reads E) (ps_SiteRegistrationRef s) = Found reg"
    "validateSitePolicy s reg = None"
    by (auto split: read.splits option.splits)
  with Cons.prems(1) obtain a b where rest: "scanSites E sites (AList.update (ps_Name s) reg regs) a b = Scanned regs' dd' dc'"
    by (auto simp: Let_def)
  show ?case
  proof (cases "site = s")
    case True
    have "map_of regs' (ps_Name s) = Some reg"
      using scanSites_keeps [OF rest, of "ps_Name s"] Cons.prems(2) by (simp add: update_conv')
    with True reg show ?thesis by simp
  next
    case False
    then show ?thesis using Cons.IH [OF rest] Cons.prems(2,3) by simp
  qed
qed simp

text \<open>The sections of a plan depend on the metadata and the spec of the instance only.\<close>

lemma sections_cong:
  assumes "i_Meta a = i_Meta b" "i_Spec a = i_Spec b"
  shows "restorePlan E a = restorePlan E b" "upgradePlans E a = upgradePlans E b"
    "missingPlanCapabilities a regs p = missingPlanCapabilities b regs p"
  unfolding restorePlan_def upgradePlans_def missingPlanCapabilities_def assms by (rule refl)+

lemma claimConflict_cong:
  assumes "i_Meta a = i_Meta b" "i_Spec a = i_Spec b"
  shows "claimConflict a others = claimConflict b others"
  using assms by (induction others) simp_all

text \<open>What the checks before the plans keep of an instance.\<close>

definition trustConditions :: "string set" where
  "trustConditions = {''BackupTLSReady'', ''EtcdTLSReady''}"

definition kept :: "hub_env \<Rightarrow> MultiSitePostgres \<Rightarrow> MultiSitePostgres \<Rightarrow> bool" where
  "kept E a b \<longleftrightarrow> i_Meta a = i_Meta b \<and> i_Spec a = i_Spec b \<and> it_Sites (i_Status a) = it_Sites (i_Status b) \<and>
     (status_conditions (he_K E) \<longrightarrow> (\<forall>t \<in> trustConditions. instanceCondTrue E a t = instanceCondTrue E b t))"

lemma kept_trans: "kept E a b \<Longrightarrow> kept E b c \<Longrightarrow> kept E a c"
  by (simp add: kept_def)



lemma kept_cond:
  assumes "kept E a b" "t \<notin> trustConditions"
  shows "kept E (condition_of E t s r m a) b"
  using assms status_conditions.conditionTrue_set
  by (fastforce simp: kept_def setInstanceCond_def)

lemma aggregate_kept:
  assumes "aggregateDeclarationAndUpgradeStatus E inst = Inr inst'"
  shows "kept E inst' inst"
proof -
  have refl: "kept E inst inst" by (simp add: kept_def)
  have "kept E (setDeclarations E d p inst) inst" for d p
    using kept_cond [OF refl] by (simp add: setDeclarations_def trustConditions_def)
  then show ?thesis
    using assms kept_cond
    by (auto simp: aggregateDeclarationAndUpgradeStatus_def Let_def trustConditions_def split: sum.splits option.splits)
qed

text \<open>The way from the reconciler to the write of a plan.\<close>

lemma publishPlans_plan:
  assumes "publishPlans E I name inst regs parts = Some m" "c \<in> set (trace m)" "planWrite c \<noteq> None"
  shows "\<exists>f key. planFingerprint I inst (pp_Addresses parts) (pp_Candidates parts) (pp_Migration parts) (pp_Rotation parts) =
      Inr f \<and> signingKey I = Some (Inr key) \<and>
    c \<in> set (trace (issuePlans E I key (withFingerprint f inst) regs parts (is_Sites (i_Spec inst)) []))"
proof -
  obtain f where f: "planFingerprint I inst (pp_Addresses parts) (pp_Candidates parts) (pp_Migration parts)
      (pp_Rotation parts) = Inr f"
    using assms(1,2) by (auto simp: publishPlans_def failWith_def split: sum.splits)
  obtain key where key: "signingKey I = Some (Inr key)"
    using assms(1,2) f by (auto simp: publishPlans_def failWith_def Let_def split: option.splits sum.splits)
  obtain calls r where plans: "issuePlans E I key (withFingerprint f inst) regs parts (is_Sites (i_Spec inst)) [] = (calls, r)"
    by fastforce
  have "c \<in> set calls"
    using assms f key plans concludeInstance_no_plan
    by (cases r) (fastforce simp: publishPlans_def Let_def)+
  then show ?thesis using f key plans by auto
qed

text \<open>The calls that mean progress: a plan, a change of the instance, or a status that says
  the instance is ready.\<close>

definition progress :: "hub_call \<Rightarrow> bool" where
  "progress c \<longleftrightarrow> planWrite c \<noteq> None \<or> (\<exists>x. c = UpdateInstance x) \<or>
     (\<exists>x. c = StatusInstance x \<and> it_Phase (i_Status x) = ''Ready'')"

definition headline :: "MultiSitePostgres \<Rightarrow> string \<times> string \<times> string list" where
  "headline inst = (it_Phase (i_Status inst), it_Primary (i_Status inst), it_SynchronousStandbys (i_Status inst))"

lemma updateInstanceStatus_headline:
  assumes "StatusInstance x \<in> set (trace (updateInstanceStatus E s inst))"
  shows "headline x = headline inst"
  using assms by (auto simp: updateInstanceStatus_def failWith_def call_def Let_def mergeReconciledStatus_def headline_def
      split: read.splits option.splits)

lemma statusAndStop_headline:
  assumes "StatusInstance x \<in> set (trace (statusAndStop E name inst))"
  shows "headline x = headline inst"
  using assms updateInstanceStatus_headline by (auto simp: statusAndStop_def in_trace_andThen finish_def)

lemma headline_cond [simp]: "headline (setInstanceCond K t s r m inst) = headline inst"
  by (simp add: headline_def setInstanceCond_def)

lemma notReady_progress: "c \<in> set (trace (notReady E name p r e inst)) \<Longrightarrow> progress c \<Longrightarrow> p = ''Ready''"
  using statusAndStop_headline by (fastforce simp: progress_def notReady_def headline_def quiet_def planWrite_def dest: trace_statusAndStop)

lemma planInstance_plan:
  assumes "planInstance E I name inst regs dc = Some m" "c \<in> set (trace m)" "progress c"
  shows "\<exists>parts. restorePlan E inst = Inr (pp_Restore parts) \<and>
    upgradePlans E inst = Inr (pp_Upgrade parts, pp_Major parts) \<and>
    \<not> (0 < dc \<and> topologyChangingOperationPending (pp_Restore parts) (pp_Upgrade parts) (pp_Major parts)) \<and>
    missingPlanCapabilities inst regs (pp_Major parts) = [] \<and> publishPlans E I name inst regs parts = Some m"
proof -
  obtain restoreP where r: "restorePlan E inst = Inr restoreP"
    using assms(1,2) assms(3) by (auto simp: planInstance_def dest: notReady_progress split: sum.splits)
  obtain upgradeP majorP where u: "upgradePlans E inst = Inr (upgradeP, majorP)"
    using assms(1,2) assms(3) r by (auto simp: planInstance_def dest: notReady_progress split: sum.splits)
  have gate: "\<not> (0 < dc \<and> topologyChangingOperationPending restoreP upgradeP majorP)"
    using assms(1,2) assms(3) r u by (auto simp: planInstance_def dest: notReady_progress split: if_splits)
  have caps: "missingPlanCapabilities inst regs majorP = []"
    using assms(1,2) assms(3) r u gate
    by (auto simp: planInstance_def dest: notReady_progress split: list.splits if_splits)
  let ?active = "activeSitePlan (ie_Json I) (ie_Envelope I) (configMapData E) inst"
  obtain addresses candidates migration where a: "addressPlan (ie_Hex16 I) ?active inst = Inr (addresses, candidates, migration)"
    using assms(1,2) r u gate caps
    by (cases "addressPlan (ie_Hex16 I) ?active inst") (auto simp: planInstance_def Let_def failWith_def)
  obtain rotation where "credentialRotationPlan ?active inst migration restoreP upgradeP majorP = Inr rotation"
    using assms(1,2) r u gate caps a
    by (cases "credentialRotationPlan ?active inst migration restoreP upgradeP majorP")
      (auto simp: planInstance_def Let_def failWith_def)
  then have "publishPlans E I name inst regs \<lparr>pp_Addresses = addresses, pp_Candidates = candidates,
      pp_Migration = migration, pp_Rotation = rotation, pp_Restore = restoreP, pp_Upgrade = upgradeP,
      pp_Major = majorP\<rparr> = Some m"
    using assms(1) r u gate caps a by (auto simp: planInstance_def Let_def)
  then show ?thesis using r u gate caps by (intro exI [of _ "\<lparr>pp_Addresses = addresses, pp_Candidates = candidates,
      pp_Migration = migration, pp_Rotation = rotation, pp_Restore = restoreP, pp_Upgrade = upgradeP,
      pp_Major = majorP\<rparr>"]) simp
qed

lemma connectSites_plan:
  assumes "connectSites E I name inst regs dd dc = Some m" "c \<in> set (trace m)" "progress c"
  shows "\<exists>inst' others. kept E inst' inst \<and>
    rd_instances (he_Reads E) = Inr others \<and> claimConflict inst others = None \<and> dd = 0 \<and>
    planInstance E I name inst' regs dc = Some m"
proof -
  let ?valid = "condition_of E ''StorageValidated'' ConditionTrue ''SitePolicyAccepted'' fixedText
            (condition_of E ''SitesRegistered'' ConditionTrue ''AllSitesRegistered'' fixedText inst)"
  have claims: "validateInstanceClaims E ?valid = None"
    using assms(1,2) assms(3) by (auto simp: connectSites_def Let_def dest: notReady_progress split: option.splits)
  then obtain others where others: "rd_instances (he_Reads E) = Inr others" "claimConflict ?valid others = None"
    by (auto simp: validateInstanceClaims_def split: sum.splits)
  have "claimConflict inst others = None"
    using others(2) claimConflict_cong [of ?valid inst] by simp
  moreover have "dd = 0"
    using assms(1,2) assms(3) claims by (auto simp: connectSites_def Let_def dest: notReady_progress split: if_splits)
  moreover have "planInstance E I name (setAgentsConnected E dc ?valid) regs dc = Some m"
    using assms(1) claims \<open>dd = 0\<close> by (simp add: connectSites_def Let_def)
  moreover have "kept E (setAgentsConnected E dc ?valid) inst"
    unfolding setAgentsConnected_def
    by (cases "dc > 0") (simp_all add: kept_cond trustConditions_def kept_def [of E inst inst])
  ultimately show ?thesis using others(1) by blast
qed

lemma reconcileLive_plan:
  assumes "reconcileLive E I name inst = Some m" "c \<in> set (trace m)" "progress c"
  shows "\<exists>inst' regs dd dc. kept E inst' inst \<and>
    scanSites E (is_Sites (i_Spec inst)) [] 0 0 = Scanned regs dd dc \<and> connectSites E I name inst' regs dd dc = Some m"
proof -
  let ?start = "updStatus (\<lambda>st. st\<lparr>it_ObservedGeneration := om_Generation (i_Meta inst)\<rparr>) inst"
  obtain counted where counted: "aggregateDeclarationAndUpgradeStatus E ?start = Inr counted"
    using assms(1,2) by (auto simp: reconcileLive_def failWith_def split: sum.splits)
  have same: "kept E counted inst"
    using aggregate_kept [OF counted] by (simp add: kept_def)
  obtain regs dd dc where "scanSites E (is_Sites (i_Spec counted)) [] 0 0 = Scanned regs dd dc"
    using assms(1,2) assms(3) counted
    by (auto simp: reconcileLive_def dest: notReady_progress split: site_scan.splits)
  with assms(1) counted same show ?thesis by (auto simp: reconcileLive_def kept_def)
qed












section \<open>Sample values\<close>

text \<open>A running instance of one site, and what the hub reads.\<close>

definition runningSite :: SiteRevisionStatus where
  "runningSite = (sampleSiteStatus ''a'')\<lparr>st_AppliedRevision := 3, st_Phase := ''Applied'', st_Primary := ''a-postgres-0'',
     st_SynchronousStandbys := [''a-postgres-1''], st_TopologyObservedAt := Some 0\<rparr>"

definition runningInstance :: MultiSitePostgres where
  "runningInstance = (sampleInstance [sampleSite ''a'' 1 2 1])
     \<lparr>i_Meta := (sampleMeta ''db'')\<lparr>om_Finalizers := [instanceFinalizer]\<rparr>,
      i_Status := sampleStatus\<lparr>it_ActiveRevision := 3, it_PlanFingerprint := ''f'', it_Sites := [runningSite],
        it_Conditions := [sampleCond ''EtcdTLSReady'' ConditionTrue]\<rparr>\<rparr>"

definition permittingRegistration :: SiteRegistration where
  "permittingRegistration = sampleRegistration\<lparr>r_Status := (r_Status sampleRegistration)
     \<lparr>rg_DiscoveredStorageClasses := [\<lparr>sci_Name = ''fast'', sci_Provisioner = '''', sci_ReclaimPolicy = '''',
       sci_VolumeBindingMode = '''', sci_AllowVolumeExpansion = False, sci_AllowedTopologies = [], sci_AccessModes = []\<rparr>]\<rparr>\<rparr>"

definition instanceReads :: "MultiSitePostgres \<Rightarrow> hub_env" where
  "instanceReads inst = sampleEnv\<lparr>he_Reads := sampleReads\<lparr>rd_instance := (\<lambda>n. Found inst),
     rd_registration := (\<lambda>n. Found permittingRegistration), rd_instances := Inr [inst]\<rparr>\<rparr>"

definition sampleInstanceEnv :: instance_env where
  "sampleInstanceEnv = \<lparr>ie_Crypto = plainCrypto, ie_Json = sampleJson,
     ie_Envelope = \<lparr>UnmarshalEnvelope = (\<lambda>s. Inl ''bad'')\<rparr>, ie_MarshalEnvelope = (\<lambda>e. Inr ''envelope''),
     ie_HashIdentity = (\<lambda>identity. Inr ''f''), ie_Hex16 = id, ie_GeneratedKey = Inl ''unused'',
     ie_KeyAttempts = [(Found [(''privateKey'', sampleKey)], Created)], ie_Schedule = hourly,
     ie_DefaultSchedule = '''', ie_PlanMaps = Inr []\<rparr>"

declare catchUp.simps [code]


definition statusReady :: "hub_call \<Rightarrow> bool" where
  "statusReady c = (case c of StatusInstance x \<Rightarrow> it_Phase (i_Status x) = ''Ready'' | _ \<Rightarrow> False)"

lemma running_run:
  "case reconcileInstance (instanceReads runningInstance) sampleInstanceEnv ''db'' of None \<Rightarrow> False
   | Some m \<Rightarrow> list_ex (\<lambda>c. planWrite c \<noteq> None) (trace m) \<and> list_ex statusReady (trace m)"
  by code_simp

section \<open>Properties\<close>

text \<open>A site as the controller must see it before it publishes plans.\<close>

definition siteAccepted :: "hub_env \<Rightarrow> PostgresSiteSpec \<Rightarrow> bool" where
  "siteAccepted E site \<longleftrightarrow>
     (case rd_registration (he_Reads E) (ps_SiteRegistrationRef site) of
        Found reg \<Rightarrow> validateSitePolicy site reg = None \<and>
          (ps_Role site = SiteRoleData \<longrightarrow> rg_Phase (r_Status reg) = ''Connected'')
      | _ \<Rightarrow> False)"

definition siteDisconnected :: "hub_env \<Rightarrow> PostgresSiteSpec \<Rightarrow> bool" where
  "siteDisconnected E site \<longleftrightarrow>
     (case rd_registration (he_Reads E) (ps_SiteRegistrationRef site) of
        Found reg \<Rightarrow> rg_Phase (r_Status reg) \<noteq> ''Connected'' | _ \<Rightarrow> True)"

lemma reconcileInstance_live:
  assumes "rd_instance (he_Reads E) name = Found inst" "om_DeletionTimestamp (i_Meta inst) = None"
    and "reconcileInstance E I name = Some m" "c \<in> set (trace m)" "\<nexists>x. c = UpdateInstance x"
  shows "reconcileLive E I name inst = Some m"
  using assms by (auto simp: reconcileInstance_def finish_def dest!: in_trace_call split: if_splits)

lemma reconcileLive_progress:
  assumes live: "reconcileLive E I name inst = Some m" and c: "c \<in> set (trace m)" "progress c"
  shows "\<exists>inst' regs dc others parts. kept E inst' inst \<and>
    scanSites E (is_Sites (i_Spec inst)) [] 0 0 = Scanned regs 0 dc \<and>
    rd_instances (he_Reads E) = Inr others \<and> claimConflict inst others = None \<and>
    restorePlan E inst = Inr (pp_Restore parts) \<and> upgradePlans E inst = Inr (pp_Upgrade parts, pp_Major parts) \<and>
    \<not> (0 < dc \<and> topologyChangingOperationPending (pp_Restore parts) (pp_Upgrade parts) (pp_Major parts)) \<and>
    publishPlans E I name inst' regs parts = Some m"
proof -
  from reconcileLive_plan [OF live c] obtain i1 regs dd dc where i1: "kept E i1 inst"
    "scanSites E (is_Sites (i_Spec inst)) [] 0 0 = Scanned regs dd dc" "connectSites E I name i1 regs dd dc = Some m" by blast
  from connectSites_plan [OF i1(3) c] obtain i2 others where i2: "kept E i2 i1"
    "rd_instances (he_Reads E) = Inr others" "claimConflict i1 others = None" "dd = 0"
    "planInstance E I name i2 regs dc = Some m" by blast
  from planInstance_plan [OF i2(5) c] obtain parts where parts: "restorePlan E i2 = Inr (pp_Restore parts)"
    "upgradePlans E i2 = Inr (pp_Upgrade parts, pp_Major parts)"
    "\<not> (0 < dc \<and> topologyChangingOperationPending (pp_Restore parts) (pp_Upgrade parts) (pp_Major parts))"
    "publishPlans E I name i2 regs parts = Some m" by blast
  have k: "kept E i2 inst" by (rule kept_trans [OF i2(1) i1(1)])
  have "claimConflict inst others = None"
    using i2(3) claimConflict_cong [of i1 inst others] i1(1) by (simp add: kept_def)
  moreover have "restorePlan E inst = restorePlan E i2" "upgradePlans E inst = upgradePlans E i2"
    using sections_cong [of inst i2] k by (simp_all add: kept_def)
  ultimately show ?thesis using k i1(2) i2(2,4) parts by metis
qed

text \<open>Who removes the finalizer.\<close>

lemma issuePlans_no_update: "UpdateInstance x \<notin> set (trace (issuePlans E I key inst regs parts sites statuses))"
  using issuePlans_trace [of "UpdateInstance x"] by (fastforce simp: planWrite_def)

lemma concludeInstance_no_update:
  assumes "concludeInstance E I name inst parts statuses = Some m"
  shows "UpdateInstance x \<notin> set (trace m)"
proof
  assume c: "UpdateInstance x \<in> set (trace m)"
  then obtain active where "lifecycleOperationActive E (judgeInstance E inst parts statuses) = Inr active"
    using assms by (auto simp: concludeInstance_def Let_def failWith_def split: sum.splits)
  then have "scheduleBackups E I name (judgeInstance E inst parts statuses)
      (backupSchedulingReady E (judgeInstance E inst parts statuses) (pp_Restore parts) (pp_Upgrade parts) (pp_Major parts)
        active) = Some m"
    using assms by (simp add: concludeInstance_def Let_def)
  from scheduleBackups_trace [OF this c] show False by (simp add: quiet_def backupDirective_def)
qed

lemma publishPlans_no_update:
  assumes "publishPlans E I name inst regs parts = Some m"
  shows "UpdateInstance x \<notin> set (trace m)"
proof
  assume c: "UpdateInstance x \<in> set (trace m)"
  obtain f where f: "planFingerprint I inst (pp_Addresses parts) (pp_Candidates parts) (pp_Migration parts)
      (pp_Rotation parts) = Inr f"
    using assms c by (auto simp: publishPlans_def failWith_def split: sum.splits)
  obtain key where key: "signingKey I = Some (Inr key)"
    using assms c f by (auto simp: publishPlans_def failWith_def Let_def split: option.splits sum.splits)
  obtain calls r where plans: "issuePlans E I key (withFingerprint f inst) regs parts (is_Sites (i_Spec inst)) [] = (calls, r)"
    by fastforce
  have "UpdateInstance x \<notin> set calls"
    using issuePlans_no_update [of x E I key "withFingerprint f inst" regs parts "is_Sites (i_Spec inst)" "[]"]
    by (simp add: plans)
  then show False
    using assms c f key plans concludeInstance_no_update by (cases r) (fastforce simp: publishPlans_def Let_def)+
qed

lemma reconcileLive_no_update:
  assumes "reconcileLive E I name inst = Some m"
  shows "UpdateInstance x \<notin> set (trace m)"
proof
  assume c: "UpdateInstance x \<in> set (trace m)"
  have "progress (UpdateInstance x)" by (simp add: progress_def)
  from reconcileLive_progress [OF assms c this] show False using c publishPlans_no_update by blast
qed

lemma issueDeletions_no_update: "UpdateInstance x \<notin> set (trace (issueDeletions E I key inst addresses sites statuses))"
proof (induction sites arbitrary: statuses)
  case (Cons site sites)
  have "UpdateInstance x \<notin> set (trace (signAndPublish E I key inst reg site plan))" for reg plan
    using reconcilePlan_trace [of "UpdateInstance x"]
    by (fastforce simp: signAndPublish_def failWith_def planWrite_def split: sum.splits)
  then show ?case using Cons.IH by (auto simp: failWith_def in_trace_andThen split: read.splits)
qed (simp add: finish_def)

lemma issueDeletionPlans_no_update:
  "issueDeletionPlans E I name inst = Some m \<Longrightarrow> UpdateInstance x \<notin> set (trace m)"
  using issueDeletions_no_update
  by (fastforce simp: issueDeletionPlans_def failWith_def Let_def in_trace_andThen quiet_def
      dest: trace_statusAndStop split: option.splits sum.splits)

lemma statusAndStop_no_update [simp]: "UpdateInstance x \<notin> set (trace (statusAndStop E name inst))"
  using trace_statusAndStop by (fastforce simp: quiet_def)

lemma sort_nil: "sort xs = [] \<longleftrightarrow> xs = []"
  by (metis set_sort set_empty)

lemma finalizeInstance_update:
  assumes "finalizeInstance E I name inst = Some m" "UpdateInstance x \<in> set (trace m)"
  shows "annotation inst forceOrphanAnnotation = ''true'' \<or>
    referencingDeclarations E inst = Inr [] \<and> it_PlanFingerprint (i_Status inst) = ''deleting'' \<and> waitingSites inst = []"
proof (rule ccontr)
  assume "\<not> ?thesis"
  with assms show False
    using issueDeletionPlans_no_update [of E I name inst m x]
    by (auto simp: finalizeInstance_def finish_def failWith_def deletionBlocked_def split: if_splits sum.splits)
qed

text \<open>C6: The controller writes the plan of a site only when it may. Whenever a
  reconciliation of a live instance writes a plan, every site of the instance has a
  registration that is not revoked and accepts what the site asks for, every data site
  is connected, no other live instance claims the same backup repository or key, and
  when a witness is disconnected no restore or upgrade is under way. What it
  writes is the envelope of a plan of one of the instance's sites, addressed to the
  registration of that site and signed with the hub's key.\<close>

theorem plans_need_accepted_sites:
  assumes "rd_instance (he_Reads E) name = Found inst" "om_DeletionTimestamp (i_Meta inst) = None"
    and "distinct (map ps_Name (is_Sites (i_Spec inst)))"
    and "reconcileInstance E I name = Some m" "c \<in> set (trace m)" "planWrite c = Some (n, data)"
  shows "(\<forall>site \<in> set (is_Sites (i_Spec inst)). siteAccepted E site) \<and>
    (\<exists>others. rd_instances (he_Reads E) = Inr others \<and> claimConflict inst others = None) \<and>
    ((\<exists>site \<in> set (is_Sites (i_Spec inst)). siteDisconnected E site) \<longrightarrow>
       restorePlan E inst = Inr None \<and> upgradePlans E inst = Inr (None, None)) \<and>
    (\<exists>site \<in> set (is_Sites (i_Spec inst)). \<exists>reg key plan envelope. n = planName inst (ps_Name site) \<and>
       rd_registration (he_Reads E) (ps_SiteRegistrationRef site) = Found reg \<and>
       signingKey I = Some (Inr key) \<and> Sign (ie_Crypto I) (ie_Json I) key plan = Inr envelope \<and>
       p_SiteUID plan = om_UID (r_Meta reg) \<and> p_InstanceUID plan = om_UID (i_Meta inst) \<and> p_Site plan = site \<and>
       envelopeData I envelope = Inr data)"
proof -
  let ?sites = "is_Sites (i_Spec inst)"
  have progress: "progress c" "\<nexists>x. c = UpdateInstance x" using assms(6) by (auto simp: progress_def planWrite_def)
  have live: "reconcileLive E I name inst = Some m"
    by (rule reconcileInstance_live [OF assms(1,2,4,5) progress(2)])
  from reconcileLive_progress [OF live assms(5) progress(1)] obtain inst' regs dc others parts where w:
    "kept E inst' inst" "scanSites E ?sites [] 0 0 = Scanned regs 0 dc"
    "rd_instances (he_Reads E) = Inr others" "claimConflict inst others = None"
    "restorePlan E inst = Inr (pp_Restore parts)" "upgradePlans E inst = Inr (pp_Upgrade parts, pp_Major parts)"
    "\<not> (0 < dc \<and> topologyChangingOperationPending (pp_Restore parts) (pp_Upgrade parts) (pp_Major parts))"
    "publishPlans E I name inst' regs parts = Some m" by blast
  have same: "i_Meta inst' = i_Meta inst" "i_Spec inst' = i_Spec inst" using w(1) by (simp_all add: kept_def)
  from publishPlans_plan [OF w(8) assms(5)] assms(6) same obtain f key where k: "signingKey I = Some (Inr key)"
    "c \<in> set (trace (issuePlans E I key (withFingerprint f inst') regs parts ?sites []))" by auto
  have accepted: "siteAccepted E site" if "site \<in> set ?sites" for site
    using scanSites_found [OF w(2) that] by (auto simp: siteAccepted_def)
  have "0 < dc" if "site \<in> set ?sites" "siteDisconnected E site" for site
    using scanSites_found [OF w(2) that(1)] that(2) by (auto simp: siteDisconnected_def split: if_splits)
  then have degraded: "(\<exists>site \<in> set ?sites. siteDisconnected E site) \<longrightarrow>
      restorePlan E inst = Inr None \<and> upgradePlans E inst = Inr (None, None)"
    using w(5-7) by (auto simp: topologyChangingOperationPending_def)
  from issuePlans_trace [OF k(2)] obtain site reg envelope where s: "site \<in> set ?sites"
    "map_of regs (ps_Name site) = Some reg"
    "Sign (ie_Crypto I) (ie_Json I) key (sitePlan E (withFingerprint f inst') reg site parts) = Inr envelope"
    "envelopeData I envelope = Inr data" "n = planName (withFingerprint f inst') (ps_Name site)"
    using assms(6) by auto
  have "rd_registration (he_Reads E) (ps_SiteRegistrationRef site) = Found reg"
    using scanSites_registered [OF w(2) assms(3) s(1)] s(2) by auto
  moreover have "n = planName inst (ps_Name site)" using s(5) same by (simp add: planName_def)
  ultimately have "\<exists>reg key plan envelope. n = planName inst (ps_Name site) \<and>
      rd_registration (he_Reads E) (ps_SiteRegistrationRef site) = Found reg \<and> signingKey I = Some (Inr key) \<and>
      Sign (ie_Crypto I) (ie_Json I) key plan = Inr envelope \<and> p_SiteUID plan = om_UID (r_Meta reg) \<and>
      p_InstanceUID plan = om_UID (i_Meta inst) \<and> p_Site plan = site \<and> envelopeData I envelope = Inr data"
    using s(3,4) same k(1) by (intro exI [of _ reg] exI [of _ key]
        exI [of _ "sitePlan E (withFingerprint f inst') reg site parts"] exI [of _ envelope])
      (simp add: sitePlan_def emptyPlan_def)
  then show ?thesis using accepted w(3,4) degraded s(1) by blast
qed

theorem plans_need_accepted_sites_witness:
  "\<exists>m c n data. reconcileInstance (instanceReads runningInstance) sampleInstanceEnv ''db'' = Some m \<and>
     c \<in> set (trace m) \<and> planWrite c = Some (n, data) \<and>
     siteAccepted (instanceReads runningInstance) (sampleSite ''a'' 1 2 1) \<and> n = planName runningInstance ''a''"
proof -
  obtain m c n data where m: "reconcileInstance (instanceReads runningInstance) sampleInstanceEnv ''db'' = Some m"
    "c \<in> set (trace m)" "planWrite c = Some (n, data)"
    using running_run by (force simp: list_ex_iff split: option.splits)
  have i: "rd_instance (he_Reads (instanceReads runningInstance)) ''db'' = Found runningInstance"
    "om_DeletionTimestamp (i_Meta runningInstance) = None" "is_Sites (i_Spec runningInstance) = [sampleSite ''a'' 1 2 1]"
    by (simp_all add: instanceReads_def runningInstance_def sample_defs)
  show ?thesis
    using plans_need_accepted_sites [OF i(1,2) _ m] m by (auto simp: i(3) sampleSite_def)
qed



text \<open>C8: The controller lets a deleted instance go only when nothing depends on it any
  more. A reconciliation of an instance that carries the finalizer removes it only if the
  instance is marked to be orphaned, or if no declaration refers to the instance (other
  than those being deleted and marked themselves), the deletion plans have been issued
  and every site has reported that it is done.\<close>

theorem finalizer_outlives_dependents:
  assumes "rd_instance (he_Reads E) name = Found inst" "containsFinalizer (i_Meta inst) instanceFinalizer"
    and "reconcileInstance E I name = Some m" "UpdateInstance x \<in> set (trace m)"
    and "\<not> containsFinalizer (i_Meta x) instanceFinalizer"
  shows "om_DeletionTimestamp (i_Meta inst) \<noteq> None \<and>
    (annotation inst forceOrphanAnnotation = ''true'' \<or>
     (\<exists>databases users. rd_databases (he_Reads E) = Inr databases \<and> rd_users (he_Reads E) = Inr users \<and>
        (\<forall>db \<in> set databases. ds_InstanceRef (d_Spec db) = om_Name (i_Meta inst) \<longrightarrow> childForceOrphaned (d_Meta db)) \<and>
        (\<forall>u \<in> set users. us_InstanceRef (u_Spec u) = om_Name (i_Meta inst) \<longrightarrow> childForceOrphaned (u_Meta u)) \<and>
        it_PlanFingerprint (i_Status inst) = ''deleting'' \<and>
        (\<forall>s \<in> set (it_Sites (i_Status inst)). st_Phase s = ''Deleted'')))"
proof -
  have reading: "rd_instance (he_Reads E) name = Found inst" by (rule assms(1))
  show ?thesis
  proof (cases "om_DeletionTimestamp (i_Meta inst) = None")
    case True
    then have "reconcileLive E I name inst = Some m" using assms(2,3) reading by (simp add: reconcileInstance_def)
    then have "UpdateInstance x \<notin> set (trace m)" by (rule reconcileLive_no_update)
    then show ?thesis using assms(4) by simp
  next
    case False
    then have "finalizeInstance E I name inst = Some m" using assms(3) reading by (simp add: reconcileInstance_def)
    from finalizeInstance_update [OF this assms(4)] False show ?thesis
      by (fastforce simp: referencingDeclarations_def waitingSites_def sort_nil filter_empty_conv split: sum.splits)
  qed
qed

text \<open>The same instance when all its sites are gone.\<close>

definition releasableInstance :: MultiSitePostgres where
  "releasableInstance = runningInstance
     \<lparr>i_Meta := (sampleMeta ''db'')\<lparr>om_Finalizers := [instanceFinalizer], om_DeletionTimestamp := Some 0\<rparr>,
      i_Status := sampleStatus\<lparr>it_PlanFingerprint := ''deleting'', it_Sites := [runningSite\<lparr>st_Phase := ''Deleted''\<rparr>]\<rparr>\<rparr>"

lemma releasable_run:
  "reconcileInstance (instanceReads releasableInstance) sampleInstanceEnv ''db'' =
     Some ([UpdateInstance (releasableInstance\<lparr>i_Meta := removeFinalizer instanceFinalizer (i_Meta releasableInstance)\<rparr>)],
       Inr emptyResult)"
  by (simp add: reconcileInstance_def finalizeInstance_def releasableInstance_def instanceReads_def sampleEnv_def
      sampleReads_def sample_defs containsFinalizer_def referencingDeclarations_def waitingSites_def releaseInstance_def
      deletePlanConfigMaps_def sampleInstanceEnv_def finish_def andThen_def call_def forceOrphanAnnotation_def)

theorem finalizer_outlives_dependents_witness:
  "\<exists>m x. reconcileInstance (instanceReads releasableInstance) sampleInstanceEnv ''db'' = Some m \<and>
     UpdateInstance x \<in> set (trace m) \<and> \<not> containsFinalizer (i_Meta x) instanceFinalizer \<and>
     (\<forall>s \<in> set (it_Sites (i_Status releasableInstance)). st_Phase s = ''Deleted'')"
proof -
  let ?x = "releasableInstance\<lparr>i_Meta := removeFinalizer instanceFinalizer (i_Meta releasableInstance)\<rparr>"
  have gone: "\<not> containsFinalizer (i_Meta ?x) instanceFinalizer"
    by (simp add: containsFinalizer_def removeFinalizer_def)
  have i: "rd_instance (he_Reads (instanceReads releasableInstance)) ''db'' = Found releasableInstance"
    "containsFinalizer (i_Meta releasableInstance) instanceFinalizer"
    "annotation releasableInstance forceOrphanAnnotation \<noteq> ''true''"
    by (simp_all add: instanceReads_def releasableInstance_def containsFinalizer_def sampleMeta_def)
  show ?thesis
    using finalizer_outlives_dependents [OF i(1,2) releasable_run _ gone] i(3) releasable_run gone by fastforce
qed

end
