(* ===== verification/Control_Server.thy ===== *)
theory Control_Server
  imports Instance_Plans Site_Registration Declarations
begin

text \<open>
  The hub's end of the control stream, \<open>internal/control/server.go\<close>: the binding of
  an agent to its registration, the plans and directives sent to it, and the reports
  received from it. What the server reads, the clock, the encodings and the calls
  (writes to the API server and messages on the stream) are the fields of the parameter
  \<open>server_env\<close>. A handler that retries on a write conflict runs the same function again
  on newer reads, so a definition is one attempt. The two goroutines of a connection
  share nothing but the stream: a connection is a sequence of rounds of the sender
  and of received messages.
\<close>

section \<open>Messages\<close>

record AgentHello =
  ah_RegistrationUid :: string
  ah_ClusterUid :: string
  ah_AgentVersion :: string
  ah_Capabilities :: "string list"
  ah_ProtocolVersion :: string

record PlanAcknowledgement =
  ak_InstanceUid :: string
  ak_Revision :: int
  ak_Accepted :: bool
  ak_ValidationErrors :: "string list"

record PlanProgress =
  pr_OperationUid :: string
  pr_InstanceUid :: string
  pr_Revision :: int
  pr_Phase :: string
  pr_ResourceSummaries :: smap

record WireCondition =
  wc_Type :: string
  wc_Status :: string
  wc_Reason :: string
  wc_Message :: string

record PlanResult =
  pl_OperationUid :: string
  pl_InstanceUid :: string
  pl_AppliedRevision :: int
  pl_Conditions :: "WireCondition list"

record Inventory =
  in_StorageClasses :: "StorageClassInventory list"
  in_VolumeSnapshotClasses :: "VolumeSnapshotClassInventory list"
  in_Issuers :: "IssuerReference list"

datatype AgentMessage =
    Hello AgentHello
  | Heartbeat
  | Acknowledgement PlanAcknowledgement
  | Progress PlanProgress
  | ResultMessage PlanResult
  | InventoryMessage bytes
  | SigningRequest string bytes

datatype server_call =
    Write hub_call
  | SendPlan string int string
  | SendDirective string string string string
  | SendCertificate string bytes bytes time

text \<open>The ConfigMaps that the server lists carry their namespace, name and owners.\<close>

record ListedMap =
  lm_Namespace :: string
  lm_Name :: string
  lm_Data :: smap
  lm_Owners :: "OwnerReference list"


record server_env =
  sv_K :: condition_api
  sv_Api :: "server_call \<Rightarrow> string option"
  sv_Now :: time
  sv_Registrations :: "string + SiteRegistration list"
  sv_Registration :: "string \<Rightarrow> SiteRegistration read"
  sv_PlanMaps :: "string \<Rightarrow> string + ListedMap list"
  sv_DirectiveMaps :: "string + ListedMap list"
  sv_Instance :: "string \<Rightarrow> string \<Rightarrow> MultiSitePostgres read"
  sv_Database :: "string \<Rightarrow> string \<Rightarrow> PostgresDatabase read"
  sv_User :: "string \<Rightarrow> string \<Rightarrow> PostgresUser read"
  sv_Restore :: "string \<Rightarrow> string \<Rightarrow> PostgresRestore read"
  sv_Upgrade :: "string \<Rightarrow> string \<Rightarrow> PostgresUpgrade read"
  sv_IndexedInstances :: "string \<Rightarrow> string + MultiSitePostgres list"
  sv_AllInstances :: "string + MultiSitePostgres list"
  sv_SigningSecret :: "smap read"
  sv_Crypto :: crypto_api
  sv_Json :: json_api
  sv_Envelope :: envelope_api
  sv_MarshalEnvelope :: "Envelope \<Rightarrow> string + string"
  sv_DatabaseSpec :: "PostgresDatabaseSpec \<Rightarrow> string + string"
  sv_UserSpec :: "PostgresUserSpec \<Rightarrow> string + string"
  sv_DecodeBackup :: "string \<Rightarrow> string + string"
  sv_DecodeScheduled :: "string \<Rightarrow> (string \<times> string) option"
  sv_DecodeCondition :: "string \<Rightarrow> (string \<times> string \<times> string) option"
  sv_DecodeInventory :: "bytes \<Rightarrow> Inventory option"
  sv_DecodeStrings :: "string \<Rightarrow> string list option"
  sv_ParseTime :: "string \<Rightarrow> time option"
  sv_FormatNano :: "time \<Rightarrow> string"
  sv_SignCertificate :: "(SiteRegistration \<Rightarrow> bytes \<Rightarrow> string + (bytes \<times> bytes)) option"
  sv_PemDecode :: "bytes \<Rightarrow> bytes option"
  sv_ParseCertificate :: "bytes \<Rightarrow> time option"
  sv_MaxDirectivesPerSync :: int

type_synonym 'r serving = "(server_call, 'r) outcome"

abbreviation serve :: "server_env \<Rightarrow> server_call \<Rightarrow> 'r serving \<Rightarrow> 'r serving" where
  "serve S c k \<equiv> call (sv_Api S) c k"

text \<open>A gRPC status error: its code and its message.\<close>

definition statusError :: "string \<Rightarrow> string \<Rightarrow> string" where
  "statusError code message = code @ '': '' @ message"

section \<open>Conditions\<close>

definition setSiteCondition ::
  "condition_api \<Rightarrow> condition list \<Rightarrow> string \<Rightarrow> ConditionStatus \<Rightarrow> string \<Rightarrow> string \<Rightarrow> condition list" where
  "setSiteCondition K conditions conditionType status reason message =
     SetStatusCondition K conditions
       \<lparr>c_Type = conditionType, c_Status = status, c_ObservedGeneration = 0, c_Reason = reason, c_Message = message\<rparr>"

definition setInstanceCondition ::
  "condition_api \<Rightarrow> condition list \<Rightarrow> int \<Rightarrow> string \<Rightarrow> ConditionStatus \<Rightarrow> string \<Rightarrow> string \<Rightarrow> condition list" where
  "setInstanceCondition K conditions generation conditionType status reason message =
     SetStatusCondition K conditions
       \<lparr>c_Type = conditionType, c_Status = status, c_ObservedGeneration = generation, c_Reason = reason,
        c_Message = message\<rparr>"

text \<open>\<open>metav1.ConditionStatus\<close> is a string: the conversion keeps any text.\<close>

definition conditionStatus :: "string \<Rightarrow> ConditionStatus" where
  "conditionStatus s =
     (if s = ''True'' then ConditionTrue else if s = ''False'' then ConditionFalse
      else if s = ''Unknown'' then ConditionUnknown else ConditionOther s)"

section \<open>Identity\<close>



text \<open>One attempt of \<open>updateSiteStatus\<close>; the mutation may refuse.\<close>

definition updateSiteStatus ::
  "server_env \<Rightarrow> string \<Rightarrow> (SiteRegistration \<Rightarrow> string + SiteRegistration) \<Rightarrow> SiteRegistration serving" where
  "updateSiteStatus S siteName mutate =
     (case sv_Registration S siteName of
        NotFound \<Rightarrow> failWith ''NotFound''
      | ReadError e \<Rightarrow> failWith e
      | Found current \<Rightarrow>
          (case mutate current of
             Inl e \<Rightarrow> failWith e
           | Inr updated \<Rightarrow> serve S (Write (StatusSite updated)) (finish updated)))"

abbreviation updSiteStatus :: "(SiteRegistrationStatus \<Rightarrow> SiteRegistrationStatus) \<Rightarrow> SiteRegistration \<Rightarrow> SiteRegistration" where
  "updSiteStatus f site \<equiv> site\<lparr>r_Status := f (r_Status site)\<rparr>"



text \<open>An error that carries no gRPC code is reported as internal; the refusal of the
  mutation carries one.\<close>

definition internalise :: "'r serving \<Rightarrow> 'r serving" where
  "internalise m = (fst m, case snd m of Inl e \<Rightarrow> Inl (statusError ''Internal'' e) | Inr r \<Rightarrow> Inr r)"



definition ensureSiteActive :: "server_env \<Rightarrow> string \<Rightarrow> string \<Rightarrow> string option" where
  "ensureSiteActive S name uid =
     (case sv_Registration S name of
        NotFound \<Rightarrow> Some (statusError ''PermissionDenied'' ''site registration no longer exists'')
      | ReadError e \<Rightarrow> Some e
      | Found site \<Rightarrow>
          if om_UID (r_Meta site) \<noteq> uid \<or> rs_Revoked (r_Spec site)
          then Some (statusError ''PermissionDenied'' ''site registration is revoked'') else None)"

section \<open>Targets of directives\<close>

text \<open>The name of the first site that reports an address of the member, or empty.\<close>

definition memberSite :: "MultiSitePostgres \<Rightarrow> string \<Rightarrow> string" where
  "memberSite inst member =
     (case List.find (\<lambda>observed. mhas (st_Addresses observed) member) (it_Sites (i_Status inst)) of
        None \<Rightarrow> ''''
      | Some observed \<Rightarrow> st_Name observed)"

definition memberTargetsSite :: "MultiSitePostgres \<Rightarrow> string \<Rightarrow> string \<Rightarrow> bool" where
  "memberTargetsSite inst member siteName =
     (case List.find (\<lambda>desired. ps_Name desired = memberSite inst member) (is_Sites (i_Spec inst)) of
        None \<Rightarrow> False
      | Some desired \<Rightarrow> ps_SiteRegistrationRef desired = siteName)"

definition selectBackupSource :: "MultiSitePostgres \<Rightarrow> string" where
  "selectBackupSource inst =
     (case List.find (\<lambda>standby. memberSite inst standby \<noteq> '''') (sort (it_SynchronousStandbys (i_Status inst))) of
        Some standby \<Rightarrow> standby
      | None \<Rightarrow>
          if memberSite inst (it_Primary (i_Status inst)) \<noteq> '''' then it_Primary (i_Status inst) else '''')"

fun primaryTargetsSite :: "MultiSitePostgres \<Rightarrow> string \<Rightarrow> SiteRevisionStatus list \<Rightarrow> bool" where
  "primaryTargetsSite inst siteName [] = False"
| "primaryTargetsSite inst siteName (observed # rest) =
     (if \<not> mhas (st_Addresses observed) (it_Primary (i_Status inst)) then primaryTargetsSite inst siteName rest
      else
        (case List.find (\<lambda>desired. ps_Name desired = st_Name observed) (is_Sites (i_Spec inst)) of
           Some desired \<Rightarrow> ps_SiteRegistrationRef desired = siteName
         | None \<Rightarrow> primaryTargetsSite inst siteName rest))"

definition directiveTargetsSite :: "MultiSitePostgres \<Rightarrow> string \<Rightarrow> string \<Rightarrow> bool" where
  "directiveTargetsSite inst directiveType siteName =
     (if directiveType \<noteq> ''Database'' \<and> directiveType \<noteq> ''User'' then True
      else if it_Primary (i_Status inst) = '''' then False
      else primaryTargetsSite inst siteName (it_Sites (i_Status inst)))"

section \<open>Trust in the owner of a directive\<close>

definition groupVersion :: string where
  "groupVersion = ''multisite-postgres.dev/v1alpha1''"

definition deletionRequested :: "ObjectMeta \<Rightarrow> bool" where
  "deletionRequested meta = (case om_DeletionTimestamp meta of None \<Rightarrow> False | Some t \<Rightarrow> t \<noteq> zeroTime)"

definition declarationDirectiveTrusted ::
  "ListedMap \<Rightarrow> OwnerReference \<Rightarrow> MultiSitePostgres \<Rightarrow> ObjectMeta \<Rightarrow> string \<Rightarrow> DeletionPolicy \<Rightarrow> string + string
     \<Rightarrow> string + bool" where
  "declarationDirectiveTrusted configMap owner inst meta instanceRef deletionPolicy encodedSpec =
     (let deleting = (mget (lm_Data configMap) ''deleting'' = ''true'') in
      if om_UID meta \<noteq> or_UID owner \<or> instanceRef \<noteq> om_Name (i_Meta inst) \<or>
         mget (lm_Data configMap) ''operationUID'' \<noteq>
           om_UID meta @ ''-'' @ fmt_d (om_Generation meta) @ ''-'' @ fmt_t deleting \<or>
         deleting \<noteq> deletionRequested meta \<or>
         deleting \<and> deletionPolicy \<noteq> DeletionPolicyDelete
      then Inr False
      else map_sum id (\<lambda>encoded. encoded = mget (lm_Data configMap) ''spec.json'') encodedSpec)"

definition databaseDirectiveTrusted ::
  "server_env \<Rightarrow> ListedMap \<Rightarrow> OwnerReference \<Rightarrow> MultiSitePostgres \<Rightarrow> string + bool" where
  "databaseDirectiveTrusted S configMap owner inst =
     (if mget (lm_Data configMap) ''type'' \<noteq> ''Database'' \<or> lm_Name configMap \<noteq> ''mspsql-database-'' @ or_Name owner
      then Inr False
      else
        (case sv_Database S (lm_Namespace configMap) (or_Name owner) of
           NotFound \<Rightarrow> Inr False
         | ReadError e \<Rightarrow> Inl e
         | Found object \<Rightarrow>
             declarationDirectiveTrusted configMap owner inst (d_Meta object) (ds_InstanceRef (d_Spec object))
               (ds_DeletionPolicy (d_Spec object)) (sv_DatabaseSpec S (d_Spec object))))"

definition userDirectiveTrusted ::
  "server_env \<Rightarrow> ListedMap \<Rightarrow> OwnerReference \<Rightarrow> MultiSitePostgres \<Rightarrow> string + bool" where
  "userDirectiveTrusted S configMap owner inst =
     (if mget (lm_Data configMap) ''type'' \<noteq> ''User'' \<or> lm_Name configMap \<noteq> ''mspsql-user-'' @ or_Name owner
      then Inr False
      else
        (case sv_User S (lm_Namespace configMap) (or_Name owner) of
           NotFound \<Rightarrow> Inr False
         | ReadError e \<Rightarrow> Inl e
         | Found object \<Rightarrow>
             declarationDirectiveTrusted configMap owner inst (u_Meta object) (us_InstanceRef (u_Spec object))
               (us_DeletionPolicy (u_Spec object)) (sv_UserSpec S (u_Spec object))))"

definition scheduledBackupDirectiveTrusted ::
  "server_env \<Rightarrow> ListedMap \<Rightarrow> OwnerReference \<Rightarrow> MultiSitePostgres \<Rightarrow> bool" where
  "scheduledBackupDirectiveTrusted S configMap owner inst =
     (if mget (lm_Data configMap) ''type'' \<noteq> ''Backup'' \<or> or_UID owner \<noteq> om_UID (i_Meta inst) \<or>
         or_Name owner \<noteq> om_Name (i_Meta inst) \<or> mget (lm_Data configMap) ''deleting'' \<noteq> ''false''
      then False
      else
        (case sv_DecodeScheduled S (mget (lm_Data configMap) ''spec.json'') of
           None \<Rightarrow> False
         | Some (kind, scheduled) \<Rightarrow>
             (case sv_ParseTime S scheduled of
                None \<Rightarrow> False
              | Some scheduledAt \<Rightarrow>
                  (\<exists>status \<in> set (it_BackupSchedules (i_Status inst)).
                     bss_Type status = kind \<and> bss_LastScheduledAt status = Some scheduledAt) \<and>
                  lm_Name configMap = ''mspsql-backup-'' @ kind @ ''-'' @ fmt_d (unix scheduledAt) \<and>
                  mget (lm_Data configMap) ''operationUID'' =
                    om_UID (i_Meta inst) @ ''-backup-'' @ kind @ ''-'' @ fmt_d (unix scheduledAt))))"

definition upgradeBackupDirectiveTrusted ::
  "server_env \<Rightarrow> ListedMap \<Rightarrow> OwnerReference \<Rightarrow> MultiSitePostgres \<Rightarrow> string + bool" where
  "upgradeBackupDirectiveTrusted S configMap owner inst =
     (if mget (lm_Data configMap) ''type'' \<noteq> ''Backup'' \<or> mget (lm_Data configMap) ''deleting'' \<noteq> ''false''
      then Inr False
      else
        (case sv_Upgrade S (lm_Namespace configMap) (or_Name owner) of
           NotFound \<Rightarrow> Inr False
         | ReadError e \<Rightarrow> Inl e
         | Found object \<Rightarrow>
             (let uid = om_UID (g_Meta object); phase = mget (lm_Data configMap) ''upgradeBackupPhase'';
                  attempt = fmt_d (gt_PostUpgradeBackupAttempt (g_Status object)) in
              if uid \<noteq> or_UID owner \<or> gs_InstanceRef (g_Spec object) \<noteq> om_Name (i_Meta inst) then Inr False
              else if phase = ''preflight''
              then Inr (gt_PreflightBackupRequestedAt (g_Status object) \<noteq> None \<and>
                        lm_Name configMap = ''mspsql-upgrade-backup-'' @ uid \<and>
                        mget (lm_Data configMap) ''operationUID'' = uid @ ''-preflight-backup'')
              else if phase = ''post-upgrade''
              then Inr (gt_PostUpgradeBackupRequestedAt (g_Status object) \<noteq> None \<and>
                        lm_Name configMap = ''mspsql-post-upgrade-backup-'' @ uid @ ''-'' @ attempt \<and>
                        mget (lm_Data configMap) ''operationUID'' = uid @ ''-post-upgrade-backup-'' @ attempt)
              else Inr False)))"

definition directiveOwnerTrusted ::
  "server_env \<Rightarrow> ListedMap \<Rightarrow> OwnerReference option \<Rightarrow> MultiSitePostgres \<Rightarrow> string + bool" where
  "directiveOwnerTrusted S configMap controller inst =
     (case controller of
        None \<Rightarrow> Inr False
      | Some owner \<Rightarrow>
          if or_APIVersion owner \<noteq> groupVersion \<or> or_UID owner = '''' \<or>
             mget (lm_Data configMap) ''instanceRef'' \<noteq> om_Name (i_Meta inst)
          then Inr False
          else if or_Kind owner = ''PostgresDatabase'' then databaseDirectiveTrusted S configMap owner inst
          else if or_Kind owner = ''PostgresUser'' then userDirectiveTrusted S configMap owner inst
          else if or_Kind owner = ''MultiSitePostgres'' then Inr (scheduledBackupDirectiveTrusted S configMap owner inst)
          else if or_Kind owner = ''PostgresUpgrade'' then upgradeBackupDirectiveTrusted S configMap owner inst
          else Inr False)"

section \<open>The sender\<close>

definition controllerOf :: "ListedMap \<Rightarrow> OwnerReference option" where
  "controllerOf configMap = List.find or_Controller (lm_Owners configMap)"

definition serverSigningKey :: "server_env \<Rightarrow> string + bytes" where
  "serverSigningKey S =
     (case sv_SigningSecret S of
        NotFound \<Rightarrow> Inl ''NotFound''
      | ReadError e \<Rightarrow> Inl e
      | Found data \<Rightarrow>
          (case b64Decode (sv_Crypto S) (mget data ''privateKey'') of
             Inl e \<Rightarrow> Inl ''plan signing Secret contains an invalid private key''
           | Inr privateKey \<Rightarrow>
               if length privateKey \<noteq> PrivateKeySize
               then Inl ''plan signing Secret contains an invalid private key'' else Inr privateKey))"

definition maxDirectivesPerSync :: "server_env \<Rightarrow> int" where
  "maxDirectivesPerSync S = (if sv_MaxDirectivesPerSync S > 0 then sv_MaxDirectivesPerSync S else 100)"

text \<open>Whether a directive is for the site, and the backup it asks for: the source member
  and the type, both empty when it is no backup.\<close>

definition directiveTarget ::
  "server_env \<Rightarrow> ListedMap \<Rightarrow> MultiSitePostgres \<Rightarrow> string \<Rightarrow> string + (string \<times> string) option" where
  "directiveTarget S configMap inst siteName =
     (let directiveType = mget (lm_Data configMap) ''type'' in
      if directiveType = ''Backup''
      then
        (case sv_DecodeBackup S (mget (lm_Data configMap) ''spec.json'') of
           Inl e \<Rightarrow> Inl (''decode backup directive '' @ lm_Name configMap @ '': '' @ e)
         | Inr kind \<Rightarrow>
             (let backupSource = selectBackupSource inst in
              if backupSource = '''' \<or> \<not> memberTargetsSite inst backupSource siteName then Inr None
              else Inr (Some (backupSource, kind))))
      else if directiveTargetsSite inst directiveType siteName then Inr (Some ('''', '''')) else Inr None)"

definition directivePayload ::
  "server_env \<Rightarrow> string \<Rightarrow> ListedMap \<Rightarrow> MultiSitePostgres \<Rightarrow> OwnerReference \<Rightarrow> string \<times> string \<Rightarrow> Payload" where
  "directivePayload S siteUID configMap inst owner backup =
     \<lparr>y_ProtocolVersion = '''', y_SiteUID = siteUID, y_InstanceUID = om_UID (i_Meta inst), y_ObjectUID = or_UID owner,
      y_OperationUID = mget (lm_Data configMap) ''operationUID'', y_Type = mget (lm_Data configMap) ''type'',
      y_Primary = it_Primary (i_Status inst), y_BackupSource = fst backup, y_BackupType = snd backup,
      y_Deleting = (mget (lm_Data configMap) ''deleting'' = ''true''), y_GeneratedAt = sv_Now S,
      y_Spec = mget (lm_Data configMap) ''spec.json''\<rparr>"

text \<open>The signing key is read once, before the first directive of the pass; \<open>n\<close> counts the
  directives sent in the pass.\<close>

fun sendDirectiveMaps ::
  "server_env \<Rightarrow> string \<Rightarrow> string \<Rightarrow> ListedMap list \<Rightarrow> string list \<Rightarrow> bytes option \<Rightarrow> int \<Rightarrow> string list serving" where
  "sendDirectiveMaps S siteName siteUID [] sent key n = finish sent"
| "sendDirectiveMaps S siteName siteUID (configMap # configMaps) sent key n =
     (let skip = sendDirectiveMaps S siteName siteUID configMaps sent key n;
          operationUID = mget (lm_Data configMap) ''operationUID'' in
      if operationUID = '''' \<or> operationUID \<in> set sent then skip
      else
        (case sv_Instance S (lm_Namespace configMap) (mget (lm_Data configMap) ''instanceRef'') of
           NotFound \<Rightarrow> skip
         | ReadError e \<Rightarrow> failWith e
         | Found inst \<Rightarrow>
             (case directiveTarget S configMap inst siteName of
                Inl e \<Rightarrow> failWith e
              | Inr None \<Rightarrow> skip
              | Inr (Some backup) \<Rightarrow>
                  (case directiveOwnerTrusted S configMap (controllerOf configMap) inst of
                     Inl e \<Rightarrow> failWith e
                   | Inr trusted \<Rightarrow>
                       (case controllerOf configMap of
                          None \<Rightarrow> skip
                        | Some owner \<Rightarrow>
                            if \<not> trusted then skip
                            else
                              (case (case key of Some loaded \<Rightarrow> Inr loaded | None \<Rightarrow> serverSigningKey S) of
                                 Inl e \<Rightarrow> failWith e
                               | Inr privateKey \<Rightarrow>
                                   (case SignDirective (sv_Crypto S) (sv_Json S) privateKey
                                           (directivePayload S siteUID configMap inst owner backup) of
                                      Inl e \<Rightarrow> failWith (''sign directive '' @ lm_Name configMap @ '': '' @ e)
                                    | Inr envelope \<Rightarrow>
                                        (case sv_MarshalEnvelope S envelope of
                                           Inl e \<Rightarrow> failWith e
                                         | Inr encoded \<Rightarrow>
                                             serve S (SendDirective operationUID (om_UID (i_Meta inst))
                                                        (mget (lm_Data configMap) ''type'') encoded)
                                               (if n + 1 \<ge> maxDirectivesPerSync S then finish (operationUID # sent)
                                                else sendDirectiveMaps S siteName siteUID configMaps (operationUID # sent)
                                                       (Some privateKey) (n + 1))))))))))"

definition sendDirectives :: "server_env \<Rightarrow> string \<Rightarrow> string \<Rightarrow> string list \<Rightarrow> string list serving" where
  "sendDirectives S siteName siteUID sent =
     (case sv_DirectiveMaps S of
        Inl e \<Rightarrow> failWith e
      | Inr configMaps \<Rightarrow> sendDirectiveMaps S siteName siteUID configMaps sent None 0)"

text \<open>The revisions sent so far, by instance; a missing entry reads as zero.\<close>

definition sentRevision :: "(string, int) gomap \<Rightarrow> string \<Rightarrow> int" where
  "sentRevision sent instanceUID = (case map_of sent instanceUID of None \<Rightarrow> 0 | Some r \<Rightarrow> r)"

fun sendPlanMaps :: "server_env \<Rightarrow> ListedMap list \<Rightarrow> (string, int) gomap \<Rightarrow> (string, int) gomap serving" where
  "sendPlanMaps S [] sent = finish sent"
| "sendPlanMaps S (configMap # configMaps) sent =
     (case UnmarshalEnvelope (sv_Envelope S) (mget (lm_Data configMap) ''envelope.json'') of
        Inl e \<Rightarrow> failWith (''decode plan ConfigMap '' @ lm_Name configMap @ '': '' @ e)
      | Inr envelope \<Rightarrow>
          (case UnmarshalPlan (sv_Json S) (env_Plan envelope) of
             Inl e \<Rightarrow> failWith (''decode desired plan '' @ lm_Name configMap @ '': '' @ e)
           | Inr desired \<Rightarrow>
               if sentRevision sent (p_InstanceUID desired) \<ge> p_Revision desired then sendPlanMaps S configMaps sent
               else
                 (case sv_MarshalEnvelope S envelope of
                    Inl e \<Rightarrow> failWith e
                  | Inr encoded \<Rightarrow>
                      serve S (SendPlan (p_InstanceUID desired) (p_Revision desired) encoded)
                        (sendPlanMaps S configMaps (AList.update (p_InstanceUID desired) (p_Revision desired) sent)))))"

text \<open>One pass of the loop of \<open>sendPlans\<close>, and passes one after the other, each with what
  it reads at its tick.\<close>

definition sendPlans ::
  "server_env \<Rightarrow> string \<Rightarrow> string \<Rightarrow> (string, int) gomap \<times> string list \<Rightarrow> ((string, int) gomap \<times> string list) serving" where
  "sendPlans S siteName siteUID state =
     (case ensureSiteActive S siteName siteUID of
        Some e \<Rightarrow> failWith e
      | None \<Rightarrow>
          (case sv_PlanMaps S siteUID of
             Inl e \<Rightarrow> failWith e
           | Inr configMaps \<Rightarrow>
               andThen (sendPlanMaps S configMaps (fst state)) (\<lambda>sent.
                 andThen (sendDirectives S siteName siteUID (snd state)) (\<lambda>sentDirectives.
                   finish (sent, sentDirectives)))))"

fun sendLoop ::
  "string \<Rightarrow> string \<Rightarrow> server_env list \<Rightarrow> (string, int) gomap \<times> string list \<Rightarrow> ((string, int) gomap \<times> string list) serving" where
  "sendLoop siteName siteUID [] state = finish state"
| "sendLoop siteName siteUID (S # ticks) state =
     andThen (sendPlans S siteName siteUID state) (sendLoop siteName siteUID ticks)"

section \<open>Reports on plans\<close>

definition instancesByUID :: "server_env \<Rightarrow> string \<Rightarrow> string + MultiSitePostgres list" where
  "instancesByUID S instanceUID =
     (case sv_IndexedInstances S instanceUID of Inr items \<Rightarrow> Inr items | Inl e \<Rightarrow> sv_AllInstances S)"

definition findByUID :: "string \<Rightarrow> MultiSitePostgres list \<Rightarrow> MultiSitePostgres option" where
  "findByUID instanceUID instances = List.find (\<lambda>inst. om_UID (i_Meta inst) = instanceUID) instances"

text \<open>Change the first element that satisfies a predicate.\<close>

fun updateFirst :: "('a \<Rightarrow> bool) \<Rightarrow> ('a \<Rightarrow> 'a) \<Rightarrow> 'a list \<Rightarrow> 'a list" where
  "updateFirst P f [] = []"
| "updateFirst P f (x # xs) = (if P x then f x # xs else x # updateFirst P f xs)"

definition stampSite :: "MultiSitePostgres \<Rightarrow> SiteRevisionStatus \<Rightarrow> SiteRevisionStatus" where
  "stampSite inst site =
     site\<lparr>st_Conditions := map (\<lambda>c. c\<lparr>c_ObservedGeneration := om_Generation (i_Meta inst)\<rparr>) (st_Conditions site)\<rparr>"

text \<open>The result is the site's status as it was before.\<close>

definition updateInstanceSite ::
  "server_env \<Rightarrow> string \<Rightarrow> string \<Rightarrow> (SiteRevisionStatus \<Rightarrow> SiteRevisionStatus) \<Rightarrow> SiteRevisionStatus serving" where
  "updateInstanceSite S instanceUID siteName update =
     (case instancesByUID S instanceUID of
        Inl e \<Rightarrow> failWith e
      | Inr instances \<Rightarrow>
          (case findByUID instanceUID instances of
             None \<Rightarrow> failWith (statusError ''NotFound'' ''instance UID was not found'')
           | Some inst \<Rightarrow>
               (case List.find (\<lambda>site. st_Name site = siteName) (it_Sites (i_Status inst)) of
                  None \<Rightarrow> failWith (statusError ''NotFound'' ''site is not part of the instance'')
                | Some before \<Rightarrow>
                    (let change = stampSite inst \<circ> update in
                     if change before = before then finish before
                     else
                       serve S (Write (StatusInstance (updStatus (\<lambda>st. st\<lparr>it_Sites :=
                                  updateFirst (\<lambda>site. st_Name site = siteName) change (it_Sites st)\<rparr>) inst)))
                         (finish before)))))"

definition triggerInstanceReconcile :: "server_env \<Rightarrow> string \<Rightarrow> unit serving" where
  "triggerInstanceReconcile S instanceUID =
     (case instancesByUID S instanceUID of
        Inl e \<Rightarrow> failWith e
      | Inr instances \<Rightarrow>
          (case findByUID instanceUID instances of
             None \<Rightarrow> failWith (statusError ''NotFound'' ''instance UID was not found'')
           | Some inst \<Rightarrow>
               serve S (Write (PatchInstance (inst\<lparr>i_Meta := (i_Meta inst)\<lparr>om_Annotations :=
                          AList.update ''multisite-postgres.dev/address-observation'' (sv_FormatNano S (sv_Now S))
                            (om_Annotations (i_Meta inst))\<rparr>\<rparr>))) (finish ())))"

definition acknowledgeSite ::
  "server_env \<Rightarrow> PlanAcknowledgement \<Rightarrow> SiteRevisionStatus \<Rightarrow> SiteRevisionStatus" where
  "acknowledgeSite S ack site =
     (if ak_Revision ack \<noteq> st_DesiredRevision site then site
      else if ak_Accepted ack then site\<lparr>st_AcknowledgedRevision := ak_Revision ack, st_Phase := ''Applying''\<rparr>
      else site\<lparr>st_Phase := ''Rejected'', st_Conditions := setSiteCondition (sv_K S) (st_Conditions site)
                 ''PlanAccepted'' ConditionFalse ''ValidationFailed'' (joinStr ''; '' (ak_ValidationErrors ack))\<rparr>)"

definition recordAcknowledgement :: "server_env \<Rightarrow> string \<Rightarrow> PlanAcknowledgement \<Rightarrow> unit serving" where
  "recordAcknowledgement S siteName ack =
     andThen (updateInstanceSite S (ak_InstanceUid ack) siteName (acknowledgeSite S ack)) (\<lambda>_. finish ())"

text \<open>\<open>strings.CutPrefix\<close>: the rest after the prefix, when it is one.\<close>

definition cutPrefix :: "string \<Rightarrow> string \<Rightarrow> string option" where
  "cutPrefix s prefix = (if hasPrefix s prefix then Some (drop (length prefix) s) else None)"

definition reportedStandbys :: "smap \<Rightarrow> string list" where
  "reportedStandbys summaries =
     sort (List.map_filter (\<lambda>(key, value). if value = ''healthy'' then cutPrefix key ''topology/synchronous/'' else None)
       summaries)"

definition hasTopology :: "smap \<Rightarrow> bool" where
  "hasTopology summaries = (mhas summaries ''topology/primary'' \<or> reportedStandbys summaries \<noteq> [])"

definition decodedCondition :: "server_env \<Rightarrow> string \<times> string \<Rightarrow> (string \<times> string \<times> string \<times> string) option" where
  "decodedCondition S entry =
     (case cutPrefix (fst entry) ''condition/'' of
        None \<Rightarrow> None
      | Some conditionType \<Rightarrow> map_option (Pair conditionType) (sv_DecodeCondition S (snd entry)))"

text \<open>The body of the loop over the summaries.\<close>

definition applySummary :: "server_env \<Rightarrow> string \<times> string \<Rightarrow> SiteRevisionStatus \<Rightarrow> SiteRevisionStatus" where
  "applySummary S entry site =
     (let addressed = (case cutPrefix (fst entry) ''address/'' of
            None \<Rightarrow> site
          | Some member \<Rightarrow> site\<lparr>st_Addresses := AList.update member (snd entry) (st_Addresses site)\<rparr>) in
      case decodedCondition S entry of
        None \<Rightarrow> addressed
      | Some (conditionType, status, reason, message) \<Rightarrow>
          addressed\<lparr>st_Conditions := setSiteCondition (sv_K S) (st_Conditions addressed) conditionType
                      (conditionStatus status) reason message\<rparr>)"

definition progressSite :: "server_env \<Rightarrow> PlanProgress \<Rightarrow> SiteRevisionStatus \<Rightarrow> SiteRevisionStatus" where
  "progressSite S progress site =
     (if pr_Revision progress \<noteq> st_DesiredRevision site then site
      else
        (let summaries = pr_ResourceSummaries progress;
             reported = fold (applySummary S) summaries (site\<lparr>st_Phase := pr_Phase progress\<rparr>) in
         if hasTopology summaries
         then reported\<lparr>st_Primary := mget summaries ''topology/primary'',
                st_SynchronousStandbys := reportedStandbys summaries, st_TopologyObservedAt := Some (sv_Now S)\<rparr>
         else reported))"

definition recordProgress :: "server_env \<Rightarrow> string \<Rightarrow> PlanProgress \<Rightarrow> unit serving" where
  "recordProgress S siteName progress =
     andThen (updateInstanceSite S (pr_InstanceUid progress) siteName (progressSite S progress)) (\<lambda>before.
       let summaries = pr_ResourceSummaries progress; current = (pr_Revision progress = st_DesiredRevision before);
           hasAddresses = (current \<and> (\<exists>e \<in> set summaries. hasPrefix (fst e) ''address/''));
           hasConditions = (current \<and> (\<exists>e \<in> set summaries. decodedCondition S e \<noteq> None)) in
       if \<not> hasAddresses \<and> \<not> hasTopology summaries \<and> \<not> hasConditions then finish ()
       else triggerInstanceReconcile S (pr_InstanceUid progress))"

definition applyReported ::
  "(condition list \<Rightarrow> WireCondition \<Rightarrow> condition list) \<Rightarrow> WireCondition list \<Rightarrow> condition list \<Rightarrow> condition list" where
  "applyReported f reported conditions = foldl f conditions reported"

definition resultSite :: "server_env \<Rightarrow> PlanResult \<Rightarrow> SiteRevisionStatus \<Rightarrow> SiteRevisionStatus" where
  "resultSite S result site =
     (if pl_AppliedRevision result \<noteq> st_DesiredRevision site then site
      else site\<lparr>st_AppliedRevision := pl_AppliedRevision result,
        st_Phase := (if \<exists>c \<in> set (pl_Conditions result). wc_Type c = ''Deleted'' \<and> wc_Status c = ''True''
                     then ''Deleted'' else ''Ready''),
        st_Conditions := applyReported (\<lambda>cs c. setSiteCondition (sv_K S) cs (wc_Type c) (conditionStatus (wc_Status c))
                           (wc_Reason c) (wc_Message c)) (pl_Conditions result) (st_Conditions site)\<rparr>)"

section \<open>Results of directives\<close>

definition directiveSucceeded :: "WireCondition list \<Rightarrow> bool" where
  "directiveSucceeded reported =
     ((\<exists>c \<in> set reported. wc_Type c = ''Succeeded'') \<and>
      (\<forall>c \<in> set reported. wc_Type c = ''Succeeded'' \<longrightarrow> wc_Status c = ''True''))"

definition directiveFailure :: "WireCondition list \<Rightarrow> string \<times> string" where
  "directiveFailure conditions =
     (case List.find (\<lambda>c. wc_Status c = ''False'') conditions of
        Some c \<Rightarrow> (wc_Reason c, wc_Message c)
      | None \<Rightarrow> (''DirectiveFailed'', ''The site agent reported directive failure''))"

definition directiveResultOperation :: "PlanResult \<Rightarrow> string \<Rightarrow> string \<Rightarrow> OperationProgressStatus" where
  "directiveResultOperation result phase siteName =
     (let operation = newOperation\<lparr>op_OperationUID := pl_OperationUid result, op_Phase := phase, op_Attempt := 1,
            op_Site := siteName, op_Terminal := True\<rparr> in
      if directiveSucceeded (pl_Conditions result) then operation
      else operation\<lparr>op_LastErrorReason := fst (directiveFailure (pl_Conditions result)),
             op_LastErrorMessage := snd (directiveFailure (pl_Conditions result))\<rparr>)"

definition markBackupScheduleOperation ::
  "PlanResult \<Rightarrow> string \<Rightarrow> MultiSitePostgresStatus \<Rightarrow> MultiSitePostgresStatus" where
  "markBackupScheduleOperation result siteName st =
     st\<lparr>it_BackupSchedules := updateFirst
          (\<lambda>s. case bss_Operation s of None \<Rightarrow> False | Some op \<Rightarrow> op_OperationUID op = pl_OperationUid result)
          (\<lambda>s. s\<lparr>bss_Operation := Some (directiveResultOperation result ''ScheduledBackup'' siteName)\<rparr>)
          (it_BackupSchedules st)\<rparr>"

definition recordEvidence :: "server_env \<Rightarrow> WireCondition \<Rightarrow> MultiSitePostgresStatus \<Rightarrow> MultiSitePostgresStatus" where
  "recordEvidence S c st =
     (if wc_Type c = ''RestoreDrillBackupSet'' then st\<lparr>it_RestoreDrillBackupSet := wc_Message c\<rparr>
      else
        (case sv_ParseTime S (wc_Message c) of
           None \<Rightarrow> st
         | Some parsed \<Rightarrow>
             if wc_Type c = ''BackupCompletedAt'' then st\<lparr>it_LastBackupTime := Some parsed\<rparr>
             else if wc_Type c = ''RecoveryWindowStart'' then st\<lparr>it_RecoveryWindowStart := Some parsed\<rparr>
             else if wc_Type c = ''DisposableRestoreVerifiedAt'' then st\<lparr>it_RestoreDrillLastVerifiedAt := Some parsed\<rparr>
             else st))"

definition updateBackupEvidence ::
  "server_env \<Rightarrow> WireCondition list \<Rightarrow> MultiSitePostgresStatus \<Rightarrow> MultiSitePostgresStatus" where
  "updateBackupEvidence S conditions st = fold (recordEvidence S) conditions st"

definition instanceConditionOf ::
  "server_env \<Rightarrow> string \<Rightarrow> ConditionStatus \<Rightarrow> string \<Rightarrow> string \<Rightarrow> MultiSitePostgres \<Rightarrow> MultiSitePostgres" where
  "instanceConditionOf S conditionType status reason message inst =
     updStatus (\<lambda>st. st\<lparr>it_Conditions := setInstanceCondition (sv_K S) (it_Conditions st) (om_Generation (i_Meta inst))
       conditionType status reason message\<rparr>) inst"

definition setRecoveryWindowCondition :: "server_env \<Rightarrow> MultiSitePostgres \<Rightarrow> MultiSitePostgres" where
  "setRecoveryWindowCondition S inst =
     (if it_RecoveryWindowStart (i_Status inst) = None then inst
      else if it_RestoreDrillLastVerifiedAt (i_Status inst) \<noteq> None
      then instanceConditionOf S ''RecoveryWindowAvailable'' ConditionTrue ''DisposableRestoreVerified'' fixedText inst
      else instanceConditionOf S ''RecoveryWindowAvailable'' ConditionFalse ''RestoreDrillRequired'' fixedText inst)"

definition reportInstanceConditions :: "server_env \<Rightarrow> WireCondition list \<Rightarrow> MultiSitePostgres \<Rightarrow> MultiSitePostgres" where
  "reportInstanceConditions S reported inst =
     foldl (\<lambda>i c. instanceConditionOf S (wc_Type c) (conditionStatus (wc_Status c)) (wc_Reason c) (wc_Message c) i)
       inst reported"

definition recordInstanceDirectiveResult ::
  "server_env \<Rightarrow> ListedMap \<Rightarrow> string \<Rightarrow> string \<Rightarrow> PlanResult \<Rightarrow> unit serving" where
  "recordInstanceDirectiveResult S configMap name siteName result =
     (case sv_Instance S (lm_Namespace configMap) name of
        NotFound \<Rightarrow> failWith ''NotFound''
      | ReadError e \<Rightarrow> failWith e
      | Found inst \<Rightarrow>
          (let reported = reportInstanceConditions S (pl_Conditions result) inst;
               marked = updStatus (markBackupScheduleOperation result siteName) in
           serve S (Write (StatusInstance
             (if directiveSucceeded (pl_Conditions result)
              then setRecoveryWindowCondition S (instanceConditionOf S ''BackupReady'' ConditionTrue ''BackupVerified'' fixedText
                     (marked (updStatus (updateBackupEvidence S (pl_Conditions result)) reported)))
              else instanceConditionOf S ''BackupReady'' ConditionFalse ''BackupFailed'' fixedText (marked reported))))
             (finish ())))"

text \<open>The generation is written into the condition just set.\<close>

definition reportCondition :: "server_env \<Rightarrow> int \<Rightarrow> condition list \<Rightarrow> WireCondition \<Rightarrow> condition list" where
  "reportCondition S generation conditions c =
     (let updated = setSiteCondition (sv_K S) conditions (wc_Type c) (conditionStatus (wc_Status c)) (wc_Reason c)
            (wc_Message c) in
      case FindStatusCondition (sv_K S) updated (wc_Type c) of
        None \<Rightarrow> updated
      | Some _ \<Rightarrow> updateFirst (\<lambda>d. c_Type d = wc_Type c) (\<lambda>d. d\<lparr>c_ObservedGeneration := generation\<rparr>) updated)"

definition applyDirectiveStatus ::
  "server_env \<Rightarrow> condition list \<Rightarrow> bool \<Rightarrow> int \<Rightarrow> WireCondition list \<Rightarrow> string \<times> condition list" where
  "applyDirectiveStatus S conditions deleting generation reported =
     (if \<not> directiveSucceeded reported then ''Failed'' else if deleting then ''Deleted'' else ''Ready'',
      applyReported (reportCondition S generation) reported conditions)"

definition databaseEvidence :: "server_env \<Rightarrow> WireCondition \<Rightarrow> PostgresDatabaseStatus \<Rightarrow> PostgresDatabaseStatus" where
  "databaseEvidence S c st =
     (if wc_Status c \<noteq> ''True'' then st
      else if wc_Type c = ''ObservedSize''
      then (case parseInt 64 (wc_Message c) of Some observed \<Rightarrow> if observed > 0 then st\<lparr>dt_ObservedSize := observed\<rparr> else st | None \<Rightarrow> st)
      else if wc_Type c = ''TDEVerified'' then st\<lparr>dt_TDEVerified := True\<rparr>
      else if wc_Type c = ''OrphanedDeclarations''
      then (case sv_DecodeStrings S (wc_Message c) of Some ds \<Rightarrow> st\<lparr>dt_OrphanedDeclarations := ds\<rparr> | None \<Rightarrow> st)
      else st)"

definition recordDatabaseDirectiveResult ::
  "server_env \<Rightarrow> ListedMap \<Rightarrow> string \<Rightarrow> string \<Rightarrow> PlanResult \<Rightarrow> unit serving" where
  "recordDatabaseDirectiveResult S configMap name siteName result =
     (case sv_Database S (lm_Namespace configMap) name of
        NotFound \<Rightarrow> failWith ''NotFound''
      | ReadError e \<Rightarrow> failWith e
      | Found object \<Rightarrow>
          (let st = d_Status object; generation = om_Generation (d_Meta object);
               applied = applyDirectiveStatus S (dt_Conditions st) (mget (lm_Data configMap) ''deleting'' = ''true'')
                 generation (pl_Conditions result);
               st' = st\<lparr>dt_Phase := fst applied, dt_Conditions := snd applied,
                 dt_Operation := Some (directiveResultOperation result (fst applied) siteName)\<rparr> in
           serve S (Write (StatusDatabase (object\<lparr>d_Status :=
             (fold (databaseEvidence S) (pl_Conditions result) st')\<lparr>dt_ObservedGeneration := generation\<rparr>\<rparr>))) (finish ())))"

definition userEvidence :: "WireCondition \<Rightarrow> PostgresUserStatus \<Rightarrow> PostgresUserStatus" where
  "userEvidence c st =
     (if wc_Type c = ''CredentialVersion'' \<and> wc_Status c = ''True''
      then (case parseInt 64 (wc_Message c) of Some version \<Rightarrow> st\<lparr>ut_CredentialVersion := version\<rparr> | None \<Rightarrow> st)
      else st)"

definition recordUserDirectiveResult ::
  "server_env \<Rightarrow> ListedMap \<Rightarrow> string \<Rightarrow> string \<Rightarrow> PlanResult \<Rightarrow> unit serving" where
  "recordUserDirectiveResult S configMap name siteName result =
     (case sv_User S (lm_Namespace configMap) name of
        NotFound \<Rightarrow> failWith ''NotFound''
      | ReadError e \<Rightarrow> failWith e
      | Found object \<Rightarrow>
          (let st = u_Status object; generation = om_Generation (u_Meta object);
               applied = applyDirectiveStatus S (ut_Conditions st) (mget (lm_Data configMap) ''deleting'' = ''true'')
                 generation (pl_Conditions result);
               st' = st\<lparr>ut_Phase := fst applied, ut_Conditions := snd applied,
                 ut_Operation := Some (directiveResultOperation result (fst applied) siteName)\<rparr> in
           serve S (Write (StatusUser (object\<lparr>u_Status :=
             (fold userEvidence (pl_Conditions result) st')\<lparr>ut_ObservedGeneration := generation\<rparr>\<rparr>))) (finish ())))"

definition recordRestoreDirectiveResult :: "server_env \<Rightarrow> ListedMap \<Rightarrow> string \<Rightarrow> PlanResult \<Rightarrow> unit serving" where
  "recordRestoreDirectiveResult S configMap name result =
     (case sv_Restore S (lm_Namespace configMap) name of
        NotFound \<Rightarrow> failWith ''NotFound''
      | ReadError e \<Rightarrow> failWith e
      | Found object \<Rightarrow>
          (let generation = om_Generation (e_Meta object);
               applied = applyDirectiveStatus S (et_Conditions (e_Status object)) False generation (pl_Conditions result) in
           serve S (Write (StatusRestore (object\<lparr>e_Status := (e_Status object)\<lparr>et_Phase := fst applied,
             et_Conditions := snd applied, et_ObservedGeneration := generation\<rparr>\<rparr>))) (finish ())))"

definition upgradeBackupCondition :: "ListedMap \<Rightarrow> string" where
  "upgradeBackupCondition configMap =
     (if mget (lm_Data configMap) ''upgradeBackupPhase'' = ''post-upgrade'' then ''PostUpgradeBackupReady''
      else ''FreshBackupReady'')"

definition recordUpgradeBackupResult :: "server_env \<Rightarrow> ListedMap \<Rightarrow> string \<Rightarrow> PlanResult \<Rightarrow> unit serving" where
  "recordUpgradeBackupResult S configMap name result =
     (case sv_Upgrade S (lm_Namespace configMap) name of
        NotFound \<Rightarrow> failWith ''NotFound''
      | ReadError e \<Rightarrow> failWith e
      | Found object \<Rightarrow>
          (let succeeded = directiveSucceeded (pl_Conditions result);
               conditions = setInstanceCondition (sv_K S) (gt_Conditions (g_Status object)) (om_Generation (g_Meta object))
                 (upgradeBackupCondition configMap) (if succeeded then ConditionTrue else ConditionFalse)
                 (if succeeded then ''BackupVerified'' else ''BackupFailed'') fixedText in
           serve S (Write (StatusUpgrade (object\<lparr>g_Status := (g_Status object)\<lparr>gt_Conditions := conditions\<rparr>\<rparr>)))
             (if \<not> succeeded then finish ()
              else
                (case sv_Instance S (lm_Namespace configMap) (mget (lm_Data configMap) ''instanceRef'') of
                   NotFound \<Rightarrow> failWith ''NotFound''
                 | ReadError e \<Rightarrow> failWith e
                 | Found inst \<Rightarrow>
                     serve S (Write (StatusInstance (setRecoveryWindowCondition S
                         (instanceConditionOf S ''BackupReady'' ConditionTrue ''BackupVerified'' fixedText
                           (updStatus (updateBackupEvidence S (pl_Conditions result)) inst))))) (finish ())))))"

definition recordUpgradeDirectiveResult :: "server_env \<Rightarrow> ListedMap \<Rightarrow> string \<Rightarrow> PlanResult \<Rightarrow> unit serving" where
  "recordUpgradeDirectiveResult S configMap name result =
     (if mget (lm_Data configMap) ''type'' = ''Backup'' then recordUpgradeBackupResult S configMap name result
      else
        (case sv_Upgrade S (lm_Namespace configMap) name of
           NotFound \<Rightarrow> failWith ''NotFound''
         | ReadError e \<Rightarrow> failWith e
         | Found object \<Rightarrow>
             (let generation = om_Generation (g_Meta object);
                  applied = applyDirectiveStatus S (gt_Conditions (g_Status object)) False generation (pl_Conditions result) in
              serve S (Write (StatusUpgrade (object\<lparr>g_Status := (g_Status object)\<lparr>gt_Phase := fst applied,
                gt_Conditions := snd applied, gt_ObservedGeneration := generation\<rparr>\<rparr>))) (finish ()))))"

definition directiveNotFound :: string where
  "directiveNotFound = statusError ''NotFound'' ''directive operation was not found''"

definition recordOwnedDirectiveResult ::
  "server_env \<Rightarrow> ListedMap \<Rightarrow> OwnerReference \<Rightarrow> string \<Rightarrow> PlanResult \<Rightarrow> unit serving" where
  "recordOwnedDirectiveResult S configMap owner siteName result =
     (if or_Kind owner = ''MultiSitePostgres'' then recordInstanceDirectiveResult S configMap (or_Name owner) siteName result
      else if or_Kind owner = ''PostgresDatabase'' then recordDatabaseDirectiveResult S configMap (or_Name owner) siteName result
      else if or_Kind owner = ''PostgresUser'' then recordUserDirectiveResult S configMap (or_Name owner) siteName result
      else if or_Kind owner = ''PostgresRestore'' then recordRestoreDirectiveResult S configMap (or_Name owner) result
      else if or_Kind owner = ''PostgresUpgrade'' then recordUpgradeDirectiveResult S configMap (or_Name owner) result
      else failWith directiveNotFound)"

definition recordDirectiveResult :: "server_env \<Rightarrow> string \<Rightarrow> PlanResult \<Rightarrow> unit serving" where
  "recordDirectiveResult S siteName result =
     (case sv_DirectiveMaps S of
        Inl e \<Rightarrow> failWith e
      | Inr configMaps \<Rightarrow>
          (case List.find (\<lambda>m. mget (lm_Data m) ''operationUID'' = pl_OperationUid result \<and> lm_Owners m \<noteq> []) configMaps of
             None \<Rightarrow> failWith directiveNotFound
           | Some configMap \<Rightarrow> recordOwnedDirectiveResult S configMap (hd (lm_Owners configMap)) siteName result))"

definition recordResult :: "server_env \<Rightarrow> string \<Rightarrow> PlanResult \<Rightarrow> unit serving" where
  "recordResult S siteName result =
     (if pl_OperationUid result \<noteq> '''' then recordDirectiveResult S siteName result
      else
        andThen (updateInstanceSite S (pl_InstanceUid result) siteName (resultSite S result)) (\<lambda>_.
          triggerInstanceReconcile S (pl_InstanceUid result)))"

section \<open>Conditions of the instance from those of its sites\<close>

text \<open>No code of the program calls \<open>aggregateInstanceConditions\<close>.\<close>

definition siteRole :: "MultiSitePostgres \<Rightarrow> string \<Rightarrow> SiteRole option" where
  "siteRole inst siteName =
     map_option ps_Role (List.find (\<lambda>site. ps_Name site = siteName) (is_Sites (i_Spec inst)))"

definition siteConditionTrue :: "server_env \<Rightarrow> string \<Rightarrow> SiteRevisionStatus \<Rightarrow> bool" where
  "siteConditionTrue S conditionType site = conditionTrue (sv_K S) (st_Conditions site) conditionType"

text \<open>The loop over the applicable sites, with the fingerprint seen so far (empty at first):
  the reason for which it stops, or \<open>None\<close>.\<close>

fun commonTrust :: "server_env \<Rightarrow> string \<Rightarrow> SiteRevisionStatus list \<Rightarrow> string \<Rightarrow> string option" where
  "commonTrust S conditionType [] fingerprint = None"
| "commonTrust S conditionType (site # sites) fingerprint =
     (case FindStatusCondition (sv_K S) (st_Conditions site) conditionType of
        None \<Rightarrow> Some ''AwaitingSites''
      | Some condition \<Rightarrow>
          if c_Status condition \<noteq> ConditionTrue then Some ''AwaitingSites''
          else if fingerprint = '''' then commonTrust S conditionType sites (c_Message condition)
          else if c_Message condition \<noteq> fingerprint then Some ''TrustBundleMismatch''
          else commonTrust S conditionType sites fingerprint)"

definition aggregateCommonTrust :: "server_env \<Rightarrow> string \<Rightarrow> bool \<Rightarrow> MultiSitePostgres \<Rightarrow> MultiSitePostgres" where
  "aggregateCommonTrust S conditionType dataSitesOnly inst =
     (let applicable = filter (\<lambda>site. \<not> (dataSitesOnly \<and> siteRole inst (st_Name site) = Some SiteRoleWitness))
            (it_Sites (i_Status inst)) in
      case commonTrust S conditionType applicable '''' of
        Some reason \<Rightarrow> instanceConditionOf S conditionType ConditionFalse reason fixedText inst
      | None \<Rightarrow>
          if applicable = [] then inst
          else instanceConditionOf S conditionType ConditionTrue ''CommonTrustBundle'' fixedText inst)"

definition aggregateBackupTLS :: "server_env \<Rightarrow> MultiSitePostgres \<Rightarrow> MultiSitePostgres" where
  "aggregateBackupTLS S inst =
     (if is_Backup (i_Spec inst) = None then inst else aggregateCommonTrust S ''BackupTLSReady'' True inst)"

definition aggregateSiteCondition :: "server_env \<Rightarrow> string \<Rightarrow> MultiSitePostgres \<Rightarrow> MultiSitePostgres" where
  "aggregateSiteCondition S conditionType inst =
     (if conditionType = ''TDEVerified'' \<and> \<not> tde_Enabled (is_TDE (i_Spec inst)) then inst
      else
        (let applicable = filter (\<lambda>site. \<not> (conditionType \<in> {''PatroniReady'', ''TDEVerified''} \<and>
               siteRole inst (st_Name site) = Some SiteRoleWitness)) (it_Sites (i_Status inst)) in
         if (\<forall>site \<in> set applicable. siteConditionTrue S conditionType site) \<and> applicable \<noteq> []
         then instanceConditionOf S conditionType ConditionTrue ''AllSitesReady'' fixedText inst
         else instanceConditionOf S conditionType ConditionFalse ''AwaitingSites'' fixedText inst))"

definition aggregateInstanceConditions :: "server_env \<Rightarrow> MultiSitePostgres \<Rightarrow> MultiSitePostgres" where
  "aggregateInstanceConditions S inst =
     aggregateBackupTLS S (aggregateCommonTrust S ''EtcdTLSReady'' False
       (fold (aggregateSiteCondition S) [''LoadBalancersAllocated'', ''CertificatesReady'', ''EtcdTLSReady'', ''EtcdQuorate'',
          ''PatroniReady'', ''TDEVerified''] inst))"

section \<open>The receiver\<close>

definition recordHeartbeat :: "server_env \<Rightarrow> string \<Rightarrow> unit serving" where
  "recordHeartbeat S siteName =
     andThen (updateSiteStatus S siteName (\<lambda>site. Inr (updSiteStatus (\<lambda>st. st\<lparr>rg_LastHeartbeatTime := Some (sv_Now S),
        rg_Phase := ''Connected'', rg_Conditions := setSiteCondition (sv_K S) (rg_Conditions st) ''Connected'' ConditionTrue
          ''HeartbeatReceived'' fixedText\<rparr>) site))) (\<lambda>_. finish ())"

definition recordInventory :: "server_env \<Rightarrow> string \<Rightarrow> bytes \<Rightarrow> unit serving" where
  "recordInventory S siteName inventoryJson =
     (if length inventoryJson > 1024 * 1024 then failWith (statusError ''ResourceExhausted'' ''inventory exceeds one MiB'')
      else
        (case sv_DecodeInventory S inventoryJson of
           None \<Rightarrow> failWith (statusError ''InvalidArgument'' ''inventory JSON is invalid'')
         | Some inventory \<Rightarrow>
             andThen (updateSiteStatus S siteName (\<lambda>site. Inr (updSiteStatus (\<lambda>st. st
                \<lparr>rg_DiscoveredStorageClasses := in_StorageClasses inventory,
                 rg_DiscoveredVolumeSnapshotClasses := in_VolumeSnapshotClasses inventory,
                 rg_DiscoveredIssuers := in_Issuers inventory\<rparr>) site))) (\<lambda>_. finish ())))"

definition rotateCertificate :: "server_env \<Rightarrow> SiteRegistration \<Rightarrow> string \<Rightarrow> bytes \<Rightarrow> unit serving" where
  "rotateCertificate S site requestId csrPem =
     (case sv_SignCertificate S of
        None \<Rightarrow> failWith (statusError ''FailedPrecondition'' ''certificate renewal is not configured'')
      | Some sign \<Rightarrow>
          if requestId = '''' \<or> length requestId > 128 \<or> csrPem = [] \<or> length csrPem > 16384
          then failWith (statusError ''InvalidArgument'' ''certificate signing request is invalid'')
          else
            (case ensureSiteActive S (om_Name (r_Meta site)) (om_UID (r_Meta site)) of
               Some e \<Rightarrow> failWith e
             | None \<Rightarrow>
                 (case sign site csrPem of
                    Inl e \<Rightarrow> failWith (statusError ''InvalidArgument'' e)
                  | Inr (certificatePem, caPem) \<Rightarrow>
                      (case sv_PemDecode S certificatePem of
                         None \<Rightarrow> failWith (statusError ''Internal'' ''certificate signer returned invalid PEM'')
                       | Some block \<Rightarrow>
                           (case sv_ParseCertificate S block of
                              None \<Rightarrow> failWith (statusError ''Internal'' ''certificate signer returned an invalid certificate'')
                            | Some notAfter \<Rightarrow>
                                serve S (SendCertificate requestId certificatePem caPem notAfter)
                                  (andThen (updateSiteStatus S (om_Name (r_Meta site)) (\<lambda>current.
                                     Inr (updSiteStatus (\<lambda>st. st\<lparr>rg_Conditions := setSiteCondition (sv_K S) (rg_Conditions st)
                                       ''IdentityReady'' ConditionTrue ''CertificateIssued'' fixedText\<rparr>) current)))
                                     (\<lambda>_. finish ())))))))"

definition receive :: "server_env \<Rightarrow> SiteRegistration \<Rightarrow> AgentMessage \<Rightarrow> unit serving" where
  "receive S site message =
     (let siteName = om_Name (r_Meta site) in
      case message of
        SigningRequest requestId csrPem \<Rightarrow> rotateCertificate S site requestId csrPem
      | Heartbeat \<Rightarrow> recordHeartbeat S siteName
      | Acknowledgement ack \<Rightarrow> recordAcknowledgement S siteName ack
      | Progress progress \<Rightarrow> recordProgress S siteName progress
      | ResultMessage result \<Rightarrow> recordResult S siteName result
      | InventoryMessage inventoryJson \<Rightarrow> recordInventory S siteName inventoryJson
      | Hello _ \<Rightarrow> finish ())"

section \<open>Lemmas\<close>

text \<open>What the calls of a stream send: the operations of its directives, and the revisions of
  its plans for an instance.\<close>

definition sentOperations :: "server_call list \<Rightarrow> string list" where
  "sentOperations calls = List.map_filter (\<lambda>c. case c of SendDirective op _ _ _ \<Rightarrow> Some op | _ \<Rightarrow> None) calls"

definition sentRevisions :: "string \<Rightarrow> server_call list \<Rightarrow> int list" where
  "sentRevisions uid calls =
     List.map_filter (\<lambda>c. case c of SendPlan u r _ \<Rightarrow> if u = uid then Some r else None | _ \<Rightarrow> None) calls"

lemma sent_simps [simp]:
  "sentOperations [] = []" "sentRevisions uid [] = []"
  "sentOperations (SendDirective op i t e # cs) = op # sentOperations cs"
  "sentOperations (SendPlan u r e # cs) = sentOperations cs"
  "sentRevisions uid (SendDirective op i t e # cs) = sentRevisions uid cs"
  "sentRevisions uid (SendPlan u r e # cs) = (if u = uid then [r] else []) @ sentRevisions uid cs"
  "sentOperations (xs @ ys) = sentOperations xs @ sentOperations ys"
  "sentRevisions uid (xs @ ys) = sentRevisions uid xs @ sentRevisions uid ys"
  by (simp_all add: sentOperations_def sentRevisions_def List.map_filter_def)

text \<open>What a pass of the directives keeps: it sends each operation once, none of those sent before,
  and remembers what it sent.\<close>

definition sendsNew :: "string list \<Rightarrow> string list serving \<Rightarrow> bool" where
  "sendsNew sent m \<longleftrightarrow> distinct (sentOperations (trace m)) \<and> set (sentOperations (trace m)) \<inter> set sent = {} \<and>
     (\<forall>uid. sentRevisions uid (trace m) = []) \<and>
     (\<forall>sent'. snd m = Inr sent' \<longrightarrow> set sent' = set sent \<union> set (sentOperations (trace m)))"

lemma sendsNew_simps [simp]: "sendsNew sent (finish sent)" "sendsNew sent (failWith e)"
  by (simp_all add: sendsNew_def finish_def failWith_def)

lemma sendsNew_send:
  assumes "op \<notin> set sent" "sendsNew (op # sent) k"
  shows "sendsNew sent (serve S (SendDirective op i t e) k)"
  using assms by (auto simp: sendsNew_def call_def split: option.splits)

lemma sendDirectiveMaps_new: "sendsNew sent (sendDirectiveMaps S siteName siteUID configMaps sent key n)"
proof (induction configMaps arbitrary: sent key n)
  case (Cons configMap configMaps)
  show ?case
    unfolding sendDirectiveMaps.simps Let_def
    by (auto split: if_splits read.splits sum.splits option.splits intro!: sendsNew_send Cons.IH)
qed simp

text \<open>What a pass of the plans keeps: it sends revisions of an instance in increasing order, after
  those sent before.\<close>

definition sendsLater :: "(string, int) gomap \<Rightarrow> (string, int) gomap serving \<Rightarrow> bool" where
  "sendsLater sent m \<longleftrightarrow> sentOperations (trace m) = [] \<and>
     (\<forall>uid. sorted_wrt (<) (sentRevision sent uid # sentRevisions uid (trace m))) \<and>
     (\<forall>sent'. snd m = Inr sent' \<longrightarrow>
        (\<forall>uid. sentRevision sent' uid = last (sentRevision sent uid # sentRevisions uid (trace m))))"

lemma sentRevision_update: "sentRevision (AList.update u r sent) uid = (if u = uid then r else sentRevision sent uid)"
  by (simp add: sentRevision_def update_conv')

lemma sendsLater_simps [simp]: "sendsLater sent (finish sent)" "sendsLater sent (failWith e)"
  by (simp_all add: sendsLater_def finish_def failWith_def)

lemma sendsLater_send:
  assumes "sentRevision sent u < r" "sendsLater (AList.update u r sent) k"
  shows "sendsLater sent (serve S (SendPlan u r e) k)"
proof (cases "sv_Api S (SendPlan u r e)")
  case (Some e)
  then show ?thesis by (simp add: sendsLater_def call_def failWith_def)
next
  case None
  have k: "sorted_wrt (<) ((if u = uid then r else sentRevision sent uid) # sentRevisions uid (trace k))" for uid
    using assms(2) by (simp add: sendsLater_def sentRevision_update)
  have l: "sorted_wrt (<) (sentRevision sent uid # (if u = uid then [r] else []) @ sentRevisions uid (trace k))" for uid
    using k [of uid] assms(1) by (auto split: if_splits)
  then show ?thesis
    using assms(2) None by (auto simp: sendsLater_def call_def sentRevision_update)
qed

lemma sendPlanMaps_later: "sendsLater sent (sendPlanMaps S configMaps sent)"
proof (induction configMaps arbitrary: sent)
  case (Cons configMap configMaps)
  show ?case
    unfolding sendPlanMaps.simps
    by (auto split: if_splits sum.splits intro!: sendsLater_send Cons.IH)
qed simp

text \<open>Both, for a pass and for the whole loop.\<close>

definition sendsFresh ::
  "(string, int) gomap \<times> string list \<Rightarrow> ((string, int) gomap \<times> string list) serving \<Rightarrow> bool" where
  "sendsFresh state m \<longleftrightarrow>
     distinct (sentOperations (trace m)) \<and> set (sentOperations (trace m)) \<inter> set (snd state) = {} \<and>
     (\<forall>uid. sorted_wrt (<) (sentRevision (fst state) uid # sentRevisions uid (trace m))) \<and>
     (\<forall>state'. snd m = Inr state' \<longrightarrow>
        set (snd state') = set (snd state) \<union> set (sentOperations (trace m)) \<and>
        (\<forall>uid. sentRevision (fst state') uid = last (sentRevision (fst state) uid # sentRevisions uid (trace m))))"

lemma sendsFresh_fail [simp]: "sendsFresh state (failWith e)"
  by (simp add: sendsFresh_def failWith_def)

lemma sendBoth_fresh:
  assumes p: "sendsLater (fst state) p" and d: "sendsNew (snd state) d"
  shows "sendsFresh state (andThen p (\<lambda>sent. andThen d (\<lambda>ds. finish (sent, ds))))" (is "sendsFresh state ?m")
proof (cases "snd p")
  case (Inl e)
  then have "?m = (trace p, Inl e)" by (simp add: andThen_def)
  then show ?thesis using p unfolding sendsFresh_def sendsLater_def by simp
next
  case (Inr sent)
  have m: "trace ?m = trace p @ trace d" "snd ?m = (case snd d of Inl e \<Rightarrow> Inl e | Inr ds \<Rightarrow> Inr (sent, ds))"
    using Inr by (simp_all add: andThen_def finish_def split: sum.splits)
  have "sentOperations (trace ?m) = sentOperations (trace d)" "sentRevisions uid (trace ?m) = sentRevisions uid (trace p)" for uid
    using p d unfolding m(1) sendsLater_def sendsNew_def by simp_all
  moreover have "set (snd state') = set (snd state) \<union> set (sentOperations (trace d))"
    "\<forall>uid. sentRevision (fst state') uid = last (sentRevision (fst state) uid # sentRevisions uid (trace p))"
    if "snd ?m = Inr state'" for state'
    using p d that Inr unfolding m(2) sendsLater_def sendsNew_def by (cases state'; simp split: sum.splits)+
  ultimately show ?thesis using p d unfolding sendsFresh_def sendsLater_def sendsNew_def by simp
qed

lemma sendPlans_fresh: "sendsFresh state (sendPlans S siteName siteUID state)"
proof -
  have d: "sendsNew (snd state) (sendDirectives S siteName siteUID (snd state))"
    by (auto simp: sendDirectives_def sendDirectiveMaps_new split: sum.splits)
  show ?thesis
    unfolding sendPlans_def by (auto split: option.splits sum.splits intro!: sendBoth_fresh [OF sendPlanMaps_later d])
qed

lemma sorted_wrt_less_append:
  fixes a :: int
  assumes "sorted_wrt (<) (a # xs)" "sorted_wrt (<) (last (a # xs) # ys)"
  shows "sorted_wrt (<) (a # xs @ ys)" "last (a # xs @ ys) = last (last (a # xs) # ys)"
proof -
  have "\<forall>x \<in> set (a # xs). x \<le> last (a # xs)"
    using assms(1) by (induction xs arbitrary: a rule: rev_induct) (auto simp: sorted_wrt_append less_imp_le)
  then have "\<forall>x \<in> set (a # xs). \<forall>y \<in> set ys. x < y"
    using assms(2) by fastforce
  then show "sorted_wrt (<) (a # xs @ ys)" using assms by (auto simp: sorted_wrt_append)
qed simp

lemma sendLoop_fresh: "sendsFresh state (sendLoop siteName siteUID ticks state)"
proof (induction ticks arbitrary: state)
  case Nil
  then show ?case by (simp add: sendsFresh_def finish_def)
next
  case (Cons S ticks)
  show ?case
  proof (cases "snd (sendPlans S siteName siteUID state)")
    case (Inl e)
    then show ?thesis using sendPlans_fresh [of state S siteName siteUID] by (simp add: sendsFresh_def andThen_def)
  next
    case (Inr state')
    let ?m = "sendPlans S siteName siteUID state" and ?k = "sendLoop siteName siteUID ticks state'"
    have m: "sendsFresh state ?m" and k: "sendsFresh state' ?k" by (rule sendPlans_fresh, rule Cons.IH)
    have last: "sentRevision (fst state') uid = last (sentRevision (fst state) uid # sentRevisions uid (trace ?m))" for uid
      using m Inr by (simp add: sendsFresh_def)
    have rev: "sorted_wrt (<) (sentRevision (fst state) uid # sentRevisions uid (trace ?m) @ sentRevisions uid (trace ?k))"
      "last (sentRevision (fst state) uid # sentRevisions uid (trace ?m) @ sentRevisions uid (trace ?k)) =
         last (sentRevision (fst state') uid # sentRevisions uid (trace ?k))" for uid
      using sorted_wrt_less_append [of "sentRevision (fst state) uid" "sentRevisions uid (trace ?m)"
          "sentRevisions uid (trace ?k)"] m k by (simp_all add: sendsFresh_def last)
    have ops: "distinct (sentOperations (trace ?m) @ sentOperations (trace ?k))"
      "set (sentOperations (trace ?m) @ sentOperations (trace ?k)) \<inter> set (snd state) = {}"
      "set (snd state') = set (snd state) \<union> set (sentOperations (trace ?m))"
      using m k Inr unfolding sendsFresh_def by auto
    have both: "andThen ?m (sendLoop siteName siteUID ticks) = (trace ?m @ trace ?k, snd ?k)"
      using Inr by (simp add: andThen_def)
    have "set (snd state'') = set (snd state) \<union> set (sentOperations (trace ?m) @ sentOperations (trace ?k))"
      "sentRevision (fst state'') uid = last (sentRevision (fst state') uid # sentRevisions uid (trace ?k))"
      if "snd ?k = Inr state''" for state'' uid
      using k that ops(3) unfolding sendsFresh_def by auto
    then show ?thesis
      unfolding sendsFresh_def sendLoop.simps both using ops(1,2) rev by simp
  qed
qed










lemma updateFirst_found:
  "List.find P xs = Some y \<Longrightarrow> updateFirst P f xs = updateFirst P (\<lambda>_. f y) xs"
  by (induction xs) (auto split: if_splits)


lemma applySummary_fixed [simp]:
  "st_Name (applySummary S e site) = st_Name site"
  "st_SiteRegistrationRef (applySummary S e site) = st_SiteRegistrationRef site"
  "st_DesiredRevision (applySummary S e site) = st_DesiredRevision site"
  "st_AppliedRevision (applySummary S e site) = st_AppliedRevision site"
  "st_AcknowledgedRevision (applySummary S e site) = st_AcknowledgedRevision site"
  by (simp_all add: applySummary_def Let_def split: option.splits prod.splits)

lemma fold_applySummary_fixed [simp]:
  "st_Name (fold (applySummary S) es site) = st_Name site"
  "st_SiteRegistrationRef (fold (applySummary S) es site) = st_SiteRegistrationRef site"
  "st_DesiredRevision (fold (applySummary S) es site) = st_DesiredRevision site"
  "st_AppliedRevision (fold (applySummary S) es site) = st_AppliedRevision site"
  "st_AcknowledgedRevision (fold (applySummary S) es site) = st_AcknowledgedRevision site"
  by (induction es arbitrary: site) simp_all

text \<open>The revision and the instance that a report on a plan is about, and what it does to the
  site's status.\<close>

fun reportOf :: "server_env \<Rightarrow> AgentMessage \<Rightarrow> (string \<times> int \<times> (SiteRevisionStatus \<Rightarrow> SiteRevisionStatus)) option" where
  "reportOf S (Acknowledgement ack) = Some (ak_InstanceUid ack, ak_Revision ack, acknowledgeSite S ack)"
| "reportOf S (Progress progress) = Some (pr_InstanceUid progress, pr_Revision progress, progressSite S progress)"
| "reportOf S (ResultMessage result) =
     (if pl_OperationUid result = '''' then Some (pl_InstanceUid result, pl_AppliedRevision result, resultSite S result)
      else None)"
| "reportOf S _ = None"

definition reportKeeps :: "int \<Rightarrow> SiteRevisionStatus \<Rightarrow> SiteRevisionStatus \<Rightarrow> bool" where
  "reportKeeps r before after \<longleftrightarrow>
     st_Name after = st_Name before \<and> st_SiteRegistrationRef after = st_SiteRegistrationRef before \<and>
     st_DesiredRevision after = st_DesiredRevision before \<and>
     st_AppliedRevision after \<in> {st_AppliedRevision before, st_DesiredRevision before} \<and>
     st_AcknowledgedRevision after \<in> {st_AcknowledgedRevision before, st_DesiredRevision before} \<and>
     (r \<noteq> st_DesiredRevision before \<longrightarrow> after = before)"

lemma reportOf_keeps: "reportOf S message = Some (uid, r, f) \<Longrightarrow> reportKeeps r before (f before)"
  by (cases message) (auto simp: reportKeeps_def acknowledgeSite_def progressSite_def resultSite_def Let_def split: if_splits)





lemma trace_internalise [simp]: "trace (internalise m) = trace m"
  by (simp add: internalise_def)












context signing
begin

lemma SignDirective_verifies:
  assumes "SignDirective C J sk y = Inr env" "payload_roundtrips J y"
  shows "VerifyDirective C J (edPublic C sk) env (y_SiteUID y) (y_InstanceUID y) (y_OperationUID y) =
           Inr (y\<lparr>y_ProtocolVersion := ProtocolVersion\<rparr>)"
  using assms signed_authentic
  by (auto simp: SignDirective_def payload_roundtrips_def VerifyDirective_iff_valid split: if_splits)

end


fun directiveWrite :: "hub_call \<Rightarrow> (string \<times> smap) option" where
  "directiveWrite (CreateConfigMap n cm ow) = Some (n, cm_Data cm)"
| "directiveWrite (UpdateConfigMap n cm) = Some (n, cm_Data cm)"
| "directiveWrite c = None"


definition silent :: "'r reconciliation \<Rightarrow> bool" where
  "silent k \<longleftrightarrow> (\<forall>c \<in> set (trace k). directiveWrite c = None)"

lemma silent_basic [simp]: "silent (finish r)" "silent (failWith e)"
  by (simp_all add: silent_def)

lemma silent_call [simp]:
  "silent k \<Longrightarrow> silent (perform E (StatusDatabase db) k)" "silent k \<Longrightarrow> silent (perform E (StatusUser u) k)"
  "silent k \<Longrightarrow> silent (perform E (UpdateDatabase db) k)" "silent k \<Longrightarrow> silent (perform E (UpdateUser u) k)"
  by (auto simp: silent_def dest!: in_trace_call)









section \<open>Sample values\<close>

text \<open>An instance on one site whose database \<open>app\<close> is declared, and what the server reads.\<close>

definition servedSite :: SiteRevisionStatus where
  "servedSite = (sampleSiteStatus ''a'')\<lparr>st_DesiredRevision := 3, st_Addresses := [(''a-postgres-0'', ''10.0.0.1'')]\<rparr>"

definition servedInstance :: MultiSitePostgres where
  "servedInstance = (sampleInstance [sampleSite ''a'' 1 1 1])
     \<lparr>i_Status := sampleStatus\<lparr>it_Primary := ''a-postgres-0'', it_Sites := [servedSite]\<rparr>\<rparr>"

definition databaseMap :: ListedMap where
  "databaseMap = \<lparr>lm_Namespace = ''ns'', lm_Name = ''mspsql-database-app'',
     lm_Data = [(''type'', ''Database''), (''instanceRef'', ''db''), (''operationUID'', ''uid-1-false''),
       (''deleting'', ''false''), (''spec.json'', ''database'')],
     lm_Owners = [\<lparr>or_APIVersion = groupVersion, or_Kind = ''PostgresDatabase'', or_Name = ''app'', or_UID = ''uid'',
       or_Controller = True\<rparr>]\<rparr>"

definition sampleServer :: server_env where
  "sampleServer = \<lparr>sv_K = listConditions, sv_Api = (\<lambda>c. None), sv_Now = 0,
     sv_Registrations = Inr [sampleRegistration], sv_Registration = (\<lambda>n. Found sampleRegistration),
     sv_PlanMaps = (\<lambda>uid. Inr []), sv_DirectiveMaps = Inr [databaseMap],
     sv_Instance = (\<lambda>ns n. Found servedInstance), sv_Database = (\<lambda>ns n. Found (sampleDatabase 1)),
     sv_User = (\<lambda>ns n. NotFound), sv_Restore = (\<lambda>ns n. NotFound), sv_Upgrade = (\<lambda>ns n. NotFound),
     sv_IndexedInstances = (\<lambda>uid. Inr [servedInstance]), sv_AllInstances = Inr [servedInstance],
     sv_SigningSecret = Found [(''privateKey'', sampleKey)], sv_Crypto = plainCrypto, sv_Json = sampleJson,
     sv_Envelope = \<lparr>UnmarshalEnvelope = (\<lambda>s. Inl ''bad'')\<rparr>, sv_MarshalEnvelope = (\<lambda>e. Inr ''envelope''),
     sv_DatabaseSpec = (\<lambda>s. Inr ''database''), sv_UserSpec = (\<lambda>s. Inr ''user''),
     sv_DecodeBackup = Inr, sv_DecodeScheduled = (\<lambda>s. None), sv_DecodeCondition = (\<lambda>s. None),
     sv_DecodeInventory = (\<lambda>b. None), sv_DecodeStrings = (\<lambda>s. None), sv_ParseTime = (\<lambda>s. None),
     sv_FormatNano = fmt_d, sv_SignCertificate = None, sv_PemDecode = (\<lambda>b. None),
     sv_ParseCertificate = (\<lambda>b. None), sv_MaxDirectivesPerSync = 0\<rparr>"




section \<open>Properties\<close>

text \<open>However the API server changes between the passes of a stream's sender, the stream
  sends every directive at most once, and the plans of an instance with increasing revisions.\<close>

theorem stream_sends_once:
  "distinct (sentOperations (trace (sendLoop siteName siteUID ticks ([], [])))) \<and>
   sorted_wrt (<) (0 # sentRevisions uid (trace (sendLoop siteName siteUID ticks ([], []))))"
  using sendLoop_fresh [of "([], [])" siteName siteUID ticks]
  by (auto simp: sendsFresh_def sentRevision_def simp del: sorted_wrt.simps)









section \<open>Where reports go astray\<close>

text \<open>A site of an instance has a name of its own, apart from that of its registration; directives
  are sent by the registration's name, but reports are looked up by it among the site names.
  When they differ, every report on a plan ends the stream with an error and nothing is recorded.\<close>

theorem renamed_site_reports_lost:
  assumes "reportOf S message = Some (uid, r, f)"
    and "instancesByUID S uid = Inr instances" "findByUID uid instances = Some inst"
    and "\<forall>s \<in> set (it_Sites (i_Status inst)). st_Name s \<noteq> om_Name (r_Meta site)"
  shows "receive S site message = ([], Inl (statusError ''NotFound'' ''site is not part of the instance''))"
proof -
  have "List.find (\<lambda>s. st_Name s = om_Name (r_Meta site)) (it_Sites (i_Status inst)) = None"
    using assms(4) by (simp add: find_None_iff)
  then have "updateInstanceSite S uid (om_Name (r_Meta site)) f =
      ([], Inl (statusError ''NotFound'' ''site is not part of the instance''))"
    using assms(2,3) by (simp add: updateInstanceSite_def failWith_def)
  then show ?thesis
    using assms(1) by (cases message) (auto simp: receive_def recordAcknowledgement_def recordProgress_def recordResult_def
        andThen_def split: if_splits)
qed

theorem renamed_site_reports_lost_witness:
  "receive sampleServer (sampleRegistration\<lparr>r_Meta := sampleMeta ''production-a''\<rparr>)
     (Acknowledgement \<lparr>ak_InstanceUid = ''uid'', ak_Revision = 3, ak_Accepted = True, ak_ValidationErrors = []\<rparr>) =
   ([], Inl (statusError ''NotFound'' ''site is not part of the instance''))"
  by (rule renamed_site_reports_lost [OF reportOf.simps(1), where instances = "[servedInstance]" and inst = servedInstance])
    (simp_all add: instancesByUID_def findByUID_def sampleServer_def servedInstance_def servedSite_def sample_defs)

text \<open>A report on an old revision leaves the site's status alone, and yet stamps its conditions with the
  generation of the instance as it is now, as if they had been observed for it.\<close>

theorem stale_report_restamps:
  assumes "reportOf S message = Some (uid, r, f)" "r \<noteq> st_DesiredRevision before"
    and "instancesByUID S uid = Inr instances" "findByUID uid instances = Some inst"
    and "List.find (\<lambda>s. st_Name s = siteName) (it_Sites (i_Status inst)) = Some before"
    and "stampSite inst before \<noteq> before" "\<forall>c. sv_Api S c = None"
  shows "trace (updateInstanceSite S uid siteName f) = [Write (StatusInstance (updStatus (\<lambda>st. st\<lparr>it_Sites :=
    updateFirst (\<lambda>s. st_Name s = siteName) (\<lambda>_. stampSite inst before) (it_Sites st)\<rparr>) inst))]"
proof -
  have "f before = before" using reportOf_keeps [OF assms(1), of before] assms(2) by (simp add: reportKeeps_def)
  then show ?thesis
    using assms(3-7) updateFirst_found [OF assms(5), of "stampSite inst \<circ> f"]
    by (simp add: updateInstanceSite_def Let_def call_def finish_def)
qed

end
