(* ===== verification/Control_Client.thy ===== *)
theory Control_Client
  imports Control_Server Plan_Cache Directive_State
begin

text \<open>
  The agent's end of the control stream, \<open>internal/control/client.go\<close>: the
  execution of a directive, the application of a plan with its reports and delays, and the
  loop that starts and cancels the workers. What an execution or an application of a plan does is a
  parameter (\<open>ac_Execute\<close>, \<open>ac_Apply\<close>: the outcomes of the successive attempts, until the worker's
  context ends). The agent keeps its plans and verdicts in ConfigMaps, so the
  operations take and return their store.
\<close>

section \<open>Messages and actions\<close>

record OperationDirective =
  dv_OperationUid :: string
  dv_InstanceUid :: string
  dv_Type :: string
  dv_Json :: string

record DesiredSitePlan =
  dp_InstanceUid :: string
  dp_Revision :: int
  dp_EnvelopeJson :: string

record ApplyResult =
  ar_Phase :: string
  ar_Addresses :: smap
  ar_Primary :: string
  ar_SynchronousStandbys :: "string list"
  ar_Conditions :: "condition list"

datatype agent_act =
    Send AgentMessage
  | Execute Payload
  | Activate string int
  | Wait duration

record agent_client =
  ac_Cache :: Cache
  ac_Envelope :: envelope_api
  ac_SiteUID :: string
  ac_Execute :: "(Payload \<Rightarrow> condition list \<times> string option) option"
  ac_State :: "state_api option"
  ac_StateApi :: cmapi
  ac_Apply :: "SitePlan \<Rightarrow> SitePlan option \<Rightarrow> (ApplyResult \<times> string option) list"
  ac_MarshalCondition :: "string \<times> string \<times> string \<Rightarrow> string + string"
  ac_Send :: "AgentMessage \<Rightarrow> string option"

text \<open>Send a message, and go on or stop with the error of the stream.\<close>

definition sending :: "agent_client \<Rightarrow> AgentMessage \<Rightarrow> agent_act list \<times> string option \<Rightarrow> agent_act list \<times> string option" where
  "sending A m k = (case ac_Send A m of Some e \<Rightarrow> ([], Some e) | None \<Rightarrow> (Send m # fst k, snd k))"

fun statusName :: "ConditionStatus \<Rightarrow> string" where
  "statusName ConditionTrue = ''True''"
| "statusName ConditionFalse = ''False''"
| "statusName ConditionUnknown = ''Unknown''"
| "statusName (ConditionOther s) = s"


section \<open>Directives\<close>






section \<open>Plans\<close>

text \<open>The summaries that report an attempt.\<close>

fun conditionSummaries :: "agent_client \<Rightarrow> condition list \<Rightarrow> smap \<Rightarrow> string + smap" where
  "conditionSummaries A [] summaries = Inr summaries"
| "conditionSummaries A (c # cs) summaries =
     (case ac_MarshalCondition A (statusName (c_Status c), c_Reason c, c_Message c) of
        Inl e \<Rightarrow> Inl e
      | Inr encoded \<Rightarrow> conditionSummaries A cs (AList.update (''condition/'' @ c_Type c) encoded summaries))"

definition topologySummaries :: "ApplyResult \<Rightarrow> smap" where
  "topologySummaries result =
     (let addressed = fold (\<lambda>(member, address). AList.update (''address/'' @ member) address) (ar_Addresses result) [];
          primary = (if ar_Primary result \<noteq> '''' then AList.update ''topology/primary'' (ar_Primary result) addressed
                     else addressed) in
      fold (\<lambda>member. AList.update (''topology/synchronous/'' @ member) ''healthy'') (ar_SynchronousStandbys result) primary)"

definition planProgress ::
  "agent_client \<Rightarrow> DesiredSitePlan \<Rightarrow> ApplyResult \<Rightarrow> string option \<Rightarrow> string + PlanProgress" where
  "planProgress A message result applyErr =
     (case conditionSummaries A (ar_Conditions result) (topologySummaries result) of
        Inl e \<Rightarrow> Inl e
      | Inr summaries \<Rightarrow>
          Inr \<lparr>pr_OperationUid = '''', pr_InstanceUid = dp_InstanceUid message, pr_Revision = dp_Revision message,
            pr_Phase = (if applyErr = None then ar_Phase result else ''Retrying''),
            pr_ResourceSummaries = (case applyErr of None \<Rightarrow> summaries | Some e \<Rightarrow> AList.update ''error'' e summaries)\<rparr>)"








section \<open>The loop of the stream\<close>

datatype client_event =
    PlanReceived DesiredSitePlan
  | DirectiveReceived OperationDirective
  | CancelReceived string
  | CertificateReceived bytes
  | EmptyReceived
  | StreamClosed
  | StreamError string
  | PlanDone string int "string option"
  | DirectiveDone string "string option"
  | HeartbeatStopped string
  | ContextDone string

datatype client_act =
    StartPlan DesiredSitePlan
  | CancelPlan string int
  | StartDirective OperationDirective
  | CancelDirective string
  | InstallCertificate bytes

record client_state =
  cs_Workers :: "(string, int) gomap"
  cs_Directives :: "string list"

definition contextCanceled :: string where
  "contextCanceled = ''context canceled''"

text \<open>One turn of the select: the actions, and the next state or the way the loop ends (an error, or
  \<open>None\<close>). Installing a certificate is answered by \<open>install\<close>; it is \<open>None\<close> when rotation is off.\<close>

definition clientStep ::
  "(bytes \<Rightarrow> string option) option \<Rightarrow> client_state \<Rightarrow> client_event \<Rightarrow> client_act list \<times> (string option + client_state)" where
  "clientStep install st event =
     (case event of
        StreamClosed \<Rightarrow> ([], Inl None)
      | StreamError e \<Rightarrow> ([], Inl (Some e))
      | CertificateReceived c \<Rightarrow>
          (case install of
             None \<Rightarrow> ([], Inl (Some ''hub sent a certificate response when rotation is disabled''))
           | Some f \<Rightarrow> (case f c of Some e \<Rightarrow> ([], Inl (Some e)) | None \<Rightarrow> ([InstallCertificate c], Inr st)))
      | CancelReceived op \<Rightarrow> (if op \<in> set (cs_Directives st) then [CancelDirective op] else [], Inr st)
      | DirectiveReceived d \<Rightarrow>
          if dv_OperationUid d = '''' then ([], Inl (Some ''hub sent a directive without an operation UID''))
          else if dv_OperationUid d \<in> set (cs_Directives st) then ([], Inr st)
          else ([StartDirective d], Inr (st\<lparr>cs_Directives := dv_OperationUid d # cs_Directives st\<rparr>))
      | EmptyReceived \<Rightarrow> ([], Inl (Some ''hub sent an unsupported empty control message''))
      | PlanReceived p \<Rightarrow>
          (let started = Inr (st\<lparr>cs_Workers := AList.update (dp_InstanceUid p) (dp_Revision p) (cs_Workers st)\<rparr>) in
           case map_of (cs_Workers st) (dp_InstanceUid p) of
             None \<Rightarrow> ([StartPlan p], started)
           | Some revision \<Rightarrow>
               if revision \<ge> dp_Revision p then ([], Inr st)
               else ([CancelPlan (dp_InstanceUid p) revision, StartPlan p], started))
      | PlanDone uid revision err \<Rightarrow>
          (let st' = (if map_of (cs_Workers st) uid = Some revision
                      then st\<lparr>cs_Workers := AList.delete uid (cs_Workers st)\<rparr> else st) in
           if err \<noteq> None \<and> err \<noteq> Some contextCanceled then ([], Inl err) else ([], Inr st'))
      | DirectiveDone op err \<Rightarrow>
          (let st' = st\<lparr>cs_Directives := removeAll op (cs_Directives st)\<rparr> in
           if err \<noteq> None \<and> err \<noteq> Some contextCanceled then ([], Inl err) else ([], Inr st'))
      | HeartbeatStopped e \<Rightarrow> ([], Inl (if e = contextCanceled then None else Some e))
      | ContextDone e \<Rightarrow> ([], Inl (Some e)))"

section \<open>Opening the stream and heartbeats\<close>

text \<open>\<open>Certificates.Request\<close> and \<open>Inventory\<close> are optional; a request may be \<open>nil\<close>.\<close>

definition requestCertificate ::
  "agent_client \<Rightarrow> (string + (string \<times> bytes) option) option \<Rightarrow> agent_act list \<times> string option" where
  "requestCertificate A request =
     (case request of
        None \<Rightarrow> ([], None)
      | Some (Inl e) \<Rightarrow> ([], Some e)
      | Some (Inr None) \<Rightarrow> ([], None)
      | Some (Inr (Some (uid, csr))) \<Rightarrow> sending A (SigningRequest uid csr) ([], None))"

definition sendInventory :: "agent_client \<Rightarrow> (string + bytes) option \<Rightarrow> agent_act list \<times> string option" where
  "sendInventory A inventory =
     (case inventory of
        None \<Rightarrow> ([], None)
      | Some (Inl e) \<Rightarrow> ([], Some e)
      | Some (Inr encoded) \<Rightarrow> sending A (InventoryMessage encoded) ([], None))"

definition followedBy :: "agent_act list \<times> string option \<Rightarrow> agent_act list \<times> string option \<Rightarrow> agent_act list \<times> string option" where
  "followedBy m k = (case snd m of Some e \<Rightarrow> m | None \<Rightarrow> (fst m @ fst k, snd k))"

definition openClient ::
  "agent_client \<Rightarrow> AgentHello \<Rightarrow> (string + (string \<times> bytes) option) option \<Rightarrow> (string + bytes) option
     \<Rightarrow> agent_act list \<times> string option" where
  "openClient A hello request inventory =
     sending A (Hello hello) (followedBy (requestCertificate A request) (sendInventory A inventory))"

text \<open>The ticks of the two timers until the context ends; an inventory tick carries what the
  collection gives then.\<close>

datatype heartbeat_tick = HeartbeatTick | InventoryTick "(string + bytes) option"

fun heartbeats :: "agent_client \<Rightarrow> heartbeat_tick list \<Rightarrow> agent_act list \<times> string option" where
  "heartbeats A [] = ([], Some contextCanceled)"
| "heartbeats A (HeartbeatTick # ticks) = sending A Heartbeat (heartbeats A ticks)"
| "heartbeats A (InventoryTick inventory # ticks) = followedBy (sendInventory A inventory) (heartbeats A ticks)"

section \<open>Lemmas on directives\<close>












section \<open>Lemmas on reports\<close>

lemma prefixed_update_hit:
  assumes "wf_map kvs"
  shows "map_of (fold (\<lambda>(k, v). AList.update (p @ k) v) kvs m) (p @ k) =
     (case map_of kvs k of None \<Rightarrow> map_of m (p @ k) | Some v \<Rightarrow> Some v)"
  using assms
proof (induction kvs arbitrary: m)
  case (Cons entry kvs)
  obtain key v where entry: "entry = (key, v)" by force
  have fresh: "map_of kvs key = None" using Cons.prems entry by (simp add: map_of_eq_None_iff)
  show ?case using Cons entry fresh by (auto simp: update_conv' split: option.splits)
qed simp

lemma prefixed_update_miss:
  "\<not> hasPrefix key p \<Longrightarrow> map_of (fold (\<lambda>(k, v). AList.update (p @ k) v) kvs m) key = map_of m key"
  by (induction kvs arbitrary: m) (auto simp: update_conv')

lemma prefixed_mark_hit:
  "map_of (fold (\<lambda>k. AList.update (p @ k) v) ks m) (p @ k) = (if k \<in> set ks then Some v else map_of m (p @ k))"
  by (induction ks arbitrary: m) (auto simp: update_conv')

lemma prefixed_mark_miss:
  "\<not> hasPrefix key p \<Longrightarrow> map_of (fold (\<lambda>k. AList.update (p @ k) v) ks m) key = map_of m key"
  by (induction ks arbitrary: m) (auto simp: update_conv')

lemma wf_fold_update: "wf_map m \<Longrightarrow> wf_map (fold (\<lambda>(k, v). AList.update (f k) v) kvs m)"
  by (induction kvs arbitrary: m) (auto simp: distinct_update)

lemma wf_fold_mark: "wf_map m \<Longrightarrow> wf_map (fold (\<lambda>k. AList.update (f k) v) ks m)"
  by (induction ks arbitrary: m) (auto simp: distinct_update)

lemma wf_topologySummaries: "wf_map (topologySummaries result)"
  unfolding topologySummaries_def Let_def
  by (intro wf_fold_mark) (auto intro!: distinct_update wf_fold_update)

lemma conditionSummaries_wf:
  "conditionSummaries A cs m = Inr m' \<Longrightarrow> wf_map m \<Longrightarrow> wf_map m'"
  by (induction cs arbitrary: m) (auto simp: distinct_update split: sum.splits)

lemma conditionSummaries_other:
  "conditionSummaries A cs m = Inr m' \<Longrightarrow> \<not> hasPrefix key ''condition/'' \<Longrightarrow> map_of m' key = map_of m key"
  by (induction cs arbitrary: m) (auto simp: update_conv' hasPrefix_def split: sum.splits)

lemma planProgress_wf:
  "planProgress A message result applyErr = Inr progress \<Longrightarrow> wf_map (pr_ResourceSummaries progress)"
  by (auto simp: planProgress_def distinct_update split: sum.splits option.splits
      dest!: conditionSummaries_wf [OF _ wf_topologySummaries])

lemma planProgress_other:
  assumes "planProgress A message result applyErr = Inr progress" "\<not> hasPrefix key ''condition/''" "key \<noteq> ''error''"
  shows "map_of (pr_ResourceSummaries progress) key = map_of (topologySummaries result) key"
  using assms
  by (auto simp: planProgress_def update_conv' conditionSummaries_other split: sum.splits option.splits)

lemma topologySummaries_lookup:
  assumes "wf_map (ar_Addresses result)"
  shows "map_of (topologySummaries result) (''address/'' @ m) = map_of (ar_Addresses result) m"
    and "map_of (topologySummaries result) ''topology/primary'' =
           (if ar_Primary result = '''' then None else Some (ar_Primary result))"
    and "map_of (topologySummaries result) (''topology/synchronous/'' @ m) =
           (if m \<in> set (ar_SynchronousStandbys result) then Some ''healthy'' else None)"
proof -
  let ?a = "fold (\<lambda>(member, address). AList.update (''address/'' @ member) address) (ar_Addresses result) []"
  let ?b = "if ar_Primary result \<noteq> '''' then AList.update ''topology/primary'' (ar_Primary result) ?a else ?a"
  have top: "topologySummaries result =
      fold (\<lambda>member. AList.update (''topology/synchronous/'' @ member) ''healthy'') (ar_SynchronousStandbys result) ?b"
    by (simp add: topologySummaries_def Let_def)
  have miss: "\<not> hasPrefix (''address/'' @ m) ''topology/synchronous/''" "\<not> hasPrefix ''topology/primary'' ''address/''"
    "\<not> hasPrefix ''topology/primary'' ''topology/synchronous/''" "\<not> hasPrefix (''topology/synchronous/'' @ m) ''address/''"
    by (simp_all add: hasPrefix_def)
  have ne: "''topology/primary'' \<noteq> ''address/'' @ m" "''topology/primary'' \<noteq> ''topology/synchronous/'' @ m" by simp_all
  note look = top prefixed_mark_miss [OF miss(1)] prefixed_mark_miss [OF miss(3)] prefixed_mark_hit
    prefixed_update_hit [OF assms] prefixed_update_miss [OF miss(2)] prefixed_update_miss [OF miss(4)] update_conv'
    fun_upd_apply if_True if_False not_True_eq_False not_False_eq_True simp_thms option.case_eq_if map_of.simps ne ne [symmetric]
  show "map_of (topologySummaries result) (''address/'' @ m) = map_of (ar_Addresses result) m"
    by (cases "ar_Primary result = ''''"; cases "map_of (ar_Addresses result) m") (simp_all only: look option.simps option.sel)
  show "map_of (topologySummaries result) ''topology/primary'' =
           (if ar_Primary result = '''' then None else Some (ar_Primary result))"
    by (cases "ar_Primary result = ''''") (simp_all only: look)
  show "map_of (topologySummaries result) (''topology/synchronous/'' @ m) =
           (if m \<in> set (ar_SynchronousStandbys result) then Some ''healthy'' else None)"
    by (cases "ar_Primary result = ''''") (simp_all only: look)
qed

lemma applySummary_addresses:
  "st_Addresses (applySummary S entry site) =
     (case cutPrefix (fst entry) ''address/'' of None \<Rightarrow> st_Addresses site
      | Some member \<Rightarrow> AList.update member (snd entry) (st_Addresses site))"
  by (auto simp: applySummary_def Let_def split: option.splits)

lemma cutPrefix_Some: "cutPrefix s p = Some r \<longleftrightarrow> s = p @ r"
  by (auto simp: cutPrefix_def hasPrefix_iff)

lemma cutPrefix_None: "cutPrefix s p = None \<longleftrightarrow> (\<forall>r. s \<noteq> p @ r)"
  by (auto simp: cutPrefix_def hasPrefix_iff)

lemma fold_cutPrefix:
  assumes "wf_map summaries"
  shows "map_of (fold (\<lambda>(key, value) addresses. case cutPrefix key p of None \<Rightarrow> addresses
            | Some member \<Rightarrow> AList.update member value addresses) summaries addresses) m =
     (case map_of summaries (p @ m) of None \<Rightarrow> map_of addresses m | Some a \<Rightarrow> Some a)"
  using assms
proof (induction summaries arbitrary: addresses)
  case (Cons entry summaries)
  obtain k v where entry: "entry = (k, v)" by force
  have fresh: "map_of summaries k = None" using Cons.prems entry by (simp add: map_of_eq_None_iff)
  show ?case
    using Cons.IH Cons.prems entry fresh
    by (auto simp: update_conv' cutPrefix_Some cutPrefix_None split: option.splits)
qed simp

lemma fold_applySummary_addresses:
  "st_Addresses (fold (applySummary S) summaries site) =
     fold (\<lambda>(key, value) addresses. case cutPrefix key ''address/'' of None \<Rightarrow> addresses
            | Some member \<Rightarrow> AList.update member value addresses) summaries (st_Addresses site)"
  by (induction summaries arbitrary: site) (simp_all add: applySummary_addresses case_prod_beta)

lemma applySummary_phase: "st_Phase (applySummary S entry site) = st_Phase site"
  by (auto simp: applySummary_def Let_def split: option.splits)

lemma fold_applySummary_phase: "st_Phase (fold (applySummary S) es site) = st_Phase site"
  by (induction es arbitrary: site) (simp_all add: applySummary_phase)

lemma set_cutPrefix:
  assumes "wf_map summaries"
  shows "set (List.map_filter (\<lambda>(key, value). if value = w then cutPrefix key p else None) summaries) =
           {m. map_of summaries (p @ m) = Some w} \<and>
         distinct (List.map_filter (\<lambda>(key, value). if value = w then cutPrefix key p else None) summaries)"
  using assms
proof (induction summaries)
  case (Cons entry summaries)
  obtain k v where entry: "entry = (k, v)" by force
  have fresh: "map_of summaries k = None" using Cons.prems entry by (simp add: map_of_eq_None_iff)
  show ?case using Cons entry fresh
    by (auto simp: map_filter_simps cutPrefix_Some cutPrefix_None split: option.splits)
qed (simp add: map_filter_simps)

lemma reportedStandbys_sorted:
  assumes "wf_map summaries"
  shows "reportedStandbys summaries =
           sorted_list_of_set {m. map_of summaries (''topology/synchronous/'' @ m) = Some ''healthy''}"
  unfolding reportedStandbys_def set_cutPrefix [OF assms, THEN conjunct1, symmetric]
  by (simp only: sorted_list_of_set_sort_remdups set_cutPrefix [OF assms, THEN conjunct2] distinct_remdups_id)

section \<open>Lemmas on plans\<close>









section \<open>Lemmas on the loop of the stream\<close>

text \<open>The turns that go on, other than the end of the worker of the instance.\<close>

inductive clientTurn :: "(bytes \<Rightarrow> string option) option \<Rightarrow> string \<Rightarrow> client_state \<Rightarrow> client_state \<Rightarrow> bool" for install uid where
  turn: "snd (clientStep install st event) = Inr st' \<Longrightarrow> (\<forall>r e. event \<noteq> PlanDone uid r e) \<Longrightarrow> clientTurn install uid st st'"

inductive_cases clientTurnE: "clientTurn install uid st st'"

lemma clientTurn_workers:
  assumes "clientTurn install uid st st'" "map_of (cs_Workers st) uid = Some v"
  shows "\<exists>w. map_of (cs_Workers st') uid = Some w \<and> v \<le> w"
  using assms(1)
proof (rule clientTurnE)
  fix event
  assume step: "snd (clientStep install st event) = Inr st'" and other: "\<forall>r e. event \<noteq> PlanDone uid r e"
  show ?thesis using step other assms(2)
    by (cases event)
      (auto simp: clientStep_def Let_def update_conv' delete_conv' split: option.splits if_splits)
qed

interpretation cw: monotone_system "clientTurn install uid" "\<lambda>st. True" "\<lambda>st. map_of (cs_Workers st) uid" "(\<le>)" for install uid
  by unfold_locales (auto intro: clientTurn_workers)

section \<open>Sample values\<close>

definition sampleAttempt :: "string \<Rightarrow> ApplyResult" where
  "sampleAttempt phase = \<lparr>ar_Phase = phase, ar_Addresses = [(''a-postgres-0'', ''10.0.0.1'')], ar_Primary = ''a-postgres-0'',
     ar_SynchronousStandbys = [''b-postgres-0'', ''a-postgres-1''], ar_Conditions = []\<rparr>"

definition sampleClient :: agent_client where
  "sampleClient = \<lparr>ac_Cache = sampleCache, ac_Envelope = \<lparr>UnmarshalEnvelope = (\<lambda>j.
       if j = ''plan'' then Inr sampleEnvelope
       else Inr \<lparr>env_Plan = ''payload'', env_Signature = drop 32 sampleKey @ ''payload''\<rparr>)\<rparr>,
     ac_SiteUID = ''site'', ac_Execute = Some (\<lambda>p. ([], None)), ac_State = Some sampleState,
     ac_StateApi = (\<lambda>c. None),
     ac_Apply = (\<lambda>d p. [(sampleAttempt ''Converging'', None), (sampleAttempt '''', Some ''down''), (sampleAttempt ''Ready'', None)]),
     ac_MarshalCondition = (\<lambda>c. Inr ''condition''), ac_Send = (\<lambda>m. None)\<rparr>"


definition sampleDesired :: DesiredSitePlan where
  "sampleDesired = \<lparr>dp_InstanceUid = ''inst'', dp_Revision = 3, dp_EnvelopeJson = ''plan''\<rparr>"


lemma applySummary_topology:
  "st_Primary (applySummary S entry site) = st_Primary site \<and>
   st_SynchronousStandbys (applySummary S entry site) = st_SynchronousStandbys site \<and>
   st_TopologyObservedAt (applySummary S entry site) = st_TopologyObservedAt site"
  by (auto simp: applySummary_def Let_def split: option.splits)

lemma fold_applySummary_topology:
  "st_Primary (fold (applySummary S) es site) = st_Primary site \<and>
   st_SynchronousStandbys (fold (applySummary S) es site) = st_SynchronousStandbys site \<and>
   st_TopologyObservedAt (fold (applySummary S) es site) = st_TopologyObservedAt site"
  by (induction es arbitrary: site) (simp_all add: applySummary_topology)

lemma progressSite_reported:
  assumes "planProgress A message result applyErr = Inr progress" "wf_map (ar_Addresses result)"
    and "dp_Revision message = st_DesiredRevision site"
  shows "st_Phase (progressSite S progress site) = (if applyErr = None then ar_Phase result else ''Retrying'')"
    and "map_of (st_Addresses (progressSite S progress site)) member =
           (case map_of (ar_Addresses result) member of None \<Rightarrow> map_of (st_Addresses site) member | Some a \<Rightarrow> Some a)"
    and "(st_Primary (progressSite S progress site), st_SynchronousStandbys (progressSite S progress site),
          st_TopologyObservedAt (progressSite S progress site)) =
         (if ar_Primary result \<noteq> '''' \<or> ar_SynchronousStandbys result \<noteq> []
          then (ar_Primary result, sorted_list_of_set (set (ar_SynchronousStandbys result)), Some (sv_Now S))
          else (st_Primary site, st_SynchronousStandbys site, st_TopologyObservedAt site))"
proof -
  let ?m = "pr_ResourceSummaries progress"
  have current: "pr_Revision progress = st_DesiredRevision site"
    and phase: "pr_Phase progress = (if applyErr = None then ar_Phase result else ''Retrying'')"
    using assms(1,3) by (auto simp: planProgress_def split: sum.splits)
  note wf = planProgress_wf [OF assms(1)]
  have keys: "\<not> hasPrefix (''address/'' @ k) ''condition/'' \<and> ''address/'' @ k \<noteq> ''error''"
    "\<not> hasPrefix ''topology/primary'' ''condition/'' \<and> ''topology/primary'' \<noteq> ''error''"
    "\<not> hasPrefix (''topology/synchronous/'' @ k) ''condition/'' \<and> ''topology/synchronous/'' @ k \<noteq> ''error''" for k
    by (simp_all add: hasPrefix_def)
  note other = planProgress_other [OF assms(1)]
  have address: "map_of ?m (''address/'' @ k) = map_of (ar_Addresses result) k" for k
    unfolding other [OF keys(1) [THEN conjunct1] keys(1) [THEN conjunct2]] by (rule topologySummaries_lookup(1) [OF assms(2)])
  have primary: "map_of ?m ''topology/primary'' = (if ar_Primary result = '''' then None else Some (ar_Primary result))"
    unfolding other [OF keys(2) [THEN conjunct1] keys(2) [THEN conjunct2]] by (rule topologySummaries_lookup(2) [OF assms(2)])
  have standby: "map_of ?m (''topology/synchronous/'' @ k) =
      (if k \<in> set (ar_SynchronousStandbys result) then Some ''healthy'' else None)" for k
    unfolding other [OF keys(3) [THEN conjunct1] keys(3) [THEN conjunct2]] by (rule topologySummaries_lookup(3) [OF assms(2)])
  have standbys: "reportedStandbys ?m = sorted_list_of_set (set (ar_SynchronousStandbys result))"
    unfolding reportedStandbys_sorted [OF wf] standby by (rule arg_cong [of _ _ sorted_list_of_set]) auto
  have topology: "hasTopology ?m \<longleftrightarrow> ar_Primary result \<noteq> '''' \<or> ar_SynchronousStandbys result \<noteq> []"
    unfolding hasTopology_def standbys mhas_def primary by auto
  have got: "mget ?m ''topology/primary'' = ar_Primary result" unfolding mget_def primary by simp
  note site = progressSite_def Let_def current fold_applySummary_phase fold_applySummary_topology
  show "st_Phase (progressSite S progress site) = (if applyErr = None then ar_Phase result else ''Retrying'')"
    by (simp add: site phase)
  have base: "st_Addresses (site\<lparr>st_Phase := x\<rparr>) = st_Addresses site" for x by simp
  have "st_Addresses (progressSite S progress site) = st_Addresses (fold (applySummary S) ?m (site\<lparr>st_Phase := pr_Phase progress\<rparr>))"
    by (simp add: site)
  then show "map_of (st_Addresses (progressSite S progress site)) member =
      (case map_of (ar_Addresses result) member of None \<Rightarrow> map_of (st_Addresses site) member | Some a \<Rightarrow> Some a)"
    unfolding fold_applySummary_addresses by (simp only: fold_cutPrefix [OF wf] address base)
  show "(st_Primary (progressSite S progress site), st_SynchronousStandbys (progressSite S progress site),
      st_TopologyObservedAt (progressSite S progress site)) =
      (if ar_Primary result \<noteq> '''' \<or> ar_SynchronousStandbys result \<noteq> []
       then (ar_Primary result, sorted_list_of_set (set (ar_SynchronousStandbys result)), Some (sv_Now S))
       else (st_Primary site, st_SynchronousStandbys site, st_TopologyObservedAt site))"
    using topology standbys got by (simp add: site)
qed

section \<open>Properties\<close>



text \<open>C14: What a site observes reaches the status of the instance: when the report of an attempt
  is for the revision that the site is to have, recording it sets the phase, every reported address (keeping the
  others), and, when a primary or a synchronous standby was observed, exactly that primary and those
  standbys, in order and without repetition, with the time of the report. Without such an observation the
  earlier topology stays.\<close>

theorem progress_reaches_status:
  assumes "planProgress A message result applyErr = Inr progress" "wf_map (ar_Addresses result)"
    and "dp_Revision message = st_DesiredRevision site"
  shows "st_Phase (progressSite S progress site) = (if applyErr = None then ar_Phase result else ''Retrying'') \<and>
         map_of (st_Addresses (progressSite S progress site)) member =
           (case map_of (ar_Addresses result) member of None \<Rightarrow> map_of (st_Addresses site) member | Some a \<Rightarrow> Some a) \<and>
         (st_Primary (progressSite S progress site), st_SynchronousStandbys (progressSite S progress site),
          st_TopologyObservedAt (progressSite S progress site)) =
         (if ar_Primary result \<noteq> '''' \<or> ar_SynchronousStandbys result \<noteq> []
          then (ar_Primary result, sorted_list_of_set (set (ar_SynchronousStandbys result)), Some (sv_Now S))
          else (st_Primary site, st_SynchronousStandbys site, st_TopologyObservedAt site))"
  using progressSite_reported [OF assms] by blast

theorem progress_reaches_status_witness:
  "\<exists>progress. planProgress sampleClient sampleDesired (sampleAttempt ''Ready'') None = Inr progress \<and>
     st_SynchronousStandbys (progressSite sampleServer progress servedSite) =
       sorted_list_of_set {''a-postgres-1'', ''b-postgres-0''}"
proof -
  obtain progress where p: "planProgress sampleClient sampleDesired (sampleAttempt ''Ready'') None = Inr progress"
    by (simp add: planProgress_def sampleAttempt_def)
  have "dp_Revision sampleDesired = st_DesiredRevision servedSite" by (simp add: sampleDesired_def servedSite_def)
  from progress_reaches_status [OF p _ this, of sampleServer] have
    "st_SynchronousStandbys (progressSite sampleServer progress servedSite) =
       sorted_list_of_set {''b-postgres-0'', ''a-postgres-1''}"
    by (simp add: sampleAttempt_def)
  with p show ?thesis by (auto simp: insert_commute)
qed



end
