(* ===== verification/Network_Address.thy ===== *)
theory Network_Address
  imports Prelude "HOL-Library.Word"
begin

unbundle bit_operations_syntax

text \<open>
  The functions of Go's \<open>net/netip\<close>, \<open>net\<close> and \<open>strconv\<close> that the sources call, for IPv4: addresses as
  32-bit words, their successor, text and parser, networks, \<open>host:port\<close> pairs and decimal numbers. An
  address that is not IPv4 is refused wherever the sources parse one, so the parser has no
  value for it.
\<close>

type_synonym addr = "32 word"

section \<open>Decimal numbers\<close>

definition isDigit :: "char \<Rightarrow> bool" where
  "isDigit c = (48 \<le> (of_char c :: nat) \<and> (of_char c :: nat) \<le> 57)"

definition natVal :: "string \<Rightarrow> nat" where
  "natVal s = foldl (\<lambda>v c. v * 10 + (of_char c - 48)) 0 s"

text \<open>\<open>strconv.Atoi\<close>: an optional sign and digits, in the range of 64 bits.\<close>

definition Atoi :: "string \<Rightarrow> int option" where
  "Atoi s =
     (let sign = (if hasPrefix s ''-'' then -1 else 1);
          digits = (if hasPrefix s ''-'' \<or> hasPrefix s ''+'' then drop 1 s else s);
          value = sign * int (natVal digits) in
      if digits \<noteq> [] \<and> list_all isDigit digits \<and> - (2 ^ 63) \<le> value \<and> value < 2 ^ 63 then Some value else None)"

section \<open>Addresses\<close>

definition octet :: "nat \<Rightarrow> addr \<Rightarrow> nat" where
  "octet i a = unat (drop_bit (8 * (3 - i)) a) mod 256"

definition showAddr :: "addr \<Rightarrow> string" where
  "showAddr a = joinStr ''.'' (map (\<lambda>i. nat_digits (octet i a)) [0, 1, 2, 3])"

definition parseOctet :: "string \<Rightarrow> nat option" where
  "parseOctet s =
     (if s \<noteq> [] \<and> list_all isDigit s \<and> (length s = 1 \<or> hd s \<noteq> CHR ''0'') \<and> natVal s \<le> 255
      then Some (natVal s) else None)"

definition ParseAddr :: "string \<Rightarrow> addr option" where
  "ParseAddr s =
     (case map parseOctet (splitChar CHR ''.'' s) of
        [Some a, Some b, Some c, Some d] \<Rightarrow> Some (word_of_nat (((a * 256 + b) * 256 + c) * 256 + d))
      | _ \<Rightarrow> None)"

text \<open>\<open>Next\<close> of the last address, and of no address, is the invalid address.\<close>

definition nextAddr :: "addr option \<Rightarrow> addr option" where
  "nextAddr candidate =
     (case candidate of None \<Rightarrow> None | Some a \<Rightarrow> if a = - 1 then None else Some (a + 1))"

section \<open>Networks\<close>

record Prefix =
  pfx_Addr :: addr
  pfx_Bits :: nat

definition containsAddr :: "Prefix \<Rightarrow> addr option \<Rightarrow> bool" where
  "containsAddr p candidate =
     (case candidate of None \<Rightarrow> False | Some a \<Rightarrow> drop_bit (32 - pfx_Bits p) (a XOR pfx_Addr p) = 0)"

definition Masked :: "Prefix \<Rightarrow> Prefix" where
  "Masked p = p\<lparr>pfx_Addr := push_bit (32 - pfx_Bits p) (drop_bit (32 - pfx_Bits p) (pfx_Addr p))\<rparr>"

definition showPrefix :: "Prefix \<Rightarrow> string" where
  "showPrefix p = showAddr (pfx_Addr p) @ ''/'' @ nat_digits (pfx_Bits p)"

definition lastIndex :: "char \<Rightarrow> string \<Rightarrow> nat option" where
  "lastIndex c s = (if c \<in> set s then Some (length s - 1 - length (takeWhile (\<lambda>x. x \<noteq> c) (rev s))) else None)"

definition ParsePrefix :: "string \<Rightarrow> Prefix option" where
  "ParsePrefix s =
     (case lastIndex CHR ''/'' s of
        None \<Rightarrow> None
      | Some i \<Rightarrow>
          (let bits = drop (Suc i) s in
           case ParseAddr (take i s) of
             None \<Rightarrow> None
           | Some a \<Rightarrow>
               if bits \<noteq> [] \<and> list_all isDigit bits \<and> (length bits = 1 \<or> hd bits \<noteq> CHR ''0'') \<and> natVal bits \<le> 32
               then Some \<lparr>pfx_Addr = a, pfx_Bits = natVal bits\<rparr> else None))"

section \<open>Host and port\<close>

definition SplitHostPort :: "string \<Rightarrow> (string \<times> string) option" where
  "SplitHostPort s =
     (case lastIndex CHR '':'' s of
        None \<Rightarrow> None
      | Some i \<Rightarrow>
          if hasPrefix s ''[''
          then
            (let upto = length (takeWhile (\<lambda>c. c \<noteq> CHR '']'') s) in
             if CHR '']'' \<notin> set s \<or> Suc upto \<noteq> i then None
             else if CHR ''['' \<in> set (drop 1 s) \<or> CHR '']'' \<in> set (drop (Suc upto) s) then None
             else Some (take (upto - 1) (drop 1 s), drop (Suc i) s))
          else if CHR '':'' \<in> set (take i s) \<or> CHR ''['' \<in> set s \<or> CHR '']'' \<in> set s then None
          else Some (take i s, drop (Suc i) s))"

section \<open>Lemmas on decimal numbers\<close>

lemma natVal_snoc: "natVal (s @ [c]) = natVal s * 10 + (of_char c - 48)"
  by (simp add: natVal_def)

lemma natVal_digits [simp]: "natVal (nat_digits n) = n"
proof (induction n rule: nat_digits.induct)
  case (1 n)
  show ?case
  proof (cases "n < 10")
    case True
    then show ?thesis by (simp add: nat_digits.simps [of n] natVal_def)
  next
    case False
    then show ?thesis using 1 by (simp add: nat_digits.simps [of n] natVal_snoc)
  qed
qed

lemma isDigit_digits [simp]: "list_all isDigit (nat_digits n)"
  by (auto simp: list_all_iff isDigit_def dest!: nat_digits_digit)

lemma digits_leading: "length (nat_digits n) = 1 \<or> hd (nat_digits n) \<noteq> CHR ''0''"
proof (induction n rule: nat_digits.induct)
  case (1 n)
  show ?case
  proof (cases "n < 10")
    case True
    then show ?thesis by (simp add: nat_digits.simps [of n])
  next
    case False
    have "hd (nat_digits m) \<noteq> CHR ''0''" if "0 < m" "length (nat_digits m) = 1" for m
    proof -
      have "m < 10" using that(2) by (auto simp: nat_digits.simps [of m] split: if_splits)
      moreover have "(of_char (CHR ''0'') :: nat) = 48" by simp
      ultimately show ?thesis using that(1) by (auto simp: nat_digits.simps [of m] dest: arg_cong [of _ _ "of_char :: char \<Rightarrow> nat"])
    qed
    with 1 False have "hd (nat_digits (n div 10)) \<noteq> CHR ''0''" by (metis div_greater_zero_iff not_less zero_less_numeral)
    with False show ?thesis by (simp add: nat_digits.simps [of n])
  qed
qed

lemma parseOctet_digits [simp]: "n \<le> 255 \<Longrightarrow> parseOctet (nat_digits n) = Some n"
  using digits_leading [of n] by (simp add: parseOctet_def)

lemma digits_no_char: "\<not> isDigit c \<Longrightarrow> c \<notin> set (nat_digits n)"
  using isDigit_digits [of n] by (auto simp: list_all_iff)

section \<open>Lemmas on addresses\<close>

lemma octet_bound: "octet i a \<le> 255"
  by (simp add: octet_def less_Suc_eq_le [symmetric])

lemma unat_drop: "unat (drop_bit n (a :: addr)) = unat a div 2 ^ n"
proof -
  have "unat a < 2 ^ LENGTH(32)" by (rule unsigned_less)
  then have "take_bit LENGTH(32) (unat a) = unat a" by (rule take_bit_nat_eq_self)
  then show ?thesis unfolding unsigned_drop_bit_eq by (simp only: drop_bit_eq_div)
qed

lemma octets_value:
  "((octet 0 a * 256 + octet 1 a) * 256 + octet 2 a) * 256 + octet 3 a = unat a"
proof -
  have b: "unat a div 16777216 < 256"
  proof -
    have "unat a < 2 ^ LENGTH(32)" by (rule unsigned_less)
    then show ?thesis by (simp add: less_mult_imp_div_less)
  qed
  have o: "octet 0 a = unat a div 16777216" "octet 1 a = unat a div 65536 mod 256"
    "octet 2 a = unat a div 256 mod 256" "octet 3 a = unat a mod 256"
    unfolding octet_def unat_drop using b by simp_all
  have "unat a div 16777216 * 256 + unat a div 65536 mod 256 = unat a div 65536"
    using div_mult_mod_eq [of "unat a div 65536" 256] by (simp add: div_mult2_eq [symmetric])
  moreover have "unat a div 65536 * 256 + unat a div 256 mod 256 = unat a div 256"
    using div_mult_mod_eq [of "unat a div 256" 256] by (simp add: div_mult2_eq [symmetric])
  ultimately show ?thesis unfolding o using div_mult_mod_eq [of "unat a" 256] by simp
qed

lemma ParseAddr_showAddr [simp]: "ParseAddr (showAddr a) = Some a"
proof -
  have "CHR ''.'' \<notin> set (nat_digits n)" for n by (rule digits_no_char) (simp add: isDigit_def)
  then have "splitChar CHR ''.'' (showAddr a) = map (\<lambda>i. nat_digits (octet i a)) [0, 1, 2, 3]"
    unfolding showAddr_def by (intro splitChar_joinStr) auto
  then show ?thesis
    using octets_value [of a] by (simp add: ParseAddr_def octet_bound)
qed

lemma showAddr_inj [simp]: "showAddr a = showAddr b \<longleftrightarrow> a = b"
  by (metis ParseAddr_showAddr option.inject)

lemma nextAddr_Some: "nextAddr (Some a) = Some b \<Longrightarrow> unat b = Suc (unat a)"
  using unatSuc [of a] by (auto simp: nextAddr_def add.commute [of a] add_eq_0_iff split: if_splits)

lemma nextAddr_None [simp]: "nextAddr None = None"
  by (simp add: nextAddr_def)

section \<open>Lemmas on networks\<close>

definition networkSize :: "Prefix \<Rightarrow> nat" where
  "networkSize p = 2 ^ (32 - pfx_Bits p)"

lemma word_xor_0: "(x XOR y :: addr) = 0 \<longleftrightarrow> x = y"
proof
  assume "x XOR y = 0"
  then have "x XOR (x XOR y) = x" by simp
  then show "x = y" by (simp add: xor.assoc [symmetric])
qed simp

lemma nat_div_range:
  assumes "0 < (d :: nat)"
  shows "x div d = k \<longleftrightarrow> k * d \<le> x \<and> x < k * d + d"
proof
  assume "x div d = k"
  with assms show "k * d \<le> x \<and> x < k * d + d"
    using div_times_less_eq_dividend [of x d] dividend_less_div_times [of d x] by auto
next
  assume "k * d \<le> x \<and> x < k * d + d"
  then show "x div d = k" by (intro div_nat_eqI) (simp_all add: mult.commute)
qed

lemma Masked_dvd:
  assumes "Masked p = p"
  shows "2 ^ (32 - pfx_Bits p) dvd unat (pfx_Addr p)"
proof -
  let ?n = "32 - pfx_Bits p"
  have "push_bit ?n (drop_bit ?n (pfx_Addr p)) = pfx_Addr p"
    using arg_cong [OF assms, of pfx_Addr] by (simp add: Masked_def)
  then have "take_bit ?n (pfx_Addr p) = take_bit ?n (push_bit ?n (drop_bit ?n (pfx_Addr p)))" by simp
  also have "\<dots> = 0" by (simp only: take_bit_push_bit) simp
  finally have "unat (take_bit ?n (pfx_Addr p)) = 0" by simp
  then have "take_bit ?n (unat (pfx_Addr p)) = 0" by (simp only: unsigned_take_bit_eq)
  then show ?thesis by (simp add: take_bit_eq_mod dvd_eq_mod_eq_0)
qed

lemma containsAddr_iff:
  assumes "Masked p = p"
  shows "containsAddr p (Some a) \<longleftrightarrow> unat (pfx_Addr p) \<le> unat a \<and> unat a < unat (pfx_Addr p) + networkSize p"
proof -
  let ?n = "32 - pfx_Bits p" and ?b = "unat (pfx_Addr p)"
  have b: "?b div 2 ^ ?n * 2 ^ ?n = ?b" using Masked_dvd [OF assms] by (rule dvd_div_mult_self)
  have "containsAddr p (Some a) \<longleftrightarrow> drop_bit ?n a = drop_bit ?n (pfx_Addr p)"
    by (simp add: containsAddr_def drop_bit_xor word_xor_0)
  also have "\<dots> \<longleftrightarrow> unat a div 2 ^ ?n = ?b div 2 ^ ?n"
    unfolding unat_drop [symmetric] by (simp only: unsigned_word_eqI word_unat_eq_iff)
  also have "\<dots> \<longleftrightarrow> ?b \<le> unat a \<and> unat a < ?b + 2 ^ ?n"
    unfolding nat_div_range [of "2 ^ ?n" "unat a" "?b div 2 ^ ?n", simplified] b by simp
  finally show ?thesis by (simp add: networkSize_def)
qed

lemma lastIndex_append: "c \<notin> set t \<Longrightarrow> lastIndex c (s @ c # t) = Some (length s)"
  by (simp add: lastIndex_def takeWhile_append)

lemma ParsePrefix_showPrefix:
  assumes "pfx_Bits p \<le> 32"
  shows "ParsePrefix (showPrefix p) = Some p"
proof -
  have "CHR ''/'' \<notin> set (nat_digits (pfx_Bits p))" by (rule digits_no_char) (simp add: isDigit_def)
  then have "lastIndex CHR ''/'' (showPrefix p) = Some (length (showAddr (pfx_Addr p)))"
    by (simp add: showPrefix_def lastIndex_append)
  then show ?thesis
    using assms digits_leading [of "pfx_Bits p"] by (simp add: ParsePrefix_def showPrefix_def Let_def)
qed

end
