(* ===== verification/Kube_Store.thy ===== *)
theory Kube_Store
  imports Api_Types
begin

text \<open>
  The hub's own namespace as the registration server and the WireGuard code use it: Secrets, ConfigMaps, the
  registrations and the pod template of the gateway. An operation takes the store and returns it with a result
  or an error, so that the operations can be run one after the other. The parameter \<open>api\<close> lets any call fail. A call that
  loses a race against another writer is such a failure; the code then starts the attempt over, which is
  another operation.
\<close>

record Secret =
  sc_Labels :: smap
  sc_Owners :: "OwnerReference list"
  sc_Data :: smap

record kube =
  kb_Secrets :: "(string, Secret) gomap"
  kb_ConfigMaps :: "(string, smap) gomap"
  kb_Sites :: "(string, SiteRegistration) gomap"
  kb_Gateway :: "smap option"

datatype kube_call =
    KGetSecret string | KCreateSecret string | KDeleteSecret string | KListSecrets
  | KGetConfigMap string | KCreateConfigMap string | KUpdateConfigMap string | KDeleteConfigMap string
  | KGetSite string | KStatusSite string | KGetGateway | KUpdateGateway

datatype kube_error = KNotFound | KAlreadyExists | KNotRegistered | KError string

type_synonym 'a kubed = "kube \<Rightarrow> kube \<times> (kube_error + 'a)"
type_synonym kube_api = "kube_call \<Rightarrow> kube_error option"

section \<open>Sequencing\<close>

definition giveK :: "'a \<Rightarrow> 'a kubed" where
  "giveK x s = (s, Inr x)"

definition failK :: "kube_error \<Rightarrow> 'a kubed" where
  "failK e s = (s, Inl e)"

definition bindK :: "'a kubed \<Rightarrow> ('a \<Rightarrow> 'b kubed) \<Rightarrow> 'b kubed" where
  "bindK m f s = (case m s of (s', Inl e) \<Rightarrow> (s', Inl e) | (s', Inr x) \<Rightarrow> f x s')"

text \<open>Go's \<open>if err := \<dots>\<close> with a branch on the error.\<close>

definition tryK :: "'a kubed \<Rightarrow> (kube_error + 'a \<Rightarrow> 'b kubed) \<Rightarrow> 'b kubed" where
  "tryK m f s = (case m s of (s', r) \<Rightarrow> f r s')"

definition ofSum :: "string + 'a \<Rightarrow> 'a kubed" where
  "ofSum r = (case r of Inl e \<Rightarrow> failK (KError e) | Inr x \<Rightarrow> giveK x)"

definition served :: "kube_api \<Rightarrow> kube_call \<Rightarrow> 'a kubed \<Rightarrow> 'a kubed" where
  "served api c m s = (case api c of Some e \<Rightarrow> (s, Inl e) | None \<Rightarrow> m s)"

section \<open>Calls\<close>

definition getSecret :: "kube_api \<Rightarrow> string \<Rightarrow> Secret kubed" where
  "getSecret api n = served api (KGetSecret n)
     (\<lambda>s. (s, case map_of (kb_Secrets s) n of None \<Rightarrow> Inl KNotFound | Some x \<Rightarrow> Inr x))"

definition createSecret :: "kube_api \<Rightarrow> string \<Rightarrow> Secret \<Rightarrow> unit kubed" where
  "createSecret api n x = served api (KCreateSecret n)
     (\<lambda>s. if mhas (kb_Secrets s) n then (s, Inl KAlreadyExists)
          else (s\<lparr>kb_Secrets := AList.update n x (kb_Secrets s)\<rparr>, Inr ()))"

definition deleteSecret :: "kube_api \<Rightarrow> string \<Rightarrow> unit kubed" where
  "deleteSecret api n = served api (KDeleteSecret n)
     (\<lambda>s. if mhas (kb_Secrets s) n then (s\<lparr>kb_Secrets := AList.delete n (kb_Secrets s)\<rparr>, Inr ())
          else (s, Inl KNotFound))"

definition listSecrets :: "kube_api \<Rightarrow> (string, Secret) gomap kubed" where
  "listSecrets api = served api KListSecrets (\<lambda>s. (s, Inr (kb_Secrets s)))"

definition getConfigMap :: "kube_api \<Rightarrow> string \<Rightarrow> smap kubed" where
  "getConfigMap api n = served api (KGetConfigMap n)
     (\<lambda>s. (s, case map_of (kb_ConfigMaps s) n of None \<Rightarrow> Inl KNotFound | Some x \<Rightarrow> Inr x))"

definition createConfigMap :: "kube_api \<Rightarrow> string \<Rightarrow> smap \<Rightarrow> unit kubed" where
  "createConfigMap api n x = served api (KCreateConfigMap n)
     (\<lambda>s. if mhas (kb_ConfigMaps s) n then (s, Inl KAlreadyExists)
          else (s\<lparr>kb_ConfigMaps := AList.update n x (kb_ConfigMaps s)\<rparr>, Inr ()))"

definition updateConfigMap :: "kube_api \<Rightarrow> string \<Rightarrow> smap \<Rightarrow> unit kubed" where
  "updateConfigMap api n x = served api (KUpdateConfigMap n)
     (\<lambda>s. if mhas (kb_ConfigMaps s) n then (s\<lparr>kb_ConfigMaps := AList.update n x (kb_ConfigMaps s)\<rparr>, Inr ())
          else (s, Inl KNotFound))"

definition deleteConfigMap :: "kube_api \<Rightarrow> string \<Rightarrow> unit kubed" where
  "deleteConfigMap api n = served api (KDeleteConfigMap n)
     (\<lambda>s. if mhas (kb_ConfigMaps s) n then (s\<lparr>kb_ConfigMaps := AList.delete n (kb_ConfigMaps s)\<rparr>, Inr ())
          else (s, Inl KNotFound))"

definition getSite :: "kube_api \<Rightarrow> string \<Rightarrow> SiteRegistration kubed" where
  "getSite api n = served api (KGetSite n)
     (\<lambda>s. (s, case map_of (kb_Sites s) n of None \<Rightarrow> Inl KNotFound | Some x \<Rightarrow> Inr x))"

definition statusSite :: "kube_api \<Rightarrow> SiteRegistration \<Rightarrow> unit kubed" where
  "statusSite api x = served api (KStatusSite (om_Name (r_Meta x)))
     (\<lambda>s. case map_of (kb_Sites s) (om_Name (r_Meta x)) of
            None \<Rightarrow> (s, Inl KNotFound)
          | Some old \<Rightarrow> (s\<lparr>kb_Sites := AList.update (om_Name (r_Meta x)) (old\<lparr>r_Status := r_Status x\<rparr>) (kb_Sites s)\<rparr>, Inr ()))"

definition getGateway :: "kube_api \<Rightarrow> smap kubed" where
  "getGateway api = served api KGetGateway
     (\<lambda>s. (s, case kb_Gateway s of None \<Rightarrow> Inl KNotFound | Some a \<Rightarrow> Inr a))"

definition updateGateway :: "kube_api \<Rightarrow> smap \<Rightarrow> unit kubed" where
  "updateGateway api a = served api KUpdateGateway
     (\<lambda>s. if kb_Gateway s = None then (s, Inl KNotFound) else (s\<lparr>kb_Gateway := Some a\<rparr>, Inr ()))"

section \<open>Lemmas\<close>

named_theorems kube_calls \<open>what a single call does to the store\<close>

lemma giveK_eq [kube_calls]: "giveK x s = (s', r) \<longleftrightarrow> s' = s \<and> r = Inr x"
  by (auto simp: giveK_def)

lemma failK_eq [kube_calls]: "failK e s = (s', r) \<longleftrightarrow> s' = s \<and> r = Inl e"
  by (auto simp: failK_def)

lemma ofSum_eq [kube_calls]:
  "ofSum x s = (s', r) \<longleftrightarrow> s' = s \<and> r = (case x of Inl e \<Rightarrow> Inl (KError e) | Inr y \<Rightarrow> Inr y)"
  by (auto simp: ofSum_def giveK_def failK_def split: sum.splits)

lemma bindK_eq [kube_calls]:
  "bindK m f s = (s', r) \<longleftrightarrow>
     (\<exists>e. m s = (s', Inl e) \<and> r = Inl e) \<or> (\<exists>x s1. m s = (s1, Inr x) \<and> f x s1 = (s', r))"
  by (auto simp: bindK_def split: prod.splits sum.splits)

lemma tryK_eq: "tryK m f s = (s', r) \<longleftrightarrow> (\<exists>s1 x. m s = (s1, x) \<and> f x s1 = (s', r))"
  by (auto simp: tryK_def split: prod.splits)

lemma served_eq [kube_calls]:
  "served api c m s = (s', r) \<longleftrightarrow>
     (\<exists>e. api c = Some e \<and> s' = s \<and> r = Inl e) \<or> (api c = None \<and> m s = (s', r))"
  by (auto simp: served_def split: option.splits)

lemmas kube_reads = getSecret_def listSecrets_def getConfigMap_def getSite_def getGateway_def
lemmas kube_writes = createSecret_def deleteSecret_def createConfigMap_def updateConfigMap_def deleteConfigMap_def
  statusSite_def updateGateway_def

text \<open>A read and the branch on its answer.\<close>

lemma try_getSecret:
  "tryK (getSecret api n) f s =
     f (case api (KGetSecret n) of Some e \<Rightarrow> Inl e
        | None \<Rightarrow> (case map_of (kb_Secrets s) n of None \<Rightarrow> Inl KNotFound | Some x \<Rightarrow> Inr x)) s"
  by (simp add: tryK_def getSecret_def served_def split: option.splits)

lemma try_getConfigMap:
  "tryK (getConfigMap api n) f s =
     f (case api (KGetConfigMap n) of Some e \<Rightarrow> Inl e
        | None \<Rightarrow> (case map_of (kb_ConfigMaps s) n of None \<Rightarrow> Inl KNotFound | Some x \<Rightarrow> Inr x)) s"
  by (simp add: tryK_def getConfigMap_def served_def split: option.splits)

lemma try_getGateway:
  "tryK (getGateway api) f s =
     f (case api KGetGateway of Some e \<Rightarrow> Inl e
        | None \<Rightarrow> (case kb_Gateway s of None \<Rightarrow> Inl KNotFound | Some x \<Rightarrow> Inr x)) s"
  by (simp add: tryK_def getGateway_def served_def split: option.splits)

lemmas try_reads = try_getSecret try_getConfigMap try_getGateway

text \<open>What an operation that only touches one part of the store leaves alone.\<close>

definition keeps :: "(kube \<Rightarrow> 'v) \<Rightarrow> 'a kubed \<Rightarrow> bool" where
  "keeps view m = (\<forall>s. view (fst (m s)) = view s)"

lemma keepsD: "keeps view m \<Longrightarrow> m s = (s', r) \<Longrightarrow> view s' = view s"
  by (metis fst_conv keeps_def)

lemma keepsI: "(\<And>s s' r. m s = (s', r) \<Longrightarrow> view s' = view s) \<Longrightarrow> keeps view m"
  by (metis keeps_def prod.collapse)

lemma keeps_give [simp]: "keeps view (giveK x)"
  and keeps_fail [simp]: "keeps view (failK e)"
  and keeps_ofSum [simp]: "keeps view (ofSum x')"
  by (auto intro!: keepsI simp: kube_calls)

lemma keeps_bind: "keeps view m \<Longrightarrow> (\<And>x. keeps view (f x)) \<Longrightarrow> keeps view (bindK m f)"
  by (rule keepsI) (auto simp: kube_calls, (metis keepsD)+)

lemma keeps_try: "keeps view m \<Longrightarrow> (\<And>x. keeps view (f x)) \<Longrightarrow> keeps view (tryK m f)"
  by (rule keepsI) (auto simp: tryK_eq, metis keepsD)

lemma keeps_read [simp]:
  "keeps view (getSecret api n)" "keeps view (listSecrets api)" "keeps view (getConfigMap api n)"
  "keeps view (getSite api n)" "keeps view (getGateway api)"
  by (auto intro!: keepsI simp: kube_reads kube_calls)

lemma keeps_secrets [simp]:
  "keeps kb_Secrets (createConfigMap api n x)" "keeps kb_Secrets (updateConfigMap api n x)"
  "keeps kb_Secrets (deleteConfigMap api n)" "keeps kb_Secrets (statusSite api y)" "keeps kb_Secrets (updateGateway api a)"
  by (auto intro!: keepsI simp: kube_writes kube_calls split: if_splits option.splits)

lemma keeps_configMaps [simp]:
  "keeps kb_ConfigMaps (createSecret api n x)" "keeps kb_ConfigMaps (deleteSecret api n)"
  "keeps kb_ConfigMaps (statusSite api y)" "keeps kb_ConfigMaps (updateGateway api a)"
  by (auto intro!: keepsI simp: kube_writes kube_calls split: if_splits option.splits)

lemma keeps_sites [simp]:
  "keeps kb_Sites (createSecret api n x)" "keeps kb_Sites (deleteSecret api n)"
  "keeps kb_Sites (createConfigMap api n m)" "keeps kb_Sites (updateConfigMap api n m)"
  "keeps kb_Sites (deleteConfigMap api n)" "keeps kb_Sites (updateGateway api a)"
  by (auto intro!: keepsI simp: kube_writes kube_calls split: if_splits option.splits)

end
