(* ===== verification/Wireguard.thy ===== *)
theory Wireguard
  imports Network_Address Kube_Store
begin

unbundle bit_operations_syntax

text \<open>
  The WireGuard network of the hub (\<open>internal/wireguard/config.go\<close>): the hub's identity, the addresses of the sites, their
  peers, and the configuration that the gateway reads. SHA-256 (in hexadecimal), base64, the random source and X25519
  are parameters.
\<close>

section \<open>Parameters and state\<close>

record wg_env =
  wg_Api :: kube_api
  wg_HexSha256 :: "string \<Rightarrow> string"
  wg_B64Decode :: "string \<Rightarrow> string + 8 word list"
  wg_B64Encode :: "8 word list \<Rightarrow> string"
  wg_Random :: "string + 8 word list"
  wg_X25519 :: "8 word list \<Rightarrow> string + 8 word list"

record HubIdentity =
  hi_PublicKey :: string
  hi_Address :: "addr option"
  hi_Prefix :: Prefix

definition DefaultNetworkCIDR :: string where "DefaultNetworkCIDR = ''10.254.0.0/16''"
definition IdentitySecretName :: string where "IdentitySecretName = ''mspsql-wireguard-identity''"
definition PeersConfigMapName :: string where "PeersConfigMapName = ''mspsql-wireguard-peers''"
definition PeersHashAnnotation :: string where "PeersHashAnnotation = ''multisite-postgres.dev/wireguard-peers-hash''"
definition allocationsName :: string where "allocationsName = ''mspsql-wireguard-addresses''"
definition peerLabel :: string where "peerLabel = ''multisite-postgres.dev/wireguard-peer''"

definition peerName :: "string \<Rightarrow> string" where
  "peerName uid = ''wireguard-peer-'' @ uid"

text \<open>\<open>String\<close> of an address, the invalid one included, and lines of text.\<close>

definition showCandidate :: "addr option \<Rightarrow> string" where
  "showCandidate candidate = (case candidate of None \<Rightarrow> ''invalid IP'' | Some a \<Rightarrow> showAddr a)"

definition textLines :: "string list \<Rightarrow> string" where
  "textLines ls = concat (map (\<lambda>l. l @ [CHR 0x0A]) ls)"

section \<open>Keys and networks\<close>

definition keyID :: "wg_env \<Rightarrow> string \<Rightarrow> string" where
  "keyID W publicKey = take 16 (wg_HexSha256 W publicKey)"

definition clampKey :: "8 word list \<Rightarrow> 8 word list" where
  "clampKey k = (let k0 = k[0 := k ! 0 AND 248] in k0[31 := (k0 ! 31 AND 127) OR 64])"

definition generateKeyPair :: "wg_env \<Rightarrow> string + (string \<times> string)" where
  "generateKeyPair W =
     (case wg_Random W of
        Inl e \<Rightarrow> Inl e
      | Inr raw \<Rightarrow>
          (let privateKey = clampKey raw in
           case wg_X25519 W privateKey of
             Inl e \<Rightarrow> Inl e
           | Inr publicKey \<Rightarrow> Inr (wg_B64Encode W privateKey, wg_B64Encode W publicKey)))"

definition parseNetwork :: "string \<Rightarrow> string + Prefix" where
  "parseNetwork value =
     (case ParsePrefix value of
        None \<Rightarrow> Inl ''WireGuard network must be an IPv4 CIDR with at least six usable addresses''
      | Some p \<Rightarrow>
          if pfx_Bits p > 29 then Inl ''WireGuard network must be an IPv4 CIDR with at least six usable addresses''
          else if p \<noteq> Masked p then Inl ''WireGuard network must use its canonical network address''
          else Inr p)"

text \<open>White space of \<open>strings.TrimSpace\<close>, in ASCII.\<close>

definition isSpace :: "char \<Rightarrow> bool" where
  "isSpace c = (c \<in> set [CHR '' '', CHR 0x09, CHR 0x0A, CHR 0x0B, CHR 0x0C, CHR 0x0D])"

definition validateEndpoint :: "string \<Rightarrow> string option" where
  "validateEndpoint value =
     (case SplitHostPort value of
        None \<Rightarrow> Some ''WireGuard endpoint must be a host:port''
      | Some (host, portValue) \<Rightarrow>
          if list_all isSpace host then Some ''WireGuard endpoint must be a host:port''
          else (case Atoi portValue of
                  None \<Rightarrow> Some ''WireGuard endpoint port is invalid''
                | Some port \<Rightarrow> if port < 1 \<or> port > 65535 then Some ''WireGuard endpoint port is invalid'' else None))"

section \<open>The identity of the hub\<close>

definition identitySecret :: "wg_env \<Rightarrow> Prefix \<Rightarrow> string \<Rightarrow> string \<Rightarrow> Secret" where
  "identitySecret W prefix privateKey publicKey =
     (let address = nextAddr (Some (pfx_Addr prefix)) in
      \<lparr>sc_Labels = [], sc_Owners = [],
       sc_Data = [(''privateKey'', privateKey), (''publicKey'', publicKey), (''keyID'', keyID W publicKey),
         (''revocationEpoch'', ''0''), (''networkCIDR'', showPrefix prefix), (''address'', showCandidate address),
         (''interface.conf'', textLines [''[Interface]'', ''PrivateKey = '' @ privateKey,
            ''Address = '' @ showCandidate address @ ''/'' @ nat_digits (pfx_Bits prefix), ''ListenPort = 51820''])]\<rparr>)"

definition ensureHubIdentity :: "wg_env \<Rightarrow> string \<Rightarrow> HubIdentity kubed" where
  "ensureHubIdentity W cidr =
     bindK (ofSum (parseNetwork (if cidr = '''' then DefaultNetworkCIDR else cidr))) (\<lambda>prefix.
       let address = nextAddr (Some (pfx_Addr prefix)) in
       tryK (getSecret (wg_Api W) IdentitySecretName) (\<lambda>r. case r of
         Inr secret \<Rightarrow>
           if mget (sc_Data secret) ''networkCIDR'' \<noteq> showPrefix prefix \<or>
              mget (sc_Data secret) ''address'' \<noteq> showCandidate address \<or>
              mget (sc_Data secret) ''publicKey'' = '''' \<or> mget (sc_Data secret) ''interface.conf'' = ''''
           then failK (KError ''incompatible WireGuard identity'')
           else giveK \<lparr>hi_PublicKey = mget (sc_Data secret) ''publicKey'', hi_Address = address, hi_Prefix = prefix\<rparr>
       | Inl KNotFound \<Rightarrow>
           bindK (ofSum (generateKeyPair W)) (\<lambda>(privateKey, publicKey).
             bindK (createSecret (wg_Api W) IdentitySecretName (identitySecret W prefix privateKey publicKey)) (\<lambda>_.
               giveK \<lparr>hi_PublicKey = publicKey, hi_Address = address, hi_Prefix = prefix\<rparr>))
       | Inl e \<Rightarrow> failK e))"

section \<open>Addresses of sites\<close>

text \<open>The loop over the candidates: the first one that is free, when its successor is still in the network.\<close>

function reserveLoop :: "Prefix \<Rightarrow> string list \<Rightarrow> addr option \<Rightarrow> addr option" where
  "reserveLoop prefix used candidate =
     (if containsAddr prefix (nextAddr candidate)
      then if showCandidate candidate \<in> set used then reserveLoop prefix used (nextAddr candidate) else candidate
      else None)"
  by pat_completeness auto

lemma next_contained:
  assumes "containsAddr prefix (nextAddr candidate)"
  obtains a b where "candidate = Some a" "nextAddr candidate = Some b" "unat b = Suc (unat a)"
proof -
  from assms obtain b where b: "nextAddr candidate = Some b" by (auto simp: containsAddr_def split: option.splits)
  then obtain a where a: "candidate = Some a" by (cases candidate) auto
  with b have "unat b = Suc (unat a)" by (metis nextAddr_Some)
  with a b show thesis by (rule that)
qed

termination reserveLoop
proof (relation "measure (\<lambda>(prefix, used, candidate). case candidate of None \<Rightarrow> 0 | Some a \<Rightarrow> 2 ^ 32 - unat a)", goal_cases)
  case (2 prefix used candidate)
  then obtain a b where ab: "candidate = Some a" "nextAddr candidate = Some b" "unat b = Suc (unat a)"
    by (metis next_contained)
  have "unat b < 2 ^ LENGTH(32)" by (rule unsigned_less)
  with ab show ?case by simp
qed simp

declare reserveLoop.simps [simp del]

definition reserveAddress :: "wg_env \<Rightarrow> Prefix \<Rightarrow> string \<Rightarrow> addr option kubed" where
  "reserveAddress W prefix uid =
     tryK (getConfigMap (wg_Api W) allocationsName) (\<lambda>r. case r of
       Inl KNotFound \<Rightarrow>
         (let candidate = nextAddr (nextAddr (Some (pfx_Addr prefix))) in
          bindK (createConfigMap (wg_Api W) allocationsName [(uid, showCandidate candidate)]) (\<lambda>_. giveK candidate))
     | Inl e \<Rightarrow> failK e
     | Inr data \<Rightarrow>
         if mget data uid \<noteq> ''''
         then (case ParseAddr (mget data uid) of
                 None \<Rightarrow> failK (KError ''stored WireGuard allocation is invalid'')
               | Some address \<Rightarrow>
                   if containsAddr prefix (Some address) then giveK (Some address)
                   else failK (KError ''stored WireGuard allocation is invalid''))
         else (case reserveLoop prefix (map snd data) (nextAddr (nextAddr (Some (pfx_Addr prefix)))) of
                 None \<Rightarrow> failK (KError ''WireGuard network has no available peer addresses'')
               | Some candidate \<Rightarrow>
                   bindK (updateConfigMap (wg_Api W) allocationsName (AList.update uid (showAddr candidate) data)) (\<lambda>_.
                     giveK (Some candidate))))"

definition releaseAddress :: "wg_env \<Rightarrow> string \<Rightarrow> unit kubed" where
  "releaseAddress W uid =
     tryK (getConfigMap (wg_Api W) allocationsName) (\<lambda>r. case r of
       Inl KNotFound \<Rightarrow> giveK ()
     | Inl e \<Rightarrow> failK e
     | Inr data \<Rightarrow>
         if mhas data uid then updateConfigMap (wg_Api W) allocationsName (AList.delete uid data) else giveK ())"

section \<open>Peers\<close>

definition peerStanza :: "Secret \<Rightarrow> string + string" where
  "peerStanza secret =
     (case ParseAddr (mget (sc_Data secret) ''address'') of
        None \<Rightarrow> Inl ''peer Secret has invalid key or address''
      | Some address \<Rightarrow>
          if mget (sc_Data secret) ''publicKey'' = '''' then Inl ''peer Secret has invalid key or address''
          else Inr (textLines [''# '' @ mget (sc_Data secret) ''siteName'', ''[Peer]'',
                      ''PublicKey = '' @ mget (sc_Data secret) ''publicKey'', ''AllowedIPs = '' @ showAddr address @ ''/32'']))"

fun peerStanzas :: "Secret list \<Rightarrow> string + string list" where
  "peerStanzas [] = Inr []"
| "peerStanzas (secret # secrets) =
     (if mget (sc_Data secret) ''state'' \<noteq> ''authorized'' then peerStanzas secrets
      else (case peerStanza secret of
              Inl e \<Rightarrow> Inl e
            | Inr stanza \<Rightarrow> (case peerStanzas secrets of Inl e \<Rightarrow> Inl e | Inr rest \<Rightarrow> Inr (stanza # rest))))"

definition labelledPeers :: "(string, Secret) gomap \<Rightarrow> Secret list" where
  "labelledPeers secrets = map snd (filter (\<lambda>(n, secret). mget (sc_Labels secret) peerLabel = ''true'') secrets)"

definition RenderedPeerHash :: "wg_env \<Rightarrow> string \<Rightarrow> string" where
  "RenderedPeerHash W rendered = wg_HexSha256 W rendered"

definition updateGatewayPeerHash :: "wg_env \<Rightarrow> string \<Rightarrow> unit kubed" where
  "updateGatewayPeerHash W rendered =
     tryK (getGateway (wg_Api W)) (\<lambda>r. case r of
       Inl KNotFound \<Rightarrow> giveK ()
     | Inl KNotRegistered \<Rightarrow> giveK ()
     | Inl e \<Rightarrow> failK e
     | Inr annotations \<Rightarrow>
         if map_of annotations PeersHashAnnotation = Some (RenderedPeerHash W rendered) then giveK ()
         else updateGateway (wg_Api W) (AList.update PeersHashAnnotation (RenderedPeerHash W rendered) annotations))"

definition writePeers :: "wg_env \<Rightarrow> string \<Rightarrow> unit kubed" where
  "writePeers W rendered =
     tryK (getConfigMap (wg_Api W) PeersConfigMapName) (\<lambda>r. case r of
       Inl KNotFound \<Rightarrow>
         bindK (createConfigMap (wg_Api W) PeersConfigMapName [(''peers.conf'', rendered)]) (\<lambda>_.
           updateGatewayPeerHash W rendered)
     | Inl e \<Rightarrow> failK e
     | Inr data \<Rightarrow>
         bindK (if mget data ''peers.conf'' \<noteq> rendered
                then updateConfigMap (wg_Api W) PeersConfigMapName [(''peers.conf'', rendered)] else giveK ()) (\<lambda>_.
           updateGatewayPeerHash W rendered))"

definition renderPeers :: "wg_env \<Rightarrow> unit kubed" where
  "renderPeers W =
     bindK (listSecrets (wg_Api W)) (\<lambda>secrets.
       bindK (ofSum (peerStanzas (labelledPeers secrets))) (\<lambda>peers.
         writePeers W (joinStr [CHR 0x0A] (sort peers))))"

definition peerSecret :: "wg_env \<Rightarrow> SiteRegistration \<Rightarrow> string \<Rightarrow> string \<Rightarrow> Secret" where
  "peerSecret W site publicKey address =
     \<lparr>sc_Labels = [(peerLabel, ''true'')],
      sc_Owners = [\<lparr>or_APIVersion = ''multisite-postgres.dev/v1alpha1'', or_Kind = ''SiteRegistration'',
        or_Name = om_Name (r_Meta site), or_UID = om_UID (r_Meta site), or_Controller = True\<rparr>],
      sc_Data = [(''publicKey'', publicKey), (''address'', address), (''keyID'', keyID W publicKey),
        (''revocationEpoch'', ''0''), (''siteName'', om_Name (r_Meta site)), (''state'', ''authorized'')]\<rparr>"

definition recordPeer :: "wg_env \<Rightarrow> SiteRegistration \<Rightarrow> string \<Rightarrow> addr option \<Rightarrow> unit kubed" where
  "recordPeer W site publicKey address =
     tryK (createSecret (wg_Api W) (peerName (om_UID (r_Meta site))) (peerSecret W site publicKey (showCandidate address)))
       (\<lambda>r. case r of
          Inr _ \<Rightarrow> giveK ()
        | Inl KAlreadyExists \<Rightarrow>
            bindK (getSecret (wg_Api W) (peerName (om_UID (r_Meta site)))) (\<lambda>existing.
              if mget (sc_Data existing) ''publicKey'' \<noteq> publicKey \<or>
                 mget (sc_Data existing) ''address'' \<noteq> showCandidate address
              then failK (KError ''site already has a different authorized WireGuard key'') else giveK ())
        | Inl e \<Rightarrow> failK e)"

definition peerConfiguration :: "HubIdentity \<Rightarrow> string \<Rightarrow> addr option \<Rightarrow> string" where
  "peerConfiguration identity endpoint address =
     textLines [''Address = '' @ showCandidate address @ ''/32'', '''', ''[Peer]'',
       ''PublicKey = '' @ hi_PublicKey identity, ''Endpoint = '' @ endpoint,
       ''AllowedIPs = '' @ showCandidate (hi_Address identity) @ ''/32'', ''PersistentKeepalive = 25'']"

definition AuthorizePeer :: "wg_env \<Rightarrow> string \<Rightarrow> string \<Rightarrow> SiteRegistration \<Rightarrow> string \<Rightarrow> string kubed" where
  "AuthorizePeer W cidr endpoint site publicKey =
     (case validateEndpoint endpoint of
        Some e \<Rightarrow> failK (KError e)
      | None \<Rightarrow>
          bindK (ofSum (wg_B64Decode W publicKey)) (\<lambda>decodedKey.
            if length decodedKey \<noteq> 32 then failK (KError ''WireGuard public key must decode to 32 bytes'')
            else
              bindK (ensureHubIdentity W cidr) (\<lambda>identity.
              bindK (reserveAddress W (hi_Prefix identity) (om_UID (r_Meta site))) (\<lambda>address.
              bindK (recordPeer W site publicKey address) (\<lambda>_.
              bindK (renderPeers W) (\<lambda>_. giveK (peerConfiguration identity endpoint address)))))))"

definition revokePeer :: "wg_env \<Rightarrow> string \<Rightarrow> unit kubed" where
  "revokePeer W uid =
     tryK (deleteSecret (wg_Api W) (peerName uid)) (\<lambda>r. case r of
       Inl e \<Rightarrow> if e = KNotFound then bindK (releaseAddress W uid) (\<lambda>_. renderPeers W) else failK e
     | Inr _ \<Rightarrow> bindK (releaseAddress W uid) (\<lambda>_. renderPeers W))"

section \<open>Lemmas on networks\<close>

text \<open>A network as \<open>parseNetwork\<close> accepts it, and its addresses for sites: neither the network's own, nor the hub's, nor
  the last one.\<close>

definition goodNetwork :: "Prefix \<Rightarrow> bool" where
  "goodNetwork p = (Masked p = p \<and> pfx_Bits p \<le> 29)"

definition usable :: "Prefix \<Rightarrow> addr \<Rightarrow> bool" where
  "usable p a = (unat (pfx_Addr p) + 2 \<le> unat a \<and> Suc (unat a) < unat (pfx_Addr p) + networkSize p)"

lemma parseNetwork_good: "parseNetwork value = Inr p \<Longrightarrow> goodNetwork p"
  by (auto simp: parseNetwork_def goodNetwork_def split: option.splits if_splits)

lemma goodNetwork_size:
  assumes "goodNetwork p"
  shows "8 \<le> networkSize p" "unat (pfx_Addr p) + networkSize p \<le> 2 ^ 32"
proof -
  let ?n = "32 - pfx_Bits p"
  have n: "3 \<le> ?n" "?n \<le> 32" using assms by (auto simp: goodNetwork_def)
  have "(2 :: nat) ^ 3 \<le> 2 ^ ?n" using n(1) by (rule power_increasing) simp
  then show "8 \<le> networkSize p" by (simp add: networkSize_def)
  obtain k where k: "unat (pfx_Addr p) = 2 ^ ?n * k"
    using Masked_dvd assms unfolding goodNetwork_def by blast
  have "unat (pfx_Addr p) < 2 ^ LENGTH(32)" by (rule unsigned_less)
  also have "(2 :: nat) ^ LENGTH(32) = 2 ^ ?n * 2 ^ (32 - ?n)" using n(2) by (simp add: power_add [symmetric])
  finally have "k < 2 ^ (32 - ?n)" unfolding k by simp
  then have "2 ^ ?n * Suc k \<le> 2 ^ ?n * 2 ^ (32 - ?n)" by (intro mult_le_mono2) simp
  also have "\<dots> = 2 ^ 32" using n(2) by (simp add: power_add [symmetric])
  finally show "unat (pfx_Addr p) + networkSize p \<le> 2 ^ 32" unfolding networkSize_def k by simp
qed

lemma nextAddr_exists:
  assumes "Suc (unat a) < 2 ^ 32"
  obtains b where "nextAddr (Some a) = Some b" "unat b = Suc (unat a)"
proof -
  have "unat (- 1 :: addr) = 2 ^ 32 - 1" by (simp add: unsigned_minus_1_eq_mask mask_eq_exp_minus_1)
  with assms have "a \<noteq> - 1" by auto
  then have "nextAddr (Some a) = Some (a + 1)" by (simp add: nextAddr_def)
  with nextAddr_Some show thesis using that by blast
qed

lemma first_candidate:
  assumes "goodNetwork p"
  obtains f where "nextAddr (nextAddr (Some (pfx_Addr p))) = Some f" "unat f = unat (pfx_Addr p) + 2" "usable p f"
proof -
  note size = goodNetwork_size [OF assms]
  obtain b where b: "nextAddr (Some (pfx_Addr p)) = Some b" "unat b = Suc (unat (pfx_Addr p))"
    using size by (auto intro: nextAddr_exists [of "pfx_Addr p"])
  obtain f where "nextAddr (Some b) = Some f" "unat f = Suc (unat b)"
    using size b(2) by (auto intro: nextAddr_exists [of b])
  with b size that show thesis by (simp add: usable_def)
qed

lemma contains_next:
  assumes "goodNetwork p" "unat (pfx_Addr p) \<le> unat a"
  shows "containsAddr p (nextAddr (Some a)) \<longleftrightarrow> Suc (unat a) < unat (pfx_Addr p) + networkSize p"
proof (cases "nextAddr (Some a)")
  case None
  then have "unat a = 2 ^ 32 - 1"
    by (auto simp: nextAddr_def unsigned_minus_1_eq_mask mask_eq_exp_minus_1 split: if_splits)
  with None goodNetwork_size [OF assms(1)] show ?thesis by (simp add: containsAddr_def)
next
  case (Some b)
  with nextAddr_Some have "unat b = Suc (unat a)" by blast
  with Some assms show ?thesis by (simp add: containsAddr_iff goodNetwork_def)
qed

lemma usable_iff:
  assumes "goodNetwork p"
  shows "usable p a \<longleftrightarrow> unat (pfx_Addr p) + 2 \<le> unat a \<and> containsAddr p (nextAddr (Some a))"
  using contains_next [OF assms, of a] by (auto simp: usable_def)


lemma reserveLoop_found:
  assumes "reserveLoop p used (Some c) = Some a" "goodNetwork p" "unat (pfx_Addr p) + 2 \<le> unat c"
  shows "usable p a \<and> showAddr a \<notin> set used"
  using assms
proof (induction p used "Some c" arbitrary: c rule: reserveLoop.induct)
  case (1 p used)
  show ?case
  proof (cases "containsAddr p (nextAddr (Some c)) \<and> showAddr c \<in> set used")
    case True
    then obtain b where b: "nextAddr (Some c) = Some b" "unat b = Suc (unat c)"
      by (metis next_contained option.inject)
    with True have "reserveLoop p used (Some b) = Some a"
      using 1(2) by (simp add: reserveLoop.simps [of p used "Some c"] showCandidate_def)
    with 1(1) [OF _ _ b(1)] True 1(3,4) b show ?thesis by (simp add: showCandidate_def)
  next
    case False
    with 1(2) have "a = c" "containsAddr p (nextAddr (Some c))" "showAddr c \<notin> set used"
      by (auto simp: reserveLoop.simps [of p used "Some c"] showCandidate_def split: if_splits)
    with 1(3,4) show ?thesis by (simp add: usable_iff)
  qed
qed


section \<open>The invariant of allocations and peers\<close>

text \<open>Every allocated address is usable and belongs to one site; every peer has the address allocated to its
  site.\<close>

definition allocInv :: "Prefix \<Rightarrow> smap option \<Rightarrow> bool" where
  "allocInv p allocations =
     (case allocations of
        None \<Rightarrow> True
      | Some data \<Rightarrow> wf_map data \<and> distinct (map snd data) \<and> (\<forall>v \<in> snd ` set data. \<exists>a. v = showAddr a \<and> usable p a))"

definition peersInv :: "(string, Secret) gomap \<Rightarrow> smap option \<Rightarrow> bool" where
  "peersInv secrets allocations =
     (wf_map secrets \<and>
      (\<forall>n secret. map_of secrets n = Some secret \<longrightarrow> mget (sc_Labels secret) peerLabel = ''true'' \<longrightarrow>
         (\<exists>uid data. n = peerName uid \<and> allocations = Some data \<and> map_of data uid = Some (mget (sc_Data secret) ''address''))))"

definition netView :: "kube \<Rightarrow> (string, Secret) gomap \<times> smap option" where
  "netView s = (kb_Secrets s, map_of (kb_ConfigMaps s) allocationsName)"

definition netInv :: "Prefix \<Rightarrow> kube \<Rightarrow> bool" where
  "netInv p s = (allocInv p (snd (netView s)) \<and> peersInv (fst (netView s)) (snd (netView s)))"

lemma netInv_view: "netView s' = netView s \<Longrightarrow> netInv p s' = netInv p s"
  by (simp add: netInv_def)

lemma names_apart [simp]: "PeersConfigMapName \<noteq> allocationsName" "allocationsName \<noteq> PeersConfigMapName"
  by (simp_all add: PeersConfigMapName_def allocationsName_def)

lemma keeps_net [simp]:
  "keeps netView (updateGateway api a)" "keeps netView (statusSite api y)"
  "n \<noteq> allocationsName \<Longrightarrow> keeps netView (createConfigMap api n x)"
  "n \<noteq> allocationsName \<Longrightarrow> keeps netView (updateConfigMap api n x)"
  "n \<noteq> allocationsName \<Longrightarrow> keeps netView (deleteConfigMap api n)"
  by (auto intro!: keepsI simp: netView_def kube_writes kube_calls update_conv' delete_conv' split: if_splits option.splits)

lemma keeps_gatewayHash [simp]: "keeps netView (updateGatewayPeerHash W rendered)"
  unfolding updateGatewayPeerHash_def
  by (intro keeps_try) (auto split: sum.splits kube_error.splits)

lemma keeps_writePeers [simp]: "keeps netView (writePeers W rendered)"
  unfolding writePeers_def
  by (intro keeps_try) (auto intro!: keeps_bind split: sum.splits kube_error.splits)

lemma keeps_renderPeers [simp]: "keeps netView (renderPeers W)"
  unfolding renderPeers_def by (intro keeps_bind) simp_all

lemma peersInv_unlabelled:
  assumes "peersInv secrets allocations" "mget (sc_Labels x) peerLabel \<noteq> ''true''"
  shows "peersInv (AList.update n x secrets) allocations"
  using assms unfolding peersInv_def by (auto simp: distinct_update update_conv')

lemma peersInv_delete: "peersInv secrets allocations \<Longrightarrow> peersInv (AList.delete n secrets) allocations"
  unfolding peersInv_def by (auto simp: distinct_delete delete_conv' split: if_splits)

lemma peersInv_peer:
  assumes "peersInv secrets (Some data)" "map_of data uid = Some (mget (sc_Data x) ''address'')"
  shows "peersInv (AList.update (peerName uid) x secrets) (Some data)"
  using assms unfolding peersInv_def by (auto simp: distinct_update update_conv')

lemma peersInv_allocate:
  assumes "peersInv secrets allocations" "allocations = None \<or> (\<exists>old. allocations = Some old \<and> (\<forall>u v. map_of old u = Some v \<longrightarrow> map_of data u = Some v))"
  shows "peersInv secrets (Some data)"
  using assms unfolding peersInv_def by fastforce

lemma allocInv_insert:
  assumes "allocInv p (Some data)" "showAddr a \<notin> snd ` set data" "usable p a" "map_of data uid = None"
  shows "allocInv p (Some (AList.update uid (showAddr a) data))"
proof -
  have "AList.update uid v data = data @ [(uid, v)]" for v
    using assms(4) by (induction data) auto
  with assms show ?thesis by (auto simp: allocInv_def map_of_eq_None_iff)
qed

lemma allocInv_delete: "allocInv p (Some data) \<Longrightarrow> allocInv p (Some (AList.delete uid data))"
  by (auto simp: allocInv_def AList.delete_eq distinct_map_filter)

lemma allocInv_nonempty:
  assumes "allocInv p (Some data)" "map_of data uid = Some v"
  shows "\<exists>a. v = showAddr a \<and> usable p a" "v \<noteq> ''''"
proof -
  from assms show 1: "\<exists>a. v = showAddr a \<and> usable p a" by (force simp: allocInv_def dest: map_of_SomeD)
  have "showAddr a \<noteq> ''''" for a by (simp add: showAddr_def)
  with 1 show "v \<noteq> ''''" by auto
qed

section \<open>What each operation keeps\<close>

lemma createConfigMap_eq:
  "createConfigMap api n x s = (s', r) \<Longrightarrow>
     s' = s \<and> (\<exists>e. r = Inl e) \<or> map_of (kb_ConfigMaps s) n = None \<and> s' = s\<lparr>kb_ConfigMaps := AList.update n x (kb_ConfigMaps s)\<rparr> \<and> r = Inr ()"
  by (auto simp: createConfigMap_def kube_calls mhas_def split: if_splits)

lemma updateConfigMap_eq:
  "updateConfigMap api n x s = (s', r) \<Longrightarrow>
     s' = s \<and> (\<exists>e. r = Inl e) \<or> s' = s\<lparr>kb_ConfigMaps := AList.update n x (kb_ConfigMaps s)\<rparr> \<and> r = Inr ()"
  by (auto simp: updateConfigMap_def kube_calls split: if_splits)

definition hasAddress :: "Prefix \<Rightarrow> string \<Rightarrow> addr option \<Rightarrow> kube \<Rightarrow> bool" where
  "hasAddress p uid address s =
     (\<exists>data a. address = Some a \<and> usable p a \<and> map_of (kb_ConfigMaps s) allocationsName = Some data \<and>
        map_of data uid = Some (showAddr a))"

lemma reserveAddress_inv:
  assumes run: "reserveAddress W p uid s = (s', r)" and good: "goodNetwork p" and inv: "netInv p s"
  shows "netInv p s'" "kb_Secrets s' = kb_Secrets s" "r = Inr address \<Longrightarrow> hasAddress p uid address s'"
proof -
  obtain f where f: "nextAddr (nextAddr (Some (pfx_Addr p))) = Some f" "usable p f" "unat f = unat (pfx_Addr p) + 2"
    using first_candidate [OF good] by blast
  let ?alloc = "map_of (kb_ConfigMaps s) allocationsName"
  from run consider
      (fail) e where "s' = s" "r = Inl e"
    | (fresh) "?alloc = None" "s' = s\<lparr>kb_ConfigMaps := AList.update allocationsName [(uid, showAddr f)] (kb_ConfigMaps s)\<rparr>"
        "r = Inr (Some f)"
    | (known) data a where "?alloc = Some data" "s' = s" "r = Inr (Some a)" "mget data uid \<noteq> ''''" "ParseAddr (mget data uid) = Some a"
    | (found) data a where "?alloc = Some data" "mget data uid = ''''" "reserveLoop p (map snd data) (Some f) = Some a"
        "s' = s\<lparr>kb_ConfigMaps := AList.update allocationsName (AList.update uid (showAddr a) data) (kb_ConfigMaps s)\<rparr>"
        "r = Inr (Some a)"
    unfolding reserveAddress_def f(1) try_getConfigMap
    by (cases "wg_Api W (KGetConfigMap allocationsName)"; cases ?alloc)
      (auto simp: kube_calls Let_def showCandidate_def
        split: option.splits kube_error.splits if_splits dest!: createConfigMap_eq updateConfigMap_eq)
  then have "netInv p s' \<and> kb_Secrets s' = kb_Secrets s \<and> (r = Inr address \<longrightarrow> hasAddress p uid address s')"
  proof cases
    case fail then show ?thesis using inv by simp
  next
    case fresh
    have "peersInv (kb_Secrets s) (Some [(uid, showAddr f)])"
      using inv fresh(1) by (intro peersInv_allocate) (auto simp: netInv_def netView_def)
    then show ?thesis using fresh f inv by (auto simp: netInv_def netView_def update_conv' allocInv_def hasAddress_def)
  next
    case known
    then obtain v where v: "map_of data uid = Some v" by (auto simp: mget_def split: option.splits)
    have "allocInv p (Some data)" using inv known(1) by (simp add: netInv_def netView_def)
    from allocInv_nonempty(1) [OF this v] known(4,5) v inv known show ?thesis
      by (auto simp: mget_def hasAddress_def)
  next
    case found
    have alloc: "allocInv p (Some data)" and peers: "peersInv (kb_Secrets s) (Some data)"
      using inv found(1) by (simp_all add: netInv_def netView_def)
    have none: "map_of data uid = None"
      using allocInv_nonempty(2) [OF alloc] found(2) by (fastforce simp: mget_def split: option.splits)
    have a: "usable p a" "showAddr a \<notin> snd ` set data"
      using reserveLoop_found [OF found(3) good] f(3) by auto
    have "allocInv p (Some (AList.update uid (showAddr a) data))" by (rule allocInv_insert [OF alloc a(2,1) none])
    moreover have "peersInv (kb_Secrets s) (Some (AList.update uid (showAddr a) data))"
      using peers none by (intro peersInv_allocate [OF peers]) (auto simp: update_conv')
    ultimately show ?thesis using found a by (auto simp: netInv_def netView_def update_conv' hasAddress_def)
  qed
  then show "netInv p s'" "kb_Secrets s' = kb_Secrets s" "r = Inr address \<Longrightarrow> hasAddress p uid address s'" by auto
qed

lemma releaseAddress_inv:
  assumes run: "releaseAddress W uid s = (s', r)" and inv: "netInv p s" and gone: "map_of (kb_Secrets s) (peerName uid) = None"
  shows "netInv p s' \<and> kb_Secrets s' = kb_Secrets s"
proof -
  from run consider "s' = s"
    | data where "map_of (kb_ConfigMaps s) allocationsName = Some data"
        "s' = s\<lparr>kb_ConfigMaps := AList.update allocationsName (AList.delete uid data) (kb_ConfigMaps s)\<rparr>"
    unfolding releaseAddress_def try_getConfigMap
    by (cases "wg_Api W (KGetConfigMap allocationsName)"; cases "map_of (kb_ConfigMaps s) allocationsName")
      (auto simp: kube_calls split: kube_error.splits if_splits dest!: updateConfigMap_eq)
  then show ?thesis
  proof cases
    case 1 then show ?thesis using inv by simp
  next
    case 2
    have alloc: "allocInv p (Some data)" and peers: "peersInv (kb_Secrets s) (Some data)"
      using inv 2(1) by (simp_all add: netInv_def netView_def)
    have "peersInv (kb_Secrets s) (Some (AList.delete uid data))"
      unfolding peersInv_def
    proof (intro conjI allI impI)
      show "wf_map (kb_Secrets s)" using peers by (simp add: peersInv_def)
      fix n secret
      assume n: "map_of (kb_Secrets s) n = Some secret" and l: "mget (sc_Labels secret) peerLabel = ''true''"
      with peers obtain u where u: "n = peerName u" "map_of data u = Some (mget (sc_Data secret) ''address'')"
        unfolding peersInv_def by blast
      with n gone have "u \<noteq> uid" by auto
      with u show "\<exists>u d. n = peerName u \<and> Some (AList.delete uid data) = Some d \<and> map_of d u = Some (mget (sc_Data secret) ''address'')"
        by (auto simp: delete_conv')
    qed
    then show ?thesis using 2 allocInv_delete [OF alloc] by (simp add: netInv_def netView_def update_conv')
  qed
qed

lemma createSecret_eq:
  "createSecret api n x s = (s', r) \<Longrightarrow>
     s' = s \<and> (\<exists>e. r = Inl e) \<or> s' = s\<lparr>kb_Secrets := AList.update n x (kb_Secrets s)\<rparr> \<and> r = Inr ()"
  by (auto simp: createSecret_def kube_calls split: if_splits)

lemma ensureHubIdentity_inv:
  assumes "ensureHubIdentity W cidr s = (s', r)" "netInv p s"
  shows "netInv p s' \<and> map_of (kb_ConfigMaps s') = map_of (kb_ConfigMaps s) \<and>
    (\<forall>identity. r = Inr identity \<longrightarrow> parseNetwork (if cidr = '''' then DefaultNetworkCIDR else cidr) = Inr (hi_Prefix identity))"
proof -
  have "netInv p (s\<lparr>kb_Secrets := AList.update IdentitySecretName (identitySecret W q k k') (kb_Secrets s)\<rparr>)" for q k k'
    using assms(2) by (simp add: netInv_def netView_def peersInv_unlabelled identitySecret_def Let_def)
  with assms show ?thesis
    by (cases "parseNetwork (if cidr = '''' then DefaultNetworkCIDR else cidr)";
        cases "wg_Api W (KGetSecret IdentitySecretName)"; cases "map_of (kb_Secrets s) IdentitySecretName")
      (auto simp: ensureHubIdentity_def kube_calls Let_def try_getSecret split: kube_error.splits if_splits dest!: createSecret_eq)
qed

lemma recordPeer_inv:
  assumes run: "recordPeer W site publicKey address s = (s', r)" and inv: "netInv p s"
    and address: "hasAddress p (om_UID (r_Meta site)) address s"
  shows "netInv p s'"
proof -
  obtain data a where a: "address = Some a" "map_of (kb_ConfigMaps s) allocationsName = Some data"
    "map_of data (om_UID (r_Meta site)) = Some (showAddr a)" using address by (auto simp: hasAddress_def)
  have new: "netInv p (s\<lparr>kb_Secrets := AList.update (peerName (om_UID (r_Meta site)))
      (peerSecret W site publicKey (showCandidate address)) (kb_Secrets s)\<rparr>)"
    using inv a by (simp add: netInv_def netView_def peersInv_peer peerSecret_def showCandidate_def)
  obtain s1 x where 1: "createSecret (wg_Api W) (peerName (om_UID (r_Meta site)))
      (peerSecret W site publicKey (showCandidate address)) s = (s1, x)" by force
  then have s1: "netInv p s1" using createSecret_eq new inv by blast
  have "keeps netView (case x of Inr _ \<Rightarrow> giveK () | Inl KAlreadyExists \<Rightarrow>
      bindK (getSecret (wg_Api W) (peerName (om_UID (r_Meta site)))) (\<lambda>existing.
        if mget (sc_Data existing) ''publicKey'' \<noteq> publicKey \<or> mget (sc_Data existing) ''address'' \<noteq> showCandidate address
        then failK (KError ''site already has a different authorized WireGuard key'') else giveK ())
      | Inl e \<Rightarrow> failK e)"
    by (auto intro!: keeps_bind split: sum.splits kube_error.splits)
  with run 1 have "netView s' = netView s1"
    unfolding recordPeer_def tryK_def by (auto dest: keepsD)
  then show ?thesis using s1 netInv_view by blast
qed

lemma AuthorizePeer_inv:
  assumes run: "AuthorizePeer W cidr endpoint site publicKey s = (s', r)" and inv: "netInv p s"
    and net: "parseNetwork (if cidr = '''' then DefaultNetworkCIDR else cidr) = Inr p"
  shows "netInv p s'"
proof (cases "\<exists>e. ensureHubIdentity W cidr s = (s', Inl e) \<or> s' = s")
  case True
  then show ?thesis using ensureHubIdentity_inv inv by blast
next
  case False
  note good = parseNetwork_good [OF net]
  from run False obtain identity s1 where 1: "ensureHubIdentity W cidr s = (s1, Inr identity)"
    and rest: "bindK (reserveAddress W (hi_Prefix identity) (om_UID (r_Meta site))) (\<lambda>address.
              bindK (recordPeer W site publicKey address) (\<lambda>_.
              bindK (renderPeers W) (\<lambda>_. giveK (peerConfiguration identity endpoint address)))) s1 = (s', r)"
    unfolding AuthorizePeer_def
    by (auto simp: bindK_eq [of "ofSum _"] bindK_eq [of "ensureHubIdentity _ _"] ofSum_eq failK_eq split: option.splits sum.splits if_splits)
  have s1: "netInv p s1" and p: "hi_Prefix identity = p" using ensureHubIdentity_inv [OF 1 inv] net by auto
  show ?thesis
  proof (cases "\<exists>e. reserveAddress W p (om_UID (r_Meta site)) s1 = (s', Inl e)")
    case True
    then show ?thesis using reserveAddress_inv(1) [OF _ good s1] by blast
  next
    case False
    with rest obtain address s2 where 2: "reserveAddress W p (om_UID (r_Meta site)) s1 = (s2, Inr address)"
      and rest2: "bindK (recordPeer W site publicKey address) (\<lambda>_.
              bindK (renderPeers W) (\<lambda>_. giveK (peerConfiguration identity endpoint address))) s2 = (s', r)"
      unfolding p bindK_eq [of "reserveAddress _ _ _"] by blast
    note s2 = reserveAddress_inv [OF 2 good s1]
    from rest2 consider e where "recordPeer W site publicKey address s2 = (s', Inl e)"
      | s3 where "recordPeer W site publicKey address s2 = (s3, Inr ())"
          "bindK (renderPeers W) (\<lambda>_. giveK (peerConfiguration identity endpoint address)) s3 = (s', r)"
      unfolding bindK_eq [of "recordPeer _ _ _ _"] by auto
    then show ?thesis
    proof cases
      case 1 then show ?thesis using recordPeer_inv [OF _ s2(1) s2(3) [OF refl]] by blast
    next
      case 2
      have "keeps netView (bindK (renderPeers W) (\<lambda>_. giveK (peerConfiguration identity endpoint address)))"
        by (intro keeps_bind) simp_all
      with 2 recordPeer_inv [OF _ s2(1) s2(3) [OF refl]] netInv_view keepsD show ?thesis by metis
    qed
  qed
qed

lemma deleteSecret_eq:
  "deleteSecret api n s = (s', r) \<Longrightarrow>
     s' = s \<and> (\<exists>e. r = Inl e \<and> (e = KNotFound \<longrightarrow> api (KDeleteSecret n) = Some KNotFound \<or> map_of (kb_Secrets s) n = None)) \<or>
     s' = s\<lparr>kb_Secrets := AList.delete n (kb_Secrets s)\<rparr> \<and> r = Inr ()"
  by (auto simp: deleteSecret_def kube_calls mhas_def split: if_splits)

text \<open>The API server answers \<open>NotFound\<close> only for what is not there.\<close>

definition honest :: "kube_api \<Rightarrow> bool" where
  "honest api = (\<forall>c. api c \<noteq> Some KNotFound)"

lemma revokePeer_inv:
  assumes run: "revokePeer W uid s = (s', r)" and inv: "netInv p s" and honest: "honest (wg_Api W)"
  shows "netInv p s'" "r = Inr () \<Longrightarrow> map_of (kb_Secrets s') (peerName uid) = None"
proof -
  obtain s1 x where 1: "deleteSecret (wg_Api W) (peerName uid) s = (s1, x)" by force
  note del = deleteSecret_eq [OF 1]
  have s1: "netInv p s1" using del inv by (auto simp: netInv_def netView_def peersInv_delete)
  have rest: "netInv p s' \<and> map_of (kb_Secrets s') (peerName uid) = None"
    if more: "bindK (releaseAddress W uid) (\<lambda>_. renderPeers W) s1 = (s', r)" and gone: "map_of (kb_Secrets s1) (peerName uid) = None"
  proof -
    from more obtain s2 y where 2: "releaseAddress W uid s1 = (s2, y)" and "s' = s2 \<or> renderPeers W s2 = (s', r)"
      unfolding bindK_eq by blast
    then have "netView s' = netView s2" using keepsD [OF keeps_renderPeers] by blast
    moreover note releaseAddress_inv [OF 2 s1 gone]
    ultimately show ?thesis using gone netInv_view by (metis netView_def prod.inject)
  qed
  have gone: "map_of (kb_Secrets s1) (peerName uid) = None" if "x = Inr () \<or> x = Inl KNotFound"
    using del that honest by (auto simp: honest_def delete_conv')
  from run 1 consider "x = Inr () \<or> x = Inl KNotFound" "bindK (releaseAddress W uid) (\<lambda>_. renderPeers W) s1 = (s', r)"
    | e where "s' = s1" "r = Inl e"
    unfolding revokePeer_def tryK_def by (auto simp: failK_eq split: sum.splits if_splits)
  then have "netInv p s' \<and> (r = Inr () \<longrightarrow> map_of (kb_Secrets s') (peerName uid) = None)"
    by cases (use rest gone s1 in auto)
  then show "netInv p s'" "r = Inr () \<Longrightarrow> map_of (kb_Secrets s') (peerName uid) = None" by auto
qed

section \<open>Sequences of operations\<close>

text \<open>The operations of the hub in any order, with any answers of the API server, on a network that stays the same. The sites in
  \<open>keep\<close> are not revoked.\<close>

inductive wgStep :: "string \<Rightarrow> string set \<Rightarrow> kube \<Rightarrow> kube \<Rightarrow> bool" for cidr keep where
  authorize: "AuthorizePeer W cidr endpoint site publicKey s = (s', r) \<Longrightarrow> wgStep cidr keep s s'"
| revoke: "revokePeer W uid s = (s', r) \<Longrightarrow> honest (wg_Api W) \<Longrightarrow> uid \<notin> keep \<Longrightarrow> wgStep cidr keep s s'"
| render: "renderPeers W s = (s', r) \<Longrightarrow> wgStep cidr keep s s'"

definition networkOf :: "string \<Rightarrow> string + Prefix" where
  "networkOf cidr = parseNetwork (if cidr = '''' then DefaultNetworkCIDR else cidr)"

definition allocated :: "string \<Rightarrow> kube \<Rightarrow> string option" where
  "allocated uid s = Option.bind (map_of (kb_ConfigMaps s) allocationsName) (\<lambda>data. map_of data uid)"

lemma allocated_view: "netView s' = netView s \<Longrightarrow> allocated uid s' = allocated uid s"
  by (simp add: netView_def allocated_def)

lemma wgStep_inv:
  assumes "wgStep cidr keep s s'" "networkOf cidr = Inr p" "netInv p s"
  shows "netInv p s'"
  using assms(1)
proof cases
  case authorize
  then show ?thesis using AuthorizePeer_inv assms(2,3) unfolding networkOf_def by blast
next
  case revoke
  then show ?thesis using revokePeer_inv(1) assms(3) by blast
next
  case render
  then show ?thesis using keepsD [OF keeps_renderPeers] netInv_view assms(3) by blast
qed

lemma reserveAddress_stable:
  assumes run: "reserveAddress W p uid s = (s', r)" and inv: "netInv p s" and u: "allocated u s = Some v"
  shows "allocated u s' = Some v"
proof -
  obtain data where data: "map_of (kb_ConfigMaps s) allocationsName = Some data" "map_of data u = Some v"
    using u by (auto simp: allocated_def bind_eq_Some_conv)
  have alloc: "allocInv p (Some data)" using inv data(1) by (simp add: netInv_def netView_def)
  from run data(1) consider "s' = s" | a where "mget data uid = ''''"
      "s' = s\<lparr>kb_ConfigMaps := AList.update allocationsName (AList.update uid (showAddr a) data) (kb_ConfigMaps s)\<rparr>"
    | m where "wg_Api W (KGetConfigMap allocationsName) = Some KNotFound" "s' = s"
    unfolding reserveAddress_def try_getConfigMap
    by (cases "wg_Api W (KGetConfigMap allocationsName)")
      (auto simp: kube_calls Let_def split: option.splits kube_error.splits if_splits dest!: createConfigMap_eq updateConfigMap_eq)
  then show ?thesis
  proof cases
    case 2
    with allocInv_nonempty(2) [OF alloc data(2)] data(2) have "u \<noteq> uid" by (auto simp: mget_def)
    with 2 data show ?thesis by (simp add: allocated_def update_conv')
  qed (use u in simp_all)
qed

lemma releaseAddress_stable:
  assumes run: "releaseAddress W uid s = (s', r)" and u: "allocated u s = Some v" "u \<noteq> uid"
  shows "allocated u s' = Some v"
proof -
  from run consider "s' = s"
    | data where "map_of (kb_ConfigMaps s) allocationsName = Some data"
        "s' = s\<lparr>kb_ConfigMaps := AList.update allocationsName (AList.delete uid data) (kb_ConfigMaps s)\<rparr>"
    unfolding releaseAddress_def try_getConfigMap
    by (cases "wg_Api W (KGetConfigMap allocationsName)"; cases "map_of (kb_ConfigMaps s) allocationsName")
      (auto simp: kube_calls split: kube_error.splits if_splits dest!: updateConfigMap_eq)
  then show ?thesis
    by cases (use u in \<open>auto simp: allocated_def update_conv' delete_conv'\<close>)
qed

lemma keeps_allocated [simp]:
  "keeps (allocated u) (createSecret api n x)" "keeps (allocated u) (deleteSecret api n)"
  by (auto intro!: keepsI simp: allocated_def dest!: keepsD [OF keeps_configMaps(1)] keepsD [OF keeps_configMaps(2)])

lemma keeps_allocated_net: "keeps netView m \<Longrightarrow> keeps (allocated u) m"
  by (rule keepsI) (metis allocated_view keepsD)

lemma keeps_recordPeer [simp]: "keeps (allocated u) (recordPeer W site publicKey address)"
  unfolding recordPeer_def
  by (intro keeps_try) (auto intro!: keeps_bind split: sum.splits kube_error.splits)

lemma wgStep_stable:
  assumes "wgStep cidr keep s s'" "networkOf cidr = Inr p" "netInv p s" "allocated u s = Some v" "u \<in> keep"
  shows "allocated u s' = Some v"
  using assms(1)
proof cases
  case (authorize W endpoint site publicKey r)
  let ?finish = "\<lambda>identity address. bindK (recordPeer W site publicKey address) (\<lambda>_.
    bindK (renderPeers W) (\<lambda>_. giveK (peerConfiguration identity endpoint address)))"
  have rest: "keeps (allocated u) (?finish identity address)" for identity address
    by (intro keeps_bind keeps_recordPeer keeps_give keeps_allocated_net [OF keeps_renderPeers])
  from authorize consider "s' = s" | e where "ensureHubIdentity W cidr s = (s', Inl e)"
    | identity s1 where "ensureHubIdentity W cidr s = (s1, Inr identity)"
        "bindK (reserveAddress W (hi_Prefix identity) (om_UID (r_Meta site))) (?finish identity) s1 = (s', r)"
    unfolding AuthorizePeer_def
    by (auto simp: bindK_eq [of "ofSum _"] bindK_eq [of "ensureHubIdentity _ _"] ofSum_eq failK_eq split: option.splits sum.splits if_splits)
  then show ?thesis
  proof cases
    case 1 then show ?thesis using assms(4) by simp
  next
    case 2 then show ?thesis using ensureHubIdentity_inv [OF 2 assms(3)] assms(4) by (simp add: allocated_def)
  next
    case 3
    note identity = ensureHubIdentity_inv [OF 3(1) assms(3)]
    then have s1: "netInv p s1" "allocated u s1 = Some v" "hi_Prefix identity = p"
      using assms(2,4) by (auto simp: allocated_def networkOf_def)
    from 3(2) obtain s2 y where 2: "reserveAddress W p (om_UID (r_Meta site)) s1 = (s2, y)"
      and last: "s' = s2 \<or> (\<exists>address. ?finish identity address s2 = (s', r))"
      unfolding s1(3) bindK_eq [of "reserveAddress _ _ _"] by blast
    from last rest keepsD have "allocated u s' = allocated u s2" by blast
    then show ?thesis using reserveAddress_stable [OF 2 s1(1,2)] by simp
  qed
next
  case (revoke W uid r)
  with assms(5) have ne: "u \<noteq> uid" by auto
  obtain s1 x where 1: "deleteSecret (wg_Api W) (peerName uid) s = (s1, x)" by force
  then have s1: "allocated u s1 = Some v" using keepsD [OF keeps_allocated(2)] assms(4) by metis
  from revoke(1) 1 consider "s' = s1" | s2 y where "releaseAddress W uid s1 = (s2, y)" "s' = s2 \<or> renderPeers W s2 = (s', r)"
    unfolding revokePeer_def tryK_def by (auto simp: failK_eq bindK_eq split: sum.splits if_splits)
  then show ?thesis
  proof cases
    case 1 then show ?thesis using s1 by simp
  next
    case 2
    then have "allocated u s' = allocated u s2" using keepsD [OF keeps_renderPeers] allocated_view by metis
    then show ?thesis using releaseAddress_stable [OF 2(1) s1 ne] by simp
  qed
next
  case render
  then show ?thesis using keepsD [OF keeps_renderPeers] allocated_view assms(4) by metis
qed

interpretation wa: monotone_system "wgStep cidr keep" "\<lambda>s. \<exists>p. networkOf cidr = Inr p \<and> netInv p s"
    "\<lambda>s. if uid \<in> keep then allocated uid s else None" "(=)" for cidr keep uid
  by unfold_locales (auto intro: wgStep_inv dest: wgStep_stable split: if_splits)

section \<open>Rendering\<close>

definition renderedPeers :: "(string, Secret) gomap \<Rightarrow> string + string" where
  "renderedPeers secrets =
     (case peerStanzas (labelledPeers secrets) of Inl e \<Rightarrow> Inl e | Inr peers \<Rightarrow> Inr (joinStr [CHR 0x0A] (sort peers)))"

text \<open>What the gateway reads, and the hash that makes it restart.\<close>

definition gatewayCurrent :: "wg_env \<Rightarrow> string \<Rightarrow> kube \<Rightarrow> bool" where
  "gatewayCurrent W rendered s =
     (\<exists>data. map_of (kb_ConfigMaps s) PeersConfigMapName = Some data \<and> mget data ''peers.conf'' = rendered \<and>
        (\<forall>annotations. kb_Gateway s = Some annotations \<longrightarrow> wg_Api W KGetGateway = None \<longrightarrow>
           map_of annotations PeersHashAnnotation = Some (RenderedPeerHash W rendered)))"

lemma updateGatewayPeerHash_current:
  assumes "updateGatewayPeerHash W rendered s = (s', Inr ())"
    and "map_of (kb_ConfigMaps s) PeersConfigMapName = Some data" "mget data ''peers.conf'' = rendered"
  shows "gatewayCurrent W rendered s'"
  using assms
  by (cases "wg_Api W KGetGateway"; cases "kb_Gateway s")
    (auto simp: updateGatewayPeerHash_def try_getGateway kube_calls updateGateway_def gatewayCurrent_def update_conv'
      split: kube_error.splits if_splits)

lemma writePeers_current:
  assumes "writePeers W rendered s = (s', Inr ())"
  shows "gatewayCurrent W rendered s'"
  using assms
  by (cases "wg_Api W (KGetConfigMap PeersConfigMapName)"; cases "map_of (kb_ConfigMaps s) PeersConfigMapName")
    (auto simp: writePeers_def try_getConfigMap kube_calls update_conv' split: kube_error.splits if_splits
      dest!: createConfigMap_eq updateConfigMap_eq intro: updateGatewayPeerHash_current)

lemma renderPeers_current:
  assumes "renderPeers W s = (s', Inr ())"
  shows "\<exists>rendered. renderedPeers (kb_Secrets s') = Inr rendered \<and> gatewayCurrent W rendered s'"
proof -
  from assms obtain peers where peers: "peerStanzas (labelledPeers (kb_Secrets s)) = Inr peers"
    and stored: "writePeers W (joinStr [CHR 0x0A] (sort peers)) s = (s', Inr ())"
    by (auto simp: renderPeers_def kube_calls listSecrets_def split: sum.splits)
  have "kb_Secrets s' = kb_Secrets s"
    using keepsD [OF keeps_writePeers stored] by (simp add: netView_def)
  with peers writePeers_current [OF stored] show ?thesis by (simp add: renderedPeers_def)
qed

section \<open>Sample values\<close>

definition sampleWireguard :: wg_env where
  "sampleWireguard = \<lparr>wg_Api = (\<lambda>c. None), wg_HexSha256 = id, wg_B64Decode = (\<lambda>s. Inr (replicate 32 0)),
     wg_B64Encode = (\<lambda>k. ''key''), wg_Random = Inr (replicate 32 255), wg_X25519 = Inr\<rparr>"

definition emptyKube :: kube where
  "emptyKube = \<lparr>kb_Secrets = [], kb_ConfigMaps = [], kb_Sites = [], kb_Gateway = None\<rparr>"

definition sampleNetwork :: Prefix where
  "sampleNetwork = \<lparr>pfx_Addr = 0x0A000000, pfx_Bits = 29\<rparr>"

lemma netInv_empty: "netInv p emptyKube"
  by (simp add: netInv_def netView_def emptyKube_def allocInv_def peersInv_def)

lemma sampleNetwork_good: "goodNetwork sampleNetwork"
  by (simp add: goodNetwork_def sampleNetwork_def Masked_def)

lemma networkOf_show:
  assumes "goodNetwork p"
  shows "networkOf (showPrefix p) = Inr p"
proof -
  have "showPrefix p \<noteq> ''''" by (simp add: showPrefix_def)
  then show ?thesis
    using assms by (simp add: networkOf_def parseNetwork_def ParsePrefix_showPrefix goodNetwork_def)
qed

definition sampleWgPeer :: "addr \<Rightarrow> Secret" where
  "sampleWgPeer a = \<lparr>sc_Labels = [(peerLabel, ''true'')], sc_Owners = [],
     sc_Data = [(''address'', showAddr a), (''publicKey'', ''key''), (''state'', ''authorized'')]\<rparr>"

definition samplePeers :: kube where
  "samplePeers = emptyKube\<lparr>
     kb_Secrets := [(peerName ''a'', sampleWgPeer 0x0A000002), (peerName ''b'', sampleWgPeer 0x0A000003)],
     kb_ConfigMaps := [(allocationsName, [(''a'', showAddr 0x0A000002), (''b'', showAddr 0x0A000003)])]\<rparr>"

lemma samplePeers_inv: "netInv sampleNetwork samplePeers"
proof -
  have "usable sampleNetwork 0x0A000002" "usable sampleNetwork 0x0A000003"
    by (simp_all add: usable_def sampleNetwork_def networkSize_def)
  then show ?thesis
    by (auto simp: netInv_def netView_def samplePeers_def emptyKube_def allocInv_def peersInv_def peerName_def sampleWgPeer_def)
qed

section \<open>Properties\<close>

text \<open>C35: Whatever sequence of authorisations, revocations and renderings the hub runs, and whichever of its API calls
  fail, two peers never have the same address: each has an address of the network that is neither the network's own, nor
  the hub's, nor the last one, and that no other peer has.\<close>

theorem peers_have_own_addresses:
  assumes "(wgStep cidr {})\<^sup>*\<^sup>* s0 s" "networkOf cidr = Inr p" "netInv p s0"
    and "map_of (kb_Secrets s) n1 = Some peer1" "mget (sc_Labels peer1) peerLabel = ''true''"
    and "map_of (kb_Secrets s) n2 = Some peer2" "mget (sc_Labels peer2) peerLabel = ''true''" "n1 \<noteq> n2"
  shows "\<exists>a1 a2. mget (sc_Data peer1) ''address'' = showAddr a1 \<and> mget (sc_Data peer2) ''address'' = showAddr a2 \<and>
           a1 \<noteq> a2 \<and> usable p a1 \<and> usable p a2"
proof -
  from wa.reach_inv [OF assms(1)] assms(2,3) have inv: "netInv p s" by auto
  then obtain data where data: "map_of (kb_ConfigMaps s) allocationsName = Some data"
    using assms(4,5) by (force simp: netInv_def netView_def peersInv_def)
  with inv have alloc: "allocInv p (Some data)" and peers: "peersInv (kb_Secrets s) (Some data)"
    by (simp_all add: netInv_def netView_def)
  from peers assms(4-7) obtain u1 u2 where u: "n1 = peerName u1" "map_of data u1 = Some (mget (sc_Data peer1) ''address'')"
    "n2 = peerName u2" "map_of data u2 = Some (mget (sc_Data peer2) ''address'')"
    unfolding peersInv_def by blast
  with assms(8) have "u1 \<noteq> u2" by auto
  have "mget (sc_Data peer1) ''address'' \<noteq> mget (sc_Data peer2) ''address''"
  proof
    assume "mget (sc_Data peer1) ''address'' = mget (sc_Data peer2) ''address''"
    with u have "(u1, mget (sc_Data peer1) ''address'') \<in> set data" "(u2, mget (sc_Data peer1) ''address'') \<in> set data"
      by (auto dest: map_of_SomeD)
    with alloc \<open>u1 \<noteq> u2\<close> show False
      unfolding allocInv_def distinct_map by simp (metis inj_onD prod.inject snd_conv)
  qed
  with allocInv_nonempty(1) [OF alloc u(2)] allocInv_nonempty(1) [OF alloc u(4)] show ?thesis by auto
qed

theorem peers_have_own_addresses_witness:
  "\<exists>a1 a2. showAddr 0x0A000002 = showAddr a1 \<and> showAddr 0x0A000003 = showAddr a2 \<and> a1 \<noteq> a2 \<and>
     usable sampleNetwork a1 \<and> usable sampleNetwork a2"
  using peers_have_own_addresses [OF rtranclp.rtrancl_refl networkOf_show [OF sampleNetwork_good] samplePeers_inv,
      of "peerName ''a''" "sampleWgPeer 0x0A000002" "peerName ''b''" "sampleWgPeer 0x0A000003"]
  by (simp add: samplePeers_def sampleWgPeer_def peerName_def)

text \<open>C36: A site keeps its address in the network from its first authorisation until it is revoked itself.\<close>

theorem address_is_stable:
  assumes "(wgStep cidr {uid})\<^sup>*\<^sup>* s s'" "networkOf cidr = Inr p" "netInv p s" "allocated uid s = Some a"
  shows "allocated uid s' = Some a"
  using wa.reach_le [OF assms(1), of uid] assms(2-4) by auto

theorem address_is_stable_witness:
  "allocated ''a'' (fst (revokePeer sampleWireguard ''b'' samplePeers)) = Some (showAddr 0x0A000002)"
proof (rule address_is_stable [OF _ networkOf_show [OF sampleNetwork_good] samplePeers_inv])
  have "wgStep (showPrefix sampleNetwork) {''a''} samplePeers (fst (revokePeer sampleWireguard ''b'' samplePeers))"
    by (rule revoke [OF prod.collapse [symmetric]]) (simp_all add: honest_def sampleWireguard_def)
  then show "(wgStep (showPrefix sampleNetwork) {''a''})\<^sup>*\<^sup>* samplePeers (fst (revokePeer sampleWireguard ''b'' samplePeers))"
    by blast
  show "allocated ''a'' samplePeers = Some (showAddr 0x0A000002)" by (simp add: allocated_def samplePeers_def)
qed



text \<open>C38: After a revocation that succeeds, the site has no peer any more, and the configuration of the gateway is exactly the
  rendering of the peers that are left, with the hash that makes a deployed gateway load it.\<close>

theorem revoked_peer_is_cut_off:
  assumes "revokePeer W uid s = (s', Inr ())" "netInv p s" "honest (wg_Api W)"
  shows "map_of (kb_Secrets s') (peerName uid) = None \<and>
         (\<exists>rendered. renderedPeers (kb_Secrets s') = Inr rendered \<and> gatewayCurrent W rendered s')"
proof
  show "map_of (kb_Secrets s') (peerName uid) = None" using revokePeer_inv(2) [OF assms] by simp
  have "\<exists>s2. renderPeers W s2 = (s', Inr ())"
    using assms(1)
    by (cases "deleteSecret (wg_Api W) (peerName uid) s")
      (auto simp: revokePeer_def tryK_def kube_calls split: sum.splits if_splits)
  then show "\<exists>rendered. renderedPeers (kb_Secrets s') = Inr rendered \<and> gatewayCurrent W rendered s'"
    using renderPeers_current by blast
qed

theorem revoked_peer_is_cut_off_witness:
  "\<exists>s'. revokePeer sampleWireguard ''b'' samplePeers = (s', Inr ()) \<and> map_of (kb_Secrets s') (peerName ''b'') = None"
proof -
  have "ParseAddr (showAddr 0x0A000002) = Some 0x0A000002" by simp
  then obtain s' where s': "revokePeer sampleWireguard ''b'' samplePeers = (s', Inr ())"
    by (simp add: revokePeer_def tryK_def deleteSecret_def served_def sampleWireguard_def samplePeers_def emptyKube_def mhas_def
        peerName_def bindK_def releaseAddress_def getConfigMap_def updateConfigMap_def renderPeers_def listSecrets_def
        labelledPeers_def sampleWgPeer_def ofSum_def peerStanza_def giveK_def writePeers_def createConfigMap_def
        updateGatewayPeerHash_def getGateway_def)
  from revoked_peer_is_cut_off [OF s' samplePeers_inv] s' show ?thesis
    by (auto simp: honest_def sampleWireguard_def)
qed

end
