(* ===== verification/Agent_Bundle.thy ===== *)
theory Agent_Bundle
  imports Network_Address Api_Types
begin

text \<open>
  The registration bundle (\<open>internal/registration/http.go\<close>): the manifests with which the operator of a site
  installs the agent, and what they permit it. A Go \<open>map[string]any\<close> is a tree; \<open>url.Parse\<close> and the YAML encoder
  are parameters.
\<close>

datatype manifest =
    MStr string
  | MNum int
  | MBool bool
  | MList "manifest list"
  | MMap "(string \<times> manifest) list"

record bundle_env =
  hs_PublicURL :: string
  hs_HubDomain :: string
  hs_HubAddress :: string
  hs_AgentImage :: string
  hs_WireGuardImage :: string
  hs_ParseURL :: "string \<Rightarrow> (string \<times> string) option"
  hs_Yaml :: "manifest \<Rightarrow> string + string"

abbreviation MStrs :: "string list \<Rightarrow> manifest" where
  "MStrs ss \<equiv> MList (map MStr ss)"

section \<open>Roles\<close>

definition rule :: "string list \<Rightarrow> string list \<Rightarrow> string list \<Rightarrow> manifest" where
  "rule groups resources verbs =
     MMap [(''apiGroups'', MStrs groups), (''resources'', MStrs resources), (''verbs'', MStrs verbs)]"

definition namedRule :: "string list \<Rightarrow> string list \<Rightarrow> string list \<Rightarrow> string list \<Rightarrow> manifest" where
  "namedRule groups resources resourceNames verbs =
     MMap [(''apiGroups'', MStrs groups), (''resources'', MStrs resources),
           (''resourceNames'', MStrs resourceNames), (''verbs'', MStrs verbs)]"

definition memberSecretNames :: "string \<Rightarrow> string list" where
  "memberSecretNames siteName =
     (''pgpool-'' @ siteName @ ''-tls'') #
     concat (map (\<lambda>ordinal.
       (let etcd = ''etcd-'' @ siteName @ ''-'' @ nat_digits ordinal;
            postgres = ''postgres-'' @ siteName @ ''-'' @ nat_digits ordinal in
        [etcd @ ''-tls'', postgres @ ''-tls'', postgres @ ''-pgbackrest-tls''])) [0..<16])"

definition agentSecretResourceNames :: "string \<Rightarrow> string list" where
  "agentSecretResourceNames siteName =
     (let names = [''etcd-maintenance-client-tls'', ''minio-ca'', ''mspsql-agent-bootstrap'', ''mspsql-agent-identity'',
            ''mspsql-agent-identity-a'', ''mspsql-agent-identity-b'', ''patroni-api-client-tls'', ''patroni-etcd-client-tls'',
            ''pg-tde-vault'', ''pgbackrest-client-tls'', ''pgbackrest-repository'', ''pgpool-auth'', ''postgres-auth'',
            ''postgres-auth-pending'', ''postgres-auth-previous'', ''vault-ca''] in
      remdups_adj (sort (names @ (if siteName = '''' then [] else memberSecretNames siteName))))"

definition agentClusterRoleRules :: "string \<Rightarrow> manifest list" where
  "agentClusterRoleRules siteName =
     (let mutate = [''get'', ''list'', ''watch'', ''create'', ''update'', ''patch'', ''delete''];
          secretMutate = [''get'', ''update'', ''patch'', ''delete''];
          see = [''get'', ''list'', ''watch''] in
      [rule [''''] [''namespaces'', ''services'', ''serviceaccounts'', ''configmaps'', ''persistentvolumeclaims'', ''pods''] mutate,
       rule [''''] [''secrets''] [''create''],
       namedRule [''''] [''secrets''] (agentSecretResourceNames siteName) secretMutate,
       rule [''''] [''serviceaccounts/token''] [''create''],
       rule [''apps''] [''deployments'', ''statefulsets''] mutate,
       rule [''batch''] [''jobs'', ''cronjobs''] mutate,
       rule [''coordination.k8s.io''] [''leases''] mutate,
       rule [''networking.k8s.io''] [''networkpolicies''] mutate,
       rule [''cert-manager.io''] [''certificates''] mutate,
       rule [''cert-manager.io''] [''issuers'', ''clusterissuers''] see,
       rule [''storage.k8s.io''] [''storageclasses''] see,
       rule [''snapshot.storage.k8s.io''] [''volumesnapshotclasses''] see,
       rule [''snapshot.storage.k8s.io''] [''volumesnapshots''] mutate,
       rule [''''] [''events''] [''create'', ''patch''],
       rule [''events.k8s.io''] [''events''] [''create'', ''patch'']])"

section \<open>Network policy\<close>

definition defaultPort :: "string \<Rightarrow> int" where
  "defaultPort scheme = (if scheme = ''http'' then 80 else 443)"

text \<open>A set of ports is a list without repetitions.\<close>

definition addAddressPort :: "int list \<Rightarrow> string \<Rightarrow> int \<Rightarrow> int list" where
  "addAddressPort ports address fallback =
     (case SplitHostPort address of
        None \<Rightarrow> List.insert fallback ports
      | Some (_, value) \<Rightarrow>
          (case Atoi value of
             None \<Rightarrow> ports
           | Some port \<Rightarrow> if port > 0 \<and> port \<le> 65535 then List.insert port ports else ports))"

definition agentTcpPorts :: "bundle_env \<Rightarrow> string \<Rightarrow> string \<Rightarrow> int list" where
  "agentTcpPorts B registrationURL hubAddress =
     (let ports = [443, 6443, 8008, 8082, 8200, 9444];
          ports = (case hs_ParseURL B registrationURL of
                     None \<Rightarrow> ports
                   | Some (scheme, host) \<Rightarrow> addAddressPort ports host (defaultPort scheme)) in
      sort (addAddressPort ports hubAddress 9444))"

definition portRule :: "string \<Rightarrow> int \<Rightarrow> manifest" where
  "portRule protocol port = MMap [(''protocol'', MStr protocol), (''port'', MNum port)]"

abbreviation agentNamed :: "string \<Rightarrow> manifest" where
  "agentNamed name \<equiv> MMap [(''name'', MStr name), (''namespace'', MStr ''mspsql-agent'')]"

definition agentLabels :: manifest where
  "agentLabels = MMap [(''app.kubernetes.io/name'', MStr ''mspsql-agent'')]"

definition agentNetworkPolicy :: "bundle_env \<Rightarrow> string \<Rightarrow> string \<Rightarrow> manifest" where
  "agentNetworkPolicy B registrationURL hubAddress =
     MMap [(''apiVersion'', MStr ''networking.k8s.io/v1''), (''kind'', MStr ''NetworkPolicy''),
       (''metadata'', agentNamed ''mspsql-agent''),
       (''spec'', MMap [
          (''podSelector'', MMap [(''matchLabels'', agentLabels)]),
          (''policyTypes'', MStrs [''Ingress'', ''Egress'']),
          (''ingress'', MList [MMap [
             (''from'', MList [MMap [(''namespaceSelector'', MMap [(''matchLabels'', MMap [(''metrics'', MStr ''enabled'')])])]]),
             (''ports'', MList [portRule ''TCP'' 8080])]]),
          (''egress'', MList [
             MMap [(''ports'', MList (map (portRule ''TCP'') (agentTcpPorts B registrationURL hubAddress)))],
             MMap [(''ports'', MList [portRule ''UDP'' 51820, portRule ''TCP'' 53, portRule ''UDP'' 53])]])])]"

definition agentMetricsService :: manifest where
  "agentMetricsService =
     MMap [(''apiVersion'', MStr ''v1''), (''kind'', MStr ''Service''),
       (''metadata'', MMap [(''name'', MStr ''mspsql-agent-metrics''), (''namespace'', MStr ''mspsql-agent''), (''labels'', agentLabels)]),
       (''spec'', MMap [(''selector'', agentLabels),
          (''ports'', MList [MMap [(''name'', MStr ''metrics''), (''port'', MNum 8080), (''targetPort'', MStr ''metrics'')]])])]"

section \<open>Deployment\<close>

definition fieldEnv :: "string \<Rightarrow> string \<Rightarrow> manifest" where
  "fieldEnv name path = MMap [(''name'', MStr name), (''valueFrom'', MMap [(''fieldRef'', MMap [(''fieldPath'', MStr path)])])]"

definition secretEnv :: "string \<Rightarrow> string \<Rightarrow> manifest" where
  "secretEnv name key = MMap [(''name'', MStr name),
     (''valueFrom'', MMap [(''secretKeyRef'', MMap [(''name'', MStr ''mspsql-agent-bootstrap''), (''key'', MStr key)])])]"

definition readMount :: "string \<Rightarrow> string \<Rightarrow> manifest" where
  "readMount name path = MMap [(''name'', MStr name), (''mountPath'', MStr path), (''readOnly'', MBool True)]"

definition mount :: "string \<Rightarrow> string \<Rightarrow> manifest" where
  "mount name path = MMap [(''name'', MStr name), (''mountPath'', MStr path)]"

definition siteAgentContainer :: "string \<Rightarrow> string \<Rightarrow> manifest" where
  "siteAgentContainer uid agentImage =
     MMap [(''name'', MStr ''site-agent''), (''image'', MStr agentImage),
       (''ports'', MList [MMap [(''name'', MStr ''metrics''), (''containerPort'', MNum 8080), (''protocol'', MStr ''TCP'')]]),
       (''args'', MStrs [''--hub-address=$(HUB_ADDRESS)'', ''--hub-domain=$(HUB_DOMAIN)'', ''--registration-uid='' @ uid]),
       (''env'', MList [fieldEnv ''POD_NAME'' ''metadata.name'', fieldEnv ''POD_NAMESPACE'' ''metadata.namespace'',
          secretEnv ''HUB_ADDRESS'' ''hub-address'', secretEnv ''HUB_DOMAIN'' ''hub-domain'']),
       (''volumeMounts'', MList [readMount ''bootstrap'' ''/etc/mspsql/bootstrap'', readMount ''identity'' ''/etc/mspsql/identity'',
          mount ''runtime'' ''/run/mspsql'']),
       (''readinessProbe'', MMap [
          (''exec'', MMap [(''command'', MStrs [''/site-agent'', ''--check-ready=/etc/mspsql/identity/tls.crt''])]),
          (''periodSeconds'', MNum 2)]),
       (''resources'', MMap [(''requests'', MMap [(''cpu'', MStr ''100m''), (''memory'', MStr ''128Mi'')]),
          (''limits'', MMap [(''cpu'', MStr ''1''), (''memory'', MStr ''512Mi'')])]),
       (''securityContext'', MMap [(''allowPrivilegeEscalation'', MBool False), (''readOnlyRootFilesystem'', MBool True),
          (''runAsNonRoot'', MBool True), (''capabilities'', MMap [(''drop'', MStrs [''ALL''])])])]"

definition wireguardScript :: string where
  "wireguardScript =
     ''while [ ! -f /run/mspsql/leader ]; do sleep 1; done; '' @
     ''mkdir -p /run/mspsql/wireguard; '' @
     ''cp /etc/wireguard/wg0.conf /run/mspsql/wireguard/wg0.conf; '' @
     ''chmod 0600 /run/mspsql/wireguard/wg0.conf; '' @
     ''wg-quick down /run/mspsql/wireguard/wg0.conf 2>/dev/null || '' @
     ''ip link delete wg0 2>/dev/null || true; '' @
     ''export WG_QUICK_USERSPACE_IMPLEMENTATION=wireguard-go; '' @
     ''wg-quick up /run/mspsql/wireguard/wg0.conf; '' @
     ''cleanup() { wg-quick down /run/mspsql/wireguard/wg0.conf 2>/dev/null || true; '' @
     ''ip link delete wg0 2>/dev/null || true; }; '' @
     ''trap cleanup EXIT; trap '' @ [CHR 0x27] @ ''exit 0'' @ [CHR 0x27] @ '' TERM INT; '' @
     ''while [ -f /run/mspsql/leader ]; do sleep 1; done''"

definition wireguardContainer :: "string \<Rightarrow> manifest" where
  "wireguardContainer wireGuardImage =
     MMap [(''name'', MStr ''wireguard''), (''image'', MStr wireGuardImage),
       (''command'', MStrs [''/bin/sh'', ''-ec'', wireguardScript]),
       (''securityContext'', MMap [(''allowPrivilegeEscalation'', MBool False), (''readOnlyRootFilesystem'', MBool True),
          (''capabilities'', MMap [(''drop'', MStrs [''ALL'']), (''add'', MStrs [''NET_ADMIN''])])]),
       (''resources'', MMap [
          (''requests'', MMap [(''cpu'', MStr ''25m''), (''memory'', MStr ''32Mi''), (''multisite-postgres.dev/tun'', MNum 1)]),
          (''limits'', MMap [(''cpu'', MStr ''250m''), (''memory'', MStr ''128Mi''), (''multisite-postgres.dev/tun'', MNum 1)])]),
       (''volumeMounts'', MList [readMount ''identity'' ''/etc/wireguard'', mount ''runtime'' ''/run/mspsql'',
          mount ''wireguard-runtime'' ''/run/wireguard''])]"

definition agentDeployment :: "string \<Rightarrow> string \<Rightarrow> string \<Rightarrow> manifest" where
  "agentDeployment uid agentImage wireGuardImage =
     (let memory = (\<lambda>name. MMap [(''name'', MStr name), (''emptyDir'', MMap [(''medium'', MStr ''Memory'')])]);
          containers = siteAgentContainer uid agentImage #
            (if wireGuardImage \<noteq> '''' then [wireguardContainer wireGuardImage] else []);
          volumes = [
            MMap [(''name'', MStr ''bootstrap''),
              (''secret'', MMap [(''secretName'', MStr ''mspsql-agent-bootstrap''), (''defaultMode'', MNum 288)])],
            MMap [(''name'', MStr ''identity''),
              (''secret'', MMap [(''secretName'', MStr ''mspsql-agent-identity''), (''optional'', MBool True), (''defaultMode'', MNum 288)])],
            memory ''runtime''] @ (if wireGuardImage \<noteq> '''' then [memory ''wireguard-runtime''] else []) in
      MMap [(''apiVersion'', MStr ''apps/v1''), (''kind'', MStr ''Deployment''),
        (''metadata'', agentNamed ''mspsql-agent''),
        (''spec'', MMap [(''replicas'', MNum 2),
           (''strategy'', MMap [(''rollingUpdate'', MMap [(''maxUnavailable'', MNum 0), (''maxSurge'', MNum 1)])]),
           (''selector'', MMap [(''matchLabels'', agentLabels)]),
           (''template'', MMap [
              (''metadata'', MMap [(''labels'', agentLabels)]),
              (''spec'', MMap [(''serviceAccountName'', MStr ''mspsql-agent''), (''terminationGracePeriodSeconds'', MNum 30),
                 (''securityContext'', MMap [(''fsGroup'', MNum 65532),
                    (''seccompProfile'', MMap [(''type'', MStr ''RuntimeDefault'')])]),
                 (''affinity'', MMap [(''podAntiAffinity'', MMap [
                    (''preferredDuringSchedulingIgnoredDuringExecution'', MList [MMap [(''weight'', MNum 100),
                       (''podAffinityTerm'', MMap [(''topologyKey'', MStr ''kubernetes.io/hostname''),
                          (''labelSelector'', MMap [(''matchLabels'', agentLabels)])])]])])]),
                 (''containers'', MList containers), (''volumes'', MList volumes)])])])])"

section \<open>The bundle\<close>

text \<open>\<open>strings.TrimRight(url, "/")\<close>.\<close>

definition trimRightSlash :: "string \<Rightarrow> string" where
  "trimRightSlash s = rev (dropWhile (\<lambda>c. c = CHR ''/'') (rev s))"

definition bundleObjects :: "bundle_env \<Rightarrow> string \<Rightarrow> string \<Rightarrow> string \<Rightarrow> manifest list" where
  "bundleObjects B siteName uid token =
     [MMap [(''apiVersion'', MStr ''v1''), (''kind'', MStr ''Namespace''), (''metadata'', MMap [(''name'', MStr ''mspsql-agent'')])],
      MMap [(''apiVersion'', MStr ''v1''), (''kind'', MStr ''ServiceAccount''), (''metadata'', agentNamed ''mspsql-agent'')],
      agentMetricsService,
      agentNetworkPolicy B (hs_PublicURL B) (hs_HubAddress B),
      MMap [(''apiVersion'', MStr ''rbac.authorization.k8s.io/v1''), (''kind'', MStr ''ClusterRole''),
        (''metadata'', MMap [(''name'', MStr ''mspsql-agent'')]), (''rules'', MList (agentClusterRoleRules siteName))],
      MMap [(''apiVersion'', MStr ''rbac.authorization.k8s.io/v1''), (''kind'', MStr ''ClusterRoleBinding''),
        (''metadata'', MMap [(''name'', MStr ''mspsql-agent'')]),
        (''roleRef'', MMap [(''apiGroup'', MStr ''rbac.authorization.k8s.io''), (''kind'', MStr ''ClusterRole''), (''name'', MStr ''mspsql-agent'')]),
        (''subjects'', MList [MMap [(''kind'', MStr ''ServiceAccount''), (''name'', MStr ''mspsql-agent''), (''namespace'', MStr ''mspsql-agent'')]])],
      MMap [(''apiVersion'', MStr ''v1''), (''kind'', MStr ''Secret''), (''metadata'', agentNamed ''mspsql-agent-bootstrap''),
        (''stringData'', MMap [(''registration-token'', MStr token), (''registration-url'', MStr (trimRightSlash (hs_PublicURL B))),
           (''registration-uid'', MStr uid), (''hub-domain'', MStr (hs_HubDomain B)), (''hub-address'', MStr (hs_HubAddress B))])],
      agentDeployment uid (hs_AgentImage B) (hs_WireGuardImage B)]"

fun yamlDocuments :: "(manifest \<Rightarrow> string + string) \<Rightarrow> manifest list \<Rightarrow> string + string list" where
  "yamlDocuments yaml [] = Inr []"
| "yamlDocuments yaml (x # xs) =
     (case yaml x of
        Inl e \<Rightarrow> Inl e
      | Inr y \<Rightarrow> (case yamlDocuments yaml xs of Inl e \<Rightarrow> Inl e | Inr ys \<Rightarrow> Inr (y # ys)))"

definition agentBundle :: "bundle_env \<Rightarrow> string \<Rightarrow> string \<Rightarrow> string \<Rightarrow> string + string" where
  "agentBundle B siteName uid token =
     (case yamlDocuments (hs_Yaml B) (bundleObjects B siteName uid token) of
        Inl e \<Rightarrow> Inl e
      | Inr documents \<Rightarrow> Inr (joinStr (''---'' @ [CHR 0x0A]) documents))"

section \<open>What the role permits\<close>














section \<open>Properties\<close>




end
