(* ===== verification/Registration_Server.thy ===== *)
theory Registration_Server
  imports Wireguard Agent_Bundle
begin

text \<open>
  The registration server of the hub (\<open>internal/registration/http.go\<close>, \<open>token.go\<close>): a capability URL with a token that is valid for
  ten minutes, the bundle of manifests under it, and the request with which an agent binds its cluster to the registration and
  receives its certificate. SHA-256, base32, the parser of times, the decoder of the request, PEM and X.509 are parameters. Requests
  are served one after the other.
\<close>

section \<open>Parameters\<close>

record CSR =
  csr_SignatureValid :: bool
  csr_P256 :: bool
  csr_PublicKey :: string

record Certificate =
  ct_CommonName :: string
  ct_URIs :: "string list"
  ct_NotBefore :: time
  ct_NotAfter :: time
  ct_ClientAuth :: bool
  ct_IsCA :: bool

record x509_api =
  x_PemDecode :: "string \<Rightarrow> (string \<times> string \<times> string) option"
  x_PemEncode :: "string \<Rightarrow> string \<Rightarrow> string"
  x_ParseCSR :: "string \<Rightarrow> CSR option"
  x_ParseCertificate :: "string \<Rightarrow> string + Certificate"
  x_ParseECPrivateKey :: "string \<Rightarrow> string + string"
  x_GenerateKey :: "string + (string \<times> string)"
  x_MarshalECPrivateKey :: "string \<Rightarrow> string + string"
  x_Serial :: "string + int"
  x_CreateCertificate :: "int \<Rightarrow> Certificate \<Rightarrow> Certificate \<Rightarrow> string \<Rightarrow> string \<Rightarrow> string + string"

record BindRequest =
  br_ClusterUID :: string
  br_CSRPEM :: string
  br_WireGuardPublicKey :: string

record BindResponse =
  bp_CertificatePEM :: string
  bp_CABundlePEM :: string
  bp_PlanPublicKey :: string
  bp_PlanPublicKeyID :: string
  bp_WireGuardKeyID :: string
  bp_RevocationEpoch :: string
  bp_WireGuardPeerState :: string

record http_env =
  ht_Bundle :: bundle_env
  ht_W :: wg_env
  ht_X509 :: x509_api
  ht_Sha256 :: "string \<Rightarrow> string"
  ht_Base32 :: "string \<Rightarrow> string"
  ht_ParseTime :: "string \<Rightarrow> time option"
  ht_DecodeBind :: "string \<Rightarrow> BindRequest option"
  ht_NetworkCIDR :: string
  ht_Endpoint :: string
  ht_Now :: time

abbreviation ht_Api :: "http_env \<Rightarrow> kube_api" where
  "ht_Api H \<equiv> wg_Api (ht_W H)"

datatype http_response =
    HttpError nat string
  | HttpBundle string
  | HttpBound BindResponse

section \<open>Tokens and capabilities\<close>

text \<open>\<open>Verify\<close> of a token.\<close>

definition VerifyToken :: "http_env \<Rightarrow> string \<Rightarrow> string \<Rightarrow> time \<Rightarrow> time \<Rightarrow> string option" where
  "VerifyToken H value expectedHash expiresAt now =
     (if length expectedHash \<noteq> 32 then Some ''registration token hash is invalid''
      else if \<not> now < expiresAt then Some ''registration token has expired''
      else if ht_Sha256 H value \<noteq> expectedHash then Some ''registration token is invalid''
      else None)"

definition parseCapabilityPath :: "string \<Rightarrow> (string \<times> string) option" where
  "parseCapabilityPath path =
     (case splitChar CHR ''/'' (trimChar CHR ''/'' path) of
        [token, action] \<Rightarrow> if token \<noteq> '''' then Some (token, action) else None
      | _ \<Rightarrow> None)"

definition accepts :: "http_env \<Rightarrow> string \<Rightarrow> string \<Rightarrow> Secret \<Rightarrow> bool" where
  "accepts H token name secret =
     (hasPrefix name ''registration-'' \<and>
      (case ht_ParseTime H (mget (sc_Data secret) ''expiresAt'') of
         None \<Rightarrow> False
       | Some expiresAt \<Rightarrow> VerifyToken H token (mget (sc_Data secret) ''sha256'') expiresAt (ht_Now H) = None))"

definition registrationOwner :: "Secret \<Rightarrow> OwnerReference option" where
  "registrationOwner secret = List.find (\<lambda>owner. or_Kind owner = ''SiteRegistration'') (sc_Owners secret)"

fun authorizeScan :: "http_env \<Rightarrow> string \<Rightarrow> (string, Secret) gomap \<Rightarrow> (SiteRegistration \<times> string) kubed" where
  "authorizeScan H token [] = failK (KError ''registration token not found'')"
| "authorizeScan H token ((name, secret) # secrets) =
     (if \<not> accepts H token name secret then authorizeScan H token secrets
      else
        (case registrationOwner secret of
           None \<Rightarrow> authorizeScan H token secrets
         | Some owner \<Rightarrow>
             bindK (getSite (ht_Api H) (or_Name owner)) (\<lambda>site.
               if om_UID (r_Meta site) \<noteq> or_UID owner then failK (KError ''registration owner UID changed'')
               else if rs_Revoked (r_Spec site) then failK (KError ''site registration is revoked'')
               else giveK (site, name))))"

definition authorize :: "http_env \<Rightarrow> string \<Rightarrow> (SiteRegistration \<times> string) kubed" where
  "authorize H token = bindK (listSecrets (ht_Api H)) (authorizeScan H token)"

section \<open>Certificates\<close>

definition registrationCASecret :: string where
  "registrationCASecret = ''mspsql-registration-ca''"

definition loadCA :: "http_env \<Rightarrow> Secret \<Rightarrow> string + (Certificate \<times> string \<times> string)" where
  "loadCA H secret =
     (let X = ht_X509 H in
      case (x_PemDecode X (mget (sc_Data secret) ''tls.crt''), x_PemDecode X (mget (sc_Data secret) ''tls.key'')) of
        (Some (_, certDER, _), Some (_, keyDER, _)) \<Rightarrow>
          (case x_ParseCertificate X certDER of
             Inl e \<Rightarrow> Inl e
           | Inr certificate \<Rightarrow>
               (case x_ParseECPrivateKey X keyDER of
                  Inl e \<Rightarrow> Inl e
                | Inr privateKey \<Rightarrow> Inr (certificate, privateKey, mget (sc_Data secret) ''tls.crt'')))
      | _ \<Rightarrow> Inl ''registration CA Secret is invalid'')"

definition caTemplate :: "time \<Rightarrow> Certificate" where
  "caTemplate now = \<lparr>ct_CommonName = ''mspsql registration CA'', ct_URIs = [], ct_NotBefore = now - 5 * minute,
     ct_NotAfter = now + 87600 * hour, ct_ClientAuth = False, ct_IsCA = True\<rparr>"

text \<open>The material of a new authority: its private key, certificate and the two PEM blocks.\<close>

definition newCA :: "http_env \<Rightarrow> string + (string \<times> string \<times> string \<times> string)" where
  "newCA H =
     (let X = ht_X509 H in
      case x_GenerateKey X of
        Inl e \<Rightarrow> Inl e
      | Inr (privateKey, publicKey) \<Rightarrow>
          (case x_Serial X of
             Inl e \<Rightarrow> Inl e
           | Inr serial \<Rightarrow>
               (case x_CreateCertificate X serial (caTemplate (ht_Now H)) (caTemplate (ht_Now H)) publicKey privateKey of
                  Inl e \<Rightarrow> Inl e
                | Inr der \<Rightarrow>
                    (case x_MarshalECPrivateKey X privateKey of
                       Inl e \<Rightarrow> Inl e
                     | Inr keyDER \<Rightarrow>
                         Inr (privateKey, der, x_PemEncode X ''CERTIFICATE'' der, x_PemEncode X ''EC PRIVATE KEY'' keyDER)))))"

definition ensureCA :: "http_env \<Rightarrow> (Certificate \<times> string \<times> string) kubed" where
  "ensureCA H =
     tryK (getSecret (ht_Api H) registrationCASecret) (\<lambda>r. case r of
       Inr secret \<Rightarrow> ofSum (loadCA H secret)
     | Inl KNotFound \<Rightarrow>
         bindK (ofSum (newCA H)) (\<lambda>(privateKey, der, certPEM, keyPEM).
           bindK (createSecret (ht_Api H) registrationCASecret
                    \<lparr>sc_Labels = [], sc_Owners = [], sc_Data = [(''tls.crt'', certPEM), (''tls.key'', keyPEM)]\<rparr>) (\<lambda>_.
             bindK (ofSum (x_ParseCertificate (ht_X509 H) der)) (\<lambda>certificate.
               giveK (certificate, privateKey, certPEM))))
     | Inl e \<Rightarrow> failK e)"

definition siteTemplate :: "SiteRegistration \<Rightarrow> time \<Rightarrow> Certificate" where
  "siteTemplate site now =
     \<lparr>ct_CommonName = om_UID (r_Meta site), ct_URIs = [''spiffe://multisite-postgres.dev/site/'' @ om_UID (r_Meta site)],
      ct_NotBefore = now - 5 * minute, ct_NotAfter = now + 24 * hour, ct_ClientAuth = True, ct_IsCA = False\<rparr>"

definition readCSR :: "http_env \<Rightarrow> string \<Rightarrow> string + CSR" where
  "readCSR H csrPEM =
     (case x_PemDecode (ht_X509 H) csrPEM of
        None \<Rightarrow> Inl ''CSR PEM is invalid''
      | Some (blockType, bytes, trailing) \<Rightarrow>
          if blockType \<noteq> ''CERTIFICATE REQUEST'' then Inl ''CSR PEM is invalid''
          else if \<not> list_all isSpace trailing then Inl ''CSR PEM contains trailing data''
          else (case x_ParseCSR (ht_X509 H) bytes of
                  None \<Rightarrow> Inl ''CSR signature is invalid''
                | Some csr \<Rightarrow>
                    if \<not> csr_SignatureValid csr then Inl ''CSR signature is invalid''
                    else if \<not> csr_P256 csr then Inl ''CSR must use an ECDSA P-256 key''
                    else Inr csr))"

definition SignCSR :: "http_env \<Rightarrow> SiteRegistration \<Rightarrow> string \<Rightarrow> (string \<times> string) kubed" where
  "SignCSR H site csrPEM =
     bindK (ensureCA H) (\<lambda>(caCertificate, caKey, caPEM).
       bindK (ofSum (readCSR H csrPEM)) (\<lambda>csr.
         bindK (ofSum (x_Serial (ht_X509 H))) (\<lambda>serial.
           bindK (ofSum (x_CreateCertificate (ht_X509 H) serial (siteTemplate site (ht_Now H)) caCertificate
                    (csr_PublicKey csr) caKey)) (\<lambda>der.
             giveK (x_PemEncode (ht_X509 H) ''CERTIFICATE'' der, caPEM)))))"

section \<open>Claims on clusters\<close>

definition clusterUIDHash :: "http_env \<Rightarrow> string \<Rightarrow> string" where
  "clusterUIDHash H clusterUID = wg_HexSha256 (ht_W H) clusterUID"

definition clusterUIDClaimName :: "http_env \<Rightarrow> string \<Rightarrow> string" where
  "clusterUIDClaimName H clusterUID =
     ''cluster-uid-'' @ map toLower (take 40 (ht_Base32 H (clusterUIDHash H clusterUID)))"

definition claimData :: "http_env \<Rightarrow> string \<Rightarrow> SiteRegistration \<Rightarrow> smap" where
  "claimData H clusterUID site =
     [(''clusterUIDHash'', clusterUIDHash H clusterUID), (''ownerName'', om_Name (r_Meta site)), (''ownerUID'', om_UID (r_Meta site))]"

definition acquireClusterUIDClaim :: "http_env \<Rightarrow> string \<Rightarrow> SiteRegistration \<Rightarrow> bool kubed" where
  "acquireClusterUIDClaim H clusterUID site =
     tryK (createConfigMap (ht_Api H) (clusterUIDClaimName H clusterUID) (claimData H clusterUID site)) (\<lambda>r. case r of
       Inr _ \<Rightarrow> giveK True
     | Inl KAlreadyExists \<Rightarrow>
         bindK (getConfigMap (ht_Api H) (clusterUIDClaimName H clusterUID)) (\<lambda>existing.
           if mget existing ''ownerUID'' = om_UID (r_Meta site) \<and> mget existing ''ownerName'' = om_Name (r_Meta site) \<and>
              mget existing ''clusterUIDHash'' = clusterUIDHash H clusterUID
           then giveK False else failK KAlreadyExists)
     | Inl e \<Rightarrow> failK e)"

definition releaseClusterUIDClaim :: "http_env \<Rightarrow> string \<Rightarrow> SiteRegistration \<Rightarrow> unit kubed" where
  "releaseClusterUIDClaim H clusterUID site =
     tryK (getConfigMap (ht_Api H) (clusterUIDClaimName H clusterUID)) (\<lambda>r. case r of
       Inl KNotFound \<Rightarrow> giveK ()
     | Inl e \<Rightarrow> failK e
     | Inr claim \<Rightarrow>
         if mget claim ''ownerUID'' \<noteq> om_UID (r_Meta site) then giveK ()
         else deleteConfigMap (ht_Api H) (clusterUIDClaimName H clusterUID))"

section \<open>Requests\<close>

type_synonym served_request = "kube \<Rightarrow> kube \<times> http_response"

definition answer :: "http_response \<Rightarrow> served_request" where
  "answer response s = (s, response)"

text \<open>A call whose error is answered in its own way.\<close>

definition orElse :: "'a kubed \<Rightarrow> (kube_error \<Rightarrow> served_request) \<Rightarrow> ('a \<Rightarrow> served_request) \<Rightarrow> served_request" where
  "orElse m refuse k s = (case m s of (s', Inl e) \<Rightarrow> refuse e s' | (s', Inr x) \<Rightarrow> k x s')"

definition bindingKeyID :: "http_env \<Rightarrow> string \<Rightarrow> string" where
  "bindingKeyID H publicKey = take 16 (wg_HexSha256 (ht_W H) publicKey)"

definition dropClaim :: "http_env \<Rightarrow> bool \<Rightarrow> string \<Rightarrow> SiteRegistration \<Rightarrow> http_response \<Rightarrow> served_request" where
  "dropClaim H claimCreated clusterUID site response =
     (if claimCreated then orElse (releaseClusterUIDClaim H clusterUID site) (\<lambda>_. answer response) (\<lambda>_. answer response)
      else answer response)"

text \<open>From the update of the registration to the answer.\<close>

definition concludeBinding ::
  "http_env \<Rightarrow> SiteRegistration \<Rightarrow> string \<Rightarrow> BindRequest \<Rightarrow> string \<times> string \<Rightarrow> string \<Rightarrow> served_request" where
  "concludeBinding H site tokenSecret binding certificate peerState =
     orElse (statusSite (ht_Api H) (site\<lparr>r_Status := (r_Status site)\<lparr>rg_ClusterUID := br_ClusterUID binding, rg_Phase := ''Registered''\<rparr>\<rparr>))
       (\<lambda>_. answer (HttpError 500 ''could not bind cluster identity'')) (\<lambda>_.
     orElse (deleteSecret (ht_Api H) tokenSecret)
       (\<lambda>_. answer (HttpError 500 ''could not consume registration token'')) (\<lambda>_.
     orElse (getSecret (ht_Api H) ''mspsql-plan-signing-key'')
       (\<lambda>_. answer (HttpError 503 ''plan signing key is not initialized'')) (\<lambda>signingKey.
     answer (HttpBound \<lparr>bp_CertificatePEM = fst certificate, bp_CABundlePEM = snd certificate,
       bp_PlanPublicKey = mget (sc_Data signingKey) ''publicKey'', bp_PlanPublicKeyID = mget (sc_Data signingKey) ''keyID'',
       bp_WireGuardKeyID = bindingKeyID H (br_WireGuardPublicKey binding), bp_RevocationEpoch = ''0'',
       bp_WireGuardPeerState = peerState\<rparr>))))"

definition bindCluster :: "http_env \<Rightarrow> string \<Rightarrow> SiteRegistration \<Rightarrow> string \<Rightarrow> served_request" where
  "bindCluster H body site tokenSecret =
     (case ht_DecodeBind H body of
        None \<Rightarrow> answer (HttpError 400 ''invalid binding request'')
      | Some binding \<Rightarrow>
          if br_ClusterUID binding = '''' \<or> br_CSRPEM binding = '''' \<or> br_WireGuardPublicKey binding = ''''
          then answer (HttpError 400 ''clusterUID, csrPEM and wireGuardPublicKey are required'')
          else if rg_ClusterUID (r_Status site) \<noteq> '''' \<and> rg_ClusterUID (r_Status site) \<noteq> br_ClusterUID binding
          then answer (HttpError 409 ''registration is bound to another cluster'')
          else
            orElse (acquireClusterUIDClaim H (br_ClusterUID binding) site)
              (\<lambda>e. answer (if e = KAlreadyExists then HttpError 409 ''cluster UID is already registered''
                            else HttpError 500 ''could not validate cluster identity'')) (\<lambda>claimCreated.
            orElse (SignCSR H site (br_CSRPEM binding))
              (\<lambda>_. dropClaim H claimCreated (br_ClusterUID binding) site (HttpError 400 ''CSR validation or signing failed'')) (\<lambda>certificate.
            if hs_WireGuardImage (ht_Bundle H) = '''' then concludeBinding H site tokenSecret binding certificate ''''
            else
              orElse (AuthorizePeer (ht_W H) (ht_NetworkCIDR H) (ht_Endpoint H) site (br_WireGuardPublicKey binding))
                (\<lambda>_. dropClaim H claimCreated (br_ClusterUID binding) site (HttpError 500 ''could not authorize WireGuard peer''))
                (concludeBinding H site tokenSecret binding certificate))))"

definition handle :: "http_env \<Rightarrow> string \<Rightarrow> string \<Rightarrow> string \<Rightarrow> served_request" where
  "handle H verb path body =
     (case parseCapabilityPath path of
        None \<Rightarrow> answer (HttpError 404 ''404 page not found'')
      | Some (token, action) \<Rightarrow>
          orElse (authorize H token) (\<lambda>_. answer (HttpError 401 ''registration capability is invalid or expired'')) (\<lambda>(site, secret).
            if verb = ''GET'' \<and> action = ''registration.yaml''
            then (case agentBundle (ht_Bundle H) (om_Name (r_Meta site)) (om_UID (r_Meta site)) token of
                    Inl e \<Rightarrow> answer (HttpError 500 ''could not generate registration bundle'')
                  | Inr yaml \<Rightarrow> answer (HttpBundle yaml))
            else if verb = ''POST'' \<and> action = ''bind'' then bindCluster H body site secret
            else answer (HttpError 405 ''method or action is not supported'')))"

section \<open>What requests leave alone\<close>

text \<open>The tokens, and the registrations with the claims on clusters.\<close>

definition tokenView :: "kube \<Rightarrow> (string, Secret) gomap" where
  "tokenView s = filter (\<lambda>(n, _). hasPrefix n ''registration-'') (kb_Secrets s)"

definition claimView :: "kube \<Rightarrow> (string, SiteRegistration) gomap \<times> (string \<Rightarrow> smap option)" where
  "claimView s = (kb_Sites s, \<lambda>n. if hasPrefix n ''cluster-uid-'' then map_of (kb_ConfigMaps s) n else None)"

lemma filter_update_other: "\<not> P k \<Longrightarrow> filter (\<lambda>(n, _). P n) (AList.update k x l) = filter (\<lambda>(n, _). P n) l"
  by (induction l) auto

lemma filter_delete: "filter (\<lambda>(n, _). P n) (AList.delete k l) = AList.delete k (filter (\<lambda>(n, _). P n) l)"
  by (induction l) auto

lemma keeps_token [simp]:
  "\<not> hasPrefix n ''registration-'' \<Longrightarrow> keeps tokenView (createSecret api n x)"
  "keeps kb_Secrets m \<Longrightarrow> keeps tokenView m"
  by (auto intro!: keepsI simp: tokenView_def filter_update_other dest!: createSecret_eq dest: keepsD)

lemma keeps_claims [simp]:
  "\<not> hasPrefix n ''cluster-uid-'' \<Longrightarrow> keeps claimView (createConfigMap api n m)"
  "\<not> hasPrefix n ''cluster-uid-'' \<Longrightarrow> keeps claimView (updateConfigMap api n m)"
  "keeps claimView (createSecret api n x)" "keeps claimView (deleteSecret api n)" "keeps claimView (updateGateway api a)"
  by (auto intro!: keepsI simp: claimView_def fun_eq_iff kube_writes kube_calls update_conv' split: if_splits option.splits)

lemma names_apart_prefix [simp]:
  "\<not> hasPrefix (peerName uid) ''registration-''" "\<not> hasPrefix IdentitySecretName ''registration-''"
  "\<not> hasPrefix registrationCASecret ''registration-''" "\<not> hasPrefix allocationsName ''cluster-uid-''"
  "\<not> hasPrefix PeersConfigMapName ''cluster-uid-''"
  by (simp_all add: hasPrefix_def peerName_def IdentitySecretName_def registrationCASecret_def allocationsName_def PeersConfigMapName_def)

lemmas keeps_intros = keeps_bind keeps_try

lemma keeps_case_sum: "(\<And>e. keeps v (f e)) \<Longrightarrow> (\<And>x. keeps v (g x)) \<Longrightarrow> keeps v (case r of Inl e \<Rightarrow> f e | Inr x \<Rightarrow> g x)"
  by (cases r) auto

lemma keeps_renderPeers_views [simp]: "keeps tokenView (renderPeers W)" "keeps claimView (renderPeers W)"
  unfolding renderPeers_def writePeers_def updateGatewayPeerHash_def
  by (auto intro!: keeps_intros split: sum.splits kube_error.splits)

lemma keeps_ensureHubIdentity [simp]: "keeps tokenView (ensureHubIdentity W cidr)" "keeps claimView (ensureHubIdentity W cidr)"
  unfolding ensureHubIdentity_def Let_def
  by (auto intro!: keeps_intros split: sum.splits kube_error.splits)

lemma keeps_reserveAddress [simp]: "keeps tokenView (reserveAddress W p uid)" "keeps claimView (reserveAddress W p uid)"
  unfolding reserveAddress_def Let_def
  by (auto intro!: keeps_intros split: sum.splits kube_error.splits option.splits)

lemma keeps_recordPeer_views [simp]: "keeps tokenView (recordPeer W site k a)" "keeps claimView (recordPeer W site k a)"
  unfolding recordPeer_def
  by (auto intro!: keeps_intros split: sum.splits kube_error.splits)

lemma keeps_AuthorizePeer [simp]:
  "keeps tokenView (AuthorizePeer W cidr endpoint site k)" "keeps claimView (AuthorizePeer W cidr endpoint site k)"
  unfolding AuthorizePeer_def by (auto intro!: keeps_intros split: option.splits)

lemma keeps_SignCSR [simp]: "keeps tokenView (SignCSR H site csr)" "keeps claimView (SignCSR H site csr)"
  unfolding SignCSR_def ensureCA_def
  by (auto intro!: keeps_intros split: sum.splits kube_error.splits prod.splits)

lemma keeps_acquire [simp]: "keeps tokenView (acquireClusterUIDClaim H uid site)" "keeps kb_Sites (acquireClusterUIDClaim H uid site)"
  unfolding acquireClusterUIDClaim_def
  by (auto intro!: keeps_intros split: sum.splits kube_error.splits)

lemma keeps_release [simp]: "keeps tokenView (releaseClusterUIDClaim H uid site)" "keeps kb_Sites (releaseClusterUIDClaim H uid site)"
  unfolding releaseClusterUIDClaim_def
  by (auto intro!: keeps_intros split: sum.splits kube_error.splits)

lemma claimView_sites: "claimView s' = claimView s \<Longrightarrow> kb_Sites s' = kb_Sites s"
  by (simp add: claimView_def)

lemma keeps_sites_claims: "keeps claimView m \<Longrightarrow> keeps kb_Sites m"
  by (rule keepsI) (metis claimView_sites keepsD)

section \<open>Capabilities\<close>

lemma authorizeScan_reads: "keeps view (authorizeScan H token secrets)"
  by (induction secrets) (auto intro!: keeps_intros split: option.splits)

lemma authorize_reads [simp]: "keeps view (authorize H token)"
  unfolding authorize_def by (intro keeps_bind authorizeScan_reads) simp

text \<open>What a capability has behind it: a Secret with its hash that has not expired, owned by a registration that is the
  one it was issued for and is not revoked.\<close>

definition validCapability :: "http_env \<Rightarrow> string \<Rightarrow> kube \<Rightarrow> string \<Rightarrow> Secret \<Rightarrow> SiteRegistration \<Rightarrow> bool" where
  "validCapability H token s n secret site =
     (hasPrefix n ''registration-'' \<and> mget (sc_Data secret) ''sha256'' = ht_Sha256 H token \<and>
      (\<exists>expiresAt. ht_ParseTime H (mget (sc_Data secret) ''expiresAt'') = Some expiresAt \<and> ht_Now H < expiresAt) \<and>
      (\<exists>owner \<in> set (sc_Owners secret). or_Kind owner = ''SiteRegistration'' \<and>
         map_of (kb_Sites s) (or_Name owner) = Some site \<and> om_UID (r_Meta site) = or_UID owner) \<and>
      \<not> rs_Revoked (r_Spec site))"

lemma validCapabilityI:
  assumes "accepts H token n secret" "registrationOwner secret = Some owner" "map_of (kb_Sites s) (or_Name owner) = Some site"
    and "om_UID (r_Meta site) = or_UID owner" "\<not> rs_Revoked (r_Spec site)"
  shows "validCapability H token s n secret site"
proof -
  have "owner \<in> set (sc_Owners secret)" "or_Kind owner = ''SiteRegistration''"
    using assms(2) by (auto simp: registrationOwner_def find_Some_iff)
  with assms show ?thesis
    by (auto simp: validCapability_def accepts_def VerifyToken_def split: option.splits if_splits)
qed

lemma authorizeScan_sound:
  assumes "authorizeScan H token secrets s = (s', Inr (site, n))"
  shows "\<exists>secret. (n, secret) \<in> set secrets \<and> validCapability H token s n secret site"
  using assms
proof (induction secrets)
  case (Cons entry secrets)
  obtain name secret where entry: "entry = (name, secret)" by force
  from Cons.prems consider "authorizeScan H token secrets s = (s', Inr (site, n))"
    | owner where "accepts H token name secret" "registrationOwner secret = Some owner" "n = name"
      "map_of (kb_Sites s) (or_Name owner) = Some site" "om_UID (r_Meta site) = or_UID owner" "\<not> rs_Revoked (r_Spec site)"
    unfolding entry by (auto simp: kube_calls getSite_def split: if_splits option.splits)
  then show ?case
    by cases (use Cons.IH entry in \<open>auto intro: validCapabilityI\<close>)
qed (simp add: kube_calls)



lemma authorize_sound:
  assumes "authorize H token s = (s', Inr (site, n))"
  shows "s' = s" "\<exists>secret. (n, secret) \<in> set (kb_Secrets s) \<and> validCapability H token s n secret site"
proof -
  show s': "s' = s" using keepsD [OF authorize_reads [of id] assms] by simp
  from assms show "\<exists>secret. (n, secret) \<in> set (kb_Secrets s) \<and> validCapability H token s n secret site"
    by (auto simp: authorize_def kube_calls listSecrets_def dest!: authorizeScan_sound)
qed


section \<open>Binding\<close>

lemma orElse_eq:
  "orElse m refuse k s = (s', r) \<longleftrightarrow>
     (\<exists>e s1. m s = (s1, Inl e) \<and> refuse e s1 = (s', r)) \<or> (\<exists>x s1. m s = (s1, Inr x) \<and> k x s1 = (s', r))"
  by (auto simp: orElse_def split: prod.splits sum.splits)

lemma answer_eq: "answer x s = (s', r) \<longleftrightarrow> s' = s \<and> r = x"
  by (auto simp: answer_def)

lemma dropClaim_response: "dropClaim H c uid site response s = (s', r) \<Longrightarrow> r = response \<and> kb_Sites s' = kb_Sites s \<and> tokenView s' = tokenView s"
  by (auto simp: dropClaim_def orElse_eq answer_eq split: if_splits dest: keepsD [OF keeps_release(1)] keepsD [OF keeps_release(2)])

text \<open>Claims on clusters: which are there, and whose.\<close>

definition claimsKept :: "kube \<Rightarrow> kube \<Rightarrow> bool" where
  "claimsKept s s' = (\<forall>n c. snd (claimView s) n = Some c \<longrightarrow> snd (claimView s') n = Some c)"

definition ownsClaim :: "http_env \<Rightarrow> string \<Rightarrow> SiteRegistration \<Rightarrow> kube \<Rightarrow> bool" where
  "ownsClaim H clusterUID site s =
     (\<exists>claim. snd (claimView s) (clusterUIDClaimName H clusterUID) = Some claim \<and>
        mget claim ''ownerUID'' = om_UID (r_Meta site) \<and> mget claim ''ownerName'' = om_Name (r_Meta site))"

lemma claimName_prefix [simp]: "hasPrefix (clusterUIDClaimName H uid) ''cluster-uid-''"
  by (simp add: clusterUIDClaimName_def hasPrefix_def)

lemma acquire_claims:
  assumes "acquireClusterUIDClaim H uid site s = (s1, r)"
  shows "(\<exists>e. r = Inl e) \<and> s1 = s \<or>
    r = Inr True \<and> ownsClaim H uid site s1 \<and> claimsKept s s1 \<and> snd (claimView s) (clusterUIDClaimName H uid) = None \<and>
      (\<forall>n. n \<noteq> clusterUIDClaimName H uid \<longrightarrow> snd (claimView s1) n = snd (claimView s) n) \<or>
    r = Inr False \<and> ownsClaim H uid site s \<and> s1 = s"
proof (cases "createConfigMap (ht_Api H) (clusterUIDClaimName H uid) (claimData H uid site) s")
  case (Pair s2 x)
  from createConfigMap_eq [OF Pair] show ?thesis
  proof
    assume failed: "s2 = s \<and> (\<exists>e. x = Inl e)"
    with Pair assms show ?thesis
      by (auto simp: acquireClusterUIDClaim_def tryK_def kube_calls getConfigMap_def ownsClaim_def claimView_def
          split: kube_error.splits if_splits option.splits)
  next
    assume created: "map_of (kb_ConfigMaps s) (clusterUIDClaimName H uid) = None \<and>
      s2 = s\<lparr>kb_ConfigMaps := AList.update (clusterUIDClaimName H uid) (claimData H uid site) (kb_ConfigMaps s)\<rparr> \<and> x = Inr ()"
    with Pair assms have "s1 = s2" "r = Inr True"
      by (auto simp: acquireClusterUIDClaim_def tryK_def kube_calls)
    with created show ?thesis
      by (auto simp: ownsClaim_def claimsKept_def claimView_def update_conv' claimData_def split: if_splits)
  qed
qed

lemma release_claims:
  assumes "releaseClusterUIDClaim H uid site s = (s', r)" "n \<noteq> clusterUIDClaimName H uid"
  shows "snd (claimView s') n = snd (claimView s) n"
  using assms
  by (cases "ht_Api H (KGetConfigMap (clusterUIDClaimName H uid))"; cases "map_of (kb_ConfigMaps s) (clusterUIDClaimName H uid)")
    (auto simp: releaseClusterUIDClaim_def try_getConfigMap kube_calls deleteConfigMap_def claimView_def delete_conv'
      split: kube_error.splits if_splits)

lemma dropClaim_claims:
  assumes "dropClaim H claimed uid site response s2 = (s', r)" "claimView s2 = claimView s1"
    and "acquireClusterUIDClaim H uid site s = (s1, Inr claimed)"
  shows "claimsKept s s'"
proof (cases claimed)
  case True
  from acquire_claims [OF assms(3)] True have none: "snd (claimView s) (clusterUIDClaimName H uid) = None"
    and others: "\<And>n. n \<noteq> clusterUIDClaimName H uid \<Longrightarrow> snd (claimView s1) n = snd (claimView s) n" by auto
  from True assms(1) obtain x where "releaseClusterUIDClaim H uid site s2 = (s', x)"
    by (auto simp: dropClaim_def orElse_eq answer_eq)
  from release_claims [OF this] others none assms(2) show ?thesis
    unfolding claimsKept_def by (metis option.distinct(1))
next
  case False
  with assms(1) have "s' = s2" by (simp add: dropClaim_def answer_eq)
  with acquire_claims [OF assms(3)] False assms(2) show ?thesis by (simp add: claimsKept_def)
qed

fun refusal :: "http_response \<Rightarrow> bool" where
  "refusal (HttpError code message) = (code \<in> {400, 409, 500})"
| "refusal _ = False"

text \<open>A request up to the update of the registration: it has ended, or this comes next.\<close>

lemma bindCluster_cases:
  assumes "bindCluster H body site tokenSecret s = (s', r)"
  obtains (refused) "refusal r" "kb_Sites s' = kb_Sites s" "tokenView s' = tokenView s" "claimsKept s s'"
  | (concluded) binding certificate peerState s1 claimed s2 s3 where "ht_DecodeBind H body = Some binding"
      "br_ClusterUID binding \<noteq> ''''"
      "rg_ClusterUID (r_Status site) = '''' \<or> rg_ClusterUID (r_Status site) = br_ClusterUID binding"
      "acquireClusterUIDClaim H (br_ClusterUID binding) site s = (s1, Inr claimed)"
      "SignCSR H site (br_CSRPEM binding) s1 = (s2, Inr certificate)"
      "claimView s3 = claimView s1" "tokenView s3 = tokenView s"
      "concludeBinding H site tokenSecret binding certificate peerState s3 = (s', r)"
proof (cases "ht_DecodeBind H body")
  case None
  with assms show thesis by (intro refused) (auto simp: bindCluster_def answer_eq claimsKept_def)
next
  case (Some binding)
  show thesis
  proof (cases "(br_ClusterUID binding = '''' \<or> br_CSRPEM binding = '''' \<or> br_WireGuardPublicKey binding = '''') \<or>
      (rg_ClusterUID (r_Status site) \<noteq> '''' \<and> rg_ClusterUID (r_Status site) \<noteq> br_ClusterUID binding)")
    case True
    with Some assms show thesis by (intro refused) (auto simp: bindCluster_def answer_eq claimsKept_def split: if_splits)
  next
    case False
    note keep = keepsD [OF keeps_acquire(1)] keepsD [OF keeps_acquire(2)]
    from False Some assms consider e where "acquireClusterUIDClaim H (br_ClusterUID binding) site s = (s', Inl e)"
        "r = (if e = KAlreadyExists then HttpError 409 ''cluster UID is already registered''
              else HttpError 500 ''could not validate cluster identity'')"
      | s1 claimed where "acquireClusterUIDClaim H (br_ClusterUID binding) site s = (s1, Inr claimed)"
        "orElse (SignCSR H site (br_CSRPEM binding))
           (\<lambda>_. dropClaim H claimed (br_ClusterUID binding) site (HttpError 400 ''CSR validation or signing failed'')) (\<lambda>certificate.
         if hs_WireGuardImage (ht_Bundle H) = '''' then concludeBinding H site tokenSecret binding certificate ''''
         else
           orElse (AuthorizePeer (ht_W H) (ht_NetworkCIDR H) (ht_Endpoint H) site (br_WireGuardPublicKey binding))
             (\<lambda>_. dropClaim H claimed (br_ClusterUID binding) site (HttpError 500 ''could not authorize WireGuard peer''))
             (concludeBinding H site tokenSecret binding certificate)) s1 = (s', r)"
      by (auto simp: bindCluster_def orElse_eq [of "acquireClusterUIDClaim _ _ _"] answer_eq)
    then show thesis
    proof cases
      case 1
      from acquire_claims [OF 1(1)] have "s' = s" by auto
      with 1(2) show thesis by (intro refused) (simp_all add: claimsKept_def)
    next
      case 2
      note acquired = 2(1)
      have s1: "kb_Sites s1 = kb_Sites s" "tokenView s1 = tokenView s" using keep(2,1) [OF 2(1)] by auto
      show thesis
      proof (cases "SignCSR H site (br_CSRPEM binding) s1")
        case (Pair s2 x)
        have s2: "claimView s2 = claimView s1" "tokenView s2 = tokenView s1"
          using keepsD [OF keeps_SignCSR(2) Pair] keepsD [OF keeps_SignCSR(1) Pair] by auto
        show thesis
        proof (cases x)
          case (Inl e)
          with 2(2) Pair have "dropClaim H claimed (br_ClusterUID binding) site (HttpError 400 ''CSR validation or signing failed'') s2 = (s', r)"
            by (simp add: orElse_def)
          note dropClaim_response [OF this] and dropClaim_claims [OF this s2(1) 2(1)]
          with s1 s2 claimView_sites [OF s2(1)] show thesis by (intro refused) simp_all
        next
          case (Inr certificate)
          obtain s3 y where 3: "AuthorizePeer (ht_W H) (ht_NetworkCIDR H) (ht_Endpoint H) site (br_WireGuardPublicKey binding) s2 = (s3, y)"
            by force
          have s3: "claimView s3 = claimView s2" "tokenView s3 = tokenView s2"
            using keepsD [OF keeps_AuthorizePeer(2) 3] keepsD [OF keeps_AuthorizePeer(1) 3] by auto
          have conclude: thesis if "concludeBinding H site tokenSecret binding certificate p t = (s', r)" "t = s2 \<or> t = s3" for p t
            using that False Some 2(1) Pair Inr s1 s2 s3
            by (intro concluded [of binding s1 claimed s2 certificate t p]) auto
          from 2(2) Pair Inr 3 consider p t where "concludeBinding H site tokenSecret binding certificate p t = (s', r)" "t = s2 \<or> t = s3"
            | "dropClaim H claimed (br_ClusterUID binding) site (HttpError 500 ''could not authorize WireGuard peer'') s3 = (s', r)"
            by (auto simp: orElse_def split: if_splits sum.splits)
          then show thesis
          proof cases
            case 1 then show thesis by (rule conclude)
          next
            case 2
            note dropClaim_response [OF this] and dropClaim_claims [OF this trans [OF s3(1) s2(1)] acquired]
            with s1 s2 s3 claimView_sites [OF s2(1)] claimView_sites [OF s3(1)] show thesis by (intro refused) simp_all
          qed
        qed
      qed
    qed
  qed
qed

definition boundSite :: "string \<Rightarrow> SiteRegistration \<Rightarrow> SiteRegistration \<Rightarrow> SiteRegistration" where
  "boundSite clusterUID site old =
     old\<lparr>r_Status := (r_Status site)\<lparr>rg_ClusterUID := clusterUID, rg_Phase := ''Registered''\<rparr>\<rparr>"

lemma conclude_cases:
  assumes "concludeBinding H site tokenSecret binding certificate peerState s = (s', r)"
  obtains (unbound) "refusal r" "s' = s"
  | (bound) old where "map_of (kb_Sites s) (om_Name (r_Meta site)) = Some old"
      "kb_Sites s' = AList.update (om_Name (r_Meta site)) (boundSite (br_ClusterUID binding) site old) (kb_Sites s)"
      "kb_ConfigMaps s' = kb_ConfigMaps s"
      "tokenView s' = tokenView s \<and> r = HttpError 500 ''could not consume registration token'' \<or>
       tokenView s' = AList.delete tokenSecret (tokenView s) \<and>
         (r = HttpError 503 ''plan signing key is not initialized'' \<or>
          (\<exists>response. r = HttpBound response \<and> bp_CertificatePEM response = fst certificate))"
proof (cases "statusSite (ht_Api H) (site\<lparr>r_Status := (r_Status site)\<lparr>rg_ClusterUID := br_ClusterUID binding, rg_Phase := ''Registered''\<rparr>\<rparr>) s")
  case (Pair s1 x)
  then consider e where "x = Inl e" "s1 = s"
    | old where "x = Inr ()" "map_of (kb_Sites s) (om_Name (r_Meta site)) = Some old"
      "s1 = s\<lparr>kb_Sites := AList.update (om_Name (r_Meta site)) (boundSite (br_ClusterUID binding) site old) (kb_Sites s)\<rparr>"
    by (auto simp: statusSite_def kube_calls boundSite_def split: option.splits)
  then show thesis
  proof cases
    case 1
    with Pair assms show thesis by (intro unbound) (auto simp: concludeBinding_def orElse_def answer_eq)
  next
    case 2
    obtain s2 y where 3: "deleteSecret (ht_Api H) tokenSecret s1 = (s2, y)" by force
    note del = deleteSecret_eq [OF 3]
    have s2: "kb_Sites s2 = kb_Sites s1" "kb_ConfigMaps s2 = kb_ConfigMaps s1"
      using keepsD [OF keeps_sites(2) 3] keepsD [OF keeps_configMaps(2) 3] by auto
    have keyed: "keeps id (getSecret (ht_Api H) ''mspsql-plan-signing-key'')" by simp
    show thesis
    proof (cases y)
      case (Inl e)
      with Pair 2 3 assms have "s' = s2" "r = HttpError 500 ''could not consume registration token''"
        by (auto simp: concludeBinding_def orElse_def answer_eq)
      moreover have "tokenView s2 = tokenView s" using del Inl 2(3) by (auto simp: tokenView_def)
      ultimately show thesis using 2 s2 by (intro bound [of old]) simp_all
    next
      case (Inr u)
      obtain s3 z where 4: "getSecret (ht_Api H) ''mspsql-plan-signing-key'' s2 = (s3, z)" by force
      have "s3 = s2" using keepsD [OF keyed 4] by simp
      with Pair 2 3 4 Inr assms have "s' = s2 \<and> (r = HttpError 503 ''plan signing key is not initialized'' \<or>
          (\<exists>response. r = HttpBound response \<and> bp_CertificatePEM response = fst certificate))"
        by (auto simp: concludeBinding_def orElse_def answer_eq split: sum.splits)
      moreover have "tokenView s2 = AList.delete tokenSecret (tokenView s)"
        using del Inr 2(3) by (auto simp: tokenView_def filter_delete)
      ultimately show thesis using 2 s2 by (intro bound [of old]) simp_all
    qed
  qed
qed

section \<open>The invariant of claims\<close>

text \<open>Every registration that is bound to a cluster owns the claim on it.\<close>

definition claimInv :: "http_env \<Rightarrow> kube \<Rightarrow> bool" where
  "claimInv H s =
     (\<forall>n site. map_of (kb_Sites s) n = Some site \<longrightarrow> om_Name (r_Meta site) = n \<and>
        (rg_ClusterUID (r_Status site) \<noteq> '''' \<longrightarrow> ownsClaim H (rg_ClusterUID (r_Status site)) site s))"

lemma ownsClaim_kept: "claimsKept s s' \<Longrightarrow> ownsClaim H uid site s \<Longrightarrow> ownsClaim H uid site s'"
  by (auto simp: claimsKept_def ownsClaim_def)

lemma claimInv_kept: "claimInv H s \<Longrightarrow> kb_Sites s' = kb_Sites s \<Longrightarrow> claimsKept s s' \<Longrightarrow> claimInv H s'"
  unfolding claimInv_def by (auto intro: ownsClaim_kept)

lemma claimsKept_view: "claimView s' = claimView s \<Longrightarrow> claimsKept s s'"
  by (simp add: claimsKept_def)

lemma claimsKept_trans: "claimsKept a b \<Longrightarrow> claimsKept b c \<Longrightarrow> claimsKept a c"
  by (simp add: claimsKept_def)

lemma bindCluster_inv:
  assumes run: "bindCluster H body site tokenSecret s = (s', r)" and inv: "claimInv H s"
    and stored: "map_of (kb_Sites s) (om_Name (r_Meta site)) = Some site"
  shows "claimInv H s'"
  using run
proof (cases rule: bindCluster_cases)
  case refused
  then show ?thesis using claimInv_kept inv by blast
next
  case (concluded binding certificate peerState s1 claimed s2 s3)
  have own: "ownsClaim H (br_ClusterUID binding) site s3" and kept: "claimsKept s s3"
    using acquire_claims [OF concluded(4)] concluded(6) by (auto simp: ownsClaim_def claimsKept_def)
  have sites: "kb_Sites s3 = kb_Sites s"
    using keepsD [OF keeps_acquire(2) concluded(4)] claimView_sites [OF concluded(6)] by simp
  have s3: "claimInv H s3" using claimInv_kept [OF inv sites kept] .
  from concluded(8) show ?thesis
  proof (cases rule: conclude_cases)
    case unbound then show ?thesis using s3 by simp
  next
    case (bound old)
    have old: "old = site" using bound(1) stored sites by simp
    have claims: "snd (claimView s') = snd (claimView s3)" unfolding claimView_def bound(3) by simp
    show ?thesis
      unfolding claimInv_def
    proof (intro allI impI)
      fix n x assume x: "map_of (kb_Sites s') n = Some x"
      show "om_Name (r_Meta x) = n \<and> (rg_ClusterUID (r_Status x) \<noteq> '''' \<longrightarrow> ownsClaim H (rg_ClusterUID (r_Status x)) x s')"
      proof (cases "n = om_Name (r_Meta site)")
        case True
        with x bound(2) old have "x = boundSite (br_ClusterUID binding) site site" by (simp add: update_conv')
        with True own claims show ?thesis by (simp add: boundSite_def ownsClaim_def)
      next
        case False
        with x bound(2) have "map_of (kb_Sites s3) n = Some x" by (simp add: update_conv')
        with s3 claims show ?thesis by (auto simp: claimInv_def ownsClaim_def)
      qed
    qed
  qed
qed

lemma handle_cases:
  assumes "handle H verb path body s = (s', r)"
  obtains (other) "s' = s" "\<And>response. r \<noteq> HttpBound response"
  | (bind) token action site n where "parseCapabilityPath path = Some (token, action)" "authorize H token s = (s, Inr (site, n))"
      "bindCluster H body site n s = (s', r)"
proof (cases "parseCapabilityPath path")
  case None
  with assms show thesis by (intro other) (auto simp: handle_def answer_eq)
next
  case (Some pa)
  obtain token action where pa: "pa = (token, action)" by force
  obtain s1 x where auth: "authorize H token s = (s1, x)" by force
  have s1: "s1 = s" using keepsD [OF authorize_reads [of id] auth] by simp
  show thesis
  proof (cases x)
    case (Inl e)
    with assms Some pa auth s1 show thesis by (intro other) (auto simp: handle_def orElse_def answer_eq)
  next
    case (Inr y)
    obtain site n where y: "y = (site, n)" by force
    from assms Some pa auth s1 Inr y consider "s' = s" "\<And>response. r \<noteq> HttpBound response" | "bindCluster H body site n s = (s', r)"
      by (auto simp: handle_def orElse_def answer_eq split: if_splits sum.splits)
    then show thesis
    proof cases
      case 1 then show thesis by (rule other)
    next
      case 2 then show thesis using Some pa auth s1 Inr y by (intro bind) simp_all
    qed
  qed
qed

section \<open>Sequences of requests\<close>

definition sameHashes :: "http_env \<Rightarrow> http_env \<Rightarrow> bool" where
  "sameHashes H H' = (wg_HexSha256 (ht_W H') = wg_HexSha256 (ht_W H) \<and> ht_Base32 H' = ht_Base32 H \<and> ht_Sha256 H' = ht_Sha256 H)"

text \<open>Any request at any time, with any answers of the API server.\<close>

inductive requestStep :: "http_env \<Rightarrow> kube \<Rightarrow> kube \<Rightarrow> bool" for H where
  request: "handle H' verb path body s = (s', r) \<Longrightarrow> sameHashes H H' \<Longrightarrow> requestStep H s s'"

lemma claimInv_hashes: "sameHashes H H' \<Longrightarrow> claimInv H' s = claimInv H s"
  by (simp add: sameHashes_def claimInv_def ownsClaim_def clusterUIDClaimName_def clusterUIDHash_def)

lemma handle_inv:
  assumes "handle H verb path body s = (s', r)" "claimInv H s"
  shows "claimInv H s'"
  using assms(1)
proof (cases rule: handle_cases)
  case other then show ?thesis using assms(2) by simp
next
  case (bind token action site n)
  from authorize_sound(2) [OF bind(2)] obtain owner where "map_of (kb_Sites s) owner = Some site"
    by (auto simp: validCapability_def)
  with assms(2) have "map_of (kb_Sites s) (om_Name (r_Meta site)) = Some site" by (simp add: claimInv_def)
  with bindCluster_inv [OF bind(3) assms(2)] show ?thesis .
qed

lemma requestStep_inv: "requestStep H s s' \<Longrightarrow> claimInv H s \<Longrightarrow> claimInv H s'"
  by (metis claimInv_hashes handle_inv requestStep.cases)


text \<open>The view of a registration: the cluster it is bound to.\<close>

definition boundCluster :: "string \<Rightarrow> kube \<Rightarrow> string option" where
  "boundCluster n s =
     (case map_of (kb_Sites s) n of
        None \<Rightarrow> None
      | Some site \<Rightarrow> if rg_ClusterUID (r_Status site) = '''' then None else Some (rg_ClusterUID (r_Status site)))"

lemma handle_binding:
  assumes "handle H verb path body s = (s', r)" "claimInv H s" "boundCluster n s = Some uid"
  shows "boundCluster n s' = Some uid"
  using assms(1)
proof (cases rule: handle_cases)
  case other then show ?thesis using assms(3) by simp
next
  case (bind token action site m)
  from authorize_sound(2) [OF bind(2)] assms(2) have stored: "map_of (kb_Sites s) (om_Name (r_Meta site)) = Some site"
    by (auto simp: validCapability_def claimInv_def)
  from bind(3) show ?thesis
  proof (cases rule: bindCluster_cases)
    case refused then show ?thesis using assms(3) by (simp add: boundCluster_def)
  next
    case (concluded binding certificate peerState s1 claimed s2 s3)
    have sites: "kb_Sites s3 = kb_Sites s"
      using keepsD [OF keeps_acquire(2) concluded(4)] claimView_sites [OF concluded(6)] by simp
    from concluded(8) show ?thesis
    proof (cases rule: conclude_cases)
      case unbound then show ?thesis using sites assms(3) by (simp add: boundCluster_def)
    next
      case (bound old)
      with sites stored have "old = site" by simp
      with bound sites stored concluded(2,3) assms(3) show ?thesis
        by (auto simp: boundCluster_def update_conv' boundSite_def split: option.splits if_splits)
    qed
  qed
qed

interpretation rq: monotone_system "requestStep H" "claimInv H" "boundCluster n" "(=)" for H n
proof unfold_locales
  show "requestStep H s s' \<Longrightarrow> claimInv H s'" if "claimInv H s" for s s' using requestStep_inv that by blast
  show "\<exists>w. boundCluster n s' = Some w \<and> v = w" if "claimInv H s" "requestStep H s s'" "boundCluster n s = Some v" for s s' v
    using that(2)
  proof cases
    case (request H' verb path body r)
    then show ?thesis using handle_binding [of H'] that(1,3) claimInv_hashes by blast
  qed
qed auto

text \<open>The certificate of a binding.\<close>

definition issuedFor :: "http_env \<Rightarrow> SiteRegistration \<Rightarrow> string \<Rightarrow> bool" where
  "issuedFor H site certificatePEM =
     (\<exists>serial ca publicKey caKey der.
        x_CreateCertificate (ht_X509 H) serial (siteTemplate site (ht_Now H)) ca publicKey caKey = Inr der \<and>
        certificatePEM = x_PemEncode (ht_X509 H) ''CERTIFICATE'' der)"

lemma ofSum_success: "ofSum x s = (s', Inr y) \<longleftrightarrow> s' = s \<and> x = Inr y"
  by (auto simp: ofSum_eq split: sum.splits)

lemma SignCSR_issues:
  assumes "SignCSR H site csrPEM s = (s', Inr (certificatePEM, caPEM))"
  shows "issuedFor H site certificatePEM \<and> (\<exists>csr. readCSR H csrPEM = Inr csr)"
  using assms
  by (auto simp: SignCSR_def bindK_eq giveK_eq ofSum_success issuedFor_def split: prod.splits) blast+

lemma bound_certificate:
  assumes "handle H verb path body s = (s', HttpBound response)"
  shows "\<exists>token action n secret site. parseCapabilityPath path = Some (token, action) \<and> (n, secret) \<in> set (kb_Secrets s) \<and>
    validCapability H token s n secret site \<and> issuedFor H site (bp_CertificatePEM response)"
  using assms
proof (cases rule: handle_cases)
  case (bind token action site n)
  from bind(3) have "issuedFor H site (bp_CertificatePEM response)"
  proof (cases rule: bindCluster_cases)
    case (concluded binding certificate peerState s1 claimed s2 s3)
    from SignCSR_issues concluded(5) have "issuedFor H site (fst certificate)" by (cases certificate) auto
    with concluded(8) show ?thesis by (cases rule: conclude_cases) auto
  qed simp
  with authorize_sound(2) [OF bind(2)] bind(1) show ?thesis by blast
next
  case other
  from other(2) [of response] show ?thesis by simp
qed

section \<open>Sample values\<close>

definition newRegistration :: SiteRegistration where
  "newRegistration = \<lparr>r_Meta = \<lparr>om_Namespace = '''', om_Name = ''r'', om_UID = ''uid'', om_Generation = 1, om_DeletionTimestamp = None,
       om_Annotations = [], om_Labels = [], om_Finalizers = []\<rparr>,
     r_Spec = \<lparr>rs_DisplayName = '''', rs_Revoked = False,
       rs_PermittedStorageClasses = \<lparr>scp_Etcd = [], scp_Postgres = [], scp_RestoreWorkspace = []\<rparr>,
       rs_StorageRollbackPolicies = [], rs_PermittedIssuers = \<lparr>ip_Etcd = [], ip_Postgres = [], ip_Pgpool = [], ip_Backup = []\<rparr>,
       rs_MetallbAddressPools = []\<rparr>,
     r_Status = \<lparr>rg_ObservedGeneration = 1, rg_ClusterUID = '''', rg_Phase = ''Pending'', rg_RegistrationURL = '''',
       rg_RegistrationExpiresAt = None, rg_LastHeartbeatTime = None, rg_AgentCertificateExpiresAt = None,
       rg_AgentVersion = '''', rg_DiscoveredStorageClasses = [], rg_DiscoveredVolumeSnapshotClasses = [],
       rg_DiscoveredIssuers = [], rg_Capabilities = [], rg_Conditions = []\<rparr>\<rparr>"

definition sampleX509 :: x509_api where
  "sampleX509 = \<lparr>x_PemDecode = (\<lambda>p. Some (''CERTIFICATE REQUEST'', p, '''')), x_PemEncode = (\<lambda>t d. d),
     x_ParseCSR = (\<lambda>d. if d = ''csr'' then Some \<lparr>csr_SignatureValid = True, csr_P256 = True, csr_PublicKey = ''k''\<rparr> else None),
     x_ParseCertificate = (\<lambda>d. Inr (siteTemplate newRegistration 0)), x_ParseECPrivateKey = Inr,
     x_GenerateKey = Inr (''priv'', ''pub''), x_MarshalECPrivateKey = Inr, x_Serial = Inr 7,
     x_CreateCertificate = (\<lambda>n t ca k p. Inr (''cert-'' @ ct_CommonName t))\<rparr>"

definition sampleHttp :: http_env where
  "sampleHttp = \<lparr>ht_Bundle = \<lparr>hs_PublicURL = '''', hs_HubDomain = '''', hs_HubAddress = '''', hs_AgentImage = '''',
       hs_WireGuardImage = '''', hs_ParseURL = (\<lambda>u. None), hs_Yaml = (\<lambda>m. Inr '''')\<rparr>,
     ht_W = sampleWireguard, ht_X509 = sampleX509, ht_Sha256 = (\<lambda>v. take 32 (v @ replicate 32 (CHR ''h''))), ht_Base32 = id,
     ht_ParseTime = (\<lambda>t. Some 10), ht_DecodeBind = (\<lambda>b. Some \<lparr>br_ClusterUID = ''cluster'', br_CSRPEM = b, br_WireGuardPublicKey = ''k''\<rparr>),
     ht_NetworkCIDR = '''', ht_Endpoint = '''', ht_Now = 0\<rparr>"

definition sampleToken :: Secret where
  "sampleToken = \<lparr>sc_Labels = [], sc_Owners = [\<lparr>or_APIVersion = '''', or_Kind = ''SiteRegistration'', or_Name = ''r'', or_UID = ''uid'',
       or_Controller = True\<rparr>],
     sc_Data = [(''sha256'', ht_Sha256 sampleHttp ''t''), (''expiresAt'', ''10'')]\<rparr>"

definition sampleHub :: "(string, Secret) gomap \<Rightarrow> kube" where
  "sampleHub others = \<lparr>kb_Secrets = (''registration-r'', sampleToken) # others, kb_ConfigMaps = [],
     kb_Sites = [(''r'', newRegistration)], kb_Gateway = None\<rparr>"

definition planKey :: "(string, Secret) gomap" where
  "planKey = [(''mspsql-plan-signing-key'', \<lparr>sc_Labels = [], sc_Owners = [], sc_Data = [(''publicKey'', ''pk'')]\<rparr>)]"

lemma sampleHub_inv: "claimInv H (sampleHub others)"
  by (simp add: claimInv_def sampleHub_def newRegistration_def)

lemmas sample_request_defs = handle_def parseCapabilityPath_def trimChar_def orElse_def authorize_def bindK_def listSecrets_def served_def
  sampleWireguard_def accepts_def VerifyToken_def hasPrefix_def registrationOwner_def getSite_def giveK_def answer_def
  bindCluster_def acquireClusterUIDClaim_def tryK_def createConfigMap_def mhas_def SignCSR_def ensureCA_def getSecret_def
  newCA_def ofSum_def createSecret_def readCSR_def concludeBinding_def statusSite_def deleteSecret_def failK_def dropClaim_def
  releaseClusterUIDClaim_def getConfigMap_def deleteConfigMap_def

lemmas sample_hub_defs = sampleHub_def sampleHttp_def sampleToken_def newRegistration_def sampleX509_def planKey_def registrationCASecret_def

lemma sample_bound:
  "\<exists>s' response. handle sampleHttp ''POST'' ''/t/bind'' ''csr'' (sampleHub planKey) = (s', HttpBound response) \<and>
     bp_CertificatePEM response = ''cert-uid'' \<and> boundCluster ''r'' s' = Some ''cluster''"
  by (simp add: sample_request_defs sample_hub_defs Let_def siteTemplate_def claimData_def boundCluster_def)

section \<open>Properties of the registration server\<close>



text \<open>C30: The registration server binds a cluster to at most one registration, for good: in every state that any sequence of requests
  reaches from a state in which every bound registration owns the claim on its cluster, two registrations that are bound to the same
  cluster are the same, and a registration that was bound stays bound to its cluster.\<close>

theorem clusters_bound_once:
  assumes "(requestStep H)\<^sup>*\<^sup>* s0 s" "claimInv H s0"
  shows "(boundCluster n1 s = Some uid \<and> boundCluster n2 s = Some uid \<longrightarrow> n1 = n2) \<and>
    (boundCluster n s0 = Some uid \<longrightarrow> boundCluster n s = Some uid)"
proof -
  from rq.reach_inv [OF assms] have inv: "claimInv H s" .
  have "\<exists>claim. snd (claimView s) (clusterUIDClaimName H uid) = Some claim \<and> mget claim ''ownerName'' = m"
    if "boundCluster m s = Some uid" for m
    using that inv by (auto simp: boundCluster_def claimInv_def ownsClaim_def split: option.splits if_splits)
  from this [of n1] this [of n2] rq.reach_le [OF assms, of n uid] show ?thesis by auto
qed

theorem clusters_bound_once_witness:
  "\<exists>s. (requestStep sampleHttp)\<^sup>*\<^sup>* (sampleHub planKey) s \<and> boundCluster ''r'' s = Some ''cluster'' \<and>
     (\<forall>n. n \<noteq> ''r'' \<longrightarrow> boundCluster n s \<noteq> Some ''cluster'')"
proof -
  obtain s' response where run: "handle sampleHttp ''POST'' ''/t/bind'' ''csr'' (sampleHub planKey) = (s', HttpBound response)"
    and bound: "boundCluster ''r'' s' = Some ''cluster''"
    using sample_bound by blast
  have reach: "(requestStep sampleHttp)\<^sup>*\<^sup>* (sampleHub planKey) s'"
    using request [OF run, of sampleHttp] by (simp add: sameHashes_def r_into_rtranclp)
  show ?thesis using reach bound clusters_bound_once [OF reach sampleHub_inv] by blast
qed


lemma sample_path: "parseCapabilityPath ''/t/bind'' = Some (''t'', ''bind'')"
  by (simp add: parseCapabilityPath_def trimChar_def)



text \<open>C31: Nothing is served without a capability: a request is refused with 404 or 401 and changes nothing, or its token is the one of an unexpired
  registration token whose owner is a registration with the recorded UID that is not revoked; and a certificate is issued only for that
  registration.\<close>

theorem capability_checked:
  assumes "handle H verb path body s = (s', r)"
  shows "s' = s \<and> (r = HttpError 404 ''404 page not found'' \<or> r = HttpError 401 ''registration capability is invalid or expired'') \<or>
    (\<exists>token action n secret site. parseCapabilityPath path = Some (token, action) \<and> (n, secret) \<in> set (kb_Secrets s) \<and>
       validCapability H token s n secret site \<and> (\<forall>response. r = HttpBound response \<longrightarrow> issuedFor H site (bp_CertificatePEM response)))"
proof (cases "parseCapabilityPath path")
  case None
  with assms show ?thesis by (simp add: handle_def answer_eq)
next
  case (Some pa)
  obtain token action where pa: "pa = (token, action)" by force
  obtain s1 x where auth: "authorize H token s = (s1, x)" by force
  have s1: "s1 = s" using keepsD [OF authorize_reads [of id] auth] by simp
  show ?thesis
  proof (cases x)
    case (Inl e)
    with assms Some pa auth s1 show ?thesis by (simp add: handle_def orElse_def answer_eq)
  next
    case (Inr y)
    show ?thesis
    proof (cases "\<exists>response. r = HttpBound response")
      case True
      then obtain response where "r = HttpBound response" by blast
      with bound_certificate assms show ?thesis by blast
    next
      case False
      from authorize_sound(2) auth s1 Inr have "\<exists>secret. (snd y, secret) \<in> set (kb_Secrets s) \<and> validCapability H token s (snd y) secret (fst y)"
        by (cases y) auto
      with Some pa False show ?thesis by blast
    qed
  qed
qed

theorem capability_checked_witness:
  "\<exists>s' response. handle sampleHttp ''POST'' ''/t/bind'' ''csr'' (sampleHub planKey) = (s', HttpBound response) \<and>
     (\<exists>(secret :: Secret) site. ht_Sha256 sampleHttp ''t'' = mget (sc_Data secret) ''sha256'' \<and> \<not> rs_Revoked (r_Spec site) \<and>
        issuedFor sampleHttp site (bp_CertificatePEM response))"
proof -
  obtain s' response where run: "handle sampleHttp ''POST'' ''/t/bind'' ''csr'' (sampleHub planKey) = (s', HttpBound response)"
    using sample_bound by blast
  from capability_checked [OF run] sample_path obtain n secret site where
      "validCapability sampleHttp ''t'' (sampleHub planKey) n secret site" "issuedFor sampleHttp site (bp_CertificatePEM response)"
    by auto
  then have "ht_Sha256 sampleHttp ''t'' = mget (sc_Data secret) ''sha256'' \<and> \<not> rs_Revoked (r_Spec site) \<and>
      issuedFor sampleHttp site (bp_CertificatePEM response)"
    by (simp add: validCapability_def)
  with run show ?thesis by blast
qed

text \<open>C33: An error can be retried: a request that is answered with an error other than 503 leaves every token in place, keeps every
  claim, and changes no registration, unless the registration was bound and only the deletion of the token failed.\<close>

theorem error_can_be_retried:
  assumes "handle H verb path body s = (s', HttpError code message)" "code \<noteq> 503"
  shows "tokenView s' = tokenView s \<and> claimsKept s s' \<and>
    (kb_Sites s' = kb_Sites s \<or> message = ''could not consume registration token'')"
  using assms(1)
proof (cases rule: handle_cases)
  case other
  then show ?thesis by (simp add: claimsKept_def)
next
  case (bind token action site n)
  from bind(3) show ?thesis
  proof (cases rule: bindCluster_cases)
    case refused then show ?thesis by simp
  next
    case (concluded binding certificate peerState s1 claimed s2 s3)
    have kept: "claimsKept s s3" and sites: "kb_Sites s3 = kb_Sites s"
      using acquire_claims [OF concluded(4)] keepsD [OF keeps_acquire(2) concluded(4)] concluded(6) claimView_sites [OF concluded(6)]
      by (auto simp: claimsKept_def)
    from concluded(8) show ?thesis
    proof (cases rule: conclude_cases)
      case unbound then show ?thesis using kept sites concluded(7) by simp
    next
      case (bound old)
      have "snd (claimView s') = snd (claimView s3)" unfolding claimView_def bound(3) by simp
      with bound(4) assms(2) kept concluded(7) show ?thesis by (auto simp: claimsKept_def)
    qed
  qed
qed

theorem error_can_be_retried_witness:
  "tokenView (fst (handle sampleHttp ''POST'' ''/t/bind'' ''bad'' (sampleHub planKey))) = tokenView (sampleHub planKey) \<and>
   snd (handle sampleHttp ''POST'' ''/t/bind'' ''bad'' (sampleHub planKey)) = HttpError 400 ''CSR validation or signing failed''"
proof -
  have run: "snd (handle sampleHttp ''POST'' ''/t/bind'' ''bad'' (sampleHub planKey)) = HttpError 400 ''CSR validation or signing failed''"
    by (simp add: sample_request_defs sample_hub_defs Let_def siteTemplate_def claimData_def)
  then have "handle sampleHttp ''POST'' ''/t/bind'' ''bad'' (sampleHub planKey) =
      (fst (handle sampleHttp ''POST'' ''/t/bind'' ''bad'' (sampleHub planKey)), HttpError 400 ''CSR validation or signing failed'')"
    by (simp add: prod_eq_iff)
  from error_can_be_retried [OF this] run show ?thesis by simp
qed

text \<open>The error 503 is the exception: the registration is bound and its token is gone, but the agent has no certificate, and the next
  request with the token is refused.\<close>

lemma late_error_consumes_token:
  "\<exists>s'. handle sampleHttp ''POST'' ''/t/bind'' ''csr'' (sampleHub []) = (s', HttpError 503 ''plan signing key is not initialized'') \<and>
     boundCluster ''r'' s' = Some ''cluster'' \<and> tokenView s' = []"
  by (simp add: sample_request_defs sample_hub_defs Let_def siteTemplate_def claimData_def boundCluster_def tokenView_def)

text \<open>The claim of a registration that is gone still bars its cluster: whoever holds the claim, a request for the cluster from another
  registration is answered with 409.\<close>

lemma claim_bars_cluster:
  assumes "ht_DecodeBind H body = Some binding" "br_ClusterUID binding \<noteq> ''''" "br_CSRPEM binding \<noteq> ''''" "br_WireGuardPublicKey binding \<noteq> ''''"
    and "rg_ClusterUID (r_Status site) = ''''" "\<forall>c. ht_Api H c = None"
    and "map_of (kb_ConfigMaps s) (clusterUIDClaimName H (br_ClusterUID binding)) = Some claim" "mget claim ''ownerUID'' \<noteq> om_UID (r_Meta site)"
  shows "bindCluster H body site n s = (s, HttpError 409 ''cluster UID is already registered'')"
  using assms by (simp add: bindCluster_def acquireClusterUIDClaim_def orElse_def tryK_def createConfigMap_def served_def mhas_def
      bindK_def getConfigMap_def failK_def answer_def)






end
