(* ===== verification/Spec2Isabelle.thy ===== *)
theory Spec2Isabelle
  imports Plan_Cache Directive_State Credential_Rotation Upgrade_Minor Declarations Restore Site_Registration
    Validation Instance_Controller Control_Client Registration_Server
begin

text \<open>
  A verification development for mspsql, an operator that runs PostgreSQL (Patroni, etcd, Pgpool)
  across several Kubernetes clusters. A hub holds the custom resources and computes, for each site of an
  instance, a signed plan; an agent in every site's cluster opens a stream to the hub, receives plans and
  signed one-off directives, carries them out and reports back.

  \<^bold>\<open>Parts and theories.\<close> Every theory names the Go file it models; every mapped definition keeps the Go
  name where HOL allows it.

  \<^item> \<open>Prelude\<close>: strings, Go maps (association lists), durations, 32-bit sums, traces of API writes
    (\<open>outcome\<close>, \<open>call\<close>, \<open>andThen\<close>) and the locale \<open>monotone_system\<close>. \<open>Conditions\<close>: status conditions
    over the functions of apimachinery (locale \<open>status_conditions\<close>; controller/status.go). \<open>Api_Types\<close>: the
    custom resources (api/v1alpha1).
  \<^item> \<open>Plan\<close>: plan and directive envelopes, their signature and verification, the classification of changes
    (plan/plan.go, directive/directive.go; locales \<open>signing\<close>, \<open>plan_verifier\<close>).
  \<^item> \<open>Config_Maps\<close>, \<open>Plan_Cache\<close>, \<open>Directive_State\<close>: the ConfigMaps in which an agent keeps plans and the
    verdicts of directives (agent/cache.go, control/directive_state.go).
  \<^item> \<open>Members\<close>, \<open>Hub_Api\<close>, \<open>Topology\<close>, \<open>Credential_Rotation\<close>, \<open>Policy\<close>, \<open>Backups\<close>, \<open>Instance_Plans\<close>,
    \<open>Instance_Controller\<close>: the reconciler of \<open>MultiSitePostgres\<close>
    (controller/multisitepostgres_controller.go, policy.go, backups.go, plans.go).
  \<^item> \<open>Upgrade_Common\<close>, \<open>Upgrade_Major\<close>, \<open>Upgrade_Minor\<close>, \<open>Restore\<close>, \<open>Declarations\<close>, \<open>Site_Registration\<close>: the other
    reconcilers (controller/postgresupgrade_, postgresrestore_, postgresdatabase_, postgresuser_,
    siteregistration_controller.go, directives.go).
  \<^item> \<open>Validation\<close>: the admission webhooks (webhook/v1alpha1).
  \<^item> \<open>Control_Server\<close>, \<open>Control_Client\<close>: the two ends of the stream (control/server.go, client.go).
  \<^item> \<open>Network_Address\<close>: IPv4 addresses and networks as Go's net/netip has them. \<open>Kube_Store\<close>: the hub's own Secrets, ConfigMaps and
    registrations as a store that operations change. \<open>Wireguard\<close>: addresses and peers of the tunnel (wireguard/config.go).
    \<open>Agent_Bundle\<close>, \<open>Registration_Server\<close>: the manifests of an agent and the endpoint that binds a cluster to a registration
    (registration/http.go, token.go).

  \<^bold>\<open>State and effects.\<close> A reconciler or handler is a function of what it reads (\<open>hub_env\<close>, \<open>server_env\<close> and the like: the
  answer of every read, the clock, an oracle that lets any write fail) and yields the list of its writes with its
  result or error; writes before a failure are kept. Stores that an operation both reads and changes
  (the ConfigMaps of an agent, the Secrets and ConfigMaps of the registration server) are passed explicitly. The body of a \<open>RetryOnConflict\<close> is one
  attempt; a retry is another step of the relation concerned. Messages that only people read are one constant,
  \<open>fixedText\<close>.

  \<^bold>\<open>What is shown.\<close> Round trips of signing and verification, caching and reporting; that the cached plan and a recorded verdict never
  go back, whatever the interleaving and the failures; that a directive is executed once and only when it is
  justified by an object of the hub; that plans are published only for accepted sites, and an
  instance is ready only with the consensus of its observers; the phase machines of rotations, upgrades and restores:
  their order, their gates, their termination; that finalizers outlive what depends on them; what the
  webhooks accept; what a registration binds and that addresses of sites stay apart.

  \<^bold>\<open>Parameters.\<close> Code outside the repository is an argument: Ed25519, SHA-256, X25519, base64, encoding/json, PEM and X.509,
  random numbers, cron expressions, gRPC and the API server's answers. A theorem that relies on a law of such code (a
  decoder inverts its encoder, a hash does not collide on the values at hand) has it as a hypothesis, and its witness instantiates the parameter.

  \<^bold>\<open>Bounds and termination.\<close> No fuel is used. The loop over missed backup runs may not end and is a
  \<open>partial_function (option)\<close>; its termination is proved for schedules that advance. The loops of the stream and of
  the application of a plan take the list of what happens until their context ends. Time and durations are integers in nanoseconds; sums that
  the code computes in 32 bits wrap (\<open>int32\<close>); IPv4 addresses are 32-bit words.

  \<^bold>\<open>Not modelled.\<close> The agent's own work in its cluster: the manifests and configuration files it renders
  (agent/render.go), the commands it runs in pods (agent/directives.go, major_upgrade.go), Vault, Patroni and certificate files
  (secrets.go, credentials.go, patroni.go, siteidentity); the control client takes applying a plan and executing a directive as
  parameters. The programs under cmd, telemetry and generated code have no behaviour of their own that the rest relies on.
\<close>

end
